(* ===== verification/Go_Prelude.thy ===== *)
theory Go_Prelude
  imports Main
begin

text \<open>
  What the components share: Go's error values and the early-return style of its validators,
  Go strings as byte lists (an Isabelle \<open>char\<close> is a byte) with UTF-8 decoding as the
  \<open>range\<close> loop over a string does it, the few functions of \<open>strings\<close>, \<open>io/fs\<close> and
  \<open>time\<close> the program calls, and generic lemmas about them.

  A Go \<open>int\<close>, \<open>int64\<close> or \<open>time.Duration\<close> is an \<open>int\<close>; where a computation could leave
  the 64-bit range the component proves that it does not, or uses words.
\<close>

named_theorems valid_iff "when a validator returns nil"

section \<open>Errors\<close>

text \<open>
  \<open>Errorf f as\<close> is \<open>fmt.Errorf(f, as...)\<close>, \<open>Wrapf f as es\<close> the same with \<open>%w\<close> verbs for
  \<open>es\<close>, \<open>Sentinel\<close> a package-level error variable compared by identity, and \<open>Panic\<close> a
  run-time panic (a nil dereference or an index out of range).
\<close>

datatype farg = FInt int | FStr string

datatype gerr =
    Errorf string "farg list"
  | Wrapf string "farg list" "gerr list"
  | Sentinel string
  | Panic string

type_synonym check = "gerr option"

fun errors_Is :: "gerr \<Rightarrow> gerr \<Rightarrow> bool" where
  "errors_Is (Errorf f as) t = (Errorf f as = t)"
| "errors_Is (Wrapf f as es) t = (Wrapf f as es = t \<or> list_ex (\<lambda>e. errors_Is e t) es)"
| "errors_Is (Sentinel s) t = (Sentinel s = t)"
| "errors_Is (Panic s) t = (Panic s = t)"

fun has_panic :: "gerr \<Rightarrow> bool" where
  "has_panic (Errorf f as) = False"
| "has_panic (Wrapf f as es) = list_ex has_panic es"
| "has_panic (Sentinel s) = False"
| "has_panic (Panic s) = True"

text \<open>
  A validator is a sequence of guarded returns: the first that fires is the result, \<open>None\<close>
  is nil. The entries after the first failure are not run by the code; they have no effects,
  so evaluating them changes nothing.
\<close>

fun firsterr :: "check list \<Rightarrow> check" where
  "firsterr [] = None"
| "firsterr (e # es) = (case e of None \<Rightarrow> firsterr es | Some x \<Rightarrow> Some x)"

definition fails :: "bool \<Rightarrow> gerr \<Rightarrow> check" where
  "fails b e = (if b then Some e else None)"

definition wrap :: "string \<Rightarrow> check \<Rightarrow> check" where
  "wrap f c = map_option (\<lambda>e. Wrapf f [] [e]) c"

text \<open>\<open>for _, x := range xs { if err := f(x); err != nil { return err } }\<close>, and with the index.\<close>

definition each :: "('a \<Rightarrow> check) \<Rightarrow> 'a list \<Rightarrow> check" where
  "each f xs = firsterr (map f xs)"

definition each_idx :: "(int \<Rightarrow> 'a \<Rightarrow> check) \<Rightarrow> 'a list \<Rightarrow> check" where
  "each_idx f xs = firsterr (map (\<lambda>(i, x). f (int i) x) (enumerate 0 xs))"

text \<open>
  \<open>for name, x := range map[string]T{...}\<close>: Go leaves the iteration order open, so when
  several entries fail, which of their errors is returned is not determined; the model takes
  the order of the literal. Whether an error is returned does not depend on the order
  (\<open>firsterr_None_perm\<close>).
\<close>

definition range_map :: "('a \<Rightarrow> check) \<Rightarrow> (string \<times> 'a) list \<Rightarrow> check" where
  "range_map f xs = each (\<lambda>(n, x). map_option (\<lambda>e. Wrapf ''%s: %w'' [FStr n] [e]) (f x)) xs"

lemma firsterr_None [simp]: "firsterr es = None \<longleftrightarrow> (\<forall>e \<in> set es. e = None)"
  by (induction es) (auto split: option.splits)

lemmas firsterr_eval = firsterr.simps

declare firsterr.simps(2) [simp del]

lemma firsterr_None_perm: "set es = set es' \<Longrightarrow> (firsterr es = None) = (firsterr es' = None)"
  by simp

lemma firsterr_append:
  "firsterr (es @ fs) = (case firsterr es of None \<Rightarrow> firsterr fs | Some x \<Rightarrow> Some x)"
  by (induction es) (simp_all add: firsterr_eval split: option.split del: firsterr_None)

lemma firsterr_Some_mem: "firsterr es = Some e \<Longrightarrow> Some e \<in> set es"
  by (induction es) (auto simp: firsterr_eval split: option.splits)

lemma fails_None [simp]: "fails b e = None \<longleftrightarrow> \<not> b"
  by (simp add: fails_def)

lemma fails_Some [simp]: "fails b e = Some x \<longleftrightarrow> b \<and> x = e"
  by (auto simp: fails_def)

lemma wrap_None [simp]: "wrap f c = None \<longleftrightarrow> c = None"
  by (simp add: wrap_def)

lemma wrap_simps [simp]: "wrap f None = None" "wrap f (Some e) = Some (Wrapf f [] [e])"
  by (simp_all add: wrap_def)

lemma wrap_Some: "wrap f c = Some x \<longleftrightarrow> (\<exists>e. c = Some e \<and> x = Wrapf f [] [e])"
  by (auto simp: wrap_def)

lemma each_None [simp]: "each f xs = None \<longleftrightarrow> (\<forall>x \<in> set xs. f x = None)"
  by (auto simp: each_def)

lemma each_Nil [simp]: "each f [] = None"
  by (simp add: each_def)

lemma each_idx_None [simp]:
  "each_idx f xs = None \<longleftrightarrow> (\<forall>i < length xs. f (int i) (xs ! i) = None)"
  by (fastforce simp: each_idx_def enumerate_eq_zip in_set_zip set_zip)

lemma range_map_None [simp]:
  "range_map f xs = None \<longleftrightarrow> (\<forall>x \<in> set xs. f (snd x) = None)"
  by (auto simp: range_map_def)

lemma length_filter_le_imp:
  "(\<And>x. x \<in> set xs \<Longrightarrow> Q x \<Longrightarrow> P x) \<Longrightarrow> length (filter Q xs) \<le> length (filter P xs)"
  by (induction xs) (auto simp: le_SucI)

lemma length_filter_strict:
  assumes "\<And>x. Q x \<Longrightarrow> P x" "y \<in> set xs" "P y" "\<not> Q y"
  shows "length (filter Q xs) < length (filter P xs)"
proof -
  obtain us vs where "xs = us @ y # vs" using assms(2) by (meson split_list)
  moreover have "length (filter Q us) \<le> length (filter P us)" "length (filter Q vs) \<le> length (filter P vs)"
    by (auto intro: length_filter_le_imp assms(1))
  ultimately show ?thesis using assms(3,4) by simp
qed

section \<open>Slices\<close>

text \<open>
  Where the code compares slices with \<open>reflect.DeepEqual\<close>, nil and empty differ: such a slice
  is an optional list, \<open>None\<close> for nil.
\<close>

type_synonym 'a slice = "'a list option"

definition elems :: "'a slice \<Rightarrow> 'a list" where
  "elems s = (case s of None \<Rightarrow> [] | Some xs \<Rightarrow> xs)"

lemma elems_simps [simp]: "elems None = []" "elems (Some xs) = xs"
  by (simp_all add: elems_def)

text \<open>\<open>append([]T(nil), s...)\<close>: appending nothing to nil leaves nil.\<close>

definition append_nil :: "'a slice \<Rightarrow> 'a slice" where
  "append_nil s = (if elems s = [] then None else Some (elems s))"

lemma elems_append_nil [simp]: "elems (append_nil s) = elems s"
  by (simp add: append_nil_def)

section \<open>Time\<close>

text \<open>
  A \<open>time.Time\<close> is an instant, in nanoseconds since Go's zero time, and the rest of its
  representation (location pointer, monotonic reading) as an opaque number. \<open>Equal\<close>,
  \<open>Before\<close>, \<open>After\<close> and \<open>IsZero\<close> read the instant, \<open>reflect.DeepEqual\<close> reads both.
\<close>

record gotime =
  instant :: int
  repr :: int

definition IsZero :: "gotime \<Rightarrow> bool" where
  "IsZero t \<longleftrightarrow> instant t = 0"

definition Before :: "gotime \<Rightarrow> gotime \<Rightarrow> bool" where
  "Before a b \<longleftrightarrow> instant a < instant b"

definition After :: "gotime \<Rightarrow> gotime \<Rightarrow> bool" where
  "After a b \<longleftrightarrow> instant a > instant b"

definition TimeEqual :: "gotime \<Rightarrow> gotime \<Rightarrow> bool" where
  "TimeEqual a b \<longleftrightarrow> instant a = instant b"

definition max_int64 :: int where "max_int64 = 9223372036854775807"
definition min_int64 :: int where "min_int64 = - 9223372036854775808"

definition in_int64 :: "int \<Rightarrow> bool" where
  "in_int64 x \<longleftrightarrow> min_int64 \<le> x \<and> x \<le> max_int64"

text \<open>\<open>Time.Sub\<close> saturates at the ends of \<open>time.Duration\<close>.\<close>

definition TimeSub :: "gotime \<Rightarrow> gotime \<Rightarrow> int" where
  "TimeSub a b = max min_int64 (min max_int64 (instant a - instant b))"

definition TimeAdd :: "gotime \<Rightarrow> int \<Rightarrow> gotime" where
  "TimeAdd t d = t\<lparr>instant := instant t + d\<rparr>"

lemma instant_TimeAdd [simp]: "instant (TimeAdd t d) = instant t + d"
  by (simp add: TimeAdd_def)

end
