(* ===== verification/Go_Strings.thy ===== *)
theory Go_Strings
  imports Go_Prelude
begin

text \<open>
  Go strings: bytes, the runes a \<open>range\<close> loop visits with their byte offsets,
  \<open>utf8.ValidString\<close>, \<open>strings.Split\<close> on one byte, \<open>strings.HasPrefix\<close>, \<open>fs.ValidPath\<close>,
  and the character classes of the key grammars. The key lemma is that a predicate that
  only ASCII code points satisfy holds of all runes iff it holds of all bytes.
\<close>

definition byte_of :: "char \<Rightarrow> nat" where
  "byte_of c = of_char c"

lemma byte_of_less [simp]: "byte_of c < 256"
  by (simp add: byte_of_def)

lemma byte_of_inj [simp]: "byte_of c = byte_of d \<longleftrightarrow> c = d"
  by (simp add: byte_of_def)

section \<open>UTF-8\<close>

definition rune_error :: nat where "rune_error = 65533"

definition cont_byte :: "nat \<Rightarrow> bool" where
  "cont_byte b \<longleftrightarrow> 128 \<le> b \<and> b \<le> 191"

definition second_of_three :: "nat \<Rightarrow> nat \<Rightarrow> bool" where
  "second_of_three b0 b1 \<longleftrightarrow>
     (if b0 = 224 then 160 else 128) \<le> b1 \<and> b1 \<le> (if b0 = 237 then 159 else 191)"

definition second_of_four :: "nat \<Rightarrow> nat \<Rightarrow> bool" where
  "second_of_four b0 b1 \<longleftrightarrow>
     (if b0 = 240 then 144 else 128) \<le> b1 \<and> b1 \<le> (if b0 = 244 then 143 else 191)"

lemma second_byte_ge: "second_of_three b0 b1 \<Longrightarrow> 128 \<le> b1" "second_of_four b0 b1 \<Longrightarrow> 128 \<le> b1"
  by (auto simp: second_of_three_def second_of_four_def split: if_splits)

text \<open>
  \<open>utf8.DecodeRune\<close>: the code point and its width; an ill-formed sequence (overlong,
  surrogate, above U+10FFFF, truncated) is \<open>RuneError\<close> of width 1.
\<close>

fun decode_rune :: "nat list \<Rightarrow> nat \<times> nat" where
  "decode_rune [] = (rune_error, 0)"
| "decode_rune (b0 # bs) =
    (if b0 < 128 then (b0, 1)
     else if b0 < 194 then (rune_error, 1)
     else if b0 < 224 then
       (case bs of b1 # _ \<Rightarrow>
          if cont_byte b1 then (b0 mod 32 * 64 + b1 mod 64, 2) else (rune_error, 1)
        | _ \<Rightarrow> (rune_error, 1))
     else if b0 < 240 then
       (case bs of b1 # b2 # _ \<Rightarrow>
          if second_of_three b0 b1 \<and> cont_byte b2
          then (b0 mod 16 * 4096 + b1 mod 64 * 64 + b2 mod 64, 3) else (rune_error, 1)
        | _ \<Rightarrow> (rune_error, 1))
     else if b0 < 245 then
       (case bs of b1 # b2 # b3 # _ \<Rightarrow>
          if second_of_four b0 b1 \<and> cont_byte b2 \<and> cont_byte b3
          then (b0 mod 8 * 262144 + b1 mod 64 * 4096 + b2 mod 64 * 64 + b3 mod 64, 4)
          else (rune_error, 1)
        | _ \<Rightarrow> (rune_error, 1))
     else (rune_error, 1))"

text \<open>A \<open>range\<close> loop over a string: byte offset and code point of each rune, from offset \<open>i\<close>.\<close>

function runes_from :: "nat \<Rightarrow> nat list \<Rightarrow> (nat \<times> nat) list" where
  "runes_from i [] = []"
| "runes_from i (b # bs) =
    (let (r, w) = decode_rune (b # bs)
     in (i, r) # runes_from (i + max 1 w) (drop (w - 1) bs))"
  by pat_completeness auto
termination by (relation "measure (\<lambda>(i, bs). length bs)") auto

definition range_runes :: "string \<Rightarrow> (nat \<times> nat) list" where
  "range_runes s = runes_from 0 (map byte_of s)"

definition runes :: "string \<Rightarrow> nat list" where
  "runes s = map snd (range_runes s)"

function valid_utf8 :: "nat list \<Rightarrow> bool" where
  "valid_utf8 [] = True"
| "valid_utf8 (b # bs) =
    (let (r, w) = decode_rune (b # bs)
     in \<not> (r = rune_error \<and> w = 1) \<and> valid_utf8 (drop (w - 1) bs))"
  by pat_completeness auto
termination by (relation "measure length") auto

definition ValidString :: "string \<Rightarrow> bool" where
  "ValidString s \<longleftrightarrow> valid_utf8 (map byte_of s)"

declare decode_rune.simps [simp del]

lemma decode_rune_ascii [simp]: "b < 128 \<Longrightarrow> decode_rune (b # bs) = (b, 1)"
  by (simp add: decode_rune.simps)

lemma mod_sub_mult:
  fixes b k m :: nat
  assumes "k * m \<le> b" "b < k * m + m"
  shows "b mod m = b - k * m"
proof -
  obtain d where d: "b = k * m + d" using assms(1) le_Suc_ex by blast
  with assms(2) show ?thesis by simp
qed

lemma two_byte_wide: "194 \<le> b \<Longrightarrow> b < 224 \<Longrightarrow> 2 \<le> b mod 32" for b :: nat
  using mod_sub_mult [of 6 32 b] by simp

lemma three_byte_lead: "224 < b \<Longrightarrow> b < 240 \<Longrightarrow> 1 \<le> b mod 16" for b :: nat
  using mod_sub_mult [of 14 16 b] by simp

lemma three_byte_next: "160 \<le> c \<Longrightarrow> c \<le> 191 \<Longrightarrow> 32 \<le> c mod 64" for c :: nat
  using mod_sub_mult [of 2 64 c] by simp

lemma four_byte_lead: "240 < b \<Longrightarrow> b < 245 \<Longrightarrow> 1 \<le> b mod 8" for b :: nat
  using mod_sub_mult [of 30 8 b] by simp

lemma four_byte_next: "144 \<le> c \<Longrightarrow> c \<le> 191 \<Longrightarrow> 16 \<le> c mod 64" for c :: nat
  using mod_sub_mult [of 2 64 c] by simp

lemma decode_three_wide:
  assumes "224 \<le> b" "b < 240"
  shows "128 \<le> fst (decode_rune (b # bs))"
proof (cases "b = 224")
  case True
  have "128 \<le> c mod 64 * 64 + d" if "160 \<le> c" "c \<le> 191" for c d :: nat
    using three_byte_next [OF that] by linarith
  with True show ?thesis by (simp add: decode_rune.simps rune_error_def second_of_three_def split: list.split)
next
  case False
  with assms have "1 \<le> b mod 16" by (intro three_byte_lead) simp_all
  then have "128 \<le> b mod 16 * 4096 + c + d" for c d by linarith
  with assms False show ?thesis by (simp add: decode_rune.simps rune_error_def split: list.split)
qed

lemma decode_four_wide:
  assumes "240 \<le> b" "b < 245"
  shows "128 \<le> fst (decode_rune (b # bs))"
proof (cases "b = 240")
  case True
  have "128 \<le> c mod 64 * 4096 + d + e" if "144 \<le> c" "c \<le> 191" for c d e :: nat
    using four_byte_next [OF that] by linarith
  with True show ?thesis by (simp add: decode_rune.simps rune_error_def second_of_four_def split: list.split)
next
  case False
  with assms have "1 \<le> b mod 8" by (intro four_byte_lead) simp_all
  then have "128 \<le> b mod 8 * 262144 + c + d + e" for c d e by linarith
  with assms False show ?thesis by (simp add: decode_rune.simps rune_error_def split: list.split)
qed

lemma decode_rune_wide:
  assumes "\<not> b < 128"
  shows "128 \<le> fst (decode_rune (b # bs))"
proof -
  consider "b < 194" | "194 \<le> b" "b < 224" | "224 \<le> b" "b < 240" | "240 \<le> b" "b < 245" | "245 \<le> b"
    by linarith
  then show ?thesis
  proof cases
    case 2
    then have "128 \<le> b mod 32 * 64 + c" for c using two_byte_wide [OF 2] by linarith
    with 2 show ?thesis by (simp add: decode_rune.simps rune_error_def split: list.split)
  next
    case 3
    then show ?thesis by (rule decode_three_wide)
  next
    case 4
    then show ?thesis by (rule decode_four_wide)
  qed (use assms in \<open>simp_all add: decode_rune.simps rune_error_def\<close>)
qed

text \<open>
  ASCII predicates: the offsets of ASCII runes are the byte positions as long as every rune
  before is ASCII, so a loop that rejects every non-ASCII rune is a loop over the bytes.
\<close>

lemma runes_from_ascii:
  assumes "\<And>i r. P i r \<Longrightarrow> r < 128"
  shows "(\<forall>(i, r) \<in> set (runes_from k bs). P i r) \<longleftrightarrow> (\<forall>j < length bs. P (k + j) (bs ! j))"
proof (induction bs arbitrary: k)
  case Nil
  then show ?case by simp
next
  case (Cons b bs)
  show ?case
  proof (cases "b < 128")
    case True
    then have "(\<forall>(i, r) \<in> set (runes_from k (b # bs)). P i r) \<longleftrightarrow>
        P k b \<and> (\<forall>j < length bs. P (k + 1 + j) (bs ! j))"
      using Cons.IH [of "k + 1"] by simp
    also have "\<dots> \<longleftrightarrow> (\<forall>j < length (b # bs). P (k + j) ((b # bs) ! j))"
      by (simp add: All_less_Suc2)
    finally show ?thesis .
  next
    case False
    then have "\<not> P k (fst (decode_rune (b # bs)))"
      using decode_rune_wide [OF False] assms leD by blast
    moreover have "(k, fst (decode_rune (b # bs))) \<in> set (runes_from k (b # bs))"
      by (cases "decode_rune (b # bs)") simp
    moreover have "\<not> P k b" using False assms by blast
    ultimately show ?thesis by fastforce
  qed
qed

lemma range_runes_ascii:
  assumes "\<And>i r. P i r \<Longrightarrow> r < 128"
  shows "(\<forall>(i, r) \<in> set (range_runes s). P i r) \<longleftrightarrow> (\<forall>j < length s. P j (byte_of (s ! j)))"
  using runes_from_ascii [of P 0 "map byte_of s"] assms by (simp add: range_runes_def)

lemma runes_ascii:
  assumes "\<And>r. P r \<Longrightarrow> r < 128"
  shows "(\<forall>r \<in> set (runes s). P r) \<longleftrightarrow> (\<forall>c \<in> set s. P (byte_of c))"
  using range_runes_ascii [of "\<lambda>i r. P r" s] assms
  by (simp add: runes_def case_prod_beta all_set_conv_all_nth)

lemma runes_from_all_ascii: "\<forall>b \<in> set bs. b < 128 \<Longrightarrow> map snd (runes_from k bs) = bs"
  by (induction bs arbitrary: k) auto

lemma runes_all_ascii: "\<forall>c \<in> set s. byte_of c < 128 \<Longrightarrow> runes s = map byte_of s"
  by (simp add: runes_def range_runes_def runes_from_all_ascii)

text \<open>
  Every ASCII byte of a string is a rune of its own: a multi-byte rune consumes only bytes from
  128 on, and an ill-formed sequence one byte.
\<close>

lemma decode_rune_tail:
  assumes "x \<in> set (take (snd (decode_rune (b # bs)) - 1) bs)"
  shows "128 \<le> x"
proof -
  consider "bs = []" | c where "bs = [c]" | c d where "bs = [c, d]" | c d e es where "bs = c # d # e # es"
    by (metis list.exhaust)
  then show ?thesis
    using assms
    by cases (auto simp: decode_rune.simps cont_byte_def numeral_2_eq_2 numeral_3_eq_3
        split: if_split_asm dest: second_byte_ge)
qed

lemma ascii_byte_is_rune:
  assumes "b \<in> set bs" "b < 128"
  shows "b \<in> snd ` set (runes_from k bs)"
  using assms
proof (induction k bs rule: runes_from.induct)
  case (2 k c bs)
  obtain r w where rw: "decode_rune (c # bs) = (r, w)" by force
  show ?case
  proof (cases "b = c")
    case True
    with 2 show ?thesis by simp
  next
    case False
    with "2.prems" have "b \<in> set (take (w - 1) bs) \<union> set (drop (w - 1) bs)"
      by (metis append_take_drop_id insert_iff list.simps(15) set_append)
    moreover have "b \<notin> set (take (w - 1) bs)"
      using decode_rune_tail [of b c bs] rw "2.prems"(2) by force
    ultimately show ?thesis using "2.IH" [OF rw [symmetric]] "2.prems"(2) rw by auto
  qed
qed simp

lemma ascii_char_is_rune: "c \<in> set s \<Longrightarrow> byte_of c < 128 \<Longrightarrow> byte_of c \<in> set (runes s)"
  using ascii_byte_is_rune [of "byte_of c" "map byte_of s" 0] by (simp add: runes_def range_runes_def)

lemma valid_utf8_ascii: "\<forall>b \<in> set bs. b < 128 \<Longrightarrow> valid_utf8 bs"
  by (induction bs) (auto simp: rune_error_def)

lemma ValidString_ascii: "\<forall>c \<in> set s. byte_of c < 128 \<Longrightarrow> ValidString s"
  by (simp add: ValidString_def valid_utf8_ascii)

section \<open>Character classes\<close>

text \<open>Comparisons with character literals, as the loops of the key grammars make them.\<close>

definition between :: "char \<Rightarrow> char \<Rightarrow> nat \<Rightarrow> bool" where
  "between lo hi r \<longleftrightarrow> byte_of lo \<le> r \<and> r \<le> byte_of hi"

definition is_rune :: "char \<Rightarrow> nat \<Rightarrow> bool" where
  "is_rune c r \<longleftrightarrow> r = byte_of c"

definition lower_hex :: "nat \<Rightarrow> bool" where
  "lower_hex r \<longleftrightarrow> between CHR ''0'' CHR ''9'' r \<or> between CHR ''a'' CHR ''f'' r"

definition lower_letter :: "nat \<Rightarrow> bool" where
  "lower_letter r \<longleftrightarrow> between CHR ''a'' CHR ''z'' r"

definition lower_alnum :: "nat \<Rightarrow> bool" where
  "lower_alnum r \<longleftrightarrow> lower_letter r \<or> between CHR ''0'' CHR ''9'' r"

lemma lower_hex_ascii: "lower_hex r \<Longrightarrow> r < 128"
  by (auto simp: lower_hex_def between_def byte_of_def)

lemma lower_letter_ascii: "lower_letter r \<Longrightarrow> r < 128"
  by (auto simp: lower_letter_def between_def byte_of_def)

lemma lower_alnum_ascii: "lower_alnum r \<Longrightarrow> r < 128"
  by (auto simp: lower_alnum_def lower_letter_def between_def byte_of_def)

lemma is_rune_byte [simp]: "is_rune c (byte_of d) \<longleftrightarrow> d = c"
  by (auto simp: is_rune_def)

definition hex_char :: "char \<Rightarrow> bool" where
  "hex_char c \<longleftrightarrow> lower_hex (byte_of c)"

lemma not_hex_char [simp]:
  "\<not> hex_char CHR '':''" "\<not> hex_char CHR ''-''" "\<not> hex_char CHR ''/''"
  by (auto simp: hex_char_def lower_hex_def between_def byte_of_def)

section \<open>The functions of package strings the program calls\<close>

definition HasPrefix :: "string \<Rightarrow> string \<Rightarrow> bool" where
  "HasPrefix s p \<longleftrightarrow> take (length p) s = p"

lemma HasPrefix_iff: "HasPrefix s p \<longleftrightarrow> (\<exists>t. s = p @ t)"
proof
  assume "HasPrefix s p"
  then have "s = p @ drop (length p) s" by (metis HasPrefix_def append_take_drop_id)
  then show "\<exists>t. s = p @ t" ..
qed (auto simp: HasPrefix_def)

definition ContainsAny :: "string \<Rightarrow> string \<Rightarrow> bool" where
  "ContainsAny s chars \<longleftrightarrow> (\<exists>c \<in> set s. c \<in> set chars)"

text \<open>\<open>strings.Split\<close> with a one-byte separator: never empty, and \<open>join\<close> undoes it.\<close>

fun Split :: "char \<Rightarrow> string \<Rightarrow> string list" where
  "Split c [] = [[]]"
| "Split c (x # xs) =
    (if x = c then [] # Split c xs
     else (case Split c xs of [] \<Rightarrow> [[x]] | p # ps \<Rightarrow> (x # p) # ps))"

fun join :: "char \<Rightarrow> string list \<Rightarrow> string" where
  "join c [] = []"
| "join c [p] = p"
| "join c (p # q # ps) = p @ c # join c (q # ps)"

lemma Split_not_Nil [simp]: "Split c s \<noteq> []"
  by (induction s) (auto split: list.splits)

lemma join_Cons: "ps \<noteq> [] \<Longrightarrow> join c (p # ps) = p @ c # join c ps"
  by (cases ps) auto

lemma join_Split [simp]: "join c (Split c s) = s"
proof (induction s)
  case Nil
  then show ?case by simp
next
  case (Cons x xs)
  then show ?case
  proof (cases "Split c xs")
    case Nil
    then show ?thesis by simp
  next
    case (Cons p ps)
    with Cons.IH show ?thesis by (cases ps) (auto simp: join_Cons)
  qed
qed

lemma Split_free: "c \<notin> set s \<Longrightarrow> Split c s = [s]"
  by (induction s) auto

lemma Split_append: "c \<notin> set p \<Longrightarrow> Split c (p @ c # s) = p # Split c s"
  by (induction p) auto

lemma Split_parts: "p \<in> set (Split c s) \<Longrightarrow> c \<notin> set p"
proof (induction s arbitrary: p)
  case (Cons x xs)
  then show ?case by (cases "Split c xs") (auto split: if_splits)
qed simp

lemma Split_join: "ps \<noteq> [] \<Longrightarrow> \<forall>p \<in> set ps. c \<notin> set p \<Longrightarrow> Split c (join c ps) = ps"
  by (induction c ps rule: join.induct) (auto simp: Split_free Split_append)

lemma Split_inject: "Split c s = Split c t \<longleftrightarrow> s = t"
  by (metis join_Split)

lemma length_join: "ps \<noteq> [] \<Longrightarrow> length (join c ps) + 1 = (\<Sum>p\<leftarrow>ps. length p + 1)"
  by (induction c ps rule: join.induct) auto

lemma length_Split_sum: "(\<Sum>p\<leftarrow>Split c s. length p + 1) = length s + 1"
  using length_join [of "Split c s" c] by simp

section \<open>fs.ValidPath\<close>

definition ValidPath :: "string \<Rightarrow> bool" where
  "ValidPath name \<longleftrightarrow> ValidString name \<and>
    (name = ''.'' \<or> (\<forall>e \<in> set (Split CHR ''/'' name). e \<noteq> [] \<and> e \<noteq> ''.'' \<and> e \<noteq> ''..''))"

end
