(* ===== verification/Go_Sha256.thy ===== *)
theory Go_Sha256
  imports Go_Strings "HOL-Library.Word"
begin

unbundle bit_operations_syntax

text \<open>
  The standard library's \<open>crypto/sha256\<close> (FIPS 180-4) on byte strings, with \<open>encoding/hex\<close>
  and \<open>binary.BigEndian.PutUint64\<close>: what the idempotency keys are computed with. The theorems
  about keys use only the length of a digest and the injectivity of the encodings.
\<close>

type_synonym u32 = "32 word"
type_synonym u64 = "64 word"

text \<open>
  The round constants and the initial state of FIPS 180-4, in decimal: the first 32 bits of the
  fractional parts of the cube roots of the first 64 primes and of the square roots of the first
  eight.
\<close>

definition sha_K :: "u32 list" where
  "sha_K = [
    1116352408, 1899447441, 3049323471, 3921009573, 961987163, 1508970993,
    2453635748, 2870763221, 3624381080, 310598401, 607225278, 1426881987,
    1925078388, 2162078206, 2614888103, 3248222580, 3835390401, 4022224774,
    264347078, 604807628, 770255983, 1249150122, 1555081692, 1996064986,
    2554220882, 2821834349, 2952996808, 3210313671, 3336571891, 3584528711,
    113926993, 338241895, 666307205, 773529912, 1294757372, 1396182291,
    1695183700, 1986661051, 2177026350, 2456956037, 2730485921, 2820302411,
    3259730800, 3345764771, 3516065817, 3600352804, 4094571909, 275423344,
    430227734, 506948616, 659060556, 883997877, 958139571, 1322822218,
    1537002063, 1747873779, 1955562222, 2024104815, 2227730452, 2361852424,
    2428436474, 2756734187, 3204031479, 3329325298]"

definition sha_H0 :: "u32 list" where
  "sha_H0 = [
    1779033703, 3144134277, 1013904242, 2773480762,
    1359893119, 2600822924, 528734635, 1541459225]"

definition rotr :: "nat \<Rightarrow> u32 \<Rightarrow> u32" where
  "rotr n x = drop_bit n x OR push_bit (32 - n) x"

definition small_sigma0 :: "u32 \<Rightarrow> u32" where
  "small_sigma0 x = rotr 7 x XOR rotr 18 x XOR drop_bit 3 x"

definition small_sigma1 :: "u32 \<Rightarrow> u32" where
  "small_sigma1 x = rotr 17 x XOR rotr 19 x XOR drop_bit 10 x"

definition big_sigma0 :: "u32 \<Rightarrow> u32" where
  "big_sigma0 x = rotr 2 x XOR rotr 13 x XOR rotr 22 x"

definition big_sigma1 :: "u32 \<Rightarrow> u32" where
  "big_sigma1 x = rotr 6 x XOR rotr 11 x XOR rotr 25 x"

text \<open>The message schedule, kept newest word first while it grows.\<close>

primrec sha_extend :: "nat \<Rightarrow> u32 list \<Rightarrow> u32 list" where
  "sha_extend 0 w = w"
| "sha_extend (Suc n) w =
     sha_extend n ((small_sigma1 (w ! 1) + w ! 6 + small_sigma0 (w ! 14) + w ! 15) # w)"

type_synonym sha_state = "u32 \<times> u32 \<times> u32 \<times> u32 \<times> u32 \<times> u32 \<times> u32 \<times> u32"

fun sha_round :: "sha_state \<Rightarrow> u32 \<times> u32 \<Rightarrow> sha_state" where
  "sha_round (a, b, c, d, e, f, g, h) (k, w) =
    (let t1 = h + big_sigma1 e + ((e AND f) XOR (NOT e AND g)) + k + w;
         t2 = big_sigma0 a + ((a AND b) XOR (a AND c) XOR (b AND c))
     in (t1 + t2, a, b, c, d + t1, e, f, g))"

fun sha_add :: "sha_state \<Rightarrow> sha_state \<Rightarrow> sha_state" where
  "sha_add (a, b, c, d, e, f, g, h) (a', b', c', d', e', f', g', h') =
     (a + a', b + b', c + c', d + d', e + e', f + f', g + g', h + h')"

fun words_of :: "nat list \<Rightarrow> u32 list" where
  "words_of (a # b # c # d # bs) =
     word_of_nat (((a * 256 + b) * 256 + c) * 256 + d) # words_of bs"
| "words_of _ = []"

definition sha_block :: "sha_state \<Rightarrow> nat list \<Rightarrow> sha_state" where
  "sha_block st block =
     sha_add st (foldl sha_round st (zip sha_K (rev (sha_extend 48 (rev (words_of block))))))"

definition be_bytes :: "nat \<Rightarrow> nat \<Rightarrow> nat list" where
  "be_bytes n x = map (\<lambda>i. x div 256 ^ (n - 1 - i) mod 256) [0..<n]"

definition sha_pad :: "nat list \<Rightarrow> nat list" where
  "sha_pad m = m @ 128 # replicate ((119 - length m mod 64) mod 64) 0 @ be_bytes 8 (8 * length m)"

function sha_blocks :: "sha_state \<Rightarrow> nat list \<Rightarrow> sha_state" where
  "sha_blocks st bs =
     (if length bs < 64 then st else sha_blocks (sha_block st (take 64 bs)) (drop 64 bs))"
  by pat_completeness auto
termination by (relation "measure (\<lambda>(st, bs). length bs)") auto

declare sha_blocks.simps [simp del]

definition sha_digest_words :: "sha_state \<Rightarrow> u32 list" where
  "sha_digest_words st = (case st of (a, b, c, d, e, f, g, h) \<Rightarrow> [a, b, c, d, e, f, g, h])"

definition sha_init :: sha_state where
  "sha_init = (0x6a09e667, 0xbb67ae85, 0x3c6ef372, 0xa54ff53a,
               0x510e527f, 0x9b05688c, 0x1f83d9ab, 0x5be0cd19)"

definition char_of_byte :: "nat \<Rightarrow> char" where
  "char_of_byte b = char_of b"

definition sha256 :: "string \<Rightarrow> string" where
  "sha256 s = map char_of_byte (concat (map (\<lambda>w. be_bytes 4 (unat w))
     (sha_digest_words (sha_blocks sha_init (sha_pad (map byte_of s))))))"

section \<open>encoding/hex and encoding/binary\<close>

definition hex_digit :: "nat \<Rightarrow> char" where
  "hex_digit n = char_of (if n < 10 then 48 + n else 87 + n)"

definition EncodeToString :: "string \<Rightarrow> string" where
  "EncodeToString s = concat (map (\<lambda>c. [hex_digit (byte_of c div 16), hex_digit (byte_of c mod 16)]) s)"

definition PutUint64 :: "u64 \<Rightarrow> string" where
  "PutUint64 v = map char_of_byte (be_bytes 8 (unat v))"

lemma length_be_bytes [simp]: "length (be_bytes n x) = n"
  by (simp add: be_bytes_def)

lemma length_PutUint64 [simp]: "length (PutUint64 v) = 8"
  by (simp add: PutUint64_def)

lemma length_sha256 [simp]: "length (sha256 s) = 32"
  by (simp add: sha256_def sha_digest_words_def length_concat split: prod.split)

lemma hex_digit_hex: "n < 16 \<Longrightarrow> hex_char (hex_digit n)"
  by (auto simp: hex_char_def hex_digit_def lower_hex_def between_def byte_of_def)

lemma hex_digit_inj: "m < 16 \<Longrightarrow> n < 16 \<Longrightarrow> hex_digit m = hex_digit n \<Longrightarrow> m = n"
  by (auto simp: hex_digit_def char_of_eq_iff take_bit_eq_mod split: if_splits)

lemma EncodeToString_Cons [simp]:
  "EncodeToString (c # s) = hex_digit (byte_of c div 16) # hex_digit (byte_of c mod 16) # EncodeToString s"
  by (simp add: EncodeToString_def)

lemma EncodeToString_Nil [simp]: "EncodeToString [] = []"
  by (simp add: EncodeToString_def)

lemma length_EncodeToString [simp]: "length (EncodeToString s) = 2 * length s"
  by (induction s) auto

lemma EncodeToString_hex: "\<forall>c \<in> set (EncodeToString s). hex_char c"
proof (induction s)
  case (Cons c s)
  have "byte_of c div 16 < 16" using byte_of_less [of c] by linarith
  with Cons show ?case by (auto intro: hex_digit_hex)
qed simp

lemma EncodeToString_inj: "EncodeToString s = EncodeToString t \<Longrightarrow> s = t"
proof (induction s arbitrary: t)
  case Nil
  then show ?case by (cases t) auto
next
  case (Cons c s)
  then obtain d u where t: "t = d # u" by (cases t) auto
  have lt: "byte_of x div 16 < 16" "byte_of x mod 16 < 16" for x
    using byte_of_less [of x] by (linarith, simp)
  have "hex_digit (byte_of c div 16) = hex_digit (byte_of d div 16)"
    "hex_digit (byte_of c mod 16) = hex_digit (byte_of d mod 16)"
    using Cons.prems t by auto
  then have "byte_of c div 16 = byte_of d div 16" "byte_of c mod 16 = byte_of d mod 16"
    by (auto intro: hex_digit_inj lt)
  then have "byte_of c = byte_of d" by (metis div_mult_mod_eq)
  with Cons t show ?case by auto
qed

text \<open>Eight big-endian bytes determine the word.\<close>

fun be_value :: "nat list \<Rightarrow> nat" where
  "be_value [] = 0"
| "be_value (b # bs) = b * 256 ^ length bs + be_value bs"

lemma be_bytes_Suc: "be_bytes (Suc n) x = x div 256 ^ n mod 256 # be_bytes n x"
  by (simp add: be_bytes_def upt_rec [of 0 "Suc n"] map_Suc_upt [symmetric] del: upt_Suc)

lemma be_value_bytes: "be_value (be_bytes n x) = x mod 256 ^ n"
proof (induction n)
  case 0
  then show ?case by (simp add: be_bytes_def)
next
  case (Suc n)
  have "x mod 256 ^ Suc n = 256 ^ n * (x div 256 ^ n mod 256) + x mod 256 ^ n"
    by (metis mod_mult2_eq power_Suc2)
  with Suc show ?case by (simp add: be_bytes_Suc)
qed

lemma be_bytes_less: "b \<in> set (be_bytes n x) \<Longrightarrow> b < 256"
  by (auto simp: be_bytes_def)

lemma map_char_of_byte_inj:
  assumes "map char_of_byte xs = map char_of_byte ys"
    and "\<forall>b \<in> set xs. b < 256" "\<forall>b \<in> set ys. b < 256"
  shows "xs = ys"
proof -
  have "map byte_of (map char_of_byte zs) = zs" if "\<forall>b \<in> set zs. b < 256" for zs
    using that by (induction zs) (auto simp: byte_of_def char_of_byte_def)
  with assms show ?thesis by metis
qed

lemma PutUint64_inj: "PutUint64 v = PutUint64 w \<Longrightarrow> v = w"
proof -
  assume "PutUint64 v = PutUint64 w"
  then have "be_bytes 8 (unat v) = be_bytes 8 (unat w)"
    unfolding PutUint64_def by (rule map_char_of_byte_inj) (auto dest: be_bytes_less)
  then have "unat v mod 256 ^ 8 = unat w mod 256 ^ 8" by (metis be_value_bytes)
  moreover have "unat x < 256 ^ 8" for x :: u64
    by (rule order_less_le_trans [OF unsigned_less]) simp
  ultimately show ?thesis by (simp add: word_unat_eq_iff)
qed

end
