(* ===== verification/Go_Text.thy ===== *)
theory Go_Text
  imports Go_Sha256
begin

text \<open>
  What the program uses of the packages \<open>unicode\<close> and \<open>strings\<close> on texts: control and space
  runes, fields, trimming and search. A text is a byte string; its runes are those the
  \<open>range\<close> loop decodes.
\<close>

text \<open>\<open>unicode.IsControl\<close> and \<open>unicode.IsSpace\<close>.\<close>

definition IsControl :: "nat \<Rightarrow> bool" where
  "IsControl r \<longleftrightarrow> r < 32 \<or> (127 \<le> r \<and> r < 160)"

definition IsSpace :: "nat \<Rightarrow> bool" where
  "IsSpace r \<longleftrightarrow> (9 \<le> r \<and> r \<le> 13) \<or> r \<in> {32, 133, 160, 5760, 8232, 8233, 8239, 8287, 12288}
     \<or> (8192 \<le> r \<and> r \<le> 8202)"

text \<open>The runes of a string with the bytes each was decoded from.\<close>

definition rune_chunks :: "string \<Rightarrow> (nat \<times> string) list" where
  "rune_chunks s = (let rs = range_runes s in
     map (\<lambda>((i, r), j). (r, take (j - i) (drop i s))) (zip rs (map fst (tl rs) @ [length s])))"

fun fields_loop :: "string \<Rightarrow> (nat \<times> string) list \<Rightarrow> string list" where
  "fields_loop word [] = (if word = [] then [] else [word])"
| "fields_loop word ((r, b) # cs) =
    (if IsSpace r then (if word = [] then fields_loop [] cs else word # fields_loop [] cs)
     else fields_loop (word @ b) cs)"

definition Fields :: "string \<Rightarrow> string list" where
  "Fields s = fields_loop [] (rune_chunks s)"

fun Contains :: "string \<Rightarrow> string \<Rightarrow> bool" where
  "Contains [] sub = (sub = [])"
| "Contains (c # s) sub = (HasPrefix (c # s) sub \<or> Contains s sub)"

definition encode_rune :: "nat \<Rightarrow> string" where
  "encode_rune r = map char_of_byte
    (if r < 128 then [r]
     else if r < 2048 then [192 + r div 64, 128 + r mod 64]
     else if r > 1114111 \<or> (55296 \<le> r \<and> r \<le> 57343) then [239, 191, 189]
     else if r < 65536 then [224 + r div 4096, 128 + r div 64 mod 64, 128 + r mod 64]
     else [240 + r div 262144, 128 + r div 4096 mod 64, 128 + r div 64 mod 64, 128 + r mod 64])"

text \<open>\<open>strings.TrimSpace\<close>.\<close>

definition TrimSpace :: "string \<Rightarrow> string" where
  "TrimSpace s = concat (map snd (rev (dropWhile (\<lambda>(r, b). IsSpace r)
     (rev (dropWhile (\<lambda>(r, b). IsSpace r) (rune_chunks s))))))"

end
