(* ===== verification/Go_Json.thy ===== *)
theory Go_Json
  imports Go_Strings
begin

text \<open>
  \<open>encoding/json\<close> for strings, as \<open>json.Marshal\<close> writes them: HTML characters, control
  characters and the two Unicode line separators escaped, ill-formed UTF-8 replaced, every
  other rune copied. On lowercase identifier text the encoding adds only the quotes.
\<close>

definition ascii_bytes :: "string \<Rightarrow> nat list" where
  "ascii_bytes s = map byte_of s"

lemma ascii_bytes_inj [simp]: "ascii_bytes s = ascii_bytes t \<longleftrightarrow> s = t"
  by (simp add: ascii_bytes_def inj_map_eq_map inj_def)

definition hex4 :: "nat \<Rightarrow> nat list" where
  "hex4 r = map (\<lambda>i. let d = r div 16 ^ i mod 16 in if d < 10 then 48 + d else 87 + d) [3, 2, 1, 0]"

text \<open>The escape of a rune, or \<open>None\<close> when it is copied.\<close>

definition json_escape :: "nat \<Rightarrow> nat list option" where
  "json_escape r =
    (if r = 34 then Some [92, 34]
     else if r = 92 then Some [92, 92]
     else if r = 8 then Some [92, 98]
     else if r = 12 then Some [92, 102]
     else if r = 10 then Some [92, 110]
     else if r = 13 then Some [92, 114]
     else if r = 9 then Some [92, 116]
     else if r < 32 \<or> r = 60 \<or> r = 62 \<or> r = 38 \<or> r = 8232 \<or> r = 8233
       then Some ([92, 117] @ hex4 r)
     else None)"

function json_body :: "nat list \<Rightarrow> nat list" where
  "json_body [] = []"
| "json_body (b # bs) =
    (let (r, w) = decode_rune (b # bs)
     in (if r = rune_error \<and> w = 1 then [92, 117] @ hex4 rune_error
         else (case json_escape r of Some e \<Rightarrow> e | None \<Rightarrow> take w (b # bs)))
        @ json_body (drop (w - 1) bs))"
  by pat_completeness auto
termination by (relation "measure length") auto

definition json_string :: "string \<Rightarrow> nat list" where
  "json_string s = [34] @ json_body (map byte_of s) @ [34]"

definition plain_byte :: "nat \<Rightarrow> bool" where
  "plain_byte b \<longleftrightarrow> b < 128 \<and> json_escape b = None"

lemma json_body_plain: "\<forall>b \<in> set bs. plain_byte b \<Longrightarrow> json_body bs = bs"
  by (induction bs) (auto simp: plain_byte_def rune_error_def)

lemma json_string_plain:
  "\<forall>c \<in> set s. plain_byte (byte_of c) \<Longrightarrow> json_string s = [34] @ map byte_of s @ [34]"
  by (simp add: json_string_def json_body_plain)

lemma lower_hex_plain: "lower_hex b \<Longrightarrow> plain_byte b"
  by (auto simp: plain_byte_def lower_hex_def between_def byte_of_def json_escape_def)

lemma lower_alnum_plain: "lower_alnum b \<Longrightarrow> plain_byte b"
  by (auto simp: plain_byte_def lower_alnum_def lower_letter_def between_def byte_of_def json_escape_def)

end
