(* ===== verification/Go_Reflect.thy ===== *)
theory Go_Reflect
  imports Go_Json
begin

text \<open>
  What \<open>reflect\<close> and \<open>encoding/json\<close> see of the values of the report formats, which are built
  from structs, slices, pointers, strings, booleans and integers only (\<open>rval\<close>), and the JSON
  text of such a value as \<open>json.Marshal\<close> writes it.
\<close>

datatype rval =
    RNil                                          \<comment> \<open>a nil pointer\<close>
  | RPtr rval
  | RStruct "(string \<times> rval) list"                \<comment> \<open>fields in declaration order\<close>
  | RSlice "rval list option"                     \<comment> \<open>\<open>None\<close> for nil\<close>
  | RString string
  | RBool bool
  | RInt int

section \<open>Decimal integers\<close>

fun nat_digits :: "nat \<Rightarrow> nat list" where
  "nat_digits n = (if n < 10 then [48 + n] else nat_digits (n div 10) @ [48 + n mod 10])"

declare nat_digits.simps [simp del]

definition FormatInt :: "int \<Rightarrow> nat list" where
  "FormatInt x = (if x < 0 then 45 # nat_digits (nat (- x)) else nat_digits (nat x))"

section \<open>JSON\<close>

text \<open>Joining encoded parts with commas.\<close>

fun commas :: "nat list list \<Rightarrow> nat list" where
  "commas [] = []"
| "commas [p] = p"
| "commas (p # ps) = p @ 44 # commas ps"

fun json_value :: "rval \<Rightarrow> nat list" where
  "json_value RNil = map byte_of ''null''"
| "json_value (RPtr v) = json_value v"
| "json_value (RStruct fs) = [123] @ commas (map (\<lambda>(n, v). json_string n @ [58] @ json_value v) fs) @ [125]"
| "json_value (RSlice None) = map byte_of ''null''"
| "json_value (RSlice (Some vs)) = [91] @ commas (map json_value vs) @ [93]"
| "json_value (RString s) = json_string s"
| "json_value (RBool b) = map byte_of (if b then ''true'' else ''false'')"
| "json_value (RInt i) = FormatInt i"

lemma length_commas: "length (commas ps) = sum_list (map length ps) + (length ps - 1)"
  by (induction ps rule: commas.induct) auto

section \<open>The width of a rune\<close>

definition RuneLen :: "nat \<Rightarrow> int" where
  "RuneLen r = (if r < 128 then 1 else if r < 2048 then 2 else if 55296 \<le> r \<and> r \<le> 57343 then - 1
     else if r < 65536 then 3 else if r \<le> 1114111 then 4 else - 1)"

lemma mod64: "128 \<le> b \<Longrightarrow> b \<le> 191 \<Longrightarrow> b mod 64 = b - 128" for b :: nat
  using mod_sub_mult [of 2 64 b] by simp

lemma decode_width_two:
  assumes "194 \<le> b0" "b0 < 224" "cont_byte b1"
  shows "RuneLen (b0 mod 32 * 64 + b1 mod 64) = 2"
proof -
  have "b0 mod 32 = b0 - 192" using mod_sub_mult [of 6 32 b0] assms by simp
  moreover have "b1 mod 64 < 64" by simp
  ultimately have "128 \<le> b0 mod 32 * 64 + b1 mod 64" "b0 mod 32 * 64 + b1 mod 64 < 2048" using assms by linarith+
  then show ?thesis by (simp add: RuneLen_def)
qed

lemma decode_width_three:
  assumes "224 \<le> b0" "b0 < 240" "second_of_three b0 b1" "cont_byte b2"
  shows "RuneLen (b0 mod 16 * 4096 + b1 mod 64 * 64 + b2 mod 64) = 3"
proof -
  have b0: "b0 mod 16 = b0 - 224" using mod_sub_mult [of 14 16 b0] assms by simp
  have b1: "b1 mod 64 = b1 - 128" "128 \<le> b1" "b1 \<le> 191"
    using mod64 [of b1] assms(3) by (auto simp: second_of_three_def split: if_splits)
  have b2: "b2 mod 64 < 64" by simp
  let ?r = "b0 mod 16 * 4096 + b1 mod 64 * 64 + b2 mod 64"
  consider "b0 = 224" "160 \<le> b1" | "224 < b0" "b0 < 237" | "b0 = 237" "b1 \<le> 159" | "237 < b0"
    using assms by (fastforce simp: second_of_three_def)
  then have "2048 \<le> ?r \<and> (?r < 55296 \<or> 57343 < ?r) \<and> ?r < 65536"
    by cases (use b0 b1 b2 assms in linarith)+
  then show ?thesis by (auto simp: RuneLen_def)
qed

lemma decode_width_four:
  assumes "240 \<le> b0" "b0 < 245" "second_of_four b0 b1" "cont_byte b2" "cont_byte b3"
  shows "RuneLen (b0 mod 8 * 262144 + b1 mod 64 * 4096 + b2 mod 64 * 64 + b3 mod 64) = 4"
proof -
  have b0: "b0 mod 8 = b0 - 240" using mod_sub_mult [of 30 8 b0] assms by simp
  have b1: "b1 mod 64 = b1 - 128" "128 \<le> b1" "b1 \<le> 191"
    using mod64 [of b1] assms(3) by (auto simp: second_of_four_def split: if_splits)
  have b2: "b2 mod 64 < 64" "b3 mod 64 < 64" by simp_all
  let ?r = "b0 mod 8 * 262144 + b1 mod 64 * 4096 + b2 mod 64 * 64 + b3 mod 64"
  consider "b0 = 240" "144 \<le> b1" | "240 < b0" "b0 < 244" | "b0 = 244" "b1 \<le> 143"
    using assms by (fastforce simp: second_of_four_def)
  then have "65536 \<le> ?r \<and> ?r \<le> 1114111"
    by cases (use b0 b1 b2 assms in linarith)+
  then show ?thesis by (auto simp: RuneLen_def)
qed

text \<open>A well-formed rune has the width it was decoded with.\<close>

lemma decode_rune_width:
  assumes "decode_rune (b # bs) = (r, w)" "\<not> (r = rune_error \<and> w = 1)"
  shows "RuneLen r = int w \<and> 0 < w \<and> w \<le> length (b # bs)"
proof -
  consider "b < 128" | "\<not> b < 128" "bs = []" | c where "\<not> b < 128" "bs = [c]"
    | c d where "\<not> b < 128" "bs = [c, d]" | c d e es where "\<not> b < 128" "bs = c # d # e # es"
    by (metis list.exhaust)
  then show ?thesis
    using assms
    by cases (auto simp: decode_rune.simps decode_width_two decode_width_three decode_width_four
        split: if_splits, auto simp: RuneLen_def)
qed

end
