(* ===== verification/OAuth_Clients.thy ===== *)
theory OAuth_Clients
  imports Go_Text Go_Reflect
begin

text \<open>
  \<open>pkg/oauthserver/clients.go\<close>: the registry of preregistered public clients. \<open>net/url\<close> and
  \<open>net\<close> are arguments (\<open>urls\<close>): the parts of a parsed URL with its \<open>Hostname\<close>, \<open>Port\<close> and
  \<open>EscapedPath\<close>, the address an IP text denotes, and case folding; so is the JSON document.
\<close>

record URL =
  url_Scheme :: string
  url_Opaque :: string
  url_User :: bool          \<comment> \<open>whether there is a userinfo\<close>
  url_Host :: string
  url_Hostname :: string
  url_Port :: string
  url_Path :: string
  url_RawPath :: string
  url_EscapedPath :: string
  url_RawQuery :: string
  url_Fragment :: string

record urls =
  ur_Parse :: "string \<Rightarrow> gerr + URL"
  ur_ParseIP :: "string \<Rightarrow> string option"
  ur_EqualFold :: "string \<Rightarrow> string \<Rightarrow> bool"

abbreviation (input) "ErrNotFound \<equiv> Sentinel ''fosite.ErrNotFound''"

section \<open>URLs\<close>

definition decimal_digit :: "char \<Rightarrow> bool" where
  "decimal_digit c \<longleftrightarrow> 48 \<le> byte_of c \<and> byte_of c \<le> 57"

definition decimal_value :: "string \<Rightarrow> nat" where
  "decimal_value s = foldl (\<lambda>n c. 10 * n + (byte_of c - 48)) 0 s"

text \<open>\<open>strconv.ParseUint(s, 10, 16)\<close>.\<close>

definition ParseUint16 :: "string \<Rightarrow> nat option" where
  "ParseUint16 s = (if s \<noteq> [] \<and> list_all decimal_digit s \<and> decimal_value s < 65536
     then Some (decimal_value s) else None)"

definition HasSuffix :: "string \<Rightarrow> string \<Rightarrow> bool" where
  "HasSuffix s suffix = HasPrefix (rev s) (rev suffix)"

definition bad_port :: "string \<Rightarrow> bool" where
  "bad_port port = (case ParseUint16 port of None \<Rightarrow> True | Some n \<Rightarrow> n = 0)"

definition validateURLAuthority :: "URL \<Rightarrow> check" where
  "validateURLAuthority u = firsterr
    [fails (url_Hostname u = []) (Errorf ''URI authority must contain a hostname'' []),
     fails (HasSuffix (url_Host u) '':'') (Errorf ''URI authority must not contain an empty port'' []),
     fails (url_Port u \<noteq> [] \<and> bad_port (url_Port u)) (Errorf ''URI port must be between 1 and 65535'' [])]"

definition validateLoopbackRedirect :: "urls \<Rightarrow> URL \<Rightarrow> check" where
  "validateLoopbackRedirect us u =
    (let address = ur_ParseIP us (url_Hostname u) in firsterr
    [fails (address = None \<or> (address \<noteq> ur_ParseIP us ''127.0.0.1'' \<and> address \<noteq> ur_ParseIP us ''::1''))
       (Errorf ''HTTP redirect host must be 127.0.0.1 or ::1'' []),
     fails (url_Port u = []) (Errorf ''HTTP loopback redirect must include an explicit port'' []),
     fails (bad_port (url_Port u)) (Errorf ''HTTP loopback redirect port is invalid'' [])])"

definition validateRedirectURI :: "urls \<Rightarrow> string \<Rightarrow> check" where
  "validateRedirectURI us raw = firsterr
    [fails (raw = [] \<or> Contains raw ''*'') (Errorf ''URI must be exact and contain no wildcard'' []),
     fails (Contains raw ''#'') (Errorf ''URI must not contain a fragment delimiter'' []),
     (case ur_Parse us raw of
        Inl e \<Rightarrow> Some (Wrapf ''parse URI: %w'' [] [e])
      | Inr u \<Rightarrow> firsterr
         [fails (url_Scheme u = [] \<or> url_Opaque u \<noteq> [] \<or> url_Host u = [])
            (Errorf ''URI must be absolute and hierarchical'' []),
          validateURLAuthority u,
          fails (url_User u) (Errorf ''URI must not contain userinfo'' []),
          fails (url_Fragment u \<noteq> []) (Errorf ''URI must not contain a fragment'' []),
          fails (ur_EqualFold us (url_Hostname u) ''localhost'') (Errorf ''URI must not use localhost'' []),
          (if url_Scheme u = ''https'' then None
           else if url_Scheme u = ''http'' then validateLoopbackRedirect us u
           else Some (Errorf ''URI must use HTTPS or an allowed HTTP loopback address'' []))])]"

definition validateResource :: "urls \<Rightarrow> string \<Rightarrow> check" where
  "validateResource us raw = firsterr
    [fails (raw = [] \<or> Contains raw ''*'') (Errorf ''OAuth resource must be an exact HTTPS URL'' []),
     fails (ContainsAny raw ''?#'') (Errorf ''OAuth resource must not contain a query or fragment delimiter'' []),
     (case ur_Parse us raw of
        Inl e \<Rightarrow> Some (Wrapf ''parse OAuth resource: %w'' [] [e])
      | Inr u \<Rightarrow> firsterr
         [fails (url_Scheme u \<noteq> ''https'' \<or> url_Host u = [] \<or> url_Opaque u \<noteq> [] \<or> url_User u
              \<or> url_RawQuery u \<noteq> [] \<or> url_Fragment u \<noteq> [])
            (Errorf ''OAuth resource must be an absolute HTTPS URL without userinfo, query, or fragment'' []),
          wrap ''OAuth resource authority: %w'' (validateURLAuthority u),
          fails (url_Path u \<noteq> ''/mcp'' \<or> url_RawPath u \<noteq> [] \<or> url_EscapedPath u \<noteq> ''/mcp'')
            (Errorf ''OAuth resource path must be exactly /mcp'' [])])]"

section \<open>Clients\<close>

record clientConfig =
  cc_ClientID :: string
  cc_ClientName :: string
  cc_RedirectURIs :: "string list"
  cc_TokenEndpointAuthMethod :: string
  cc_GrantTypes :: "string list"
  cc_ResponseTypes :: "string list"
  cc_Scope :: string

record ClientRegistry =
  cr_resource :: string
  cr_clients :: "string \<rightharpoonup> clientConfig"

text \<open>\<open>fosite.DefaultClient\<close>, with the fields the code sets.\<close>

record DefaultClient =
  fc_ID :: string
  fc_RedirectURIs :: "string list"
  fc_GrantTypes :: "string list"
  fc_ResponseTypes :: "string list"
  fc_Scopes :: "string list"
  fc_Audience :: "string list"
  fc_Public :: bool

definition GetClient :: "ClientRegistry \<Rightarrow> string \<Rightarrow> gerr + DefaultClient" where
  "GetClient r i = (case cr_clients r i of
     None \<Rightarrow> Inl ErrNotFound
   | Some c \<Rightarrow> Inr \<lparr>fc_ID = cc_ClientID c, fc_RedirectURIs = cc_RedirectURIs c,
       fc_GrantTypes = cc_GrantTypes c, fc_ResponseTypes = cc_ResponseTypes c,
       fc_Scopes = [cc_Scope c], fc_Audience = [cr_resource r], fc_Public = True\<rparr>)"

definition ValidateRedirect :: "urls \<Rightarrow> ClientRegistry \<Rightarrow> string \<Rightarrow> string \<Rightarrow> check" where
  "ValidateRedirect us r i raw = (case cr_clients r i of
     None \<Rightarrow> Some (Wrapf ''validate redirect for client %q: %w'' [FStr i] [ErrNotFound])
   | Some c \<Rightarrow> firsterr
       [wrap ''validate redirect URI: %w'' (validateRedirectURI us raw),
        fails (raw \<notin> set (cc_RedirectURIs c)) (Errorf ''redirect URI is not registered for the client'' [])])"

text \<open>The loop of \<open>exactStringSet\<close>: what is still wanted after the values so far.\<close>

fun exact_loop :: "string set \<Rightarrow> string list \<Rightarrow> bool" where
  "exact_loop want [] = (want = {})"
| "exact_loop want (v # vs) = (if v \<notin> want then False else exact_loop (want - {v}) vs)"

definition exactStringSet :: "string list \<Rightarrow> string list \<Rightarrow> bool" where
  "exactStringSet actual expected =
    (if length actual \<noteq> length expected then False else exact_loop (set expected) actual)"

fun redirect_loop :: "urls \<Rightarrow> string set \<Rightarrow> string list \<Rightarrow> check" where
  "redirect_loop us seen [] = None"
| "redirect_loop us seen (r # rs) = (case validateRedirectURI us r of
     Some e \<Rightarrow> Some (Wrapf ''redirect URI %q: %w'' [FStr r] [e])
   | None \<Rightarrow> if r \<in> seen then Some (Errorf ''redirect URI %q is duplicated'' [FStr r])
       else redirect_loop us (insert r seen) rs)"

definition validateClientConfig :: "urls \<Rightarrow> clientConfig \<Rightarrow> check" where
  "validateClientConfig us c = firsterr
    [fails (TrimSpace (cc_ClientID c) = []) (Errorf ''client_id must not be empty'' []),
     fails (TrimSpace (cc_ClientName c) = []) (Errorf ''client_name must not be empty'' []),
     fails (cc_RedirectURIs c = []) (Errorf ''redirect_uris must not be empty'' []),
     redirect_loop us {} (cc_RedirectURIs c),
     fails (cc_TokenEndpointAuthMethod c \<noteq> ''none'') (Errorf ''token_endpoint_auth_method must be none'' []),
     fails (\<not> exactStringSet (cc_GrantTypes c) [''authorization_code'', ''refresh_token''])
       (Errorf ''grant_types must contain authorization_code and refresh_token exactly once'' []),
     fails (\<not> exactStringSet (cc_ResponseTypes c) [''code''])
       (Errorf ''response_types must contain code exactly once'' []),
     fails (cc_Scope c \<noteq> ''mcp:read'') (Errorf ''scope must be mcp:read'' [])]"

fun register_loop :: "urls \<Rightarrow> ClientRegistry \<Rightarrow> int \<Rightarrow> clientConfig list \<Rightarrow> gerr + ClientRegistry" where
  "register_loop us r i [] = Inr r"
| "register_loop us r i (c # cs) = (case validateClientConfig us c of
     Some e \<Rightarrow> Inl (Wrapf ''validate client %d: %w'' [FInt i] [e])
   | None \<Rightarrow> if cr_clients r (cc_ClientID c) \<noteq> None
       then Inl (Errorf ''client ID %q is duplicated'' [FStr (cc_ClientID c)])
       else register_loop us (r\<lparr>cr_clients := (cr_clients r)(cc_ClientID c \<mapsto> c)\<rparr>) (i + 1) cs)"

text \<open>
  The document is what \<open>json.Decoder\<close> with \<open>DisallowUnknownFields\<close>, followed by
  \<open>requireJSONEOF\<close>, makes of the bytes: its version and its clients, nil when absent.
\<close>

definition ParseClientRegistry :: "urls \<Rightarrow> (string \<Rightarrow> gerr + int \<times> clientConfig slice) \<Rightarrow> string \<Rightarrow> string
    \<Rightarrow> gerr + ClientRegistry" where
  "ParseClientRegistry us decode data resource = (case validateResource us resource of
     Some e \<Rightarrow> Inl e
   | None \<Rightarrow> (case decode data of
       Inl e \<Rightarrow> Inl (Wrapf ''decode client registry: %w'' [] [e])
     | Inr (version, clients) \<Rightarrow>
         if version \<noteq> 1 then Inl (Errorf ''client registry version %d is unsupported'' [FInt version])
         else case clients of
           None \<Rightarrow> Inl (Errorf ''client registry clients must be an array'' [])
         | Some cs \<Rightarrow> register_loop us \<lparr>cr_resource = resource, cr_clients = Map.empty\<rparr> 0 cs))"

section \<open>Lemmas\<close>

lemma exact_loop_iff: "exact_loop want vs \<longleftrightarrow> distinct vs \<and> set vs = want"
proof (induction vs arbitrary: want)
  case (Cons v vs)
  then show ?case by (auto simp: insert_absorb)
qed auto

lemma exactStringSet_iff: "exactStringSet actual expected \<longleftrightarrow>
   length actual = length expected \<and> distinct actual \<and> set actual = set expected"
  by (simp add: exactStringSet_def exact_loop_iff)

lemma exactStringSet_single: "exactStringSet xs [x] \<longleftrightarrow> xs = [x]"
  by (cases xs) (auto simp: exactStringSet_iff)

lemma GetClient_Inr: "GetClient r i = Inr c \<Longrightarrow> \<exists>cfg. cr_clients r i = Some cfg \<and> fc_ID c = cc_ClientID cfg"
  by (auto simp: GetClient_def split: option.splits)

definition registry_ok :: "urls \<Rightarrow> ClientRegistry \<Rightarrow> bool" where
  "registry_ok us r \<longleftrightarrow> (\<forall>i c. cr_clients r i = Some c \<longrightarrow> cc_ClientID c = i \<and> validateClientConfig us c = None)"

lemma register_one:
  assumes "registry_ok us r" "validateClientConfig us c = None"
  shows "registry_ok us (r\<lparr>cr_clients := (cr_clients r)(cc_ClientID c \<mapsto> c)\<rparr>)"
  using assms unfolding registry_ok_def by (simp del: not_None_eq)

lemma register_loop_ok: "register_loop us r i cs = Inr r' \<Longrightarrow> registry_ok us r \<Longrightarrow>
   registry_ok us r' \<and> cr_resource r' = cr_resource r"
proof (induction cs arbitrary: r i)
  case (Cons c cs)
  let ?r = "r\<lparr>cr_clients := (cr_clients r)(cc_ClientID c \<mapsto> c)\<rparr>"
  have v: "validateClientConfig us c = None"
    using Cons.prems(1) by (cases "validateClientConfig us c") simp_all
  then have "register_loop us ?r (i + 1) cs = Inr r'"
    using Cons.prems(1) by (cases "cr_clients r (cc_ClientID c)") simp_all
  from Cons.IH [OF this register_one [OF Cons.prems(2) v]] show ?case by simp
qed simp

lemma ParseClientRegistry_ok:
  assumes "ParseClientRegistry us decode data resource = Inr r"
  shows "registry_ok us r" "cr_resource r = resource" "validateResource us resource = None"
proof -
  obtain cs where r: "register_loop us \<lparr>cr_resource = resource, cr_clients = Map.empty\<rparr> 0 cs = Inr r"
    and v: "validateResource us resource = None"
    using assms by (auto simp: ParseClientRegistry_def split: option.splits sum.splits if_splits)
  have "registry_ok us \<lparr>cr_resource = resource, cr_clients = Map.empty\<rparr>" by (simp add: registry_ok_def)
  from register_loop_ok [OF r this] v show "registry_ok us r" "cr_resource r = resource"
    "validateResource us resource = None" by simp_all
qed

end
