(* ===== verification/OAuth_Codec.thy ===== *)
theory OAuth_Codec
  imports OAuth_Clients
begin

text \<open>
  \<open>pkg/oauthserver/codec.go\<close> and \<open>session.go\<close>: the bounded snapshot of a protocol request and
  its validation on the way into and out of the database. The types of \<open>github.com/ory/fosite\<close>
  appear as the fields the code sets and the values its getters return; the getters of its
  session, and \<open>encoding/json\<close> on a snapshot, are arguments (\<open>codec_env\<close>).

  A Go map is an association list, nil being \<open>None\<close>; a loop over it takes the order of the list.
\<close>

datatype TokenType = AuthorizeCode | AccessToken | RefreshToken | OtherToken string

type_synonym expirations = "(TokenType \<times> gotime) slice"
type_synonym form = "(string \<times> string list) slice"

record DefaultSession =
  ds_ExpiresAt :: expirations
  ds_Username :: string
  ds_Subject :: string
  ds_Extra :: "string list"     \<comment> \<open>the keys of the extra claims\<close>

record Session =
  sn_DefaultSession :: "DefaultSession option"
  sn_AccountID :: int
  sn_AccountEpoch :: int
  sn_Resource :: string

text \<open>
  A \<open>fosite.Requester\<close>: what its getters return. \<open>rq_Session\<close> is the session when it is a
  non-nil \<open>*Session\<close>, \<open>None\<close> otherwise.
\<close>

record Requester =
  rq_ID :: string
  rq_RequestedAt :: gotime
  rq_Client :: "DefaultClient option"
  rq_RequestedScopes :: "string list"
  rq_GrantedScopes :: "string list"
  rq_RequestedAudience :: "string list"
  rq_GrantedAudience :: "string list"
  rq_Form :: form
  rq_Session :: "Session option"

record StoredSession =
  ss_ExpiresAt :: expirations
  ss_Subject :: string
  ss_AccountID :: int
  ss_AccountEpoch :: int
  ss_Resource :: string

record StoredRequest =
  sr_Version :: int
  sr_ID :: string
  sr_RequestedAt :: gotime
  sr_ClientID :: string
  sr_RequestedScopes :: "string list"
  sr_GrantedScopes :: "string list"
  sr_RequestedAudience :: "string list"
  sr_GrantedAudience :: "string list"
  sr_Form :: form
  sr_Session :: StoredSession

text \<open>\<open>fo_GetExpiresAt\<close> and its like: the promoted methods of \<open>*fosite.DefaultSession\<close>.\<close>

record codec_env =
  fo_GetUsername :: "DefaultSession \<Rightarrow> string"
  fo_GetSubject :: "DefaultSession \<Rightarrow> string"
  fo_GetExpiresAt :: "DefaultSession \<Rightarrow> TokenType \<Rightarrow> gotime"
  js_Marshal :: "StoredRequest \<Rightarrow> gerr + string"
  js_Unmarshal :: "string \<Rightarrow> gerr + StoredRequest"

section \<open>Sessions\<close>

definition format_id :: "int \<Rightarrow> string" where
  "format_id i = map char_of_byte (FormatInt i)"

definition NewSession :: "int \<Rightarrow> int \<Rightarrow> string \<Rightarrow> Session" where
  "NewSession accountID epoch resource =
    \<lparr>sn_DefaultSession = Some \<lparr>ds_ExpiresAt = Some [], ds_Username = [], ds_Subject = format_id accountID,
       ds_Extra = []\<rparr>, sn_AccountID = accountID, sn_AccountEpoch = epoch, sn_Resource = resource\<rparr>"

section \<open>Validation\<close>

definition storedFormKeys :: "string list" where
  "storedFormKeys = [''grant_type'', ''response_type'', ''scope'', ''client_id'', ''redirect_uri'',
     ''resource'', ''code_challenge'', ''code_challenge_method'']"

text \<open>\<open>url.Values.Get\<close>.\<close>

definition form_get :: "form \<Rightarrow> string \<Rightarrow> string" where
  "form_get f k = (case map_of (elems f) k of Some (v # _) \<Rightarrow> v | _ \<Rightarrow> [])"

definition validateStoredSession :: "StoredSession \<Rightarrow> string \<Rightarrow> check" where
  "validateStoredSession s resource = firsterr
    [fails (ss_AccountID s \<le> 0) (Errorf ''session account ID must be positive'' []),
     fails (ss_AccountEpoch s < 1) (Errorf ''session account epoch must be positive'' []),
     fails (ss_Subject s \<noteq> format_id (ss_AccountID s)) (Errorf ''session subject does not match account ID'' []),
     fails (ss_Resource s \<noteq> resource) (Errorf ''session resource does not match configured resource'' []),
     fails (ss_ExpiresAt s = None) (Errorf ''session expiration map must not be nil'' []),
     each (\<lambda>(tokenType, expiresAt). firsterr
       [(case tokenType of OtherToken t \<Rightarrow> Some (Errorf ''session token type %q is unsupported'' [FStr t])
         | _ \<Rightarrow> None),
        fails (IsZero expiresAt) (Errorf ''session expiration for %q must not be zero'' [])])
       (elems (ss_ExpiresAt s))]"

definition form_entry :: "string \<times> string list \<Rightarrow> check" where
  "form_entry = (\<lambda>(key, vs). firsterr
     [fails (key \<notin> set storedFormKeys) (Errorf ''request form field %q is not allowed'' [FStr key]),
      fails (length vs \<noteq> 1) (Errorf ''request form field %q must have exactly one value'' [FStr key]),
      fails (vs \<noteq> [] \<and> hd vs = []) (Errorf ''request form field %q must not be empty'' [FStr key])])"

definition validateStoredForm :: "form \<Rightarrow> StoredRequest \<Rightarrow> DefaultClient \<Rightarrow> check" where
  "validateStoredForm f s client = firsterr
    [fails (f = None) (Errorf ''request form must not be nil'' []),
     each form_entry (elems f),
     fails (form_get f ''client_id'' \<noteq> [] \<and> form_get f ''client_id'' \<noteq> sr_ClientID s)
       (Errorf ''request form client_id does not match client ID'' []),
     fails (form_get f ''scope'' \<noteq> [] \<and> form_get f ''scope'' \<noteq> join CHR '' '' (sr_RequestedScopes s))
       (Errorf ''request form scope does not match requested scopes'' []),
     fails (form_get f ''resource'' \<noteq> [] \<and> form_get f ''resource'' \<noteq> ss_Resource (sr_Session s))
       (Errorf ''request form resource does not match session resource'' []),
     fails (form_get f ''redirect_uri'' \<noteq> [] \<and> form_get f ''redirect_uri'' \<notin> set (fc_RedirectURIs client))
       (Errorf ''request form redirect_uri is not currently registered'' []),
     fails (form_get f ''grant_type'' \<noteq> [] \<and> form_get f ''grant_type'' \<noteq> ''authorization_code''
         \<and> form_get f ''grant_type'' \<noteq> ''refresh_token'')
       (Errorf ''request form grant_type is unsupported'' []),
     fails (form_get f ''response_type'' \<noteq> [] \<and> form_get f ''response_type'' \<noteq> ''code'')
       (Errorf ''request form response_type is unsupported'' []),
     fails (form_get f ''code_challenge'' \<noteq> [] \<and> form_get f ''code_challenge_method'' \<noteq> ''S256'')
       (Errorf ''request form code challenge method must be S256'' []),
     fails (form_get f ''code_challenge'' = [] \<and> form_get f ''code_challenge_method'' \<noteq> [])
       (Errorf ''request form code challenge is missing'' [])]"

definition validateStored :: "ClientRegistry \<Rightarrow> StoredRequest \<Rightarrow> check" where
  "validateStored clients s = firsterr
    [fails (sr_Version s \<noteq> 1) (Errorf ''stored request version %d is unsupported'' [FInt (sr_Version s)]),
     fails (TrimSpace (sr_ID s) = []) (Errorf ''request ID must not be empty'' []),
     fails (IsZero (sr_RequestedAt s)) (Errorf ''requested time must not be zero'' []),
     fails (TrimSpace (sr_ClientID s) = []) (Errorf ''client ID must not be empty'' []),
     (case GetClient clients (sr_ClientID s) of
        Inl e \<Rightarrow> Some (Wrapf ''load current client: %w'' [] [e])
      | Inr client \<Rightarrow> firsterr
         [fails (\<not> exactStringSet (sr_RequestedScopes s) [''mcp:read''])
            (Errorf ''requested scopes must contain mcp:read exactly once'' []),
          fails (sr_GrantedScopes s \<noteq> [] \<and> \<not> exactStringSet (sr_GrantedScopes s) [''mcp:read''])
            (Errorf ''granted scopes must be empty or contain mcp:read exactly once'' []),
          fails (\<not> exactStringSet (sr_RequestedAudience s) [cr_resource clients])
            (Errorf ''requested audience must equal the configured resource'' []),
          fails (sr_GrantedAudience s \<noteq> [] \<and> \<not> exactStringSet (sr_GrantedAudience s) [cr_resource clients])
            (Errorf ''granted audience must be empty or equal the configured resource'' []),
          validateStoredSession (sr_Session s) (cr_resource clients),
          validateStoredForm (sr_Form s) s client])]"

section \<open>Encoding\<close>

definition cloneExpirationMap :: "expirations \<Rightarrow> expirations" where
  "cloneExpirationMap e = Some (elems e)"

definition cloneForm :: "form \<Rightarrow> form" where
  "cloneForm f = Some (elems f)"

definition filterStoredForm :: "form \<Rightarrow> form" where
  "filterStoredForm f = Some (filter (\<lambda>(k, vs). k \<in> set storedFormKeys) (elems f))"

definition stored_of :: "codec_env \<Rightarrow> Requester \<Rightarrow> DefaultClient \<Rightarrow> Session \<Rightarrow> DefaultSession \<Rightarrow> StoredRequest" where
  "stored_of env rq client session ds =
    \<lparr>sr_Version = 1, sr_ID = rq_ID rq, sr_RequestedAt = rq_RequestedAt rq, sr_ClientID = fc_ID client,
     sr_RequestedScopes = rq_RequestedScopes rq, sr_GrantedScopes = rq_GrantedScopes rq,
     sr_RequestedAudience = rq_RequestedAudience rq, sr_GrantedAudience = rq_GrantedAudience rq,
     sr_Form = filterStoredForm (rq_Form rq),
     sr_Session = \<lparr>ss_ExpiresAt = cloneExpirationMap (ds_ExpiresAt ds), ss_Subject = fo_GetSubject env ds,
       ss_AccountID = sn_AccountID session, ss_AccountEpoch = sn_AccountEpoch session,
       ss_Resource = sn_Resource session\<rparr>\<rparr>"

definition codec_Encode :: "codec_env \<Rightarrow> ClientRegistry \<Rightarrow> Requester option \<Rightarrow> gerr + string" where
  "codec_Encode env clients request = (case request of
     None \<Rightarrow> Inl (Errorf ''encode OAuth request: request is nil'' [])
   | Some rq \<Rightarrow> (case rq_Client rq of
     None \<Rightarrow> Inl (Errorf ''encode OAuth request: client is nil'' [])
   | Some client \<Rightarrow> (case GetClient clients (fc_ID client) of
     Inl e \<Rightarrow> Inl (Wrapf ''encode OAuth request: load current client: %w'' [] [e])
   | Inr _ \<Rightarrow> (case rq_Session rq of
     None \<Rightarrow> Inl (Errorf ''encode OAuth request: session type %T is unsupported'' [])
   | Some session \<Rightarrow> (case sn_DefaultSession session of
     None \<Rightarrow> Inl (Errorf ''encode OAuth request: default session is nil'' [])
   | Some ds \<Rightarrow>
     if fo_GetUsername env ds \<noteq> []
     then Inl (Errorf ''encode OAuth request: session username must be empty'' [])
     else if ds_Extra ds \<noteq> []
     then Inl (Errorf ''encode OAuth request: session extra claims must be empty'' [])
     else let s = stored_of env rq client session ds in
     (case validateStored clients s of
       Some e \<Rightarrow> Inl (Wrapf ''encode OAuth request: %w'' [] [e])
     | None \<Rightarrow> map_sum (\<lambda>e. Wrapf ''encode OAuth request: %w'' [] [e]) id (js_Marshal env s)))))))"

section \<open>Decoding\<close>

definition preserveDerivedExpiration :: "expirations \<Rightarrow> expirations \<Rightarrow> TokenType \<Rightarrow> expirations" where
  "preserveDerivedExpiration destination target tokenType =
    (if map_of (elems destination) tokenType \<noteq> None then destination
     else case map_of (elems target) tokenType of
       None \<Rightarrow> destination
     | Some e \<Rightarrow> if IsZero e then destination else Some (elems destination @ [(tokenType, e)]))"

text \<open>
  \<open>target\<close> is nil (\<open>None\<close>), or a session that is a non-nil \<open>*Session\<close> (\<open>Some (Some s)\<close>) or not
  (\<open>Some None\<close>). The code fills the target in place; the model returns the filled session.
\<close>

definition hydrateSession :: "Session option option \<Rightarrow> StoredSession \<Rightarrow> gerr + Session" where
  "hydrateSession target s =
    (let fill = (\<lambda>e. \<lparr>sn_DefaultSession = Some \<lparr>ds_ExpiresAt = e, ds_Username = [], ds_Subject = ss_Subject s,
            ds_Extra = []\<rparr>,
          sn_AccountID = ss_AccountID s, sn_AccountEpoch = ss_AccountEpoch s, sn_Resource = ss_Resource s\<rparr>);
         expiresAt = cloneExpirationMap (ss_ExpiresAt s)
     in case target of
       None \<Rightarrow> Inr (fill expiresAt)
     | Some None \<Rightarrow> Inl (Errorf ''session type %T is unsupported'' [])
     | Some (Some t) \<Rightarrow> (case sn_DefaultSession t of
         None \<Rightarrow> Inr (fill expiresAt)
       | Some ds \<Rightarrow> Inr (fill (preserveDerivedExpiration
           (preserveDerivedExpiration expiresAt (ds_ExpiresAt ds) AccessToken) (ds_ExpiresAt ds) RefreshToken))))"

definition codec_Decode :: "codec_env \<Rightarrow> ClientRegistry \<Rightarrow> string \<Rightarrow> Session option option \<Rightarrow> gerr + Requester" where
  "codec_Decode env clients payload target = (case js_Unmarshal env payload of
     Inl e \<Rightarrow> Inl (Wrapf ''decode OAuth request: %w'' [] [e])
   | Inr s \<Rightarrow> (case validateStored clients s of
     Some e \<Rightarrow> Inl (Wrapf ''decode OAuth request: %w'' [] [e])
   | None \<Rightarrow> (case GetClient clients (sr_ClientID s) of
     Inl e \<Rightarrow> Inl (Wrapf ''decode OAuth request: load current client: %w'' [] [e])
   | Inr client \<Rightarrow> (case hydrateSession target (sr_Session s) of
     Inl e \<Rightarrow> Inl (Wrapf ''decode OAuth request: %w'' [] [e])
   | Inr session \<Rightarrow> Inr \<lparr>rq_ID = sr_ID s, rq_RequestedAt = sr_RequestedAt s, rq_Client = Some client,
       rq_RequestedScopes = sr_RequestedScopes s, rq_GrantedScopes = sr_GrantedScopes s,
       rq_RequestedAudience = sr_RequestedAudience s, rq_GrantedAudience = sr_GrantedAudience s,
       rq_Form = cloneForm (sr_Form s), rq_Session = Some session\<rparr>))))"

end
