(* ===== verification/Auth_Tables.thy ===== *)
theory Auth_Tables
  imports Go_Prelude "HOL-Library.State_Monad"
begin

text \<open>
  The authentication database: the tables of \<open>deploy/authmigrations\<close>, their constraints, and
  the statements of \<open>sql/auth/queries\<close> as \<open>pkg/store/auth\<close> sends them. A statement is a
  function on the tables that returns rows or fails; failing it changes nothing.

  A \<open>timestamptz\<close> keeps microseconds. The identity columns draw fresh numbers from a sequence;
  the model keeps one sequence for all tables, the numbers being compared within a table only.
  What PostgreSQL makes of a JSON payload (\<open>jsonb\<close>), and its clock, are arguments.
\<close>

section \<open>Rows\<close>

definition pg_time :: "gotime \<Rightarrow> gotime" where
  "pg_time t = \<lparr>instant = instant t - instant t mod 1000, repr = 0\<rparr>"

definition greatest :: "gotime \<Rightarrow> gotime \<Rightarrow> gotime" where
  "greatest a b = (if Before a b then b else a)"

record AuthUserAccount =
  ua_ID :: int
  ua_Issuer :: string
  ua_Subject :: string
  ua_Email :: string
  ua_DisplayName :: string
  ua_Status :: string
  ua_AuthorizationEpoch :: int
  ua_FirstSeenAt :: gotime
  ua_LastLoginAt :: gotime

record AuthLoginTransaction =
  lt_ID :: int
  lt_StateHash :: string
  lt_BrowserHash :: string
  lt_NonceHash :: string
  lt_PkceVerifierCiphertext :: string
  lt_ReturnPath :: string
  lt_PendingConsentHash :: "string option"
  lt_CreatedAt :: gotime
  lt_ExpiresAt :: gotime
  lt_ConsumedAt :: "gotime option"

record AuthWebSession =
  ws_ID :: int
  ws_SessionHash :: string
  ws_AccountID :: int
  ws_AccountEpoch :: int
  ws_IssuedAt :: gotime
  ws_ExpiresAt :: gotime
  ws_RevokedAt :: "gotime option"

record AuthPendingConsent =
  pc_ID :: int
  pc_HandleHash :: string
  pc_RequestCiphertext :: string
  pc_CreatedAt :: gotime
  pc_ExpiresAt :: gotime
  pc_BoundWebSessionID :: "int option"
  pc_BoundAt :: "gotime option"
  pc_ConsumedAt :: "gotime option"

record AuthOauthGrant =
  og_ID :: int
  og_RequestID :: string
  og_AccountID :: int
  og_AccountEpoch :: int
  og_ClientID :: string
  og_Resource :: string
  og_CreatedAt :: gotime
  og_RevokedAt :: "gotime option"
  og_RevocationReason :: "string option"
  og_RetainUntil :: gotime

record AuthOauthSession =
  os_ID :: int
  os_GrantID :: int
  os_Kind :: string
  os_Signature :: string
  os_AccessTokenID :: "int option"
  os_CreatedAt :: gotime
  os_ExpiresAt :: gotime
  os_ConsumedAt :: "gotime option"
  os_RevokedAt :: "gotime option"
  os_RequestPayload :: string

record AuthOauthSecurityEvent =
  sv_GrantID :: int
  sv_AccountID :: int
  sv_RequestID :: string
  sv_EventKind :: string
  sv_OccurredAt :: gotime

record auth_db =
  db_accounts :: "AuthUserAccount list"
  db_logins :: "AuthLoginTransaction list"
  db_websessions :: "AuthWebSession list"
  db_consents :: "AuthPendingConsent list"
  db_grants :: "AuthOauthGrant list"
  db_sessions :: "AuthOauthSession list"
  db_events :: "AuthOauthSecurityEvent list"
  db_sequence :: int

definition empty_db :: auth_db where
  "empty_db = \<lparr>db_accounts = [], db_logins = [], db_websessions = [], db_consents = [],
     db_grants = [], db_sessions = [], db_events = [], db_sequence = 1\<rparr>"

section \<open>Statements\<close>

abbreviation (input) "ErrNoRows \<equiv> Sentinel ''pgx.ErrNoRows''"

definition violates :: "string \<Rightarrow> gerr" where
  "violates c = Errorf ''new row violates constraint %q'' [FStr c]"

type_synonym 'a stmt = "auth_db \<Rightarrow> gerr + 'a \<times> auth_db"

text \<open>\<open>SELECT ... WHERE P\<close> with \<open>:one\<close>: the first row.\<close>

definition first_row :: "('r \<Rightarrow> bool) \<Rightarrow> 'r list \<Rightarrow> gerr + 'r" where
  "first_row P rows = (case find P rows of None \<Rightarrow> Inl ErrNoRows | Some r \<Rightarrow> Inr r)"

definition select_one :: "(auth_db \<Rightarrow> 'r list) \<Rightarrow> ('r \<Rightarrow> bool) \<Rightarrow> 'r stmt" where
  "select_one table P d = map_sum id (\<lambda>r. (r, d)) (first_row P (table d))"

text \<open>\<open>UPDATE ... SET f WHERE P\<close> with the number of rows.\<close>

definition update_where :: "('r \<Rightarrow> bool) \<Rightarrow> ('r \<Rightarrow> 'r) \<Rightarrow> 'r list \<Rightarrow> 'r list" where
  "update_where P f = map (\<lambda>r. if P r then f r else r)"

definition count_where :: "('r \<Rightarrow> bool) \<Rightarrow> 'r list \<Rightarrow> int" where
  "count_where P rows = int (length (filter P rows))"

definition btrim :: "string \<Rightarrow> string" where
  "btrim s = rev (dropWhile ((=) CHR '' '') (rev (dropWhile ((=) CHR '' '') s)))"

text \<open>The first violated constraint of a row to insert, \<open>(name, holds)\<close> each.\<close>

definition checked :: "(string \<times> bool) list \<Rightarrow> 'a \<Rightarrow> gerr + 'a" where
  "checked cs x = (case firsterr (map (\<lambda>(n, ok). fails (\<not> ok) (violates n)) cs) of
     Some e \<Rightarrow> Inl e | None \<Rightarrow> Inr x)"

section \<open>oauth.sql\<close>

definition LockOAuthAccount :: "int \<Rightarrow> AuthUserAccount stmt" where
  "LockOAuthAccount account = select_one db_accounts (\<lambda>a. ua_ID a = account)"

definition FindOAuthCredentialOwner :: "string \<Rightarrow> string \<Rightarrow> (int \<times> int) stmt" where
  "FindOAuthCredentialOwner kind signature d =
    map_sum id (\<lambda>(s, g). ((og_ID g, og_AccountID g), d))
      (first_row (\<lambda>(s, g). og_ID g = os_GrantID s \<and> os_Kind s = kind \<and> os_Signature s = signature)
        (List.product (db_sessions d) (db_grants d)))"

definition LockOAuthGrant :: "int \<Rightarrow> AuthOauthGrant stmt" where
  "LockOAuthGrant grantID = select_one db_grants (\<lambda>g. og_ID g = grantID)"

definition LockOAuthGrantByRequestID :: "string \<Rightarrow> AuthOauthGrant stmt" where
  "LockOAuthGrantByRequestID requestID = select_one db_grants (\<lambda>g. og_RequestID g = requestID)"

definition FindOAuthGrantOwner :: "string \<Rightarrow> (int \<times> int) stmt" where
  "FindOAuthGrantOwner requestID d =
    map_sum id (\<lambda>g. ((og_ID g, og_AccountID g), d)) (first_row (\<lambda>g. og_RequestID g = requestID) (db_grants d))"

definition LockOAuthCredential :: "string \<Rightarrow> string \<Rightarrow> AuthOauthSession stmt" where
  "LockOAuthCredential kind signature =
    select_one db_sessions (\<lambda>s. os_Kind s = kind \<and> os_Signature s = signature)"

definition CreateOAuthGrant :: "string \<Rightarrow> int \<Rightarrow> int \<Rightarrow> string \<Rightarrow> string \<Rightarrow> gotime \<Rightarrow> gotime
    \<Rightarrow> AuthOauthGrant stmt" where
  "CreateOAuthGrant requestID account epoch client resource createdAt retainUntil d =
    (let g = \<lparr>og_ID = db_sequence d, og_RequestID = requestID, og_AccountID = account,
         og_AccountEpoch = epoch, og_ClientID = client, og_Resource = resource,
         og_CreatedAt = pg_time createdAt, og_RevokedAt = None, og_RevocationReason = None,
         og_RetainUntil = pg_time retainUntil\<rparr>
     in checked
       [(''chk_auth_oauth_grant_values'', btrim requestID \<noteq> [] \<and> btrim client \<noteq> [] \<and> btrim resource \<noteq> []),
        (''chk_auth_oauth_grant_epoch'', epoch \<ge> 1),
        (''chk_auth_oauth_grant_retention'', \<not> Before (og_RetainUntil g) (og_CreatedAt g)),
        (''uq_auth_oauth_grant_request'', \<not> list_ex (\<lambda>r. og_RequestID r = requestID) (db_grants d)),
        (''oauth_grant_account_id_fkey'', list_ex (\<lambda>a. ua_ID a = account) (db_accounts d))]
       (g, d\<lparr>db_grants := db_grants d @ [g], db_sequence := db_sequence d + 1\<rparr>))"

definition session_kinds :: "string list" where
  "session_kinds = [''authorize_code'', ''pkce'', ''access_token'', ''refresh_token'']"

text \<open>
  What the two session inserts share: the row with its constraints. The payload is the text of
  the \<open>jsonb\<close> value, which the database refuses when it is not a JSON object.
\<close>

definition insert_session :: "(string \<Rightarrow> string option) \<Rightarrow> int \<Rightarrow> string \<Rightarrow> string \<Rightarrow> int option \<Rightarrow> gotime
    \<Rightarrow> gotime \<Rightarrow> string \<Rightarrow> int stmt" where
  "insert_session jsonb grantID kind signature access createdAt expiresAt payload d =
    (case jsonb payload of None \<Rightarrow> Inl (violates ''chk_auth_oauth_session_payload'') | Some p \<Rightarrow>
     let s = \<lparr>os_ID = db_sequence d, os_GrantID = grantID, os_Kind = kind, os_Signature = signature,
         os_AccessTokenID = access, os_CreatedAt = pg_time createdAt, os_ExpiresAt = pg_time expiresAt,
         os_ConsumedAt = None, os_RevokedAt = None, os_RequestPayload = p\<rparr>
     in checked
       [(''chk_auth_oauth_session_kind'', kind \<in> set session_kinds),
        (''chk_auth_oauth_session_signature'', btrim signature \<noteq> []),
        (''chk_auth_oauth_session_access_token'', (kind = ''refresh_token'') = (access \<noteq> None)),
        (''chk_auth_oauth_session_expiry'', After (os_ExpiresAt s) (os_CreatedAt s)),
        (''uq_auth_oauth_session_signature'',
           \<not> list_ex (\<lambda>r. os_Kind r = kind \<and> os_Signature r = signature) (db_sessions d)),
        (''oauth_session_grant_id_fkey'', list_ex (\<lambda>g. og_ID g = grantID) (db_grants d)),
        (''oauth_session_access_token_id_fkey'',
           (case access of None \<Rightarrow> True | Some i \<Rightarrow> list_ex (\<lambda>r. os_ID r = i) (db_sessions d)))]
       (os_ID s, d\<lparr>db_sessions := db_sessions d @ [s], db_sequence := db_sequence d + 1\<rparr>))"

definition CreateOAuthSession :: "(string \<Rightarrow> string option) \<Rightarrow> int \<Rightarrow> string \<Rightarrow> string \<Rightarrow> gotime \<Rightarrow> gotime
    \<Rightarrow> string \<Rightarrow> int stmt" where
  "CreateOAuthSession jsonb grantID kind signature createdAt expiresAt payload =
    insert_session jsonb grantID kind signature None createdAt expiresAt payload"

definition CreateOAuthRefreshSession :: "(string \<Rightarrow> string option) \<Rightarrow> int \<Rightarrow> string \<Rightarrow> int option \<Rightarrow> gotime
    \<Rightarrow> gotime \<Rightarrow> string \<Rightarrow> int stmt" where
  "CreateOAuthRefreshSession jsonb grantID signature access createdAt expiresAt payload =
    insert_session jsonb grantID ''refresh_token'' signature access createdAt expiresAt payload"

definition ExtendOAuthGrantRetention :: "int \<Rightarrow> gotime \<Rightarrow> unit stmt" where
  "ExtendOAuthGrantRetention grantID retainUntil d = Inr ((), d\<lparr>db_grants :=
     update_where (\<lambda>g. og_ID g = grantID)
       (\<lambda>g. g\<lparr>og_RetainUntil := greatest (og_RetainUntil g) (pg_time retainUntil)\<rparr>) (db_grants d)\<rparr>)"

definition unspent :: "string \<Rightarrow> string \<Rightarrow> AuthOauthSession \<Rightarrow> bool" where
  "unspent kind signature s \<longleftrightarrow> os_Kind s = kind \<and> os_Signature s = signature
     \<and> os_ConsumedAt s = None \<and> os_RevokedAt s = None"

definition ConsumeOAuthSession :: "gotime \<Rightarrow> string \<Rightarrow> string \<Rightarrow> int stmt" where
  "ConsumeOAuthSession t kind signature d =
    Inr (count_where (unspent kind signature) (db_sessions d), d\<lparr>db_sessions :=
      update_where (unspent kind signature)
        (\<lambda>s. s\<lparr>os_ConsumedAt := Some (greatest (pg_time t) (os_CreatedAt s))\<rparr>) (db_sessions d)\<rparr>)"

definition revoke_session :: "gotime \<Rightarrow> AuthOauthSession \<Rightarrow> AuthOauthSession" where
  "revoke_session t s = s\<lparr>os_RevokedAt := (case os_RevokedAt s of Some r \<Rightarrow> Some r
     | None \<Rightarrow> Some (greatest (pg_time t) (os_CreatedAt s)))\<rparr>"

definition revoke_sessions :: "gotime \<Rightarrow> (AuthOauthSession \<Rightarrow> bool) \<Rightarrow> int stmt" where
  "revoke_sessions t P d = Inr (count_where P (db_sessions d),
     d\<lparr>db_sessions := update_where P (revoke_session t) (db_sessions d)\<rparr>)"

definition RevokeOAuthSession :: "gotime \<Rightarrow> string \<Rightarrow> string \<Rightarrow> int stmt" where
  "RevokeOAuthSession t kind signature =
    revoke_sessions t (\<lambda>s. os_Kind s = kind \<and> os_Signature s = signature)"

definition RevokeOAuthAccessTokensForGrant :: "gotime \<Rightarrow> int \<Rightarrow> int stmt" where
  "RevokeOAuthAccessTokensForGrant t grantID =
    revoke_sessions t (\<lambda>s. os_GrantID s = grantID \<and> os_Kind s = ''access_token'')"

definition RevokeOAuthGrantFamily :: "int \<Rightarrow> gotime \<Rightarrow> string \<Rightarrow> int stmt" where
  "RevokeOAuthGrantFamily grantID t reason d =
    revoke_sessions t (\<lambda>s. os_GrantID s = grantID \<and> list_ex (\<lambda>g. og_ID g = grantID) (db_grants d))
      (d\<lparr>db_grants := update_where (\<lambda>g. og_ID g = grantID)
         (\<lambda>g. g\<lparr>og_RevokedAt := (case og_RevokedAt g of Some r \<Rightarrow> Some r
                  | None \<Rightarrow> Some (greatest (pg_time t) (og_CreatedAt g))),
               og_RevocationReason := (case og_RevocationReason g of Some r \<Rightarrow> Some r | None \<Rightarrow> Some reason)\<rparr>)
         (db_grants d)\<rparr>)"

text \<open>\<open>auth.record_oauth_security_event\<close>, with the database's clock.\<close>

definition RecordOAuthSecurityEvent :: "gotime \<Rightarrow> int \<Rightarrow> string \<Rightarrow> unit stmt" where
  "RecordOAuthSecurityEvent clock grantID eventKind d =
    (if eventKind \<notin> {''code_replay'', ''refresh_replay''}
     then Inl (Errorf ''unknown OAuth security event kind'' [])
     else case find (\<lambda>g. og_ID g = grantID) (db_grants d) of
       None \<Rightarrow> Inl (Errorf ''grant not found'' [])
     | Some g \<Rightarrow> if og_RevokedAt g = None then Inl (Errorf ''grant must be revoked before audit'' [])
         else checked [(''chk_auth_oauth_security_event_request'', btrim (og_RequestID g) \<noteq> [])]
           ((), d\<lparr>db_events := db_events d @ [\<lparr>sv_GrantID = grantID, sv_AccountID = og_AccountID g,
              sv_RequestID = og_RequestID g, sv_EventKind = eventKind, sv_OccurredAt = pg_time clock\<rparr>]\<rparr>))"

text \<open>Pending consents.\<close>

definition CreatePendingConsentRow :: "gotime \<Rightarrow> string \<Rightarrow> string \<Rightarrow> gotime \<Rightarrow> unit stmt" where
  "CreatePendingConsentRow clock handleHash ciphertext expiresAt d =
    (let c = \<lparr>pc_ID = db_sequence d, pc_HandleHash = handleHash, pc_RequestCiphertext = ciphertext,
         pc_CreatedAt = pg_time clock, pc_ExpiresAt = pg_time expiresAt, pc_BoundWebSessionID = None,
         pc_BoundAt = None, pc_ConsumedAt = None\<rparr>
     in checked
       [(''chk_auth_pending_consent_values'', handleHash \<noteq> [] \<and> ciphertext \<noteq> []),
        (''chk_auth_pending_consent_expiry'', After (pc_ExpiresAt c) (pc_CreatedAt c)),
        (''uq_auth_pending_consent_handle'', \<not> list_ex (\<lambda>r. pc_HandleHash r = handleHash) (db_consents d))]
       ((), d\<lparr>db_consents := db_consents d @ [c], db_sequence := db_sequence d + 1\<rparr>))"

definition FindPendingConsentSessionOwner :: "string \<Rightarrow> string \<Rightarrow> (int \<times> int \<times> int) stmt" where
  "FindPendingConsentSessionOwner handleHash sessionHash d =
    map_sum id (\<lambda>(p, w). ((pc_ID p, ws_ID w, ws_AccountID w), d))
      (first_row (\<lambda>(p, w). ws_SessionHash w = sessionHash \<and> pc_HandleHash p = handleHash)
        (List.product (db_consents d) (db_websessions d)))"

definition LockWebSessionForConsent :: "int \<Rightarrow> AuthWebSession stmt" where
  "LockWebSessionForConsent webSessionID = select_one db_websessions (\<lambda>w. ws_ID w = webSessionID)"

definition LockPendingConsent :: "int \<Rightarrow> AuthPendingConsent stmt" where
  "LockPendingConsent consentID = select_one db_consents (\<lambda>c. pc_ID c = consentID)"

definition unbound :: "int \<Rightarrow> AuthPendingConsent \<Rightarrow> bool" where
  "unbound consentID c \<longleftrightarrow> pc_ID c = consentID \<and> pc_BoundWebSessionID c = None \<and> pc_ConsumedAt c = None"

definition BindPendingConsentRow :: "int \<Rightarrow> gotime \<Rightarrow> int \<Rightarrow> int stmt" where
  "BindPendingConsentRow webSessionID t consentID d =
    checked [(''pending_consent_bound_web_session_id_fkey'',
        \<not> list_ex (unbound consentID) (db_consents d) \<or> list_ex (\<lambda>w. ws_ID w = webSessionID) (db_websessions d))]
      (count_where (unbound consentID) (db_consents d), d\<lparr>db_consents := update_where (unbound consentID)
        (\<lambda>c. c\<lparr>pc_BoundWebSessionID := Some webSessionID,
               pc_BoundAt := Some (greatest (pg_time t) (pc_CreatedAt c))\<rparr>) (db_consents d)\<rparr>)"

definition unconsumed :: "int \<Rightarrow> int \<Rightarrow> AuthPendingConsent \<Rightarrow> bool" where
  "unconsumed consentID webSessionID c \<longleftrightarrow> pc_ID c = consentID
     \<and> pc_BoundWebSessionID c = Some webSessionID \<and> pc_ConsumedAt c = None"

definition ConsumePendingConsentRow :: "gotime \<Rightarrow> int \<Rightarrow> int \<Rightarrow> int stmt" where
  "ConsumePendingConsentRow t consentID webSessionID d =
    Inr (count_where (unconsumed consentID webSessionID) (db_consents d),
      d\<lparr>db_consents := update_where (unconsumed consentID webSessionID)
        (\<lambda>c. c\<lparr>pc_ConsumedAt := Some (greatest (pg_time t) (pc_CreatedAt c))\<rparr>) (db_consents d)\<rparr>)"

section \<open>identity.sql\<close>

definition CreateLogin :: "gotime \<Rightarrow> string \<Rightarrow> string \<Rightarrow> string \<Rightarrow> string \<Rightarrow> string \<Rightarrow> string option
    \<Rightarrow> gotime \<Rightarrow> unit stmt" where
  "CreateLogin clock stateHash browserHash nonceHash pkce returnPath pending expiresAt d =
    (let l = \<lparr>lt_ID = db_sequence d, lt_StateHash = stateHash, lt_BrowserHash = browserHash,
         lt_NonceHash = nonceHash, lt_PkceVerifierCiphertext = pkce, lt_ReturnPath = returnPath,
         lt_PendingConsentHash = pending, lt_CreatedAt = pg_time clock, lt_ExpiresAt = pg_time expiresAt,
         lt_ConsumedAt = None\<rparr>
     in checked
       [(''chk_auth_login_transaction_hashes'', stateHash \<noteq> [] \<and> browserHash \<noteq> [] \<and> nonceHash \<noteq> []),
        (''chk_auth_login_transaction_pkce'', pkce \<noteq> []),
        (''chk_auth_login_transaction_return'', returnPath \<noteq> [] \<and> hd returnPath = CHR ''/''
            \<and> take 2 returnPath \<noteq> ''//'' \<and> CHR 0x5C \<notin> set returnPath),
        (''chk_auth_login_transaction_pending'', pending \<noteq> Some []),
        (''chk_auth_login_transaction_expiry'', After (lt_ExpiresAt l) (lt_CreatedAt l)),
        (''uq_auth_login_transaction_state'', \<not> list_ex (\<lambda>r. lt_StateHash r = stateHash) (db_logins d))]
       ((), d\<lparr>db_logins := db_logins d @ [l], db_sequence := db_sequence d + 1\<rparr>))"

definition open_login :: "gotime \<Rightarrow> string \<Rightarrow> string \<Rightarrow> AuthLoginTransaction \<Rightarrow> bool" where
  "open_login t stateHash browserHash l \<longleftrightarrow> lt_StateHash l = stateHash \<and> lt_BrowserHash l = browserHash
     \<and> lt_ConsumedAt l = None \<and> After (lt_ExpiresAt l) (pg_time t)"

definition ConsumeLogin :: "gotime \<Rightarrow> string \<Rightarrow> string \<Rightarrow> AuthLoginTransaction stmt" where
  "ConsumeLogin t stateHash browserHash d =
    map_sum id (\<lambda>l. (l, d\<lparr>db_logins := update_where (open_login t stateHash browserHash)
        (\<lambda>l. l\<lparr>lt_ConsumedAt := Some (greatest (pg_time t) (lt_CreatedAt l))\<rparr>) (db_logins d)\<rparr>))
      (first_row (open_login t stateHash browserHash) (db_logins d))"

definition UpsertUserAccount :: "(string \<Rightarrow> string) \<Rightarrow> string \<Rightarrow> string \<Rightarrow> string \<Rightarrow> string \<Rightarrow> gotime
    \<Rightarrow> AuthUserAccount stmt" where
  "UpsertUserAccount lower issuer subject email name t d =
    (let same = (\<lambda>a. ua_Issuer a = issuer \<and> ua_Subject a = subject);
         update = (\<lambda>a. a\<lparr>ua_Email := email, ua_DisplayName := name,
            ua_LastLoginAt := greatest (ua_LastLoginAt a) (pg_time t)\<rparr>);
         new = \<lparr>ua_ID = db_sequence d, ua_Issuer = issuer, ua_Subject = subject, ua_Email = email,
            ua_DisplayName = name, ua_Status = ''active'', ua_AuthorizationEpoch = 1,
            ua_FirstSeenAt = pg_time t, ua_LastLoginAt = pg_time t\<rparr>
     in case checked
       [(''chk_auth_user_account_issuer'', btrim issuer \<noteq> []),
        (''chk_auth_user_account_subject'', btrim subject \<noteq> []),
        (''chk_auth_user_account_email'', email = lower (btrim email) \<and> email \<noteq> [])] () of
       Inl e \<Rightarrow> Inl e
     | Inr _ \<Rightarrow> (case find same (db_accounts d) of
         Some a \<Rightarrow> Inr (update a, d\<lparr>db_accounts := update_where same update (db_accounts d),
                     db_sequence := db_sequence d + 1\<rparr>)
       | None \<Rightarrow> Inr (new, d\<lparr>db_accounts := db_accounts d @ [new], db_sequence := db_sequence d + 1\<rparr>)))"

definition LockUserAccount :: "int \<Rightarrow> AuthUserAccount stmt" where
  "LockUserAccount account = select_one db_accounts (\<lambda>a. ua_ID a = account)"

definition CreateWebSession :: "string \<Rightarrow> int \<Rightarrow> int \<Rightarrow> gotime \<Rightarrow> gotime \<Rightarrow> unit stmt" where
  "CreateWebSession sessionHash account epoch issuedAt expiresAt d =
    (let w = \<lparr>ws_ID = db_sequence d, ws_SessionHash = sessionHash, ws_AccountID = account,
         ws_AccountEpoch = epoch, ws_IssuedAt = pg_time issuedAt, ws_ExpiresAt = pg_time expiresAt,
         ws_RevokedAt = None\<rparr>
     in checked
       [(''chk_auth_web_session_hash'', sessionHash \<noteq> []),
        (''chk_auth_web_session_epoch'', epoch \<ge> 1),
        (''chk_auth_web_session_expiry'', After (ws_ExpiresAt w) (ws_IssuedAt w)),
        (''uq_auth_web_session_hash'', \<not> list_ex (\<lambda>r. ws_SessionHash r = sessionHash) (db_websessions d)),
        (''web_session_account_id_fkey'', list_ex (\<lambda>a. ua_ID a = account) (db_accounts d))]
       ((), d\<lparr>db_websessions := db_websessions d @ [w], db_sequence := db_sequence d + 1\<rparr>))"

definition CurrentWebSession :: "string \<Rightarrow> (AuthWebSession \<times> AuthUserAccount) stmt" where
  "CurrentWebSession sessionHash d = map_sum id (\<lambda>r. (r, d))
    (first_row (\<lambda>(w, a). ua_ID a = ws_AccountID w \<and> ws_SessionHash w = sessionHash)
      (List.product (db_websessions d) (db_accounts d)))"

definition live_session :: "string \<Rightarrow> AuthWebSession \<Rightarrow> bool" where
  "live_session sessionHash w \<longleftrightarrow> ws_SessionHash w = sessionHash \<and> ws_RevokedAt w = None"

definition RevokeWebSession :: "gotime \<Rightarrow> string \<Rightarrow> int stmt" where
  "RevokeWebSession t sessionHash d =
    Inr (count_where (live_session sessionHash) (db_websessions d),
      d\<lparr>db_websessions := update_where (live_session sessionHash)
        (\<lambda>w. w\<lparr>ws_RevokedAt := Some (greatest (pg_time t) (ws_IssuedAt w))\<rparr>) (db_websessions d)\<rparr>)"

text \<open>
  The cleanup statements: the first rows by expiry and number that have expired. Rows another
  transaction holds are skipped (\<open>SKIP LOCKED\<close>): \<open>locked\<close> says which.
\<close>

definition expired :: "('r \<Rightarrow> gotime) \<Rightarrow> ('r \<Rightarrow> int) \<Rightarrow> gotime \<Rightarrow> int \<Rightarrow> (int \<Rightarrow> bool) \<Rightarrow> 'r list \<Rightarrow> 'r list" where
  "expired ends key t batch locked rows = take (nat batch)
    (sort_key (\<lambda>r. instant (ends r)) (sort_key key
      (filter (\<lambda>r. \<not> After (ends r) (pg_time t) \<and> \<not> locked (key r)) rows)))"

definition DeleteExpiredLoginTransactions :: "(int \<Rightarrow> bool) \<Rightarrow> gotime \<Rightarrow> int \<Rightarrow> int stmt" where
  "DeleteExpiredLoginTransactions locked t batch d =
    (let gone = map lt_ID (expired lt_ExpiresAt lt_ID t batch locked (db_logins d))
     in Inr (int (length gone), d\<lparr>db_logins := filter (\<lambda>l. lt_ID l \<notin> set gone) (db_logins d)\<rparr>))"

definition DeleteExpiredPendingConsents :: "(int \<Rightarrow> bool) \<Rightarrow> gotime \<Rightarrow> int \<Rightarrow> int stmt" where
  "DeleteExpiredPendingConsents locked t batch d =
    (let gone = map pc_ID (expired pc_ExpiresAt pc_ID t batch locked (db_consents d))
     in Inr (int (length gone), d\<lparr>db_consents := filter (\<lambda>c. pc_ID c \<notin> set gone) (db_consents d)\<rparr>))"

text \<open>A pending consent goes with the web session it is bound to (\<open>ON DELETE CASCADE\<close>).\<close>

definition DeleteExpiredWebSessions :: "(int \<Rightarrow> bool) \<Rightarrow> gotime \<Rightarrow> int \<Rightarrow> int stmt" where
  "DeleteExpiredWebSessions locked t batch d =
    (let gone = map ws_ID (expired ws_ExpiresAt ws_ID t batch locked (db_websessions d))
     in Inr (int (length gone), d\<lparr>
       db_websessions := filter (\<lambda>w. ws_ID w \<notin> set gone) (db_websessions d),
       db_consents := filter (\<lambda>c. pc_BoundWebSessionID c \<notin> Some ` set gone) (db_consents d)\<rparr>))"

definition ListExpiredOAuthGrantCandidates :: "gotime \<Rightarrow> int \<Rightarrow> (int \<times> int) list stmt" where
  "ListExpiredOAuthGrantCandidates t batch d =
    Inr (map (\<lambda>g. (og_ID g, og_AccountID g))
      (expired og_RetainUntil og_ID t batch (\<lambda>_. False) (db_grants d)), d)"

definition LockAccountForCleanup :: "(int \<Rightarrow> bool) \<Rightarrow> int \<Rightarrow> AuthUserAccount stmt" where
  "LockAccountForCleanup locked account = select_one db_accounts (\<lambda>a. ua_ID a = account \<and> \<not> locked account)"

definition LockOAuthGrantForCleanup :: "(int \<Rightarrow> bool) \<Rightarrow> int \<Rightarrow> gotime \<Rightarrow> AuthOauthGrant stmt" where
  "LockOAuthGrantForCleanup locked grantID t = select_one db_grants
    (\<lambda>g. og_ID g = grantID \<and> \<not> After (og_RetainUntil g) (pg_time t) \<and> \<not> locked grantID)"

definition DeleteOAuthSessionsForGrant :: "int \<Rightarrow> unit stmt" where
  "DeleteOAuthSessionsForGrant grantID d =
    (let gone = map os_ID (filter (\<lambda>s. os_GrantID s = grantID) (db_sessions d));
         kept = filter (\<lambda>s. os_GrantID s \<noteq> grantID) (db_sessions d)
     in checked [(''oauth_session_access_token_id_fkey'',
          \<not> list_ex (\<lambda>s. os_AccessTokenID s \<in> Some ` set gone) kept)]
        ((), d\<lparr>db_sessions := kept\<rparr>))"

definition DeleteOAuthGrant :: "int \<Rightarrow> int stmt" where
  "DeleteOAuthGrant grantID d = (case DeleteOAuthSessionsForGrant grantID d of
     Inl e \<Rightarrow> Inl e
   | Inr (_, d') \<Rightarrow> Inr (count_where (\<lambda>g. og_ID g = grantID) (db_grants d'),
       d'\<lparr>db_grants := filter (\<lambda>g. og_ID g \<noteq> grantID) (db_grants d')\<rparr>))"

section \<open>Operator functions\<close>

text \<open>
  \<open>auth.block_user_account\<close> and \<open>auth.unblock_user_account\<close>; the audit rows they append are not
  read by the program and are left out.
\<close>

definition block_user_account :: "gotime \<Rightarrow> int \<Rightarrow> string \<Rightarrow> unit stmt" where
  "block_user_account clock account reason d =
    (if btrim reason = [] then Inl (Errorf ''block reason is required'' [])
     else if \<not> list_ex (\<lambda>a. ua_ID a = account) (db_accounts d) then Inl (Errorf ''account not found'' [])
     else let t = pg_time clock in Inr ((), d\<lparr>
       db_accounts := update_where (\<lambda>a. ua_ID a = account)
         (\<lambda>a. a\<lparr>ua_Status := ''blocked'', ua_AuthorizationEpoch := ua_AuthorizationEpoch a + 1\<rparr>) (db_accounts d),
       db_websessions := update_where (\<lambda>w. ws_AccountID w = account)
         (\<lambda>w. w\<lparr>ws_RevokedAt := (case ws_RevokedAt w of Some r \<Rightarrow> Some r
            | None \<Rightarrow> Some (greatest t (ws_IssuedAt w)))\<rparr>) (db_websessions d),
       db_grants := update_where (\<lambda>g. og_AccountID g = account)
         (\<lambda>g. g\<lparr>og_RevokedAt := (case og_RevokedAt g of Some r \<Rightarrow> Some r | None \<Rightarrow> Some t),
            og_RevocationReason := (case og_RevocationReason g of Some r \<Rightarrow> Some r
              | None \<Rightarrow> Some ''account_blocked'')\<rparr>) (db_grants d)\<rparr>))"

definition unblock_user_account :: "int \<Rightarrow> string \<Rightarrow> unit stmt" where
  "unblock_user_account account reason d =
    (if btrim reason = [] then Inl (Errorf ''unblock reason is required'' [])
     else if \<not> list_ex (\<lambda>a. ua_ID a = account) (db_accounts d) then Inl (Errorf ''account not found'' [])
     else Inr ((), d\<lparr>db_accounts := update_where (\<lambda>a. ua_ID a = account)
         (\<lambda>a. a\<lparr>ua_Status := ''active'', ua_AuthorizationEpoch := ua_AuthorizationEpoch a + 1\<rparr>) (db_accounts d)\<rparr>))"

end
