(* ===== verification/Auth_Transaction.thy ===== *)
theory Auth_Transaction
  imports Auth_Tables
begin

text \<open>
  Connections and transactions of the authentication database, as \<open>pgx\<close> offers them: a pool
  that runs single statements, and a transaction with one savepoint level.

  Which statement meets which failure is an argument: \<open>en_fault\<close> gives it for the n-th round
  trip. A statement can be refused, be lost before it ran, or run with its answer lost; so every
  error branch of the code is one the model takes. A refused statement leaves the transaction
  failed until it is rolled back to the savepoint, a lost connection for good. Transactions are
  serial: the rows a transaction reads are locked \<open>FOR UPDATE\<close>, account first.
\<close>

section \<open>The environment\<close>

datatype fault = Refused string | Lost string | Unanswered string

record auth_env =
  en_fault :: "nat \<Rightarrow> fault option"
  en_now :: "nat \<Rightarrow> gotime"            \<comment> \<open>\<open>time.Now\<close> at the n-th step\<close>
  en_clock :: "nat \<Rightarrow> gotime"          \<comment> \<open>\<open>clock_timestamp()\<close> in the database\<close>
  en_jsonb :: "string \<Rightarrow> string option" \<comment> \<open>the text of the \<open>jsonb\<close> object, \<open>None\<close> if it is none\<close>
  en_lower :: "string \<Rightarrow> string"        \<comment> \<open>\<open>lower\<close> of SQL\<close>

section \<open>Transactions\<close>

datatype tx_status = TxOpen | TxFailed | TxLost | TxClosed

text \<open>\<open>tx_base\<close> is what is committed, \<open>tx_db\<close> what the transaction sees.\<close>

record pg_tx =
  tx_base :: auth_db
  tx_db :: auth_db
  tx_status :: tx_status
  tx_save :: "auth_db option"
  tx_tick :: nat

abbreviation (input) "ErrTxClosed \<equiv> Sentinel ''pgx.ErrTxClosed''"
abbreviation (input) "ErrTxCommitRollback \<equiv> Sentinel ''pgx.ErrTxCommitRollback''"

definition tick :: "pg_tx \<Rightarrow> pg_tx" where
  "tick x = x\<lparr>tx_tick := tx_tick x + 1\<rparr>"

definition not_open :: "tx_status \<Rightarrow> gerr" where
  "not_open st = (case st of TxClosed \<Rightarrow> ErrTxClosed | TxLost \<Rightarrow> Errorf ''conn closed'' []
     | _ \<Rightarrow> Errorf ''current transaction is aborted'' [])"

definition exec :: "'e auth_env_scheme \<Rightarrow> 'a stmt \<Rightarrow> (pg_tx, gerr + 'a) state" where
  "exec env s = State (\<lambda>x.
     if tx_status x \<noteq> TxOpen then (Inl (not_open (tx_status x)), tick x)
     else case en_fault env (tx_tick x) of
       Some (Refused m) \<Rightarrow> (Inl (Errorf m []), tick (x\<lparr>tx_status := TxFailed\<rparr>))
     | Some (Lost m) \<Rightarrow> (Inl (Errorf m []), tick (x\<lparr>tx_status := TxLost\<rparr>))
     | Some (Unanswered m) \<Rightarrow> (Inl (Errorf m []), tick (x\<lparr>tx_status := TxLost\<rparr>))
     | None \<Rightarrow> (case s (tx_db x) of
         Inr (a, d) \<Rightarrow> (Inr a, tick (x\<lparr>tx_db := d\<rparr>))
       | Inl e \<Rightarrow> (Inl e, tick (if e = ErrNoRows then x else x\<lparr>tx_status := TxFailed\<rparr>))))"

definition tx_now :: "'e auth_env_scheme \<Rightarrow> (pg_tx, gotime) state" where
  "tx_now env = State (\<lambda>x. (en_now env (tx_tick x), tick x))"

text \<open>The clock of the database for the statement that is sent next.\<close>

definition exec_at :: "'e auth_env_scheme \<Rightarrow> (gotime \<Rightarrow> 'a stmt) \<Rightarrow> (pg_tx, gerr + 'a) state" where
  "exec_at env s = do { x \<leftarrow> State_Monad.get; exec env (s (en_clock env (tx_tick x))) }"

definition tx_commit :: "'e auth_env_scheme \<Rightarrow> (pg_tx, check) state" where
  "tx_commit env = State (\<lambda>x.
     let closed = tick (x\<lparr>tx_status := TxClosed\<rparr>); done = closed\<lparr>tx_base := tx_db x\<rparr> in
     if tx_status x = TxFailed then (Some ErrTxCommitRollback, closed)
     else if tx_status x \<noteq> TxOpen then (Some (not_open (tx_status x)), tick x)
     else case en_fault env (tx_tick x) of
       None \<Rightarrow> (None, done)
     | Some (Refused m) \<Rightarrow> (Some (Errorf m []), closed)
     | Some (Lost m) \<Rightarrow> (Some (Errorf m []), closed)
     | Some (Unanswered m) \<Rightarrow> (Some (Errorf m []), done))"

definition tx_rollback :: "'e auth_env_scheme \<Rightarrow> (pg_tx, check) state" where
  "tx_rollback env = State (\<lambda>x.
     if tx_status x = TxClosed then (Some ErrTxClosed, tick x)
     else (case en_fault env (tx_tick x) of
         None \<Rightarrow> if tx_status x = TxLost then Some (not_open TxLost) else None
       | Some (Refused m) \<Rightarrow> Some (Errorf m []) | Some (Lost m) \<Rightarrow> Some (Errorf m [])
       | Some (Unanswered m) \<Rightarrow> Some (Errorf m []),
       tick (x\<lparr>tx_status := TxClosed\<rparr>)))"

text \<open>\<open>SAVEPOINT\<close>, \<open>RELEASE\<close> and \<open>ROLLBACK TO\<close>.\<close>

definition no_change :: "unit stmt" where "no_change d = Inr ((), d)"

definition tx_savepoint :: "'e auth_env_scheme \<Rightarrow> (pg_tx, gerr + unit) state" where
  "tx_savepoint env = do {
     r \<leftarrow> exec env no_change;
     case r of Inl e \<Rightarrow> State_Monad.return (Inl e)
     | Inr _ \<Rightarrow> State (\<lambda>x. (Inr (), x\<lparr>tx_save := Some (tx_db x)\<rparr>)) }"

definition tx_release :: "'e auth_env_scheme \<Rightarrow> (pg_tx, gerr + unit) state" where
  "tx_release env = do {
     r \<leftarrow> exec env no_change;
     case r of Inl e \<Rightarrow> State_Monad.return (Inl e)
     | Inr _ \<Rightarrow> State (\<lambda>x. (Inr (), x\<lparr>tx_save := None\<rparr>)) }"

definition tx_rollback_to :: "'e auth_env_scheme \<Rightarrow> (pg_tx, check) state" where
  "tx_rollback_to env = State (\<lambda>x.
     if tx_status x = TxClosed then (Some ErrTxClosed, tick x)
     else if tx_status x = TxLost then (Some (not_open TxLost), tick x)
     else case en_fault env (tx_tick x) of
       None \<Rightarrow> (None, tick (case tx_save x of None \<Rightarrow> x
                 | Some d \<Rightarrow> x\<lparr>tx_db := d, tx_status := TxOpen, tx_save := None\<rparr>))
     | Some (Refused m) \<Rightarrow> (Some (Errorf m []), tick x)
     | Some (Lost m) \<Rightarrow> (Some (Errorf m []), tick (x\<lparr>tx_status := TxLost\<rparr>))
     | Some (Unanswered m) \<Rightarrow> (Some (Errorf m []), tick (x\<lparr>tx_status := TxLost\<rparr>)))"

section \<open>The pool\<close>

record pg_pool =
  pl_db :: auth_db
  pl_tick :: nat

definition pool_now :: "'e auth_env_scheme \<Rightarrow> (pg_pool, gotime) state" where
  "pool_now env = State (\<lambda>p. (en_now env (pl_tick p), p\<lparr>pl_tick := pl_tick p + 1\<rparr>))"

text \<open>One statement outside of a transaction.\<close>

definition pool_exec :: "'e auth_env_scheme \<Rightarrow> (gotime \<Rightarrow> 'a stmt) \<Rightarrow> (pg_pool, gerr + 'a) state" where
  "pool_exec env s = State (\<lambda>p.
     let p' = p\<lparr>pl_tick := pl_tick p + 1\<rparr>; r = s (en_clock env (pl_tick p)) (pl_db p);
         applied = (case r of Inl _ \<Rightarrow> p' | Inr (_, d) \<Rightarrow> p'\<lparr>pl_db := d\<rparr>)
     in case en_fault env (pl_tick p) of
       None \<Rightarrow> (map_sum id fst r, applied)
     | Some (Refused m) \<Rightarrow> (Inl (Errorf m []), p')
     | Some (Lost m) \<Rightarrow> (Inl (Errorf m []), p')
     | Some (Unanswered m) \<Rightarrow> (Inl (Errorf m []), applied))"

definition begun :: "pg_pool \<Rightarrow> pg_tx" where
  "begun p = \<lparr>tx_base = pl_db p, tx_db = pl_db p, tx_status = TxOpen, tx_save = None,
     tx_tick = pl_tick p + 1\<rparr>"

text \<open>\<open>tx, err := pool.Begin(ctx)\<close>; the model hands out the transaction, \<open>settle\<close> takes it back.\<close>

definition pool_begin :: "'e auth_env_scheme \<Rightarrow> pg_pool \<Rightarrow> (gerr + pg_tx) \<times> pg_pool" where
  "pool_begin env p = (case en_fault env (pl_tick p) of
     None \<Rightarrow> (Inr (begun p), p\<lparr>pl_tick := pl_tick p + 1\<rparr>)
   | Some (Refused m) \<Rightarrow> (Inl (Errorf m []), p\<lparr>pl_tick := pl_tick p + 1\<rparr>)
   | Some (Lost m) \<Rightarrow> (Inl (Errorf m []), p\<lparr>pl_tick := pl_tick p + 1\<rparr>)
   | Some (Unanswered m) \<Rightarrow> (Inl (Errorf m []), p\<lparr>pl_tick := pl_tick p + 1\<rparr>))"

definition settle :: "pg_tx \<Rightarrow> pg_pool" where
  "settle x = \<lparr>pl_db = tx_base x, pl_tick = tx_tick x\<rparr>"

text \<open>
  The shape of every short transaction: begin, a body, \<open>defer tx.Rollback\<close>. \<open>failed\<close> makes the
  result of a failed begin.
\<close>

definition with_tx :: "'e auth_env_scheme \<Rightarrow> (gerr \<Rightarrow> 'a) \<Rightarrow> (pg_tx, 'a) state \<Rightarrow> (pg_pool, 'a) state" where
  "with_tx env failed body = State (\<lambda>p. case pool_begin env p of
     (Inl e, p') \<Rightarrow> (failed e, p')
   | (Inr x, _) \<Rightarrow> (case run_state (do { r \<leftarrow> body; tx_rollback env; State_Monad.return r }) x of
       (r, x') \<Rightarrow> (r, settle x')))"

end
