(* ===== verification/OAuth_Operation.thy ===== *)
theory OAuth_Operation
  imports OAuth_Codec Auth_Transaction
begin

text \<open>
  \<open>pkg/oauthserver/transactions.go\<close>: the outer transaction that owns one protocol operation, its
  savepoints for \<open>fosite\<close>, and the commit policy of \<open>Finish\<close>.

  A method of the store runs on the operation its context carries. The state is that operation
  with its transaction; a context is whether it carries the operation (of this store) and which
  of its savepoints, by number. The token strategy of \<open>fosite\<close> is an argument.
\<close>

section \<open>Types\<close>

datatype Purpose = PurposeAuthorize | PurposeTokenExchange | PurposeRevocation | PurposeIntrospection | PurposeOther

datatype CredentialKind = CredentialNone | CredentialCode | CredentialRefresh | CredentialAccess
  | CredentialAccessOrRefresh

datatype ConsentDecision = ConsentUndecided | ConsentApprove | ConsentDeny

datatype FinishOutcome = OutcomeCommitted | OutcomeRolledBack | OutcomeReplayCommitted | OutcomeDeniedCommitted

record Binding =
  bd_Purpose :: Purpose
  bd_ClientID :: string
  bd_Resource :: string
  bd_AccountID :: int

record replayCandidate =
  rc_grantID :: int
  rc_requestID :: string
  rc_eventKind :: string

text \<open>\<open>op_savepoints\<close>: whether each savepoint handed out so far is done.\<close>

record Operation =
  op_tx :: pg_tx
  op_binding :: Binding
  op_kind :: CredentialKind
  op_presented :: string
  op_authorizeAccountEpoch :: int
  op_finished :: bool
  op_storageFailed :: bool
  op_issuanceAttempted :: bool
  op_codeCreated :: bool
  op_pkceCreated :: bool
  op_consentDecision :: ConsentDecision
  op_replay :: "replayCandidate option"
  op_replayComplete :: bool
  op_openSavepoints :: int
  op_savepoints :: "bool list"

record oauth_env = auth_env +
  en_clients :: ClientRegistry
  en_codec :: codec_env
  en_Signature :: "TokenType \<Rightarrow> string \<Rightarrow> string"
  en_Validate :: "nat \<Rightarrow> TokenType \<Rightarrow> Requester \<Rightarrow> string \<Rightarrow> check"

record opctx =
  cx_Operation :: bool
  cx_Savepoint :: "nat option"

type_synonym 'a oact = "(Operation, gerr + 'a) state"

abbreviation (input) "errOperationRequired \<equiv> Sentinel ''OAuth storage operation is required''"
abbreviation (input) "errStorageFailure \<equiv> Sentinel ''OAuth storage operation failed''"
abbreviation (input) "ErrAccessDenied \<equiv> Sentinel ''fosite.ErrAccessDenied''"
abbreviation (input) "ErrInvalidGrant \<equiv> Sentinel ''fosite.ErrInvalidGrant''"
abbreviation (input) "ErrInactiveToken \<equiv> Sentinel ''fosite.ErrInactiveToken''"
abbreviation (input) "ErrInvalidatedAuthorizeCode \<equiv> Sentinel ''fosite.ErrInvalidatedAuthorizeCode''"

section \<open>Steps\<close>

definition on_tx :: "(pg_tx, 'a) state \<Rightarrow> (Operation, 'a) state" where
  "on_tx m = State (\<lambda>w. case run_state m (op_tx w) of (r, x) \<Rightarrow> (r, w\<lparr>op_tx := x\<rparr>))"

definition query :: "oauth_env \<Rightarrow> 'a stmt \<Rightarrow> 'a oact" where
  "query env s = on_tx (exec env s)"

definition time_now :: "oauth_env \<Rightarrow> (Operation, gotime) state" where
  "time_now env = on_tx (tx_now env)"

definition modify :: "(Operation \<Rightarrow> Operation) \<Rightarrow> (Operation, unit) state" where
  "modify f = State (\<lambda>w. ((), f w))"

definition refuse :: "gerr \<Rightarrow> 'a oact" where
  "refuse e = State_Monad.return (Inl e)"

text \<open>\<open>op.fail(err)\<close> of an error, which is not passed on.\<close>

definition op_fail :: "gerr \<Rightarrow> 'a oact" where
  "op_fail err = do { modify (op_storageFailed_update (\<lambda>_. True)); refuse errStorageFailure }"

definition notFoundOrFailure :: "gerr \<Rightarrow> 'a oact" where
  "notFoundOrFailure e = (if errors_Is e ErrNoRows then refuse ErrNotFound else op_fail e)"

section \<open>Begin\<close>

definition validateBinding :: "oauth_env \<Rightarrow> Binding \<Rightarrow> CredentialKind \<Rightarrow> string \<Rightarrow> check" where
  "validateBinding env b kind presented = firsterr
    [fails (bd_Resource b \<noteq> cr_resource (en_clients env)) ErrAccessDenied,
     (case bd_Purpose b of
        PurposeAuthorize \<Rightarrow> fails (kind \<noteq> CredentialNone \<or> presented \<noteq> [] \<or> bd_AccountID b \<le> 0
          \<or> bd_ClientID b = []) ErrAccessDenied
      | PurposeTokenExchange \<Rightarrow> fails ((kind \<noteq> CredentialCode \<and> kind \<noteq> CredentialRefresh) \<or> presented = []
          \<or> bd_AccountID b \<noteq> 0 \<or> bd_ClientID b = []) ErrAccessDenied
      | PurposeRevocation \<Rightarrow> fails (kind \<noteq> CredentialAccessOrRefresh \<or> presented = [] \<or> bd_AccountID b \<noteq> 0
          \<or> bd_ClientID b = []) ErrAccessDenied
      | PurposeIntrospection \<Rightarrow> fails (kind \<noteq> CredentialAccess \<or> presented = [] \<or> bd_AccountID b \<noteq> 0
          \<or> bd_ClientID b \<noteq> []) ErrAccessDenied
      | PurposeOther \<Rightarrow> Some ErrAccessDenied),
     fails (bd_ClientID b \<noteq> [] \<and> (case GetClient (en_clients env) (bd_ClientID b) of Inl _ \<Rightarrow> True | Inr _ \<Rightarrow> False))
       ErrAccessDenied]"

definition new_operation :: "pg_tx \<Rightarrow> Binding \<Rightarrow> CredentialKind \<Rightarrow> string \<Rightarrow> Operation" where
  "new_operation x b kind presented = \<lparr>op_tx = x, op_binding = b, op_kind = kind, op_presented = presented,
     op_authorizeAccountEpoch = 0, op_finished = False, op_storageFailed = False,
     op_issuanceAttempted = False, op_codeCreated = False, op_pkceCreated = False,
     op_consentDecision = ConsentUndecided, op_replay = None, op_replayComplete = False,
     op_openSavepoints = 0, op_savepoints = []\<rparr>"

text \<open>
  \<open>Store.Begin\<close> on a complete store and a context without an operation: the result with the pool
  as it is left. The account row of an authorization is locked first.
\<close>

definition store_Begin :: "oauth_env \<Rightarrow> Binding \<Rightarrow> CredentialKind \<Rightarrow> string \<Rightarrow> pg_pool
    \<Rightarrow> (gerr + Operation) \<times> pg_pool" where
  "store_Begin env b kind presented p = (case validateBinding env b kind presented of
     Some e \<Rightarrow> (Inl e, p)
   | None \<Rightarrow> (case pool_begin env p of
       (Inl _, p') \<Rightarrow> (Inl errStorageFailure, p')
     | (Inr x, p') \<Rightarrow>
       if bd_Purpose b \<noteq> PurposeAuthorize then (Inr (new_operation x b kind presented), p')
       else (case run_state (exec env (LockOAuthAccount (bd_AccountID b))) x of
         (Inr a, x') \<Rightarrow>
           if ua_Status a = ''active''
           then (Inr ((new_operation x' b kind presented)\<lparr>op_authorizeAccountEpoch := ua_AuthorizationEpoch a\<rparr>), p')
           else (Inl ErrAccessDenied, settle (snd (run_state (tx_rollback env) x')))
       | (Inl e, x') \<Rightarrow>
           (Inl (if errors_Is e ErrNoRows then ErrAccessDenied else errStorageFailure),
            settle (snd (run_state (tx_rollback env) x'))))))"

section \<open>Savepoints\<close>

definition operation_of :: "opctx \<Rightarrow> Operation \<Rightarrow> bool" where
  "operation_of cx w \<longleftrightarrow> cx_Operation cx \<and> \<not> op_finished w"

definition savepoint_active :: "nat \<Rightarrow> Operation \<Rightarrow> bool" where
  "savepoint_active i w \<longleftrightarrow> i < length (op_savepoints w) \<and> \<not> op_savepoints w ! i"

definition operationQueriesAny :: "opctx \<Rightarrow> unit oact" where
  "operationQueriesAny cx = do {
     w \<leftarrow> State_Monad.get;
     if \<not> operation_of cx w then refuse errOperationRequired
     else case cx_Savepoint cx of
       None \<Rightarrow> State_Monad.return (Inr ())
     | Some i \<Rightarrow> if \<not> savepoint_active i w then refuse (Errorf ''Fosite savepoint is not active'' [])
         else State_Monad.return (Inr ()) }"

definition operationQueries :: "opctx \<Rightarrow> Purpose \<Rightarrow> unit oact" where
  "operationQueries cx purpose = do {
     r \<leftarrow> operationQueriesAny cx;
     case r of Inl e \<Rightarrow> refuse e | Inr _ \<Rightarrow> do {
     w \<leftarrow> State_Monad.get;
     if bd_Purpose (op_binding w) \<noteq> purpose then refuse errOperationRequired
     else State_Monad.return (Inr ()) } }"

definition store_BeginTX :: "oauth_env \<Rightarrow> opctx \<Rightarrow> opctx oact" where
  "store_BeginTX env cx = do {
     w \<leftarrow> State_Monad.get;
     if \<not> operation_of cx w then refuse errOperationRequired
     else if cx_Savepoint cx \<noteq> None then refuse (Errorf ''nested Fosite savepoint is already active'' [])
     else if op_openSavepoints w \<noteq> 0 then refuse (Errorf ''a Fosite savepoint is already active'' [])
     else do {
       r \<leftarrow> on_tx (tx_savepoint env);
       case r of Inl e \<Rightarrow> op_fail e | Inr _ \<Rightarrow> do {
       modify (\<lambda>w. w\<lparr>op_openSavepoints := op_openSavepoints w + 1, op_savepoints := op_savepoints w @ [False]\<rparr>);
       State_Monad.return (Inr (cx\<lparr>cx_Savepoint := Some (length (op_savepoints w))\<rparr>)) } } }"

definition store_savepoint :: "opctx \<Rightarrow> nat oact" where
  "store_savepoint cx = do {
     w \<leftarrow> State_Monad.get;
     if \<not> operation_of cx w then refuse errOperationRequired
     else case cx_Savepoint cx of
       None \<Rightarrow> refuse (Errorf ''Fosite savepoint context is required'' [])
     | Some i \<Rightarrow> if \<not> savepoint_active i w then refuse (Errorf ''Fosite savepoint context is required'' [])
         else State_Monad.return (Inr i) }"

definition close_savepoint :: "nat \<Rightarrow> unit oact" where
  "close_savepoint i = do {
     modify (\<lambda>w. w\<lparr>op_savepoints := (op_savepoints w)[i := True], op_openSavepoints := op_openSavepoints w - 1\<rparr>);
     State_Monad.return (Inr ()) }"

definition store_Commit :: "oauth_env \<Rightarrow> opctx \<Rightarrow> unit oact" where
  "store_Commit env cx = do {
     s \<leftarrow> store_savepoint cx;
     case s of Inl e \<Rightarrow> refuse e | Inr i \<Rightarrow> do {
     r \<leftarrow> on_tx (tx_release env);
     case r of Inl e \<Rightarrow> op_fail e | Inr _ \<Rightarrow> close_savepoint i } }"

definition store_Rollback :: "oauth_env \<Rightarrow> opctx \<Rightarrow> unit oact" where
  "store_Rollback env cx = do {
     s \<leftarrow> store_savepoint cx;
     case s of Inl e \<Rightarrow> refuse e | Inr i \<Rightarrow> do {
     r \<leftarrow> on_tx (tx_rollback_to env);
     if r \<noteq> None \<and> r \<noteq> Some ErrTxClosed then op_fail errStorageFailure else close_savepoint i } }"

section \<open>Finish\<close>

definition approvalComplete :: "Operation \<Rightarrow> bool" where
  "approvalComplete w = (if bd_Purpose (op_binding w) \<noteq> PurposeAuthorize then True
     else op_consentDecision w = ConsentApprove \<and> op_codeCreated w \<and> op_pkceCreated w)"

definition error_is :: "check \<Rightarrow> gerr \<Rightarrow> bool" where
  "error_is err t = (case err of None \<Rightarrow> False | Some e \<Rightarrow> errors_Is e t)"

text \<open>The \<open>switch\<close>: the outcome to commit with, and whether the operation is inconsistent.\<close>

definition commit_policy :: "Operation \<Rightarrow> check \<Rightarrow> FinishOutcome option \<times> bool" where
  "commit_policy w err =
    (if op_storageFailed w \<or> op_openSavepoints w \<noteq> 0 then (None, True)
     else if op_replayComplete w \<and> op_replay w \<noteq> None \<and> \<not> op_issuanceAttempted w \<and> error_is err ErrInvalidGrant
     then (Some OutcomeReplayCommitted, False)
     else if op_consentDecision w = ConsentDeny \<and> \<not> op_issuanceAttempted w \<and> error_is err ErrAccessDenied
     then (Some OutcomeDeniedCommitted, False)
     else if err = None \<and> op_replay w = None \<and> approvalComplete w
     then (Some OutcomeCommitted, False)
     else if op_replay w \<noteq> None \<or> op_replayComplete w \<or> op_consentDecision w \<noteq> ConsentUndecided \<or> err = None
     then (None, True)
     else (None, False))"

definition op_Finish :: "oauth_env \<Rightarrow> check \<Rightarrow> (Operation, FinishOutcome \<times> check) state" where
  "op_Finish env err = do {
     w \<leftarrow> State_Monad.get;
     if op_finished w
     then State_Monad.return (OutcomeRolledBack, Some (Errorf ''OAuth operation is already finished'' []))
     else do {
       modify (\<lambda>w. w\<lparr>op_finished := True, op_presented := []\<rparr>);
       case commit_policy w err of
         (None, inconsistent) \<Rightarrow> do {
           r \<leftarrow> on_tx (tx_rollback env);
           State_Monad.return (OutcomeRolledBack,
             if (r \<noteq> None \<and> r \<noteq> Some ErrTxClosed) \<or> inconsistent then Some errStorageFailure else None) }
       | (Some outcome, _) \<Rightarrow> do {
           r \<leftarrow> on_tx (tx_commit env);
           State_Monad.return (if r \<noteq> None then (OutcomeRolledBack, Some errStorageFailure) else (outcome, None)) } } }"

definition op_Rollback :: "oauth_env \<Rightarrow> (Operation, check) state" where
  "op_Rollback env = do {
     w \<leftarrow> State_Monad.get;
     modify (op_presented_update (\<lambda>_. []));
     if op_finished w then State_Monad.return None
     else do {
       modify (op_finished_update (\<lambda>_. True));
       r \<leftarrow> on_tx (tx_rollback env);
       State_Monad.return (if r \<noteq> None \<and> r \<noteq> Some ErrTxClosed then Some errStorageFailure else None) } }"

end
