(* ===== verification/OAuth_Store.thy ===== *)
theory OAuth_Store
  imports OAuth_Operation
begin

text \<open>
  \<open>pkg/oauthserver/store.go\<close>: the storage methods \<open>fosite\<close> calls, on the operation their
  context carries.
\<close>

section \<open>Records\<close>

record credentialRecord =
  cr_GrantID :: int
  cr_RequestPayload :: string
  cr_ExpiresAt :: gotime
  cr_ConsumedAt :: "gotime option"
  cr_RevokedAt :: "gotime option"

record grantRecord =
  gr_ID :: int
  gr_RequestID :: string
  gr_AccountID :: int
  gr_AccountEpoch :: int
  gr_ClientID :: string
  gr_Resource :: string

definition grant_of :: "AuthOauthGrant \<Rightarrow> grantRecord" where
  "grant_of g = \<lparr>gr_ID = og_ID g, gr_RequestID = og_RequestID g, gr_AccountID = og_AccountID g,
     gr_AccountEpoch = og_AccountEpoch g, gr_ClientID = og_ClientID g, gr_Resource = og_Resource g\<rparr>"

definition credential_of :: "AuthOauthSession \<Rightarrow> credentialRecord" where
  "credential_of s = \<lparr>cr_GrantID = os_GrantID s, cr_RequestPayload = os_RequestPayload s,
     cr_ExpiresAt = os_ExpiresAt s, cr_ConsumedAt = os_ConsumedAt s, cr_RevokedAt = os_RevokedAt s\<rparr>"

text \<open>\<open>session.GetExpiresAt(kind)\<close>; a session with a nil \<open>DefaultSession\<close> does not get this far.\<close>

definition session_expiry :: "oauth_env \<Rightarrow> Session \<Rightarrow> TokenType \<Rightarrow> gotime" where
  "session_expiry env s kind = (case sn_DefaultSession s of
     None \<Rightarrow> \<lparr>instant = 0, repr = 0\<rparr> | Some ds \<Rightarrow> fo_GetExpiresAt (en_codec env) ds kind)"

definition databaseTimeEqual :: "gotime \<Rightarrow> gotime \<Rightarrow> bool" where
  "databaseTimeEqual l r \<longleftrightarrow> instant l - instant l mod 1000 = instant r - instant r mod 1000"

section \<open>Checks\<close>

text \<open>\<open>encodeRequest\<close>: the payload, the request and its session.\<close>

definition encodeRequest :: "oauth_env \<Rightarrow> Requester option \<Rightarrow> gerr + string \<times> Requester \<times> Session" where
  "encodeRequest env request = (case codec_Encode (en_codec env) (en_clients env) request of
     Inl e \<Rightarrow> Inl e
   | Inr payload \<Rightarrow> (case request of None \<Rightarrow> Inl (Panic ''nil request'') | Some rq \<Rightarrow>
       (case rq_Session rq of None \<Rightarrow> Inl (Errorf ''OAuth session has an unsupported type'' [])
        | Some session \<Rightarrow> Inr (payload, rq, session))))"

definition client_id :: "Requester \<Rightarrow> string" where
  "client_id rq = (case rq_Client rq of None \<Rightarrow> [] | Some c \<Rightarrow> fc_ID c)"

definition validateWriteSnapshot :: "Requester \<Rightarrow> Session \<Rightarrow> grantRecord \<Rightarrow> check" where
  "validateWriteSnapshot rq session g = firsterr
    [fails (rq_Client rq = None) (Errorf ''OAuth request snapshot is incomplete'' []),
     fails (rq_ID rq \<noteq> gr_RequestID g \<or> sn_AccountID session \<noteq> gr_AccountID g
         \<or> sn_AccountEpoch session \<noteq> gr_AccountEpoch g \<or> client_id rq \<noteq> gr_ClientID g
         \<or> sn_Resource session \<noteq> gr_Resource g)
       (Errorf ''OAuth request snapshot does not match grant'' [])]"

definition validateCredentialSnapshot :: "oauth_env \<Rightarrow> Requester \<Rightarrow> grantRecord \<Rightarrow> credentialRecord
    \<Rightarrow> TokenType \<Rightarrow> check" where
  "validateCredentialSnapshot env rq g c tokenType = (case rq_Session rq of
     None \<Rightarrow> Some (Errorf ''OAuth credential snapshot session is invalid'' [])
   | Some session \<Rightarrow> firsterr
      [validateWriteSnapshot rq session g,
       fails (cr_GrantID c \<noteq> gr_ID g \<or> IsZero (cr_ExpiresAt c)
           \<or> \<not> databaseTimeEqual (session_expiry env session tokenType) (cr_ExpiresAt c))
         (Errorf ''OAuth credential snapshot does not match scalar state'' [])])"

text \<open>The account's status and epoch against the locked grant.\<close>

definition validateLockedGrant :: "oauth_env \<Rightarrow> Operation \<Rightarrow> AuthUserAccount \<Rightarrow> AuthOauthGrant \<Rightarrow> check" where
  "validateLockedGrant env w account g = firsterr
    [fails (ua_Status account \<noteq> ''active'' \<or> ua_AuthorizationEpoch account \<noteq> og_AccountEpoch g
         \<or> og_RevokedAt g \<noteq> None \<or> og_Resource g \<noteq> cr_resource (en_clients env)
         \<or> bd_Resource (op_binding w) \<noteq> og_Resource g) ErrNotFound,
     fails (bd_Purpose (op_binding w) \<noteq> PurposeIntrospection \<and> bd_ClientID (op_binding w) \<noteq> og_ClientID g)
       ErrNotFound,
     (case GetClient (en_clients env) (og_ClientID g) of Inl _ \<Rightarrow> Some ErrNotFound | Inr _ \<Rightarrow> None)]"

definition prove :: "oauth_env \<Rightarrow> TokenType \<Rightarrow> Operation \<Rightarrow> Requester \<Rightarrow> string \<Rightarrow> bool" where
  "prove env kind w rq signature \<longleftrightarrow> op_presented w \<noteq> [] \<and> signature = en_Signature env kind (op_presented w)
     \<and> en_Validate env (tx_tick (op_tx w)) kind rq (op_presented w) = None"

section \<open>Locking\<close>

text \<open>A query whose failure is \<open>op.notFoundOrFailure\<close>.\<close>

definition lookup :: "oauth_env \<Rightarrow> 'a stmt \<Rightarrow> 'a oact" where
  "lookup env s = do {
     r \<leftarrow> query env s;
     case r of Inl e \<Rightarrow> notFoundOrFailure e | Inr a \<Rightarrow> State_Monad.return (Inr a) }"

definition lockCredential :: "oauth_env \<Rightarrow> string \<Rightarrow> string \<Rightarrow> (credentialRecord \<times> grantRecord) oact" where
  "lockCredential env kind signature = do {
     r \<leftarrow> lookup env (FindOAuthCredentialOwner kind signature);
     case r of Inl e \<Rightarrow> refuse e | Inr (grantID, accountID) \<Rightarrow> do {
     r \<leftarrow> lookup env (LockOAuthAccount accountID);
     case r of Inl e \<Rightarrow> refuse e | Inr account \<Rightarrow> do {
     r \<leftarrow> lookup env (LockOAuthGrant grantID);
     case r of Inl e \<Rightarrow> refuse e | Inr g \<Rightarrow> do {
     r \<leftarrow> lookup env (LockOAuthCredential kind signature);
     case r of Inl e \<Rightarrow> refuse e | Inr s \<Rightarrow>
     if os_GrantID s \<noteq> og_ID g \<or> ua_ID account \<noteq> og_AccountID g
     then op_fail (Errorf ''OAuth credential ownership changed'' [])
     else do {
     w \<leftarrow> State_Monad.get;
     case validateLockedGrant env w account g of Some e \<Rightarrow> refuse e
     | None \<Rightarrow> State_Monad.return (Inr (credential_of s, grant_of g)) } } } } }"

definition lockGrantByRequestID :: "oauth_env \<Rightarrow> string \<Rightarrow> grantRecord oact" where
  "lockGrantByRequestID env requestID = do {
     r \<leftarrow> lookup env (FindOAuthGrantOwner requestID);
     case r of Inl e \<Rightarrow> refuse e | Inr (grantID, accountID) \<Rightarrow> do {
     r \<leftarrow> lookup env (LockOAuthAccount accountID);
     case r of Inl e \<Rightarrow> refuse e | Inr account \<Rightarrow> do {
     r \<leftarrow> lookup env (LockOAuthGrantByRequestID requestID);
     case r of Inl e \<Rightarrow> refuse e | Inr g \<Rightarrow>
     if og_ID g \<noteq> grantID \<or> og_AccountID g \<noteq> ua_ID account
     then op_fail (Errorf ''OAuth grant ownership changed'' [])
     else do {
     w \<leftarrow> State_Monad.get;
     case validateLockedGrant env w account g of Some e \<Rightarrow> refuse e
     | None \<Rightarrow> State_Monad.return (Inr (grant_of g)) } } } }"

definition lockAndValidateCredential :: "oauth_env \<Rightarrow> string \<Rightarrow> string \<Rightarrow> TokenType \<Rightarrow> grantRecord oact" where
  "lockAndValidateCredential env kind signature tokenType = do {
     r \<leftarrow> lockCredential env kind signature;
     case r of Inl e \<Rightarrow> refuse e | Inr (c, g) \<Rightarrow>
     (case codec_Decode (en_codec env) (en_clients env) (cr_RequestPayload c) None of
       Inl e \<Rightarrow> op_fail e
     | Inr rq \<Rightarrow> case validateCredentialSnapshot env rq g c tokenType of Some e \<Rightarrow> op_fail e | None \<Rightarrow>
         State_Monad.return (Inr g)) }"

text \<open>\<open>lockCredential\<close>, then the payload decoded and compared with the row.\<close>

definition read_credential :: "oauth_env \<Rightarrow> string \<Rightarrow> string \<Rightarrow> TokenType \<Rightarrow> Session option option
    \<Rightarrow> (credentialRecord \<times> grantRecord) \<Rightarrow> Requester oact" where
  "read_credential env kind signature tokenType target = (\<lambda>(c, g).
     case codec_Decode (en_codec env) (en_clients env) (cr_RequestPayload c) target of
       Inl e \<Rightarrow> op_fail e
     | Inr rq \<Rightarrow> case validateCredentialSnapshot env rq g c tokenType of Some e \<Rightarrow> op_fail e | None \<Rightarrow>
         State_Monad.return (Inr rq))"

section \<open>Authorization codes\<close>

abbreviation (input) "kindCode \<equiv> ''authorize_code''"
abbreviation (input) "kindPKCE \<equiv> ''pkce''"
abbreviation (input) "kindAccess \<equiv> ''access_token''"
abbreviation (input) "kindRefresh \<equiv> ''refresh_token''"

definition attempt_issuance :: "(Operation, unit) state" where
  "attempt_issuance = modify (op_issuanceAttempted_update (\<lambda>_. True))"

definition CreateAuthorizeCodeSession :: "oauth_env \<Rightarrow> opctx \<Rightarrow> string \<Rightarrow> Requester option \<Rightarrow> unit oact" where
  "CreateAuthorizeCodeSession env cx signature request = do {
     r \<leftarrow> operationQueries cx PurposeAuthorize;
     case r of Inl e \<Rightarrow> refuse e | Inr _ \<Rightarrow> do {
     attempt_issuance;
     case encodeRequest env request of Inl e \<Rightarrow> op_fail e | Inr (payload, rq, session) \<Rightarrow> do {
     w \<leftarrow> State_Monad.get;
     if sn_AccountID session \<noteq> bd_AccountID (op_binding w) \<or> sn_AccountEpoch session \<noteq> op_authorizeAccountEpoch w
       \<or> sn_Resource session \<noteq> bd_Resource (op_binding w) \<or> client_id rq \<noteq> bd_ClientID (op_binding w)
     then refuse ErrAccessDenied
     else let expiresAt = session_expiry env session AuthorizeCode in
     if IsZero expiresAt then op_fail (Errorf ''authorization-code expiry is missing'' [])
     else do {
     t \<leftarrow> time_now env;
     r \<leftarrow> query env (CreateOAuthGrant (rq_ID rq) (sn_AccountID session) (sn_AccountEpoch session)
            (client_id rq) (sn_Resource session) t expiresAt);
     case r of Inl e \<Rightarrow> op_fail e | Inr g \<Rightarrow> do {
     r \<leftarrow> query env (CreateOAuthSession (en_jsonb env) (og_ID g) kindCode signature t expiresAt payload);
     case r of Inl e \<Rightarrow> op_fail e | Inr _ \<Rightarrow> do {
     modify (op_codeCreated_update (\<lambda>_. True));
     State_Monad.return (Inr ()) } } } } } }"

definition GetAuthorizeCodeSession :: "oauth_env \<Rightarrow> opctx \<Rightarrow> string \<Rightarrow> Session option option
    \<Rightarrow> (Operation, Requester option \<times> check) state" where
  "GetAuthorizeCodeSession env cx signature target = do {
     r \<leftarrow> operationQueries cx PurposeTokenExchange;
     case r of Inl e \<Rightarrow> State_Monad.return (None, Some e) | Inr _ \<Rightarrow> do {
     w \<leftarrow> State_Monad.get;
     if op_kind w \<noteq> CredentialCode then State_Monad.return (None, Some ErrNotFound)
     else do {
     r \<leftarrow> lockCredential env kindCode signature;
     case r of Inl e \<Rightarrow> State_Monad.return (None, Some e) | Inr cg \<Rightarrow> do {
     r \<leftarrow> read_credential env kindCode signature AuthorizeCode target cg;
     case r of Inl e \<Rightarrow> State_Monad.return (None, Some e) | Inr rq \<Rightarrow> do {
     w \<leftarrow> State_Monad.get;
     if cr_ConsumedAt (fst cg) \<noteq> None then
       if \<not> prove env AuthorizeCode w rq signature then State_Monad.return (None, Some ErrNotFound)
       else do {
         modify (op_replay_update (\<lambda>_. Some \<lparr>rc_grantID = gr_ID (snd cg),
           rc_requestID = gr_RequestID (snd cg), rc_eventKind = ''code_replay''\<rparr>));
         State_Monad.return (Some rq, Some ErrInvalidatedAuthorizeCode) }
     else if cr_RevokedAt (fst cg) \<noteq> None then State_Monad.return (None, Some ErrNotFound)
     else State_Monad.return (Some rq, None) } } } } }"

definition InvalidateAuthorizeCodeSession :: "oauth_env \<Rightarrow> opctx \<Rightarrow> string \<Rightarrow> unit oact" where
  "InvalidateAuthorizeCodeSession env cx signature = do {
     r \<leftarrow> operationQueries cx PurposeTokenExchange;
     case r of Inl e \<Rightarrow> refuse e | Inr _ \<Rightarrow> do {
     r \<leftarrow> lockAndValidateCredential env kindCode signature AuthorizeCode;
     case r of Inl e \<Rightarrow> refuse e | Inr _ \<Rightarrow> do {
     t \<leftarrow> time_now env;
     r \<leftarrow> query env (ConsumeOAuthSession t kindCode signature);
     case r of Inl e \<Rightarrow> op_fail e | Inr rows \<Rightarrow>
     if rows \<noteq> 1 then refuse ErrNotFound else State_Monad.return (Inr ()) } } }"

section \<open>Access tokens\<close>

text \<open>
  The common front of the token writers: the operation must be a token exchange, issuance is
  noted, the request is encoded and its grant locked and compared.
\<close>

definition token_write :: "oauth_env \<Rightarrow> opctx \<Rightarrow> Requester option \<Rightarrow> (string \<times> Session \<times> grantRecord) oact" where
  "token_write env cx request = do {
     r \<leftarrow> operationQueriesAny cx;
     case r of Inl e \<Rightarrow> refuse e | Inr _ \<Rightarrow> do {
     w \<leftarrow> State_Monad.get;
     if bd_Purpose (op_binding w) \<noteq> PurposeTokenExchange then refuse errOperationRequired
     else do {
     attempt_issuance;
     case encodeRequest env request of Inl e \<Rightarrow> op_fail e | Inr (payload, rq, session) \<Rightarrow> do {
     r \<leftarrow> lockGrantByRequestID env (rq_ID rq);
     case r of Inl e \<Rightarrow> refuse e | Inr g \<Rightarrow>
     case validateWriteSnapshot rq session g of Some e \<Rightarrow> op_fail e | None \<Rightarrow>
     State_Monad.return (Inr (payload, session, g)) } } } }"

definition extend_retention :: "oauth_env \<Rightarrow> int \<Rightarrow> gotime \<Rightarrow> unit oact" where
  "extend_retention env grantID expiresAt = do {
     r \<leftarrow> query env (ExtendOAuthGrantRetention grantID expiresAt);
     case r of Inl e \<Rightarrow> op_fail e | Inr _ \<Rightarrow> State_Monad.return (Inr ()) }"

definition CreateAccessTokenSession :: "oauth_env \<Rightarrow> opctx \<Rightarrow> string \<Rightarrow> Requester option \<Rightarrow> unit oact" where
  "CreateAccessTokenSession env cx signature request = do {
     r \<leftarrow> token_write env cx request;
     case r of Inl e \<Rightarrow> refuse e | Inr (payload, session, g) \<Rightarrow>
     let expiresAt = session_expiry env session AccessToken in
     if IsZero expiresAt then op_fail (Errorf ''access-token expiry is missing'' [])
     else do {
     t \<leftarrow> time_now env;
     r \<leftarrow> query env (CreateOAuthSession (en_jsonb env) (gr_ID g) kindAccess signature t expiresAt payload);
     case r of Inl e \<Rightarrow> op_fail e | Inr _ \<Rightarrow> extend_retention env (gr_ID g) expiresAt } }"

definition GetAccessTokenSession :: "oauth_env \<Rightarrow> opctx \<Rightarrow> string \<Rightarrow> Session option option
    \<Rightarrow> (Operation, Requester option \<times> check) state" where
  "GetAccessTokenSession env cx signature target = do {
     r \<leftarrow> operationQueriesAny cx;
     case r of Inl e \<Rightarrow> State_Monad.return (None, Some e) | Inr _ \<Rightarrow> do {
     w \<leftarrow> State_Monad.get;
     if op_kind w \<noteq> CredentialAccess \<and> op_kind w \<noteq> CredentialAccessOrRefresh
     then State_Monad.return (None, Some ErrNotFound)
     else do {
     r \<leftarrow> lockCredential env kindAccess signature;
     case r of Inl e \<Rightarrow> State_Monad.return (None, Some e) | Inr cg \<Rightarrow>
     if cr_ConsumedAt (fst cg) \<noteq> None \<or> cr_RevokedAt (fst cg) \<noteq> None
     then State_Monad.return (None, Some ErrNotFound)
     else do {
     r \<leftarrow> read_credential env kindAccess signature AccessToken target cg;
     case r of Inl e \<Rightarrow> State_Monad.return (None, Some e) | Inr rq \<Rightarrow> do {
     w \<leftarrow> State_Monad.get;
     if bd_Purpose (op_binding w) = PurposeRevocation \<and> \<not> prove env AccessToken w rq signature
     then State_Monad.return (None, Some ErrNotFound)
     else State_Monad.return (Some rq, None) } } } } }"

text \<open>The two deletions by revocation.\<close>

definition revoke_credential :: "oauth_env \<Rightarrow> opctx \<Rightarrow> string \<Rightarrow> TokenType \<Rightarrow> string \<Rightarrow> unit oact" where
  "revoke_credential env cx kind tokenType signature = do {
     r \<leftarrow> operationQueriesAny cx;
     case r of Inl e \<Rightarrow> refuse e | Inr _ \<Rightarrow> do {
     w \<leftarrow> State_Monad.get;
     if bd_Purpose (op_binding w) = PurposeIntrospection then refuse errOperationRequired
     else do {
     r \<leftarrow> lockAndValidateCredential env kind signature tokenType;
     case r of Inl e \<Rightarrow> refuse e | Inr _ \<Rightarrow> do {
     t \<leftarrow> time_now env;
     r \<leftarrow> query env (RevokeOAuthSession t kind signature);
     case r of Inl e \<Rightarrow> op_fail e | Inr _ \<Rightarrow> State_Monad.return (Inr ()) } } } }"

definition DeleteAccessTokenSession :: "oauth_env \<Rightarrow> opctx \<Rightarrow> string \<Rightarrow> unit oact" where
  "DeleteAccessTokenSession env cx = revoke_credential env cx kindAccess AccessToken"

section \<open>Refresh tokens\<close>

definition CreateRefreshTokenSession :: "oauth_env \<Rightarrow> opctx \<Rightarrow> string \<Rightarrow> string \<Rightarrow> Requester option \<Rightarrow> unit oact" where
  "CreateRefreshTokenSession env cx signature accessSignature request = do {
     r \<leftarrow> token_write env cx request;
     case r of Inl e \<Rightarrow> refuse e | Inr (payload, session, g) \<Rightarrow> do {
     r \<leftarrow> query env (LockOAuthCredential kindAccess accessSignature);
     case r of Inl e \<Rightarrow> notFoundOrFailure e | Inr a \<Rightarrow>
     if os_GrantID a \<noteq> gr_ID g \<or> os_RevokedAt a \<noteq> None
     then op_fail (Errorf ''refresh token access association is invalid'' [])
     else case codec_Decode (en_codec env) (en_clients env) (os_RequestPayload a) None of
       Inl e \<Rightarrow> op_fail e
     | Inr accessRequest \<Rightarrow>
     case validateCredentialSnapshot env accessRequest g (credential_of a) AccessToken of Some e \<Rightarrow> op_fail e | None \<Rightarrow>
     let expiresAt = session_expiry env session RefreshToken in
     if IsZero expiresAt then op_fail (Errorf ''refresh-token expiry is missing'' [])
     else do {
     t \<leftarrow> time_now env;
     r \<leftarrow> query env (CreateOAuthRefreshSession (en_jsonb env) (gr_ID g) signature (Some (os_ID a)) t expiresAt payload);
     case r of Inl e \<Rightarrow> op_fail e | Inr _ \<Rightarrow> extend_retention env (gr_ID g) expiresAt } } }"

definition GetRefreshTokenSession :: "oauth_env \<Rightarrow> opctx \<Rightarrow> string \<Rightarrow> Session option option
    \<Rightarrow> (Operation, Requester option \<times> check) state" where
  "GetRefreshTokenSession env cx signature target = do {
     r \<leftarrow> operationQueriesAny cx;
     case r of Inl e \<Rightarrow> State_Monad.return (None, Some e) | Inr _ \<Rightarrow> do {
     w \<leftarrow> State_Monad.get;
     if op_kind w \<noteq> CredentialRefresh \<and> op_kind w \<noteq> CredentialAccessOrRefresh
     then State_Monad.return (None, Some ErrNotFound)
     else do {
     r \<leftarrow> lockCredential env kindRefresh signature;
     case r of Inl e \<Rightarrow> State_Monad.return (None, Some e) | Inr cg \<Rightarrow> do {
     r \<leftarrow> read_credential env kindRefresh signature RefreshToken target cg;
     case r of Inl e \<Rightarrow> State_Monad.return (None, Some e) | Inr rq \<Rightarrow> do {
     w \<leftarrow> State_Monad.get;
     if cr_ConsumedAt (fst cg) \<noteq> None then
       if bd_Purpose (op_binding w) \<noteq> PurposeTokenExchange \<or> op_kind w \<noteq> CredentialRefresh
       then State_Monad.return (None, Some ErrInactiveToken)
       else if \<not> prove env RefreshToken w rq signature then State_Monad.return (None, Some ErrNotFound)
       else do {
         modify (op_replay_update (\<lambda>_. Some \<lparr>rc_grantID = gr_ID (snd cg),
           rc_requestID = gr_RequestID (snd cg), rc_eventKind = ''refresh_replay''\<rparr>));
         State_Monad.return (Some rq, Some ErrInactiveToken) }
     else if cr_RevokedAt (fst cg) \<noteq> None then State_Monad.return (None, Some ErrNotFound)
     else if bd_Purpose (op_binding w) = PurposeRevocation \<and> \<not> prove env RefreshToken w rq signature
     then State_Monad.return (None, Some ErrNotFound)
     else State_Monad.return (Some rq, None) } } } } }"

definition DeleteRefreshTokenSession :: "oauth_env \<Rightarrow> opctx \<Rightarrow> string \<Rightarrow> unit oact" where
  "DeleteRefreshTokenSession env cx = revoke_credential env cx kindRefresh RefreshToken"

definition RotateRefreshToken :: "oauth_env \<Rightarrow> opctx \<Rightarrow> string \<Rightarrow> string \<Rightarrow> unit oact" where
  "RotateRefreshToken env cx requestID signature = do {
     r \<leftarrow> operationQueries cx PurposeTokenExchange;
     case r of Inl e \<Rightarrow> refuse e | Inr _ \<Rightarrow> do {
     r \<leftarrow> lockAndValidateCredential env kindRefresh signature RefreshToken;
     case r of Inl e \<Rightarrow> refuse e | Inr g \<Rightarrow>
     if gr_RequestID g \<noteq> requestID then refuse ErrNotFound
     else do {
     t \<leftarrow> time_now env;
     r \<leftarrow> query env (ConsumeOAuthSession t kindRefresh signature);
     case r of Inl e \<Rightarrow> op_fail e | Inr rows \<Rightarrow>
     if rows \<noteq> 1 then refuse ErrInactiveToken
     else do {
     t \<leftarrow> time_now env;
     r \<leftarrow> query env (RevokeOAuthAccessTokensForGrant t (gr_ID g));
     case r of Inl e \<Rightarrow> op_fail e | Inr _ \<Rightarrow> State_Monad.return (Inr ()) } } } }"

section \<open>Revocation\<close>

definition lockGrantForRevocation :: "oauth_env \<Rightarrow> string \<Rightarrow> (int \<times> string) oact" where
  "lockGrantForRevocation env requestID = do {
     r \<leftarrow> lookup env (FindOAuthGrantOwner requestID);
     case r of Inl e \<Rightarrow> refuse e | Inr (grantID, accountID) \<Rightarrow> do {
     r \<leftarrow> lookup env (LockOAuthAccount accountID);
     case r of Inl e \<Rightarrow> refuse e | Inr account \<Rightarrow> do {
     r \<leftarrow> lookup env (LockOAuthGrantByRequestID requestID);
     case r of Inl e \<Rightarrow> refuse e | Inr g \<Rightarrow> do {
     w \<leftarrow> State_Monad.get;
     if og_ID g \<noteq> grantID \<or> og_AccountID g \<noteq> ua_ID account \<or> ua_Status account \<noteq> ''active''
       \<or> ua_AuthorizationEpoch account \<noteq> og_AccountEpoch g \<or> og_Resource g \<noteq> cr_resource (en_clients env)
       \<or> bd_Resource (op_binding w) \<noteq> og_Resource g \<or> bd_ClientID (op_binding w) \<noteq> og_ClientID g
     then refuse ErrNotFound
     else case GetClient (en_clients env) (og_ClientID g) of
       Inl _ \<Rightarrow> refuse ErrNotFound | Inr _ \<Rightarrow> State_Monad.return (Inr (og_ID g, og_RequestID g)) } } } }"

definition revocationReason :: "Operation \<Rightarrow> string" where
  "revocationReason w = (case op_replay w of Some c \<Rightarrow> rc_eventKind c | None \<Rightarrow> ''client_revoked'')"

definition revokeGrant :: "oauth_env \<Rightarrow> opctx \<Rightarrow> string \<Rightarrow> unit oact" where
  "revokeGrant env cx requestID = do {
     r \<leftarrow> operationQueriesAny cx;
     case r of Inl e \<Rightarrow> refuse e | Inr _ \<Rightarrow> do {
     w \<leftarrow> State_Monad.get;
     if bd_Purpose (op_binding w) \<noteq> PurposeTokenExchange \<and> bd_Purpose (op_binding w) \<noteq> PurposeRevocation
     then refuse errOperationRequired
     else do {
     r \<leftarrow> lockGrantForRevocation env requestID;
     case r of Inl e \<Rightarrow> refuse e | Inr (grantID, _) \<Rightarrow>
     if (case op_replay w of None \<Rightarrow> False | Some c \<Rightarrow> rc_requestID c \<noteq> requestID \<or> rc_grantID c \<noteq> grantID)
     then op_fail (Errorf ''OAuth replay candidate does not match grant'' [])
     else do {
     t \<leftarrow> time_now env;
     r \<leftarrow> query env (RevokeOAuthGrantFamily grantID t (revocationReason w));
     case r of Inl e \<Rightarrow> op_fail e | Inr _ \<Rightarrow>
     (case op_replay w of None \<Rightarrow> State_Monad.return (Inr ()) | Some c \<Rightarrow>
     if op_replayComplete w then State_Monad.return (Inr ())
     else do {
     r \<leftarrow> on_tx (exec_at env (\<lambda>clock. RecordOAuthSecurityEvent clock grantID (rc_eventKind c)));
     case r of Inl e \<Rightarrow> op_fail e | Inr _ \<Rightarrow> do {
     modify (op_replayComplete_update (\<lambda>_. True));
     State_Monad.return (Inr ()) } }) } } } }"

definition RevokeRefreshToken :: "oauth_env \<Rightarrow> opctx \<Rightarrow> string \<Rightarrow> unit oact" where
  "RevokeRefreshToken = revokeGrant"

definition RevokeAccessToken :: "oauth_env \<Rightarrow> opctx \<Rightarrow> string \<Rightarrow> unit oact" where
  "RevokeAccessToken = revokeGrant"

section \<open>PKCE\<close>

definition CreatePKCERequestSession :: "oauth_env \<Rightarrow> opctx \<Rightarrow> string \<Rightarrow> Requester option \<Rightarrow> unit oact" where
  "CreatePKCERequestSession env cx signature request = do {
     r \<leftarrow> operationQueries cx PurposeAuthorize;
     case r of Inl e \<Rightarrow> refuse e | Inr _ \<Rightarrow> do {
     attempt_issuance;
     case encodeRequest env request of Inl e \<Rightarrow> op_fail e | Inr (payload, rq, session) \<Rightarrow> do {
     r \<leftarrow> lockGrantByRequestID env (rq_ID rq);
     case r of Inl e \<Rightarrow> refuse e | Inr g \<Rightarrow>
     case validateWriteSnapshot rq session g of Some e \<Rightarrow> op_fail e | None \<Rightarrow>
     let expiresAt = session_expiry env session AuthorizeCode in
     if IsZero expiresAt then op_fail (Errorf ''PKCE expiry is missing'' [])
     else do {
     t \<leftarrow> time_now env;
     r \<leftarrow> query env (CreateOAuthSession (en_jsonb env) (gr_ID g) kindPKCE signature t expiresAt payload);
     case r of Inl e \<Rightarrow> op_fail e | Inr _ \<Rightarrow> do {
     modify (op_pkceCreated_update (\<lambda>_. True));
     State_Monad.return (Inr ()) } } } } }"

definition GetPKCERequestSession :: "oauth_env \<Rightarrow> opctx \<Rightarrow> string \<Rightarrow> Session option option
    \<Rightarrow> (Operation, Requester option \<times> check) state" where
  "GetPKCERequestSession env cx signature target = do {
     r \<leftarrow> operationQueries cx PurposeTokenExchange;
     case r of Inl e \<Rightarrow> State_Monad.return (None, Some e) | Inr _ \<Rightarrow> do {
     r \<leftarrow> lockCredential env kindPKCE signature;
     case r of Inl e \<Rightarrow> State_Monad.return (None, Some e) | Inr cg \<Rightarrow>
     if cr_ConsumedAt (fst cg) \<noteq> None \<or> cr_RevokedAt (fst cg) \<noteq> None
     then State_Monad.return (None, Some ErrNotFound)
     else do {
     r \<leftarrow> read_credential env kindPKCE signature AuthorizeCode target cg;
     State_Monad.return (case r of Inl e \<Rightarrow> (None, Some e) | Inr rq \<Rightarrow> (Some rq, None)) } } }"

definition DeletePKCERequestSession :: "oauth_env \<Rightarrow> opctx \<Rightarrow> string \<Rightarrow> unit oact" where
  "DeletePKCERequestSession env cx signature = do {
     r \<leftarrow> operationQueries cx PurposeTokenExchange;
     case r of Inl e \<Rightarrow> refuse e | Inr _ \<Rightarrow> do {
     r \<leftarrow> lockAndValidateCredential env kindPKCE signature AuthorizeCode;
     case r of Inl e \<Rightarrow> refuse e | Inr _ \<Rightarrow> do {
     t \<leftarrow> time_now env;
     r \<leftarrow> query env (ConsumeOAuthSession t kindPKCE signature);
     case r of Inl e \<Rightarrow> op_fail e | Inr rows \<Rightarrow>
     if rows \<noteq> 1 then refuse ErrNotFound else State_Monad.return (Inr ()) } } }"

end
