(* ===== verification/OAuth_Consent.thy ===== *)
theory OAuth_Consent
  imports OAuth_Operation
begin

text \<open>
  \<open>pkg/oauthserver/consent_store.go\<close>: pending consents, created, bound to a website session and
  read in short transactions, and consumed inside an authorization operation.
\<close>

record PendingConsent =
  pn_RequestCiphertext :: string
  pn_ExpiresAt :: gotime

text \<open>
  \<open>active\<close>: the context carries an operation. The session hash is \<open>None\<close> where the call passes
  nil.
\<close>

definition validateShortConsentCall :: "bool \<Rightarrow> string \<Rightarrow> string option \<Rightarrow> check" where
  "validateShortConsentCall active handleHash sessionHash = firsterr
    [fails active (Errorf ''pending consent short transaction cannot use an OAuth operation'' []),
     fails (handleHash = [] \<or> sessionHash = Some []) (Errorf ''pending consent hashes are invalid'' [])]"

definition consentNotFound :: "gerr \<Rightarrow> gerr" where
  "consentNotFound e = (if errors_Is e ErrNoRows then ErrAccessDenied else errStorageFailure)"

text \<open>A query whose failure is \<open>consentNotFound\<close>.\<close>

definition consent_lookup :: "oauth_env \<Rightarrow> 'a stmt \<Rightarrow> (pg_tx, gerr + 'a) state" where
  "consent_lookup env s = do {
     r \<leftarrow> exec env s;
     State_Monad.return (map_sum consentNotFound id r) }"

definition consent_refused :: "AuthUserAccount \<Rightarrow> AuthWebSession \<Rightarrow> AuthPendingConsent \<Rightarrow> int \<Rightarrow> gotime \<Rightarrow> bool" where
  "consent_refused account w c ownerAccount t \<longleftrightarrow> ownerAccount \<noteq> ws_AccountID w
     \<or> ua_Status account \<noteq> ''active'' \<or> ua_AuthorizationEpoch account \<noteq> ws_AccountEpoch w
     \<or> ws_RevokedAt w \<noteq> None \<or> \<not> Before t (ws_ExpiresAt w) \<or> pc_ConsumedAt c \<noteq> None
     \<or> \<not> Before t (pc_ExpiresAt c)"

definition lockAndValidateConsent :: "oauth_env \<Rightarrow> string \<Rightarrow> string \<Rightarrow> gotime \<Rightarrow> int \<Rightarrow> bool
    \<Rightarrow> (pg_tx, gerr + PendingConsent) state" where
  "lockAndValidateConsent env handleHash sessionHash t requiredAccountID toBind = do {
     r \<leftarrow> consent_lookup env (FindPendingConsentSessionOwner handleHash sessionHash);
     case r of Inl e \<Rightarrow> State_Monad.return (Inl e) | Inr (consentID, webSessionID, accountID) \<Rightarrow>
     if requiredAccountID > 0 \<and> accountID \<noteq> requiredAccountID then State_Monad.return (Inl ErrAccessDenied)
     else do {
     r \<leftarrow> consent_lookup env (LockOAuthAccount accountID);
     case r of Inl e \<Rightarrow> State_Monad.return (Inl e) | Inr account \<Rightarrow> do {
     r \<leftarrow> consent_lookup env (LockWebSessionForConsent webSessionID);
     case r of Inl e \<Rightarrow> State_Monad.return (Inl e) | Inr w \<Rightarrow> do {
     r \<leftarrow> consent_lookup env (LockPendingConsent consentID);
     case r of Inl e \<Rightarrow> State_Monad.return (Inl e) | Inr c \<Rightarrow>
     if consent_refused account w c accountID t then State_Monad.return (Inl ErrAccessDenied)
     else let found = \<lparr>pn_RequestCiphertext = pc_RequestCiphertext c, pn_ExpiresAt = pc_ExpiresAt c\<rparr> in
     let bound = (case pc_BoundWebSessionID c of None \<Rightarrow> 0 | Some i \<Rightarrow> i) in
     if bound = 0 then
         (if \<not> toBind then State_Monad.return (Inl ErrAccessDenied)
         else do {
           r \<leftarrow> exec env (BindPendingConsentRow (ws_ID w) t (pc_ID c));
           State_Monad.return (case r of Inl _ \<Rightarrow> Inl errStorageFailure
             | Inr rows \<Rightarrow> if rows \<noteq> 1 then Inl ErrAccessDenied else Inr found) })
     else State_Monad.return (if bound \<noteq> ws_ID w then Inl ErrAccessDenied else Inr found) } } } }"

definition CreatePendingConsent :: "oauth_env \<Rightarrow> bool \<Rightarrow> string \<Rightarrow> string \<Rightarrow> gotime \<Rightarrow> (pg_pool, check) state" where
  "CreatePendingConsent env active handleHash ciphertext expiresAt =
    (case validateShortConsentCall active handleHash None of Some e \<Rightarrow> State_Monad.return (Some e) | None \<Rightarrow>
     if ciphertext = [] \<or> IsZero expiresAt
     then State_Monad.return (Some (Errorf ''pending consent values are invalid'' []))
     else with_tx env (\<lambda>_. Some errStorageFailure) (do {
       r \<leftarrow> exec_at env (\<lambda>clock. CreatePendingConsentRow clock handleHash ciphertext expiresAt);
       case r of Inl _ \<Rightarrow> State_Monad.return (Some errStorageFailure) | Inr _ \<Rightarrow> do {
       c \<leftarrow> tx_commit env;
       State_Monad.return (if c \<noteq> None then Some errStorageFailure else None) } }))"

definition withShortConsent :: "oauth_env \<Rightarrow> bool \<Rightarrow> string \<Rightarrow> string option \<Rightarrow> gotime \<Rightarrow> bool
    \<Rightarrow> (pg_pool, gerr + PendingConsent) state" where
  "withShortConsent env active handleHash sessionHash t toBind =
    (case validateShortConsentCall active handleHash sessionHash of
       Some e \<Rightarrow> State_Monad.return (Inl e) | None \<Rightarrow>
     if IsZero t then State_Monad.return (Inl (Errorf ''pending consent time is invalid'' []))
     else with_tx env (\<lambda>_. Inl errStorageFailure) (do {
       r \<leftarrow> lockAndValidateConsent env handleHash (elems sessionHash) t 0 toBind;
       case r of Inl e \<Rightarrow> State_Monad.return (Inl e) | Inr found \<Rightarrow> do {
       c \<leftarrow> tx_commit env;
       State_Monad.return (if c \<noteq> None then Inl errStorageFailure else Inr found) } }))"

definition BindPendingConsent :: "oauth_env \<Rightarrow> bool \<Rightarrow> string \<Rightarrow> string option \<Rightarrow> gotime
    \<Rightarrow> (pg_pool, gerr + PendingConsent) state" where
  "BindPendingConsent env active handleHash sessionHash t = withShortConsent env active handleHash sessionHash t True"

definition ReadPendingConsent :: "oauth_env \<Rightarrow> bool \<Rightarrow> string \<Rightarrow> string option \<Rightarrow> gotime
    \<Rightarrow> (pg_pool, gerr + PendingConsent) state" where
  "ReadPendingConsent env active handleHash sessionHash t = withShortConsent env active handleHash sessionHash t False"

definition ConsumePendingConsent :: "oauth_env \<Rightarrow> opctx \<Rightarrow> string \<Rightarrow> string \<Rightarrow> gotime \<Rightarrow> ConsentDecision
    \<Rightarrow> PendingConsent oact" where
  "ConsumePendingConsent env cx handleHash sessionHash t decision = do {
     r \<leftarrow> operationQueries cx PurposeAuthorize;
     case r of Inl e \<Rightarrow> refuse e | Inr _ \<Rightarrow>
     if handleHash = [] \<or> sessionHash = [] \<or> IsZero t \<or> (decision \<noteq> ConsentApprove \<and> decision \<noteq> ConsentDeny)
     then refuse ErrAccessDenied
     else do {
     w \<leftarrow> State_Monad.get;
     r \<leftarrow> on_tx (lockAndValidateConsent env handleHash sessionHash t (bd_AccountID (op_binding w)) False);
     case r of Inl e \<Rightarrow> if errors_Is e errStorageFailure then op_fail e else refuse e | Inr found \<Rightarrow> do {
     r \<leftarrow> query env (FindPendingConsentSessionOwner handleHash sessionHash);
     case r of Inl e \<Rightarrow> notFoundOrFailure e | Inr (consentID, webSessionID, _) \<Rightarrow> do {
     r \<leftarrow> query env (ConsumePendingConsentRow t consentID webSessionID);
     case r of Inl e \<Rightarrow> op_fail e | Inr rows \<Rightarrow>
     if rows \<noteq> 1 then refuse ErrAccessDenied
     else do {
     modify (op_consentDecision_update (\<lambda>_. decision));
     State_Monad.return (Inr found) } } } } }"

end
