(* ===== verification/Identity_Store.thy ===== *)
theory Identity_Store
  imports Auth_Transaction Go_Text
begin

text \<open>
  \<open>pkg/identity\<close>: the PostgreSQL store of logins, accounts and website sessions. Whether a path
  parses as a request URI (with \<open>IsAbs\<close> and the fragment of the result) and \<open>strings.ToLower\<close>
  on Unicode are arguments.
\<close>

record id_env = auth_env +
  en_ParseRequestURI :: "string \<Rightarrow> (bool \<times> string) option"
  en_ToLower :: "string \<Rightarrow> string"

abbreviation (input) "ErrUnauthenticated \<equiv> Sentinel ''unauthenticated''"
abbreviation (input) "ErrBlocked \<equiv> Sentinel ''account blocked''"

record Profile =
  pf_Issuer :: string
  pf_Subject :: string
  pf_Email :: string
  pf_DisplayName :: string

record Principal =
  pr_AccountID :: int
  pr_Email :: string
  pr_DisplayName :: string
  pr_AuthorizationEpoch :: int
  pr_SessionHash :: string

record LoginTransaction =
  ln_StateHash :: string
  ln_BrowserHash :: string
  ln_NonceHash :: string
  ln_PKCEVerifierCiphertext :: string
  ln_ReturnPath :: string
  ln_PendingConsentHash :: "string option"
  ln_ExpiresAt :: gotime

section \<open>Validation\<close>

definition validReturnPath :: "'e id_env_scheme \<Rightarrow> string \<Rightarrow> bool" where
  "validReturnPath env path =
    (if \<not> HasPrefix path ''/'' \<or> HasPrefix path ''//'' \<or> Contains path [CHR 0x5C] then False
     else case en_ParseRequestURI env path of None \<Rightarrow> False
       | Some (isAbs, fragment) \<Rightarrow> \<not> isAbs \<and> fragment = [])"

definition validateLoginTransaction :: "'e id_env_scheme \<Rightarrow> LoginTransaction \<Rightarrow> check" where
  "validateLoginTransaction env t = firsterr
    [fails (ln_StateHash t = []) (Errorf ''state hash is required'' []),
     fails (ln_BrowserHash t = []) (Errorf ''browser hash is required'' []),
     fails (ln_NonceHash t = []) (Errorf ''nonce hash is required'' []),
     fails (ln_PKCEVerifierCiphertext t = []) (Errorf ''PKCE verifier ciphertext is required'' []),
     fails (\<not> validReturnPath env (ln_ReturnPath t)) (Errorf ''return path is invalid'' []),
     fails (IsZero (ln_ExpiresAt t)) (Errorf ''login transaction expiry is required'' [])]"

definition normalizeProfile :: "'e id_env_scheme \<Rightarrow> Profile \<Rightarrow> Profile" where
  "normalizeProfile env p = \<lparr>pf_Issuer = TrimSpace (pf_Issuer p), pf_Subject = TrimSpace (pf_Subject p),
     pf_Email = en_ToLower env (TrimSpace (pf_Email p)), pf_DisplayName = TrimSpace (pf_DisplayName p)\<rparr>"

definition validateProfile :: "Profile \<Rightarrow> check" where
  "validateProfile p = firsterr
    [fails (pf_Issuer p = []) (Errorf ''profile issuer is required'' []),
     fails (pf_Subject p = []) (Errorf ''profile subject is required'' []),
     fails (pf_Email p = []) (Errorf ''profile email is required'' [])]"

definition principalFromAccount :: "AuthUserAccount \<Rightarrow> string \<Rightarrow> Principal" where
  "principalFromAccount a sessionHash = \<lparr>pr_AccountID = ua_ID a, pr_Email = ua_Email a,
     pr_DisplayName = ua_DisplayName a, pr_AuthorizationEpoch = ua_AuthorizationEpoch a,
     pr_SessionHash = sessionHash\<rparr>"

section \<open>The store\<close>

definition Store_CreateLogin :: "'e id_env_scheme \<Rightarrow> LoginTransaction \<Rightarrow> (pg_pool, check) state" where
  "Store_CreateLogin env t = (case validateLoginTransaction env t of
     Some e \<Rightarrow> State_Monad.return (Some e)
   | None \<Rightarrow> do {
       r \<leftarrow> pool_exec env (\<lambda>clock. CreateLogin clock (ln_StateHash t) (ln_BrowserHash t) (ln_NonceHash t)
              (ln_PKCEVerifierCiphertext t) (ln_ReturnPath t) (ln_PendingConsentHash t) (ln_ExpiresAt t));
       State_Monad.return (case r of
         Inl e \<Rightarrow> Some (Wrapf ''create login transaction: %w'' [] [e]) | Inr _ \<Rightarrow> None) })"

definition login_of :: "AuthLoginTransaction \<Rightarrow> LoginTransaction" where
  "login_of l = \<lparr>ln_StateHash = lt_StateHash l, ln_BrowserHash = lt_BrowserHash l,
     ln_NonceHash = lt_NonceHash l, ln_PKCEVerifierCiphertext = lt_PkceVerifierCiphertext l,
     ln_ReturnPath = lt_ReturnPath l, ln_PendingConsentHash = lt_PendingConsentHash l,
     ln_ExpiresAt = lt_ExpiresAt l\<rparr>"

definition Store_ConsumeLogin :: "'e id_env_scheme \<Rightarrow> string \<Rightarrow> string \<Rightarrow> gotime
    \<Rightarrow> (pg_pool, gerr + LoginTransaction) state" where
  "Store_ConsumeLogin env stateHash browserHash t =
    (if stateHash = [] \<or> browserHash = [] \<or> IsZero t then State_Monad.return (Inl ErrUnauthenticated)
     else do {
       r \<leftarrow> pool_exec env (\<lambda>_. ConsumeLogin t stateHash browserHash);
       State_Monad.return (case r of
         Inl e \<Rightarrow> Inl (if errors_Is e ErrNoRows then ErrUnauthenticated
                       else Wrapf ''consume login transaction: %w'' [] [e])
       | Inr l \<Rightarrow> Inr (login_of l)) })"

definition complete_login :: "'e id_env_scheme \<Rightarrow> Profile \<Rightarrow> string \<Rightarrow> gotime \<Rightarrow> gotime
    \<Rightarrow> (pg_tx, gerr + Principal) state" where
  "complete_login env profile sessionHash t expiresAt = do {
     up \<leftarrow> exec env (UpsertUserAccount (en_lower env) (pf_Issuer profile) (pf_Subject profile)
             (pf_Email profile) (pf_DisplayName profile) t);
     case up of Inl e \<Rightarrow> State_Monad.return (Inl (Wrapf ''upsert user account: %w'' [] [e])) | Inr a \<Rightarrow> do {
     locked \<leftarrow> exec env (LockUserAccount (ua_ID a));
     case locked of Inl e \<Rightarrow> State_Monad.return (Inl (Wrapf ''lock user account: %w'' [] [e])) | Inr account \<Rightarrow>
     if ua_Status account = ''blocked'' then State_Monad.return (Inl ErrBlocked)
     else if ua_Status account \<noteq> ''active''
     then State_Monad.return (Inl (Errorf ''unsupported account status'' []))
     else do {
     w \<leftarrow> exec env (CreateWebSession sessionHash (ua_ID account) (ua_AuthorizationEpoch account) t expiresAt);
     case w of Inl e \<Rightarrow> State_Monad.return (Inl (Wrapf ''create web session: %w'' [] [e])) | Inr _ \<Rightarrow> do {
     c \<leftarrow> tx_commit env;
     State_Monad.return (case c of Some e \<Rightarrow> Inl (Wrapf ''commit login completion: %w'' [] [e])
       | None \<Rightarrow> Inr (principalFromAccount account sessionHash)) } } } }"

definition Store_CompleteLogin :: "'e id_env_scheme \<Rightarrow> Profile \<Rightarrow> string \<Rightarrow> gotime \<Rightarrow> gotime
    \<Rightarrow> (pg_pool, gerr + Principal) state" where
  "Store_CompleteLogin env p sessionHash t expiresAt =
    (let profile = normalizeProfile env p in
     case validateProfile profile of Some e \<Rightarrow> State_Monad.return (Inl e) | None \<Rightarrow>
     if sessionHash = [] then State_Monad.return (Inl (Errorf ''session hash is required'' []))
     else if IsZero t \<or> \<not> After expiresAt t
     then State_Monad.return (Inl (Errorf ''session times are invalid'' []))
     else with_tx env (\<lambda>e. Inl (Wrapf ''begin login completion: %w'' [] [e]))
       (complete_login env profile sessionHash t expiresAt))"

definition Store_Session :: "'e id_env_scheme \<Rightarrow> string \<Rightarrow> gotime \<Rightarrow> (pg_pool, gerr + Principal) state" where
  "Store_Session env sessionHash t =
    (if sessionHash = [] \<or> IsZero t then State_Monad.return (Inl ErrUnauthenticated)
     else do {
       r \<leftarrow> pool_exec env (\<lambda>_. CurrentWebSession sessionHash);
       State_Monad.return (case r of
         Inl e \<Rightarrow> Inl (if errors_Is e ErrNoRows then ErrUnauthenticated
                       else Wrapf ''load web session: %w'' [] [e])
       | Inr (w, a) \<Rightarrow>
           if ua_Status a = ''blocked'' then Inl ErrBlocked
           else if ua_Status a \<noteq> ''active'' \<or> ws_RevokedAt w \<noteq> None \<or> \<not> After (ws_ExpiresAt w) t
             \<or> ws_AccountEpoch w \<noteq> ua_AuthorizationEpoch a
           then Inl ErrUnauthenticated
           else Inr (principalFromAccount a (ws_SessionHash w))) })"

definition Store_RevokeSession :: "'e id_env_scheme \<Rightarrow> string \<Rightarrow> gotime \<Rightarrow> (pg_pool, check) state" where
  "Store_RevokeSession env sessionHash t =
    (if sessionHash = [] \<or> IsZero t then State_Monad.return (Some ErrUnauthenticated)
     else do {
       r \<leftarrow> pool_exec env (\<lambda>_. RevokeWebSession t sessionHash);
       State_Monad.return (case r of
         Inl e \<Rightarrow> Some (Wrapf ''revoke web session: %w'' [] [e]) | Inr _ \<Rightarrow> None) })"

section \<open>The cleanup command\<close>

text \<open>\<open>cmd/auth-cleanup\<close>; \<open>locked\<close> says which rows other transactions hold, by table.\<close>

record row_locks =
  rl_logins :: "int \<Rightarrow> bool"
  rl_consents :: "int \<Rightarrow> bool"
  rl_sessions :: "int \<Rightarrow> bool"
  rl_accounts :: "int \<Rightarrow> bool"
  rl_grants :: "int \<Rightarrow> bool"

definition delete_family :: "'e auth_env_scheme \<Rightarrow> row_locks \<Rightarrow> int \<Rightarrow> int \<Rightarrow> gotime \<Rightarrow> (pg_tx, check) state" where
  "delete_family env locked grantID accountID t = do {
     a \<leftarrow> exec env (LockAccountForCleanup (rl_accounts locked) accountID);
     case a of Inl e \<Rightarrow> State_Monad.return (if errors_Is e ErrNoRows then None
         else Some (Wrapf ''lock account for cleanup: %w'' [] [e])) | Inr _ \<Rightarrow> do {
     g \<leftarrow> exec env (LockOAuthGrantForCleanup (rl_grants locked) grantID t);
     case g of Inl e \<Rightarrow> State_Monad.return (if errors_Is e ErrNoRows then None
         else Some (Wrapf ''lock OAuth grant for cleanup: %w'' [] [e])) | Inr _ \<Rightarrow> do {
     s \<leftarrow> exec env (DeleteOAuthSessionsForGrant grantID);
     case s of Inl e \<Rightarrow> State_Monad.return (Some (Wrapf ''delete OAuth sessions: %w'' [] [e])) | Inr _ \<Rightarrow> do {
     d \<leftarrow> exec env (DeleteOAuthGrant grantID);
     case d of Inl e \<Rightarrow> State_Monad.return (Some (Wrapf ''delete OAuth grant: %w'' [] [e])) | Inr _ \<Rightarrow> do {
     c \<leftarrow> tx_commit env;
     State_Monad.return (map_option (\<lambda>e. Wrapf ''commit OAuth grant cleanup: %w'' [] [e]) c) } } } } }"

definition deleteGrantFamily :: "'e auth_env_scheme \<Rightarrow> row_locks \<Rightarrow> int \<Rightarrow> int \<Rightarrow> gotime \<Rightarrow> (pg_pool, check) state" where
  "deleteGrantFamily env locked grantID accountID t =
    with_tx env (\<lambda>e. Some (Wrapf ''begin OAuth grant cleanup: %w'' [] [e]))
      (delete_family env locked grantID accountID t)"

fun delete_families :: "'e auth_env_scheme \<Rightarrow> row_locks \<Rightarrow> gotime \<Rightarrow> (int \<times> int) list \<Rightarrow> (pg_pool, check) state" where
  "delete_families env locked t [] = State_Monad.return None"
| "delete_families env locked t ((grantID, accountID) # cs) = do {
     r \<leftarrow> deleteGrantFamily env locked grantID accountID t;
     case r of Some e \<Rightarrow> State_Monad.return (Some e) | None \<Rightarrow> delete_families env locked t cs }"

definition cleanup :: "'e auth_env_scheme \<Rightarrow> row_locks \<Rightarrow> int \<Rightarrow> gotime \<Rightarrow> (pg_pool, check) state" where
  "cleanup env locked batch t = do {
     l \<leftarrow> pool_exec env (\<lambda>_. DeleteExpiredLoginTransactions (rl_logins locked) t batch);
     case l of Inl e \<Rightarrow> State_Monad.return (Some (Wrapf ''delete login transactions: %w'' [] [e])) | Inr _ \<Rightarrow> do {
     p \<leftarrow> pool_exec env (\<lambda>_. DeleteExpiredPendingConsents (rl_consents locked) t batch);
     case p of Inl e \<Rightarrow> State_Monad.return (Some (Wrapf ''delete pending consents: %w'' [] [e])) | Inr _ \<Rightarrow> do {
     w \<leftarrow> pool_exec env (\<lambda>_. DeleteExpiredWebSessions (rl_sessions locked) t batch);
     case w of Inl e \<Rightarrow> State_Monad.return (Some (Wrapf ''delete web sessions: %w'' [] [e])) | Inr _ \<Rightarrow> do {
     c \<leftarrow> pool_exec env (\<lambda>_. ListExpiredOAuthGrantCandidates t batch);
     case c of Inl e \<Rightarrow> State_Monad.return (Some (Wrapf ''list expired OAuth grants: %w'' [] [e]))
     | Inr candidates \<Rightarrow> delete_families env locked t candidates } } } }"

end
