(* ===== verification/OAuth_Runs.thy ===== *)
theory OAuth_Runs
  imports OAuth_Store OAuth_Consent Identity_Store
begin

text \<open>
  Whole runs over the authentication database. A protocol operation is \<open>Begin\<close>, any sequence of
  storage calls with any arguments (\<open>fosite\<close> and the handlers decide which), and \<open>Finish\<close> or
  \<open>Rollback\<close>, as the handlers of \<open>token.go\<close> and \<open>authorize.go\<close> use it. A step of the system is
  one such operation, a short transaction of consents or identities, the cleanup command, or a
  function of the operator, each under its own environment: other clocks, failures and registered
  clients.
\<close>

datatype oauth_call =
    CallCreateCode opctx string "Requester option"
  | CallGetCode opctx string "Session option option"
  | CallInvalidateCode opctx string
  | CallCreateAccess opctx string "Requester option"
  | CallGetAccess opctx string "Session option option"
  | CallDeleteAccess opctx string
  | CallCreateRefresh opctx string string "Requester option"
  | CallGetRefresh opctx string "Session option option"
  | CallDeleteRefresh opctx string
  | CallRotate opctx string string
  | CallRevoke opctx string
  | CallCreatePKCE opctx string "Requester option"
  | CallGetPKCE opctx string "Session option option"
  | CallDeletePKCE opctx string
  | CallConsent opctx string string gotime ConsentDecision
  | CallBeginTX opctx
  | CallCommit opctx
  | CallRollback opctx

text \<open>Whether the call returned a nil error.\<close>

definition succeeds :: "'a oact \<Rightarrow> (Operation, bool) state" where
  "succeeds m = do { r \<leftarrow> m; State_Monad.return (case r of Inl _ \<Rightarrow> False | Inr _ \<Rightarrow> True) }"

definition returns :: "(Operation, Requester option \<times> check) state \<Rightarrow> (Operation, bool) state" where
  "returns m = do { r \<leftarrow> m; State_Monad.return (snd r = None) }"

fun perform :: "oauth_env \<Rightarrow> oauth_call \<Rightarrow> (Operation, bool) state" where
  "perform env (CallCreateCode cx signature rq) = succeeds (CreateAuthorizeCodeSession env cx signature rq)"
| "perform env (CallGetCode cx signature target) = returns (GetAuthorizeCodeSession env cx signature target)"
| "perform env (CallInvalidateCode cx signature) = succeeds (InvalidateAuthorizeCodeSession env cx signature)"
| "perform env (CallCreateAccess cx signature rq) = succeeds (CreateAccessTokenSession env cx signature rq)"
| "perform env (CallGetAccess cx signature target) = returns (GetAccessTokenSession env cx signature target)"
| "perform env (CallDeleteAccess cx signature) = succeeds (DeleteAccessTokenSession env cx signature)"
| "perform env (CallCreateRefresh cx signature access rq) = succeeds (CreateRefreshTokenSession env cx signature access rq)"
| "perform env (CallGetRefresh cx signature target) = returns (GetRefreshTokenSession env cx signature target)"
| "perform env (CallDeleteRefresh cx signature) = succeeds (DeleteRefreshTokenSession env cx signature)"
| "perform env (CallRotate cx requestID signature) = succeeds (RotateRefreshToken env cx requestID signature)"
| "perform env (CallRevoke cx requestID) = succeeds (revokeGrant env cx requestID)"
| "perform env (CallCreatePKCE cx signature rq) = succeeds (CreatePKCERequestSession env cx signature rq)"
| "perform env (CallGetPKCE cx signature target) = returns (GetPKCERequestSession env cx signature target)"
| "perform env (CallDeletePKCE cx signature) = succeeds (DeletePKCERequestSession env cx signature)"
| "perform env (CallConsent cx handle session t decision) = succeeds (ConsumePendingConsent env cx handle session t decision)"
| "perform env (CallBeginTX cx) = succeeds (store_BeginTX env cx)"
| "perform env (CallCommit cx) = succeeds (store_Commit env cx)"
| "perform env (CallRollback cx) = succeeds (store_Rollback env cx)"

fun performs :: "oauth_env \<Rightarrow> oauth_call list \<Rightarrow> (Operation, bool list) state" where
  "performs env [] = State_Monad.return []"
| "performs env (c # cs) = do { ok \<leftarrow> perform env c; oks \<leftarrow> performs env cs; State_Monad.return (ok # oks) }"

text \<open>\<open>Finish err\<close>, or the deferred \<open>Rollback\<close> alone when the handler leaves early.\<close>

datatype ending = Finishing check | Leaving

definition conclude :: "oauth_env \<Rightarrow> ending \<Rightarrow> (Operation, FinishOutcome \<times> check) state" where
  "conclude env e = (case e of
     Finishing err \<Rightarrow> do { r \<leftarrow> op_Finish env err; op_Rollback env; State_Monad.return r }
   | Leaving \<Rightarrow> do { op_Rollback env; State_Monad.return (OutcomeRolledBack, None) })"

text \<open>
  The result: what \<open>Begin\<close> refused with, or which calls succeeded and how the operation ended;
  and the pool as it is left.
\<close>

definition run_protocol :: "oauth_env \<Rightarrow> Binding \<Rightarrow> CredentialKind \<Rightarrow> string \<Rightarrow> oauth_call list \<Rightarrow> ending
    \<Rightarrow> pg_pool \<Rightarrow> (gerr + bool list \<times> FinishOutcome \<times> check) \<times> pg_pool" where
  "run_protocol env b kind presented cs e p = (case store_Begin env b kind presented p of
     (Inl err, p') \<Rightarrow> (Inl err, p')
   | (Inr w, _) \<Rightarrow> (case run_state (performs env cs) w of (oks, w') \<Rightarrow>
       (case run_state (conclude env e) w' of (r, w'') \<Rightarrow> (Inr (oks, r), settle (op_tx w'')))))"

definition left_by :: "(pg_pool, 'a) state \<Rightarrow> pg_pool \<Rightarrow> auth_db" where
  "left_by m p = pl_db (snd (run_state m p))"

inductive auth_step :: "auth_db \<Rightarrow> auth_db \<Rightarrow> bool" where
  protocol: "auth_step (pl_db p) (pl_db (snd (run_protocol env b kind presented cs e p)))"
| create_consent: "auth_step (pl_db p) (left_by (CreatePendingConsent env active handle ciphertext expiresAt) p)"
| short_consent: "auth_step (pl_db p) (left_by (withShortConsent env active handle session t toBind) p)"
| create_login: "auth_step (pl_db p) (left_by (Store_CreateLogin (ienv :: id_env) login) p)"
| consume_login: "auth_step (pl_db p) (left_by (Store_ConsumeLogin (ienv :: id_env) state browser t) p)"
| complete_login: "auth_step (pl_db p) (left_by (Store_CompleteLogin (ienv :: id_env) profile session t expiresAt) p)"
| read_session: "auth_step (pl_db p) (left_by (Store_Session (ienv :: id_env) session t) p)"
| revoke_session: "auth_step (pl_db p) (left_by (Store_RevokeSession (ienv :: id_env) session t) p)"
| cleaning: "auth_step (pl_db p) (left_by (cleanup (aenv :: auth_env) locked batch t) p)"
| blocking: "block_user_account clock account reason d = Inr ((), d') \<Longrightarrow> auth_step d d'"
| unblocking: "unblock_user_account account reason d = Inr ((), d') \<Longrightarrow> auth_step d d'"

abbreviation auth_run :: "auth_db \<Rightarrow> auth_db \<Rightarrow> bool" where
  "auth_run \<equiv> auth_step\<^sup>*\<^sup>*"

end
