(* ===== verification/Auth_Laws.thy ===== *)
theory Auth_Laws
  imports OAuth_Runs
begin

text \<open>
  What a property of the authentication tables needs to hold in every reachable database: it must
  survive each statement the code sends (three inserts together with the statement the code always
  pairs them with). The locale \<open>auth_laws\<close> states this as its laws; from them follows that every
  step of the system keeps the property, whatever fails in it (\<open>auth_run_keeps\<close>).
\<close>

named_theorems keeps_intro "how the state of a transaction is kept through a program"

section \<open>Keeping a property through a program\<close>

definition keeps :: "('s \<Rightarrow> bool) \<Rightarrow> ('s, 'a) state \<Rightarrow> bool" where
  "keeps P m \<longleftrightarrow> (\<forall>s. P s \<longrightarrow> P (snd (run_state m s)))"

lemma keepsD: "keeps P m \<Longrightarrow> P s \<Longrightarrow> P (snd (run_state m s))"
  by (simp add: keeps_def)

lemma run_bind: "run_state (State_Monad.bind m f) s = (case run_state m s of (a, s') \<Rightarrow> run_state (f a) s')"
  by (simp add: State_Monad.bind_def case_prod_unfold)

lemma run_return [simp]: "run_state (State_Monad.return a) s = (a, s)"
  by (simp add: State_Monad.return_def)

lemma run_get [simp]: "run_state State_Monad.get s = (s, s)"
  by (simp add: State_Monad.get_def)

lemma keeps_bind [keeps_intro]: "keeps P m \<Longrightarrow> (\<And>a. keeps P (f a)) \<Longrightarrow> keeps P (State_Monad.bind m f)"
  by (auto simp: keeps_def run_bind split: prod.splits)

lemma keeps_return [keeps_intro]: "keeps P (State_Monad.return a)"
  by (simp add: keeps_def)

lemma keeps_get [keeps_intro]: "keeps P State_Monad.get"
  by (simp add: keeps_def)

lemma keeps_cases [keeps_intro]:
  "(b \<Longrightarrow> keeps P m) \<Longrightarrow> (\<not> b \<Longrightarrow> keeps P m') \<Longrightarrow> keeps P (if b then m else m')"
  "(\<And>e. r = Inl e \<Longrightarrow> keeps P (f e)) \<Longrightarrow> (\<And>a. r = Inr a \<Longrightarrow> keeps P (g a))
    \<Longrightarrow> keeps P (case r of Inl e \<Rightarrow> f e | Inr a \<Rightarrow> g a)"
  "(x = None \<Longrightarrow> keeps P m) \<Longrightarrow> (\<And>y. x = Some y \<Longrightarrow> keeps P (h y))
    \<Longrightarrow> keeps P (case x of None \<Rightarrow> m | Some y \<Rightarrow> h y)"
  "(\<And>u v. z = (u, v) \<Longrightarrow> keeps P (k u v)) \<Longrightarrow> keeps P (case z of (u, v) \<Rightarrow> k u v)"
  by (auto split: sum.splits option.splits prod.splits)

lemma keeps_let [keeps_intro]: "keeps P (f x) \<Longrightarrow> keeps P (let y = x in f y)"
  by simp

section \<open>Statements and transactions\<close>

definition stmt_keeps :: "(auth_db \<Rightarrow> bool) \<Rightarrow> 'a stmt \<Rightarrow> bool" where
  "stmt_keeps I s \<longleftrightarrow> (\<forall>d a d'. I d \<longrightarrow> s d = Inr (a, d') \<longrightarrow> I d')"

definition stmt_reads :: "'a stmt \<Rightarrow> bool" where
  "stmt_reads s \<longleftrightarrow> (\<forall>d a d'. s d = Inr (a, d') \<longrightarrow> d' = d)"

lemma reads_keeps: "stmt_reads s \<Longrightarrow> stmt_keeps I s"
  by (auto simp: stmt_reads_def stmt_keeps_def)

lemma first_row_Inr: "first_row P rows = Inr r \<longleftrightarrow> find P rows = Some r"
  by (auto simp: first_row_def split: option.splits)

lemma select_one_Inr: "select_one table P d = Inr (r, d') \<longleftrightarrow> d' = d \<and> find P (table d) = Some r"
  by (cases "first_row P (table d)") (auto simp: select_one_def first_row_Inr [symmetric])

lemma find_SomeD: "find P xs = Some x \<Longrightarrow> x \<in> set xs \<and> P x"
  by (auto simp: find_Some_iff)

lemma reads_simps:
  "stmt_reads (select_one table P)" "stmt_reads (FindOAuthCredentialOwner kind signature)"
  "stmt_reads (FindOAuthGrantOwner requestID)" "stmt_reads (FindPendingConsentSessionOwner handle session)"
  "stmt_reads (CurrentWebSession session)" "stmt_reads (ListExpiredOAuthGrantCandidates t batch)"
  "stmt_reads no_change"
  by (auto simp: stmt_reads_def select_one_Inr FindOAuthCredentialOwner_def FindOAuthGrantOwner_def
    FindPendingConsentSessionOwner_def CurrentWebSession_def ListExpiredOAuthGrantCandidates_def
    no_change_def map_sum_def split: sum.splits prod.splits)

lemma reads_locks [keeps_intro]:
  "stmt_keeps I (LockOAuthAccount i)" "stmt_keeps I (LockOAuthGrant i)" "stmt_keeps I (LockUserAccount i)"
  "stmt_keeps I (LockOAuthGrantByRequestID r)" "stmt_keeps I (LockOAuthCredential k s)"
  "stmt_keeps I (LockWebSessionForConsent i)" "stmt_keeps I (LockPendingConsent i)"
  "stmt_keeps I (LockAccountForCleanup l i)" "stmt_keeps I (LockOAuthGrantForCleanup l i t)"
  "stmt_keeps I (FindOAuthCredentialOwner k s)" "stmt_keeps I (FindOAuthGrantOwner r)"
  "stmt_keeps I (FindPendingConsentSessionOwner h s)" "stmt_keeps I (CurrentWebSession s)"
  "stmt_keeps I (ListExpiredOAuthGrantCandidates t n)" "stmt_keeps I no_change"
  by (auto intro!: reads_keeps simp: reads_simps LockOAuthAccount_def LockOAuthGrant_def LockUserAccount_def
    LockOAuthGrantByRequestID_def LockOAuthCredential_def LockWebSessionForConsent_def
    LockPendingConsent_def LockAccountForCleanup_def LockOAuthGrantForCleanup_def)

text \<open>What is committed, what the transaction sees and what it may go back to.\<close>

definition tx_good :: "(auth_db \<Rightarrow> bool) \<Rightarrow> pg_tx \<Rightarrow> bool" where
  "tx_good I x \<longleftrightarrow> I (tx_base x) \<and> I (tx_db x) \<and> (\<forall>d. tx_save x = Some d \<longrightarrow> I d)"

lemma tx_good_simps [simp]:
  "tx_good I (tick x) = tx_good I x" "tx_good I (x\<lparr>tx_status := st\<rparr>) = tx_good I x"
  by (simp_all add: tx_good_def tick_def)

lemma exec_keeps [keeps_intro]: "stmt_keeps I s \<Longrightarrow> keeps (tx_good I) (exec env s)"
  by (auto simp: keeps_def exec_def stmt_keeps_def tx_good_def tick_def
    split: option.splits fault.splits sum.splits prod.splits if_splits)

lemma tx_now_keeps [keeps_intro]: "keeps (tx_good I) (tx_now env)"
  by (simp add: keeps_def tx_now_def)

lemma exec_at_keeps [keeps_intro]: "(\<And>c. stmt_keeps I (s c)) \<Longrightarrow> keeps (tx_good I) (exec_at env s)"
  unfolding exec_at_def by (intro keeps_intro)

lemma tx_commit_keeps [keeps_intro]: "keeps (tx_good I) (tx_commit env)"
  by (auto simp: keeps_def tx_commit_def Let_def tx_good_def tick_def split: option.splits fault.splits)

lemma tx_rollback_keeps [keeps_intro]: "keeps (tx_good I) (tx_rollback env)"
  by (auto simp: keeps_def tx_rollback_def)

lemma tx_savepoint_keeps [keeps_intro]:
  "keeps (tx_good I) (tx_savepoint env)" "keeps (tx_good I) (tx_release env)"
  unfolding tx_savepoint_def tx_release_def
  by (intro keeps_intro; simp add: keeps_def tx_good_def)+

lemma tx_rollback_to_keeps [keeps_intro]: "keeps (tx_good I) (tx_rollback_to env)"
  by (auto simp: keeps_def tx_rollback_to_def tx_good_def tick_def split: option.splits fault.splits)

section \<open>The pool\<close>

definition pool_good :: "(auth_db \<Rightarrow> bool) \<Rightarrow> pg_pool \<Rightarrow> bool" where
  "pool_good I p \<longleftrightarrow> I (pl_db p)"

lemma pool_exec_keeps [keeps_intro]:
  "(\<And>c. stmt_keeps I (s c)) \<Longrightarrow> keeps (pool_good I) (pool_exec env s)"
  by (auto simp: keeps_def pool_exec_def stmt_keeps_def pool_good_def Let_def
    split: option.splits fault.splits sum.splits)

lemma pool_now_keeps [keeps_intro]: "keeps (pool_good I) (pool_now env)"
  by (simp add: keeps_def pool_now_def pool_good_def)

lemma tx_good_begun: "pool_good I p \<Longrightarrow> tx_good I (begun p)"
  by (simp add: tx_good_def pool_good_def begun_def)

lemma pool_begin_cases:
  "pool_begin env p = (Inr x, p') \<Longrightarrow> x = begun p \<and> pl_db p' = pl_db p"
  "pool_begin env p = (Inl e, p') \<Longrightarrow> pl_db p' = pl_db p"
  by (auto simp: pool_begin_def split: option.splits fault.splits)

lemma settle_good: "tx_good I x \<Longrightarrow> pool_good I (settle x)"
  by (simp add: tx_good_def pool_good_def settle_def)

lemma with_tx_keeps [keeps_intro]:
  assumes "keeps (tx_good I) body"
  shows "keeps (pool_good I) (with_tx env failed body)"
  unfolding keeps_def
proof (intro allI impI)
  fix p assume p: "pool_good I p"
  have K: "keeps (tx_good I) (do { r \<leftarrow> body; tx_rollback env; State_Monad.return r })"
    by (intro keeps_intro assms)
  show "pool_good I (snd (run_state (with_tx env failed body) p))"
  proof (cases "pool_begin env p")
    case (Pair r p')
    show ?thesis
    proof (cases r)
      case (Inl e)
      with Pair pool_begin_cases(2) [of env p e p'] p show ?thesis
        by (simp add: with_tx_def pool_good_def)
    next
      case (Inr x)
      with Pair pool_begin_cases(1) [of env p x p'] have "x = begun p" by simp
      moreover obtain a x' where run: "run_state (do { r \<leftarrow> body; tx_rollback env; State_Monad.return r }) (begun p) = (a, x')"
        by fastforce
      ultimately have "run_state (with_tx env failed body) p = (a, settle x')"
        using Pair Inr unfolding with_tx_def by simp
      with keepsD [OF K tx_good_begun [OF p]] run show ?thesis by (simp add: settle_good)
    qed
  qed
qed

section \<open>The operation\<close>

text \<open>A failed operation is never committed, so what it sees no longer matters.\<close>

definition op_good :: "(auth_db \<Rightarrow> bool) \<Rightarrow> Operation \<Rightarrow> bool" where
  "op_good I w \<longleftrightarrow> I (tx_base (op_tx w)) \<and> (op_storageFailed w \<or> tx_good I (op_tx w))"

definition quiet :: "(Operation \<Rightarrow> Operation) \<Rightarrow> bool" where
  "quiet f \<longleftrightarrow> (\<forall>w. op_tx (f w) = op_tx w \<and> op_storageFailed (f w) = op_storageFailed w)"

lemma modify_keeps [keeps_intro]: "quiet f \<Longrightarrow> keeps (op_good I) (modify f)"
  by (simp add: keeps_def modify_def op_good_def quiet_def)

lemma quiet_updates [keeps_intro]:
  "quiet (op_issuanceAttempted_update f1)" "quiet (op_codeCreated_update f1)" "quiet (op_pkceCreated_update f1)"
  "quiet (op_consentDecision_update f2)" "quiet (op_replay_update f3)" "quiet (op_replayComplete_update f1)"
  "quiet (op_presented_update f4)" "quiet (op_finished_update f1)"
  "quiet (\<lambda>w. w\<lparr>op_finished := True, op_presented := []\<rparr>)"
  "quiet (\<lambda>w. w\<lparr>op_openSavepoints := n w, op_savepoints := l w\<rparr>)"
  "quiet (\<lambda>w. w\<lparr>op_savepoints := l w, op_openSavepoints := n w\<rparr>)"
  by (simp_all add: quiet_def)

lemma op_fail_good: "op_good I w \<Longrightarrow> op_good I (w\<lparr>op_storageFailed := True\<rparr>)"
  by (simp add: op_good_def)

lemma refuse_keeps [keeps_intro]: "keeps P (refuse e)"
  by (simp add: refuse_def keeps_return)

lemma op_fail_keeps [keeps_intro]: "keeps (op_good I) (op_fail e)"
  unfolding op_fail_def by (rule keeps_bind) (simp_all add: keeps_def modify_def op_good_def refuse_def)

lemma notFoundOrFailure_keeps [keeps_intro]: "keeps (op_good I) (notFoundOrFailure e)"
  unfolding notFoundOrFailure_def by (intro keeps_intro)

text \<open>A step on the transaction that commits nothing.\<close>

lemma on_tx_keeps:
  assumes "keeps (tx_good I) m" "keeps (\<lambda>x. I (tx_base x)) m"
  shows "keeps (op_good I) (on_tx m)"
  using assms by (auto simp: keeps_def on_tx_def op_good_def split: prod.splits)

lemma base_exec [keeps_intro]: "keeps (\<lambda>x. I (tx_base x)) (exec env s)"
  by (auto simp: keeps_def exec_def tick_def split: option.splits fault.splits sum.splits prod.splits)

lemma base_steps [keeps_intro]:
  "keeps (\<lambda>x. I (tx_base x)) (tx_now env)" "keeps (\<lambda>x. I (tx_base x)) (exec_at env s)"
  "keeps (\<lambda>x. I (tx_base x)) (tx_savepoint env)" "keeps (\<lambda>x. I (tx_base x)) (tx_release env)"
  "keeps (\<lambda>x. I (tx_base x)) (tx_rollback_to env)" "keeps (\<lambda>x. I (tx_base x)) (tx_rollback env)"
proof -
  show "keeps (\<lambda>x. I (tx_base x)) (tx_now env)" by (simp add: keeps_def tx_now_def tick_def)
  show "keeps (\<lambda>x. I (tx_base x)) (exec_at env s)" unfolding exec_at_def by (intro keeps_intro)
  show "keeps (\<lambda>x. I (tx_base x)) (tx_savepoint env)" "keeps (\<lambda>x. I (tx_base x)) (tx_release env)"
    unfolding tx_savepoint_def tx_release_def by (intro keeps_intro; simp add: keeps_def)+
  show "keeps (\<lambda>x. I (tx_base x)) (tx_rollback_to env)" "keeps (\<lambda>x. I (tx_base x)) (tx_rollback env)"
    by (auto simp: keeps_def tx_rollback_to_def tx_rollback_def tick_def split: option.splits fault.splits)
qed

lemma query_keeps [keeps_intro]: "stmt_keeps I s \<Longrightarrow> keeps (op_good I) (query env s)"
  unfolding query_def by (intro on_tx_keeps keeps_intro)

lemma lookup_keeps [keeps_intro]: "stmt_keeps I s \<Longrightarrow> keeps (op_good I) (lookup env s)"
  unfolding lookup_def by (intro keeps_intro)

lemma time_now_keeps [keeps_intro]: "keeps (op_good I) (time_now env)"
  unfolding time_now_def by (intro on_tx_keeps keeps_intro)

text \<open>What one query does to the operation.\<close>

lemma query_Inr: "run_state (query env s) w = (Inr a, w') \<Longrightarrow> \<exists>d. s (tx_db (op_tx w)) = Inr (a, d)
    \<and> w' = w\<lparr>op_tx := tick ((op_tx w)\<lparr>tx_db := d\<rparr>)\<rparr>"
  by (auto simp: query_def on_tx_def exec_def
    split: prod.splits if_splits option.splits fault.splits sum.splits)

lemma query_Inl: "run_state (query env s) w = (Inl e, w') \<Longrightarrow> op_storageFailed w' = op_storageFailed w
    \<and> tx_base (op_tx w') = tx_base (op_tx w) \<and> tx_db (op_tx w') = tx_db (op_tx w)
    \<and> tx_save (op_tx w') = tx_save (op_tx w)"
  by (auto simp: query_def on_tx_def exec_def tick_def
    split: prod.splits if_splits option.splits fault.splits sum.splits)

lemma op_good_Inl: "run_state (query env s) w = (Inl e, w') \<Longrightarrow> op_good I w \<Longrightarrow> op_good I w'"
  by (drule query_Inl) (auto simp: op_good_def tx_good_def)

lemma run_op_fail [simp]: "run_state (op_fail e) w = (Inl errStorageFailure, w\<lparr>op_storageFailed := True\<rparr>)"
  by (simp add: op_fail_def run_bind modify_def refuse_def)

text \<open>
  A locked row stays what it is until the next statement, so the statement after it may rely on
  it.
\<close>

definition sees :: "(auth_db \<Rightarrow> bool) \<Rightarrow> (auth_db \<Rightarrow> bool) \<Rightarrow> Operation \<Rightarrow> bool" where
  "sees I F w \<longleftrightarrow> op_good I w \<and> F (tx_db (op_tx w))"

definition ensures :: "('s \<Rightarrow> bool) \<Rightarrow> ('s, 'a) state \<Rightarrow> ('s \<Rightarrow> bool) \<Rightarrow> bool" where
  "ensures P m Q \<longleftrightarrow> (\<forall>s. P s \<longrightarrow> Q (snd (run_state m s)))"

named_theorems ensures_intro "from what is seen to what is kept"

lemma ensures_keeps: "keeps (op_good I) m \<Longrightarrow> ensures (sees I F) m (op_good I)"
  by (simp add: ensures_def keeps_def sees_def)

lemma ensures_cases [ensures_intro]:
  "(b \<Longrightarrow> ensures P m Q) \<Longrightarrow> (\<not> b \<Longrightarrow> ensures P m' Q) \<Longrightarrow> ensures P (if b then m else m') Q"
  "(\<And>e. r = Inl e \<Longrightarrow> ensures P (f e) Q) \<Longrightarrow> (\<And>a. r = Inr a \<Longrightarrow> ensures P (g a) Q)
    \<Longrightarrow> ensures P (case r of Inl e \<Rightarrow> f e | Inr a \<Rightarrow> g a) Q"
  "(x = None \<Longrightarrow> ensures P m Q) \<Longrightarrow> (\<And>y. x = Some y \<Longrightarrow> ensures P (h y) Q)
    \<Longrightarrow> ensures P (case x of None \<Rightarrow> m | Some y \<Rightarrow> h y) Q"
  by (auto split: sum.splits option.splits)

lemma ensures_let [ensures_intro]: "ensures P (h x) Q \<Longrightarrow> ensures P (let y = x in h y) Q"
  by simp

lemma ensures_time [ensures_intro]:
  assumes "\<And>t. ensures (sees I F) (k t) (op_good I)"
  shows "ensures (sees I F) (do { t \<leftarrow> time_now env; k t }) (op_good I)"
  unfolding ensures_def
proof (intro allI impI)
  fix w assume w: "sees I F w"
  obtain t w' where n: "run_state (time_now env) w = (t, w')" by fastforce
  then have "w' = w\<lparr>op_tx := tick (op_tx w)\<rparr>" by (auto simp: time_now_def on_tx_def tx_now_def)
  with w have "sees I F w'" by (auto simp: sees_def op_good_def tick_def tx_good_def)
  with assms n show "op_good I (snd (run_state (do { t \<leftarrow> time_now env; k t }) w))"
    by (simp add: ensures_def run_bind)
qed

lemma keeps_lock:
  assumes "\<And>d a d'. s d = Inr (a, d') \<Longrightarrow> d' = d"
    and "\<And>e. keeps (op_good I) (f e)"
    and "\<And>a. ensures (sees I (\<lambda>d. s d = Inr (a, d))) (g a) (op_good I)"
  shows "keeps (op_good I) (do { r \<leftarrow> query env s; case r of Inl e \<Rightarrow> f e | Inr a \<Rightarrow> g a })"
  unfolding keeps_def
proof (intro allI impI)
  fix w assume w: "op_good I w"
  obtain r w1 where r: "run_state (query env s) w = (r, w1)" by fastforce
  show "op_good I (snd (run_state (do { r \<leftarrow> query env s; case r of Inl e \<Rightarrow> f e | Inr a \<Rightarrow> g a }) w))"
  proof (cases r)
    case (Inl e)
    with keepsD [OF assms(2) op_good_Inl [OF _ w]] r show ?thesis by (simp add: run_bind)
  next
    case (Inr a)
    with r obtain d where d: "s (tx_db (op_tx w)) = Inr (a, d)"
      "w1 = w\<lparr>op_tx := tick ((op_tx w)\<lparr>tx_db := d\<rparr>)\<rparr>" by (auto dest: query_Inr)
    with assms(1) have "d = tx_db (op_tx w)" by blast
    with w d have "sees I (\<lambda>d. s d = Inr (a, d)) w1"
      by (auto simp: sees_def op_good_def tick_def tx_good_def)
    with assms(3) r Inr show ?thesis by (simp add: ensures_def run_bind)
  qed
qed

text \<open>
  Two queries of which only the second makes the property whole again: when it fails, the
  operation has failed.
\<close>

lemma paired_after_lock:
  assumes law: "\<And>d a d1 b d2. I d \<Longrightarrow> F d \<Longrightarrow> s1 d = Inr (a, d1) \<Longrightarrow> s2 a d1 = Inr (b, d2) \<Longrightarrow> I d2"
    and rest: "\<And>a b. keeps (op_good I) (k a b)"
  shows "ensures (sees I F) (do { r \<leftarrow> query env s1; case r of Inl e \<Rightarrow> op_fail e | Inr a \<Rightarrow>
    do { r \<leftarrow> query env (s2 a); case r of Inl e \<Rightarrow> op_fail e | Inr b \<Rightarrow> k a b } }) (op_good I)"
  unfolding ensures_def
proof (intro allI impI)
  fix w assume "sees I F w"
  then have w: "op_good I w" and F: "F (tx_db (op_tx w))" by (simp_all add: sees_def)
  obtain r w1 where r: "run_state (query env s1) w = (r, w1)" by fastforce
  show "op_good I (snd (run_state (do { r \<leftarrow> query env s1; case r of Inl e \<Rightarrow> op_fail e | Inr a \<Rightarrow>
    do { r \<leftarrow> query env (s2 a); case r of Inl e \<Rightarrow> op_fail e | Inr b \<Rightarrow> k a b } }) w))"
  proof (cases r)
    case (Inl e)
    with r w have "op_good I w1" by (auto intro: op_good_Inl)
    with r Inl show ?thesis by (simp add: run_bind op_fail_good)
  next
    case (Inr a)
    with r obtain d1 where d1: "s1 (tx_db (op_tx w)) = Inr (a, d1)"
      "w1 = w\<lparr>op_tx := tick ((op_tx w)\<lparr>tx_db := d1\<rparr>)\<rparr>"
      by (auto dest: query_Inr)
    obtain r2 w2 where r2: "run_state (query env (s2 a)) w1 = (r2, w2)" by fastforce
    show ?thesis
    proof (cases r2)
      case (Inl e)
      with r2 query_Inl [of env "s2 a" w1 e w2] w d1 have "op_good I (w2\<lparr>op_storageFailed := True\<rparr>)"
        by (simp add: op_good_def tick_def)
      with r \<open>r = Inr a\<close> r2 Inl show ?thesis by (simp add: run_bind)
    next
      case (Inr b)
      with r2 obtain d2 where d2: "s2 a (tx_db (op_tx w1)) = Inr (b, d2)"
        "w2 = w1\<lparr>op_tx := tick ((op_tx w1)\<lparr>tx_db := d2\<rparr>)\<rparr>"
        by (auto dest: query_Inr)
      have "op_good I w2"
      proof (cases "op_storageFailed w")
        case True
        with w d1 d2 show ?thesis by (simp add: op_good_def tick_def)
      next
        case False
        with w have g: "tx_good I (op_tx w)" "I (tx_base (op_tx w))" by (simp_all add: op_good_def)
        from d1 d2 law [OF _ F d1(1)] g have "I d2" by (simp add: tx_good_def tick_def)
        with g d1 d2 show ?thesis by (simp add: op_good_def tx_good_def tick_def)
      qed
      from keepsD [OF rest this] r r2 Inr \<open>r = Inr a\<close> show ?thesis by (simp add: run_bind)
    qed
  qed
qed

lemma paired_queries:
  assumes "\<And>d a d1 b d2. I d \<Longrightarrow> s1 d = Inr (a, d1) \<Longrightarrow> s2 a d1 = Inr (b, d2) \<Longrightarrow> I d2"
    and "\<And>a b. keeps (op_good I) (k a b)"
  shows "keeps (op_good I) (do { r \<leftarrow> query env s1; case r of Inl e \<Rightarrow> op_fail e | Inr a \<Rightarrow>
    do { r \<leftarrow> query env (s2 a); case r of Inl e \<Rightarrow> op_fail e | Inr b \<Rightarrow> k a b } })"
  using paired_after_lock [where F = "\<lambda>_. True", of I s1 s2 k, OF _ assms(2)] assms(1)
  by (fastforce simp: ensures_def keeps_def sees_def)

end
