(* ===== verification/Auth_System.thy ===== *)
theory Auth_System
  imports Auth_Laws
begin

text \<open>
  The laws a property of the tables has to satisfy, statement by statement, and what follows from
  them: every operation of the system keeps it.
\<close>

locale auth_laws =
  fixes I :: "auth_db \<Rightarrow> bool"
  assumes code_law: "\<And>d request account epoch client resource t x g d1 jsonb signature payload i d2.
      \<lbrakk>I d; CreateOAuthGrant request account epoch client resource t x d = Inr (g, d1);
       CreateOAuthSession jsonb (og_ID g) ''authorize_code'' signature t x payload d1 = Inr (i, d2)\<rbrakk> \<Longrightarrow> I d2"
    and access_law: "\<And>d jsonb grant signature t x payload i d1 d2.
      \<lbrakk>I d; CreateOAuthSession jsonb grant ''access_token'' signature t x payload d = Inr (i, d1);
       ExtendOAuthGrantRetention grant x d1 = Inr ((), d2)\<rbrakk> \<Longrightarrow> I d2"
    and refresh_law: "\<And>d a access jsonb grant signature t x payload i d1 d2.
      \<lbrakk>I d; LockOAuthCredential ''access_token'' access d = Inr (a, d); os_GrantID a = grant;
       CreateOAuthRefreshSession jsonb grant signature (Some (os_ID a)) t x payload d = Inr (i, d1);
       ExtendOAuthGrantRetention grant x d1 = Inr ((), d2)\<rbrakk> \<Longrightarrow> I d2"
    and pkce_law: "\<And>jsonb grant signature t x payload.
      stmt_keeps I (CreateOAuthSession jsonb grant ''pkce'' signature t x payload)"
    and consume_law: "\<And>t kind signature. stmt_keeps I (ConsumeOAuthSession t kind signature)"
    and revoke_law: "\<And>t P. stmt_keeps I (revoke_sessions t P)"
    and family_law: "\<And>grant t reason. stmt_keeps I (RevokeOAuthGrantFamily grant t reason)"
    and event_law: "\<And>c grant kind. stmt_keeps I (RecordOAuthSecurityEvent c grant kind)"
    and consent_laws: "\<And>c handle ciphertext x. stmt_keeps I (CreatePendingConsentRow c handle ciphertext x)"
      "\<And>session t consent. stmt_keeps I (BindPendingConsentRow session t consent)"
      "\<And>t consent session. stmt_keeps I (ConsumePendingConsentRow t consent session)"
    and login_laws: "\<And>c state browser nonce pkce path pending x.
        stmt_keeps I (CreateLogin c state browser nonce pkce path pending x)"
      "\<And>t state browser. stmt_keeps I (ConsumeLogin t state browser)"
    and account_law: "\<And>lower issuer subject email name t.
        stmt_keeps I (UpsertUserAccount lower issuer subject email name t)"
    and web_laws: "\<And>session account epoch t x. stmt_keeps I (CreateWebSession session account epoch t x)"
      "\<And>t session. stmt_keeps I (RevokeWebSession t session)"
    and delete_laws: "\<And>l t n. stmt_keeps I (DeleteExpiredLoginTransactions l t n)"
      "\<And>l t n. stmt_keeps I (DeleteExpiredPendingConsents l t n)"
      "\<And>l t n. stmt_keeps I (DeleteExpiredWebSessions l t n)"
      "\<And>grant. stmt_keeps I (DeleteOAuthSessionsForGrant grant)"
      "\<And>grant. stmt_keeps I (DeleteOAuthGrant grant)"
    and operator_laws: "\<And>c account reason. stmt_keeps I (block_user_account c account reason)"
      "\<And>account reason. stmt_keeps I (unblock_user_account account reason)"
begin

lemmas laws = pkce_law consume_law revoke_law family_law event_law consent_laws login_laws
  account_law web_laws delete_laws operator_laws

lemma revoke_statements:
  "stmt_keeps I (RevokeOAuthSession t kind signature)"
  "stmt_keeps I (RevokeOAuthAccessTokensForGrant t grant)"
  by (simp_all add: RevokeOAuthSession_def RevokeOAuthAccessTokensForGrant_def revoke_law)

lemma context_keeps:
  "keeps (op_good I) (operationQueriesAny cx)" "keeps (op_good I) (operationQueries cx purpose)"
proof -
  show any: "keeps (op_good I) (operationQueriesAny cx)"
    unfolding operationQueriesAny_def by (intro keeps_intro)
  show "keeps (op_good I) (operationQueries cx purpose)"
    unfolding operationQueries_def by (intro keeps_intro any)
qed

lemma locking_keeps:
  "keeps (op_good I) (lockCredential env kind signature)"
  "keeps (op_good I) (lockGrantByRequestID env requestID)"
  "keeps (op_good I) (lockGrantForRevocation env requestID)"
  unfolding lockCredential_def lockGrantByRequestID_def lockGrantForRevocation_def
  by (intro keeps_intro)+

lemma reading_keeps:
  "keeps (op_good I) (lockAndValidateCredential env kind signature tokenType)"
  "keeps (op_good I) (read_credential env kind signature tokenType target cg)"
  unfolding lockAndValidateCredential_def read_credential_def
  by (intro keeps_intro locking_keeps)+

lemma attempt_keeps: "keeps (op_good I) attempt_issuance"
  unfolding attempt_issuance_def by (intro keeps_intro)

lemmas store_keeps = context_keeps locking_keeps reading_keeps attempt_keeps revoke_statements laws

lemma getters_keep:
  "keeps (op_good I) (GetAuthorizeCodeSession env cx signature target)"
  "keeps (op_good I) (GetAccessTokenSession env cx signature target)"
  "keeps (op_good I) (GetRefreshTokenSession env cx signature target)"
  "keeps (op_good I) (GetPKCERequestSession env cx signature target)"
  unfolding GetAuthorizeCodeSession_def GetAccessTokenSession_def GetRefreshTokenSession_def
    GetPKCERequestSession_def
  by (intro keeps_intro store_keeps)+

lemma spenders_keep:
  "keeps (op_good I) (InvalidateAuthorizeCodeSession env cx signature)"
  "keeps (op_good I) (DeletePKCERequestSession env cx signature)"
  "keeps (op_good I) (RotateRefreshToken env cx requestID signature)"
  unfolding InvalidateAuthorizeCodeSession_def DeletePKCERequestSession_def RotateRefreshToken_def
  by (intro keeps_intro store_keeps)+

lemma revokers_keep:
  "keeps (op_good I) (DeleteAccessTokenSession env cx signature)"
  "keeps (op_good I) (DeleteRefreshTokenSession env cx signature)"
  "keeps (op_good I) (revokeGrant env cx requestID)"
  unfolding DeleteAccessTokenSession_def DeleteRefreshTokenSession_def revoke_credential_def
  by (intro keeps_intro store_keeps)+
    (unfold revokeGrant_def, intro keeps_intro on_tx_keeps store_keeps)

lemma code_writer_keeps: "keeps (op_good I) (CreateAuthorizeCodeSession env cx signature request)"
  unfolding CreateAuthorizeCodeSession_def
  by (intro keeps_intro store_keeps paired_queries [where I = I]) (blast intro: code_law)

lemma pkce_writer_keeps: "keeps (op_good I) (CreatePKCERequestSession env cx signature request)"
  unfolding CreatePKCERequestSession_def by (intro keeps_intro store_keeps)

lemma token_write_keeps: "keeps (op_good I) (token_write env cx request)"
  unfolding token_write_def by (intro keeps_intro store_keeps)

lemma access_writer_keeps: "keeps (op_good I) (CreateAccessTokenSession env cx signature request)"
  unfolding CreateAccessTokenSession_def extend_retention_def
  by (intro keeps_intro token_write_keeps paired_queries [where I = I]) (auto intro: access_law)

lemma refresh_insert_keeps:
  assumes "os_GrantID a = grant"
  shows "ensures (sees I (\<lambda>d. LockOAuthCredential ''access_token'' access d = Inr (a, d)))
    (do { r \<leftarrow> query env (CreateOAuthRefreshSession jsonb grant signature (Some (os_ID a)) t x payload);
          case r of Inl e \<Rightarrow> op_fail e | Inr _ \<Rightarrow> do {
          r \<leftarrow> query env (ExtendOAuthGrantRetention grant x);
          case r of Inl e \<Rightarrow> op_fail e | Inr _ \<Rightarrow> State_Monad.return (Inr ()) } }) (op_good I)"
  using assms by (intro paired_after_lock keeps_return) (auto intro: refresh_law)

lemma refresh_writer_keeps:
  "keeps (op_good I) (CreateRefreshTokenSession env cx signature accessSignature request)"
  unfolding CreateRefreshTokenSession_def extend_retention_def
  by (intro keeps_bind [OF token_write_keeps] keeps_cases refuse_keeps keeps_lock notFoundOrFailure_keeps
      ensures_intro ensures_keeps [OF op_fail_keeps] refresh_insert_keeps)
    (simp_all add: LockOAuthCredential_def select_one_Inr)

lemma consent_check_keeps: "keeps (tx_good I) (lockAndValidateConsent env handle session t account toBind)"
  unfolding lockAndValidateConsent_def consent_lookup_def by (intro keeps_intro laws)

lemma consent_check_base: "keeps (\<lambda>x. I (tx_base x)) (lockAndValidateConsent env handle session t account toBind)"
  unfolding lockAndValidateConsent_def consent_lookup_def by (intro keeps_intro)

lemma consent_keeps: "keeps (op_good I) (ConsumePendingConsent env cx handle session t decision)"
  unfolding ConsumePendingConsent_def
  by (intro keeps_intro store_keeps on_tx_keeps consent_check_keeps consent_check_base)

lemma savepoint_keeps:
  "keeps (op_good I) (store_BeginTX env cx)" "keeps (op_good I) (store_Commit env cx)"
  "keeps (op_good I) (store_Rollback env cx)"
  unfolding store_BeginTX_def store_Commit_def store_Rollback_def store_savepoint_def close_savepoint_def
  by (intro keeps_intro on_tx_keeps)+

lemma succeeds_keeps: "keeps P m \<Longrightarrow> keeps P (succeeds m)" "keeps P m' \<Longrightarrow> keeps P (returns m')"
  unfolding succeeds_def returns_def by (intro keeps_intro; assumption)+

lemma perform_keeps: "keeps (op_good I) (perform env c)"
  by (cases c) (simp_all add: succeeds_keeps code_writer_keeps getters_keep spenders_keep revokers_keep
    access_writer_keeps refresh_writer_keeps pkce_writer_keeps consent_keeps savepoint_keeps)

lemma performs_keeps: "keeps (op_good I) (performs env cs)"
proof (induction cs)
  case (Cons c cs)
  show ?case unfolding performs.simps by (intro keeps_intro perform_keeps Cons.IH)
qed (simp add: keeps_return)

text \<open>The end of an operation commits what is seen only when nothing has failed.\<close>

lemma rollback_keeps: "keeps (op_good I) (op_Rollback env)"
  unfolding op_Rollback_def by (intro keeps_intro on_tx_keeps)

lemma commit_keeps:
  assumes "op_good I w" "\<not> op_storageFailed w"
  shows "op_good I (snd (run_state (on_tx (tx_commit env)) w))"
  using assms keepsD [OF tx_commit_keeps, of I "op_tx w" env]
  by (auto simp: op_good_def on_tx_def tx_good_def split: prod.splits)

lemma finish_keeps: "keeps (op_good I) (op_Finish env err)"
  unfolding keeps_def
proof (intro allI impI)
  fix w assume w: "op_good I w"
  let ?w = "w\<lparr>op_finished := True, op_presented := []\<rparr>"
  have w': "op_good I ?w" using w by (simp add: op_good_def)
  show "op_good I (snd (run_state (op_Finish env err) w))"
  proof (cases "op_finished w")
    case False
    obtain oc inc where p: "commit_policy w err = (oc, inc)" by fastforce
    show ?thesis
    proof (cases oc)
      case None
      have "keeps (op_good I) (on_tx (tx_rollback env))" by (intro on_tx_keeps keeps_intro)
      from keepsD [OF this w'] False p None show ?thesis
        by (auto simp: op_Finish_def run_bind modify_def split: prod.splits)
    next
      case (Some out)
      with p have "\<not> op_storageFailed ?w" by (auto simp: commit_policy_def split: if_splits)
      from commit_keeps [OF w' this, of env] False p Some show ?thesis
        by (simp add: op_Finish_def run_bind modify_def case_prod_unfold)
    qed
  qed (use w in \<open>simp add: op_Finish_def run_bind\<close>)
qed

lemma conclude_keeps: "keeps (op_good I) (conclude env e)"
  unfolding conclude_def by (cases e) (simp; intro keeps_intro finish_keeps rollback_keeps)+

lemma begin_good:
  assumes "I (pl_db p)"
  shows "store_Begin env b kind presented p = (r, p') \<Longrightarrow> I (pl_db p')"
    "store_Begin env b kind presented p = (Inr w, p') \<Longrightarrow> op_good I w"
proof -
  let ?lock = "run_state (exec env (LockOAuthAccount (bd_AccountID b))) (begun p)"
  have x: "tx_good I (begun p)" using assms by (simp add: tx_good_begun pool_good_def)
  have "keeps (tx_good I) (exec env (LockOAuthAccount (bd_AccountID b)))" by (intro keeps_intro)
  from keepsD [OF this x] have l: "tx_good I (snd ?lock)" .
  have roll: "I (pl_db (settle (snd (run_state (tx_rollback env) (snd ?lock)))))"
    using settle_good [OF keepsD [OF tx_rollback_keeps l]] by (simp add: pool_good_def)
  have new: "op_good I (new_operation x b kind presented)" if "tx_good I x" for x
    using that by (simp add: op_good_def new_operation_def tx_good_def)
  have epoch: "op_good I (w\<lparr>op_authorizeAccountEpoch := n\<rparr>) = op_good I w" for w n
    by (simp add: op_good_def)
  show "I (pl_db p')" if "store_Begin env b kind presented p = (r, p')"
    using that assms roll
    by (auto simp: store_Begin_def dest!: pool_begin_cases split: option.splits sum.splits prod.splits if_splits)
  show "op_good I w" if "store_Begin env b kind presented p = (Inr w, p')"
    using that new [OF x] new [OF l] epoch
    by (auto simp: store_Begin_def dest!: pool_begin_cases split: option.splits sum.splits prod.splits if_splits)
qed

lemma protocol_keeps:
  assumes "I (pl_db p)"
  shows "I (pl_db (snd (run_protocol env b kind presented cs e p)))"
proof (cases "store_Begin env b kind presented p")
  case (Pair r p')
  show ?thesis
  proof (cases r)
    case (Inl err)
    with begin_good(1) [OF assms Pair] Pair show ?thesis by (simp add: run_protocol_def)
  next
    case (Inr w)
    with begin_good(2) [OF assms] Pair have "op_good I w" by simp
    from keepsD [OF conclude_keeps [of env e] keepsD [OF performs_keeps [of env cs] this]] Pair Inr
    show ?thesis by (simp add: run_protocol_def op_good_def settle_def case_prod_unfold)
  qed
qed

lemma identity_keeps:
  "keeps (pool_good I) (Store_CreateLogin env login)" "keeps (pool_good I) (Store_ConsumeLogin env st browser t)"
  "keeps (pool_good I) (Store_CompleteLogin env profile session t x)" "keeps (pool_good I) (Store_Session env session t)"
  "keeps (pool_good I) (Store_RevokeSession env session t)"
  unfolding Store_CreateLogin_def Store_ConsumeLogin_def Store_CompleteLogin_def complete_login_def
    Store_Session_def Store_RevokeSession_def Let_def
  by (intro keeps_intro laws)+

lemma short_consents_keep:
  "keeps (pool_good I) (CreatePendingConsent env active handle ciphertext x)"
  "keeps (pool_good I) (withShortConsent env active handle session' t toBind)"
  unfolding CreatePendingConsent_def withShortConsent_def
  by (intro keeps_intro laws consent_check_keeps)+

lemma families_keep: "keeps (pool_good I) (delete_families env locked t cs)"
proof (induction cs)
  case (Cons c cs)
  obtain grant account where c: "c = (grant, account)" by fastforce
  have "keeps (pool_good I) (deleteGrantFamily env locked grant account t)"
    unfolding deleteGrantFamily_def delete_family_def by (intro keeps_intro laws)
  then show ?case unfolding c delete_families.simps by (intro keeps_intro Cons.IH)
qed (simp add: keeps_return)

lemma cleanup_keeps: "keeps (pool_good I) (cleanup env locked batch t)"
  unfolding cleanup_def by (intro keeps_intro laws families_keep)

lemma left_by_keeps: "keeps (pool_good I) m \<Longrightarrow> I (pl_db p) \<Longrightarrow> I (left_by m p)"
  using keepsD [of "pool_good I" m p] by (simp add: left_by_def pool_good_def)

theorem auth_step_keeps: "auth_step d d' \<Longrightarrow> I d \<Longrightarrow> I d'"
proof (induction rule: auth_step.induct)
  case (blocking clock account reason d d')
  with operator_laws(1) show ?case by (auto simp: stmt_keeps_def)
next
  case (unblocking account reason d d')
  with operator_laws(2) show ?case by (auto simp: stmt_keeps_def)
qed (auto intro: protocol_keeps left_by_keeps identity_keeps short_consents_keep cleanup_keeps)

theorem auth_run_keeps: "auth_run d d' \<Longrightarrow> I d \<Longrightarrow> I d'"
  by (induction rule: rtranclp_induct) (auto intro: auth_step_keeps)

end

end
