(* ===== verification/Auth_History.thy ===== *)
theory Auth_History
  imports Auth_System
begin

text \<open>
  What the database never forgets: a grant or session keeps its identity, a consumed or revoked
  row stays so, and numbers are not used again. \<open>evolves d d'\<close> compares two databases row by row;
  it satisfies the laws of \<open>auth_laws\<close>, so it holds between any two databases of a run.
\<close>

section \<open>Rows over time\<close>

definition session_from :: "AuthOauthSession \<Rightarrow> AuthOauthSession \<Rightarrow> bool" where
  "session_from s s' \<longleftrightarrow> os_ID s' = os_ID s \<and> os_GrantID s' = os_GrantID s \<and> os_Kind s' = os_Kind s
     \<and> os_Signature s' = os_Signature s \<and> os_AccessTokenID s' = os_AccessTokenID s
     \<and> os_ExpiresAt s' = os_ExpiresAt s \<and> os_RequestPayload s' = os_RequestPayload s
     \<and> (os_ConsumedAt s \<noteq> None \<longrightarrow> os_ConsumedAt s' = os_ConsumedAt s)
     \<and> (os_RevokedAt s \<noteq> None \<longrightarrow> os_RevokedAt s' = os_RevokedAt s)"

definition grant_from :: "AuthOauthGrant \<Rightarrow> AuthOauthGrant \<Rightarrow> bool" where
  "grant_from g g' \<longleftrightarrow> og_ID g' = og_ID g \<and> og_RequestID g' = og_RequestID g
     \<and> og_AccountID g' = og_AccountID g \<and> og_AccountEpoch g' = og_AccountEpoch g
     \<and> og_ClientID g' = og_ClientID g \<and> og_Resource g' = og_Resource g
     \<and> (og_RevokedAt g \<noteq> None \<longrightarrow> og_RevokedAt g' = og_RevokedAt g)"

definition sessions_from :: "int \<Rightarrow> AuthOauthSession list \<Rightarrow> AuthOauthSession list \<Rightarrow> bool" where
  "sessions_from n ss ss' \<longleftrightarrow> (\<forall>s' \<in> set ss'. n \<le> os_ID s' \<or> (\<exists>s \<in> set ss. session_from s s'))"

definition grants_from :: "int \<Rightarrow> AuthOauthGrant list \<Rightarrow> AuthOauthGrant list \<Rightarrow> bool" where
  "grants_from n gs gs' \<longleftrightarrow> (\<forall>g' \<in> set gs'. n \<le> og_ID g' \<or> (\<exists>g \<in> set gs. grant_from g g'))"

definition evolves :: "auth_db \<Rightarrow> auth_db \<Rightarrow> bool" where
  "evolves d d' \<longleftrightarrow> db_sequence d \<le> db_sequence d'
     \<and> sessions_from (db_sequence d) (db_sessions d) (db_sessions d')
     \<and> grants_from (db_sequence d) (db_grants d) (db_grants d')"

lemma session_from_refl [simp]: "session_from s s"
  by (simp add: session_from_def)

lemma session_from_trans: "session_from s s' \<Longrightarrow> session_from s' s'' \<Longrightarrow> session_from s s''"
  by (auto simp: session_from_def)

lemma grant_from_refl [simp]: "grant_from g g"
  by (simp add: grant_from_def)

lemma grant_from_trans: "grant_from g g' \<Longrightarrow> grant_from g' g'' \<Longrightarrow> grant_from g g''"
  by (auto simp: grant_from_def)

lemma sessions_from_trans:
  assumes "sessions_from n ss ss'" "sessions_from n' ss' ss''" "n \<le> n'"
  shows "sessions_from n ss ss''"
  unfolding sessions_from_def
proof
  fix s'' assume "s'' \<in> set ss''"
  with assms(2) consider "n' \<le> os_ID s''" | s' where "s' \<in> set ss'" "session_from s' s''"
    by (auto simp: sessions_from_def)
  then show "n \<le> os_ID s'' \<or> (\<exists>s \<in> set ss. session_from s s'')"
  proof cases
    case 2
    with assms(1) consider "n \<le> os_ID s'" | s where "s \<in> set ss" "session_from s s'"
      by (auto simp: sessions_from_def)
    then show ?thesis
    proof cases
      case 1 with 2(2) show ?thesis by (simp add: session_from_def)
    qed (use 2(2) session_from_trans in blast)
  qed (use assms(3) in simp)
qed

lemma grants_from_trans:
  assumes "grants_from n gs gs'" "grants_from n' gs' gs''" "n \<le> n'"
  shows "grants_from n gs gs''"
  unfolding grants_from_def
proof
  fix g'' assume "g'' \<in> set gs''"
  with assms(2) consider "n' \<le> og_ID g''" | g' where "g' \<in> set gs'" "grant_from g' g''"
    by (auto simp: grants_from_def)
  then show "n \<le> og_ID g'' \<or> (\<exists>g \<in> set gs. grant_from g g'')"
  proof cases
    case 2
    with assms(1) consider "n \<le> og_ID g'" | g where "g \<in> set gs" "grant_from g g'"
      by (auto simp: grants_from_def)
    then show ?thesis
    proof cases
      case 1 with 2(2) show ?thesis by (simp add: grant_from_def)
    qed (use 2(2) grant_from_trans in blast)
  qed (use assms(3) in simp)
qed

lemma evolves_trans [trans]: "evolves d d' \<Longrightarrow> evolves d' d'' \<Longrightarrow> evolves d d''"
  by (auto simp: evolves_def intro: sessions_from_trans grants_from_trans)

lemma set_update_where: "set (update_where P f xs) = (\<lambda>x. if P x then f x else x) ` set xs"
  by (simp add: update_where_def)

lemma sessions_from_intros [intro!]:
  "sessions_from n ss ss" "sessions_from n ss (filter P ss)"
  "sessions_from n ss ss' \<Longrightarrow> n \<le> os_ID s \<Longrightarrow> sessions_from n ss (ss' @ [s])"
  "(\<And>s. P s \<Longrightarrow> session_from s (f s)) \<Longrightarrow> sessions_from n ss (update_where P f ss)"
  unfolding sessions_from_def set_update_where using session_from_refl by (fastforce)+

lemma grants_from_intros [intro!]:
  "grants_from n gs gs" "grants_from n gs (filter P gs)"
  "grants_from n gs gs' \<Longrightarrow> n \<le> og_ID g \<Longrightarrow> grants_from n gs (gs' @ [g])"
  "(\<And>g. P g \<Longrightarrow> grant_from g (h g)) \<Longrightarrow> grants_from n gs (update_where P h gs)"
  unfolding grants_from_def set_update_where using grant_from_refl by (fastforce)+

lemma evolves_refl [simp]: "evolves d d"
  by (auto simp: evolves_def)

section \<open>Statements\<close>

lemma checked_Inr [simp]: "checked cs x = Inr y \<longleftrightarrow> y = x \<and> (\<forall>(n, ok) \<in> set cs. ok)"
proof (induction cs)
  case (Cons c cs)
  then show ?case by (cases c) (auto simp: checked_def firsterr_eval fails_def simp del: firsterr_None)
qed (auto simp: checked_def firsterr_eval)

lemma session_from_revoke [simp]: "session_from s (revoke_session t s)"
  by (auto simp: session_from_def revoke_session_def split: option.splits)

lemma evolves_revoke: "revoke_sessions t P d = Inr (a, d') \<Longrightarrow> evolves d d'"
  by (auto simp: revoke_sessions_def evolves_def)

lemma evolves_consume: "ConsumeOAuthSession t kind signature d = Inr (a, d') \<Longrightarrow> evolves d d'"
  by (auto simp: ConsumeOAuthSession_def evolves_def unspent_def session_from_def)

lemma evolves_family: "RevokeOAuthGrantFamily grant t reason d = Inr (a, d') \<Longrightarrow> evolves d d'"
  by (auto simp: RevokeOAuthGrantFamily_def revoke_sessions_def evolves_def grant_from_def)

lemma evolves_insert:
  "insert_session jsonb grant kind signature access t x payload d = Inr (i, d') \<Longrightarrow> evolves d d'"
  by (auto simp: insert_session_def Let_def evolves_def split: option.splits)

lemma evolves_grant:
  "CreateOAuthGrant request account epoch client resource t x d = Inr (g, d') \<Longrightarrow> evolves d d'"
  by (auto simp: CreateOAuthGrant_def Let_def evolves_def)

lemma evolves_retention: "ExtendOAuthGrantRetention grant x d = Inr (a, d') \<Longrightarrow> evolves d d'"
  by (auto simp: ExtendOAuthGrantRetention_def evolves_def grant_from_def)

lemma evolves_event: "RecordOAuthSecurityEvent c grant kind d = Inr (a, d') \<Longrightarrow> evolves d d'"
  by (auto simp: RecordOAuthSecurityEvent_def evolves_def split: if_splits option.splits)

lemma evolves_consents:
  "CreatePendingConsentRow c handle ciphertext x d = Inr (a, d') \<Longrightarrow> evolves d d'"
  "BindPendingConsentRow session t consent d = Inr (b, d') \<Longrightarrow> evolves d d'"
  "ConsumePendingConsentRow t consent session d = Inr (b, d') \<Longrightarrow> evolves d d'"
  by (auto simp: CreatePendingConsentRow_def BindPendingConsentRow_def ConsumePendingConsentRow_def
    Let_def evolves_def)

lemma evolves_identity:
  "CreateLogin c state browser nonce pkce path pending x d = Inr (a, d') \<Longrightarrow> evolves d d'"
  "ConsumeLogin t state browser d = Inr (l, d') \<Longrightarrow> evolves d d'"
  "UpsertUserAccount lower issuer subject email name t d = Inr (u, d') \<Longrightarrow> evolves d d'"
  "CreateWebSession session account epoch t x d = Inr (a, d') \<Longrightarrow> evolves d d'"
  "RevokeWebSession t session d = Inr (n, d') \<Longrightarrow> evolves d d'"
  by (auto simp: CreateLogin_def ConsumeLogin_def UpsertUserAccount_def CreateWebSession_def
    RevokeWebSession_def Let_def evolves_def map_sum_def split: sum.splits option.splits)

lemma evolves_deletions:
  "DeleteExpiredLoginTransactions l t n d = Inr (a, d') \<Longrightarrow> evolves d d'"
  "DeleteExpiredPendingConsents l t n d = Inr (a, d') \<Longrightarrow> evolves d d'"
  "DeleteExpiredWebSessions l t n d = Inr (a, d') \<Longrightarrow> evolves d d'"
  "DeleteOAuthSessionsForGrant grant d = Inr (b, d') \<Longrightarrow> evolves d d'"
  "DeleteOAuthGrant grant d = Inr (c, d') \<Longrightarrow> evolves d d'"
  by (auto simp: DeleteExpiredLoginTransactions_def DeleteExpiredPendingConsents_def
    DeleteExpiredWebSessions_def DeleteOAuthSessionsForGrant_def DeleteOAuthGrant_def Let_def
    evolves_def split: sum.splits prod.splits)

lemma evolves_operator:
  "block_user_account c account reason d = Inr (a, d') \<Longrightarrow> evolves d d'"
  "unblock_user_account account reason d = Inr (a, d') \<Longrightarrow> evolves d d'"
  by (auto simp: block_user_account_def unblock_user_account_def Let_def evolves_def grant_from_def
    split: if_splits)

section \<open>Every run\<close>

text \<open>New rows are numbered from the sequence, so the numbers below it are taken.\<close>

definition history :: "auth_db \<Rightarrow> auth_db \<Rightarrow> bool" where
  "history d0 d \<longleftrightarrow> evolves d0 d"

lemma history_stmt: "(\<And>d a d'. s d = Inr (a, d') \<Longrightarrow> evolves d d') \<Longrightarrow> stmt_keeps (history d0) s"
  unfolding stmt_keeps_def history_def using evolves_trans by blast

interpretation history: auth_laws "history d0" for d0
proof unfold_locales
  fix d request account epoch client resource t x g d1 jsonb signature payload i d2
  assume "history d0 d" "CreateOAuthGrant request account epoch client resource t x d = Inr (g, d1)"
    "CreateOAuthSession jsonb (og_ID g) ''authorize_code'' signature t x payload d1 = Inr (i, d2)"
  then show "history d0 d2"
    unfolding history_def CreateOAuthSession_def by (meson evolves_trans evolves_grant evolves_insert)
next
  fix d jsonb grant signature t x payload i d1 d2
  assume "history d0 d" "CreateOAuthSession jsonb grant ''access_token'' signature t x payload d = Inr (i, d1)"
    "ExtendOAuthGrantRetention grant x d1 = Inr ((), d2)"
  then show "history d0 d2"
    unfolding history_def CreateOAuthSession_def by (meson evolves_trans evolves_retention evolves_insert)
next
  fix d a access jsonb grant signature t x payload i d1 d2
  assume "history d0 d" "CreateOAuthRefreshSession jsonb grant signature (Some (os_ID a)) t x payload d = Inr (i, d1)"
    "ExtendOAuthGrantRetention grant x d1 = Inr ((), d2)"
  then show "history d0 d2"
    unfolding history_def CreateOAuthRefreshSession_def
    by (meson evolves_trans evolves_retention evolves_insert)
qed (auto intro!: history_stmt intro: evolves_revoke evolves_consume evolves_family evolves_event
    evolves_consents evolves_identity evolves_deletions evolves_operator
    evolves_insert [of _ _ "''pkce''" _ None] simp: CreateOAuthSession_def)

lemma auth_run_evolves: "auth_run d d' \<Longrightarrow> evolves d d'"
  using history.auth_run_keeps [of d d' d] by (simp add: history_def)

end
