(* ===== verification/Auth_Consistency.thy ===== *)
theory Auth_Consistency
  imports Auth_History
begin

text \<open>
  The invariant of the authentication tables, beyond the constraints the database enforces: a
  refresh token belongs to the grant of its access token, and a grant is retained at least until
  its code and tokens expire.
\<close>

definition outlives :: "AuthOauthGrant \<Rightarrow> AuthOauthSession \<Rightarrow> bool" where
  "outlives g s \<longleftrightarrow> og_ID g = os_GrantID s
     \<and> (os_Kind s \<noteq> ''pkce'' \<longrightarrow> instant (os_ExpiresAt s) \<le> instant (og_RetainUntil g))"

definition access_pair :: "AuthOauthSession \<Rightarrow> AuthOauthSession \<Rightarrow> bool" where
  "access_pair s a \<longleftrightarrow> os_AccessTokenID s = Some (os_ID a) \<and> os_Kind a = ''access_token''
     \<and> os_GrantID a = os_GrantID s"

definition session_key :: "AuthOauthSession \<Rightarrow> string \<times> string" where
  "session_key s = (os_Kind s, os_Signature s)"

definition not_before :: "gotime option \<Rightarrow> gotime \<Rightarrow> bool" where
  "not_before t c \<longleftrightarrow> (case t of None \<Rightarrow> True | Some u \<Rightarrow> instant c \<le> instant u)"

definition session_times :: "AuthOauthSession \<Rightarrow> bool" where
  "session_times s \<longleftrightarrow> instant (os_CreatedAt s) < instant (os_ExpiresAt s)
     \<and> not_before (os_ConsumedAt s) (os_CreatedAt s) \<and> not_before (os_RevokedAt s) (os_CreatedAt s)"

definition tables_ok :: "auth_db \<Rightarrow> bool" where
  "tables_ok d \<longleftrightarrow> distinct (map og_ID (db_grants d)) \<and> distinct (map og_RequestID (db_grants d))
     \<and> distinct (map os_ID (db_sessions d)) \<and> distinct (map session_key (db_sessions d))
     \<and> (\<forall>g \<in> set (db_grants d). og_ID g < db_sequence d) \<and> (\<forall>s \<in> set (db_sessions d). os_ID s < db_sequence d)"

definition grants_ok :: "auth_db \<Rightarrow> bool" where
  "grants_ok d \<longleftrightarrow> (\<forall>g \<in> set (db_grants d).
     og_AccountID g \<in> ua_ID ` set (db_accounts d) \<and> (og_RevokedAt g = None) = (og_RevocationReason g = None))"

definition sessions_ok :: "auth_db \<Rightarrow> bool" where
  "sessions_ok d \<longleftrightarrow> (\<forall>s \<in> set (db_sessions d). session_times s \<and> os_Kind s \<in> set session_kinds
     \<and> (\<exists>g \<in> set (db_grants d). outlives g s)
     \<and> (if os_Kind s = ''refresh_token'' then \<exists>a \<in> set (db_sessions d). access_pair s a
        else os_AccessTokenID s = None))"

definition auth_consistent :: "auth_db \<Rightarrow> bool" where
  "auth_consistent d \<longleftrightarrow> tables_ok d \<and> grants_ok d \<and> sessions_ok d"

section \<open>Statements\<close>

text \<open>Changes that leave grants and sessions alone.\<close>

lemma consistent_same:
  assumes "auth_consistent d" "db_sessions d' = db_sessions d" "db_grants d' = db_grants d"
    "db_sequence d \<le> db_sequence d'" "ua_ID ` set (db_accounts d) \<subseteq> ua_ID ` set (db_accounts d')"
  shows "auth_consistent d'"
  using assms by (fastforce simp: auth_consistent_def tables_ok_def grants_ok_def sessions_ok_def)

text \<open>Updates of sessions and grants in place.\<close>

definition session_kept :: "(AuthOauthSession \<Rightarrow> AuthOauthSession) \<Rightarrow> bool" where
  "session_kept f \<longleftrightarrow> (\<forall>s. os_ID (f s) = os_ID s \<and> os_GrantID (f s) = os_GrantID s \<and> os_Kind (f s) = os_Kind s
     \<and> os_Signature (f s) = os_Signature s \<and> os_AccessTokenID (f s) = os_AccessTokenID s
     \<and> os_ExpiresAt (f s) = os_ExpiresAt s \<and> (session_times s \<longrightarrow> session_times (f s)))"

definition grant_kept :: "(AuthOauthGrant \<Rightarrow> AuthOauthGrant) \<Rightarrow> bool" where
  "grant_kept h \<longleftrightarrow> (\<forall>g. og_ID (h g) = og_ID g \<and> og_RequestID (h g) = og_RequestID g
     \<and> og_AccountID (h g) = og_AccountID g \<and> instant (og_RetainUntil g) \<le> instant (og_RetainUntil (h g))
     \<and> ((og_RevokedAt g = None) = (og_RevocationReason g = None)
        \<longrightarrow> (og_RevokedAt (h g) = None) = (og_RevocationReason (h g) = None)))"

lemma map_update_where: "(\<And>x. F (f x) = F x) \<Longrightarrow> map F (update_where P f xs) = map F xs"
  by (simp add: update_where_def)

lemma consistent_update:
  assumes "auth_consistent d" "session_kept f" "grant_kept h"
    "db_sessions d' = update_where P f (db_sessions d)" "db_grants d' = update_where Q h (db_grants d)"
    "db_sequence d' = db_sequence d" "ua_ID ` set (db_accounts d) \<subseteq> ua_ID ` set (db_accounts d')"
  shows "auth_consistent d'"
proof -
  define F where "F = (\<lambda>s. if P s then f s else s)"
  define H where "H = (\<lambda>g. if Q g then h g else g)"
  have ss: "db_sessions d' = map F (db_sessions d)" and gs: "db_grants d' = map H (db_grants d)"
    using assms(4,5) by (simp_all add: update_where_def F_def H_def)
  have F: "os_ID (F s) = os_ID s" "os_GrantID (F s) = os_GrantID s" "os_Kind (F s) = os_Kind s"
    "os_Signature (F s) = os_Signature s" "os_AccessTokenID (F s) = os_AccessTokenID s"
    "os_ExpiresAt (F s) = os_ExpiresAt s" "session_times s \<Longrightarrow> session_times (F s)"
    "session_key (F s) = session_key s" for s
    using assms(2) by (auto simp: F_def session_kept_def session_key_def)
  have H: "og_ID (H g) = og_ID g" "og_RequestID (H g) = og_RequestID g" "og_AccountID (H g) = og_AccountID g"
    "instant (og_RetainUntil g) \<le> instant (og_RetainUntil (H g))"
    "(og_RevokedAt g = None) = (og_RevocationReason g = None)
      \<Longrightarrow> (og_RevokedAt (H g) = None) = (og_RevocationReason (H g) = None)" for g
    using assms(3) by (auto simp: H_def grant_kept_def)
  have "tables_ok d'"
    using assms(1,6) by (simp add: auth_consistent_def tables_ok_def ss gs F H comp_def)
  moreover have "grants_ok d'"
    using assms(1,7) H by (auto simp: auth_consistent_def grants_ok_def gs)
  moreover have "outlives (H g) (F s)" if "outlives g s" for g s
    using that H(4) [of g] by (auto simp: outlives_def F H(1))
  then have "sessions_ok d'"
    using assms(1) F unfolding auth_consistent_def sessions_ok_def ss gs
    by (fastforce simp: access_pair_def)
  ultimately show ?thesis by (simp add: auth_consistent_def)
qed

lemma greatest_ge: "instant a \<le> instant (greatest a b)" "instant b \<le> instant (greatest a b)"
  by (auto simp: greatest_def Before_def)

lemma session_kept_updates:
  "session_kept (\<lambda>s. s\<lparr>os_ConsumedAt := Some (greatest t (os_CreatedAt s))\<rparr>)" "session_kept (revoke_session t)"
  using greatest_ge by (auto simp: session_kept_def session_times_def not_before_def revoke_session_def split: option.splits)

lemma consistent_revoke:
  assumes "auth_consistent d" "revoke_sessions t P d = Inr (a, d')"
  shows "auth_consistent d'"
proof (rule consistent_update [OF assms(1) session_kept_updates(2)])
  show "grant_kept id" by (simp add: grant_kept_def)
  show "db_grants d' = update_where (\<lambda>_. False) id (db_grants d)"
    using assms(2) by (auto simp: revoke_sessions_def update_where_def)
qed (use assms(2) in \<open>auto simp: revoke_sessions_def\<close>)

lemma consistent_consume:
  assumes "auth_consistent d" "ConsumeOAuthSession t kind signature d = Inr (a, d')"
  shows "auth_consistent d'"
proof (rule consistent_update [OF assms(1) session_kept_updates(1)])
  show "grant_kept id" by (simp add: grant_kept_def)
  show "db_grants d' = update_where (\<lambda>_. False) id (db_grants d)"
    using assms(2) by (auto simp: ConsumeOAuthSession_def update_where_def)
qed (use assms(2) in \<open>auto simp: ConsumeOAuthSession_def\<close>)

lemma consistent_grants:
  assumes "auth_consistent d" "grant_kept h" "db_grants d' = update_where Q h (db_grants d)"
    "db_sessions d' = db_sessions d" "db_sequence d' = db_sequence d"
    "ua_ID ` set (db_accounts d) \<subseteq> ua_ID ` set (db_accounts d')"
  shows "auth_consistent d'"
proof (rule consistent_update [OF assms(1) _ assms(2) _ assms(3) assms(5,6)])
  show "session_kept id" by (simp add: session_kept_def)
  show "db_sessions d' = update_where (\<lambda>_. False) id (db_sessions d)"
    using assms(4) by (simp add: update_where_def)
qed

lemma grant_kept_revoke: "grant_kept (\<lambda>g. g\<lparr>
    og_RevokedAt := (case og_RevokedAt g of Some r \<Rightarrow> Some r | None \<Rightarrow> Some (t g)),
    og_RevocationReason := (case og_RevocationReason g of Some r \<Rightarrow> Some r | None \<Rightarrow> Some reason)\<rparr>)"
  by (auto simp: grant_kept_def split: option.splits)

lemma consistent_family:
  assumes "auth_consistent d" "RevokeOAuthGrantFamily grant t reason d = Inr (a, d')"
  shows "auth_consistent d'"
proof -
  let ?d = "d\<lparr>db_grants := update_where (\<lambda>g. og_ID g = grant)
     (\<lambda>g. g\<lparr>og_RevokedAt := (case og_RevokedAt g of Some r \<Rightarrow> Some r
              | None \<Rightarrow> Some (greatest (pg_time t) (og_CreatedAt g))),
           og_RevocationReason := (case og_RevocationReason g of Some r \<Rightarrow> Some r | None \<Rightarrow> Some reason)\<rparr>)
     (db_grants d)\<rparr>"
  have "auth_consistent ?d" by (rule consistent_grants [OF assms(1) grant_kept_revoke]) simp_all
  with assms(2) show ?thesis by (auto simp: RevokeOAuthGrantFamily_def intro: consistent_revoke)
qed

lemma consistent_retention:
  assumes "auth_consistent d" "ExtendOAuthGrantRetention grant x d = Inr (a, d')"
  shows "auth_consistent d'"
proof (rule consistent_grants [OF assms(1)])
  show "grant_kept (\<lambda>g. g\<lparr>og_RetainUntil := greatest (og_RetainUntil g) (pg_time x)\<rparr>)"
    using greatest_ge by (simp add: grant_kept_def)
qed (use assms(2) in \<open>auto simp: ExtendOAuthGrantRetention_def\<close>)

text \<open>Everything the consistency of a database needs except that grants outlive their tokens.\<close>

lemma consistent_insert:
  assumes "auth_consistent d" "insert_session jsonb grant kind signature access t x payload d = Inr (i, d1)"
    and "\<exists>g \<in> set (db_grants d). og_ID g = grant \<and> (kind \<noteq> ''pkce'' \<longrightarrow> instant (pg_time x) \<le> instant (og_RetainUntil g))"
    and "access = None \<or> (\<exists>a \<in> set (db_sessions d). access = Some (os_ID a) \<and> os_Kind a = ''access_token'' \<and> os_GrantID a = grant)"
  shows "auth_consistent d1"
proof -
  obtain p where p: "jsonb payload = Some p"
    using assms(2) by (cases "jsonb payload") (simp_all add: insert_session_def)
  define s where "s = \<lparr>os_ID = db_sequence d, os_GrantID = grant, os_Kind = kind, os_Signature = signature,
         os_AccessTokenID = access, os_CreatedAt = pg_time t, os_ExpiresAt = pg_time x,
         os_ConsumedAt = None, os_RevokedAt = None, os_RequestPayload = p\<rparr>"
  have d1: "d1 = d\<lparr>db_sessions := db_sessions d @ [s], db_sequence := db_sequence d + 1\<rparr>"
    and c: "kind \<in> set session_kinds" "(kind = ''refresh_token'') = (access \<noteq> None)"
      "After (os_ExpiresAt s) (os_CreatedAt s)"
      "\<not> list_ex (\<lambda>r. os_Kind r = kind \<and> os_Signature r = signature) (db_sessions d)"
    using assms(2) by (simp_all add: insert_session_def Let_def p s_def)
  have s: "os_ID s = db_sequence d" "os_GrantID s = grant" "os_Kind s = kind" "os_Signature s = signature"
      "os_AccessTokenID s = access" "os_ExpiresAt s = pg_time x" "os_ConsumedAt s = None" "os_RevokedAt s = None"
    by (simp_all add: s_def)
  have old: "tables_ok d" "grants_ok d" "sessions_ok d" using assms(1) by (simp_all add: auth_consistent_def)
  have "session_key s \<notin> session_key ` set (db_sessions d)"
    using c(4) s(3,4) by (auto simp: session_key_def list_ex_iff)
  moreover have "os_ID s \<notin> os_ID ` set (db_sessions d)"
    using old(1) s(1) by (auto simp: tables_ok_def)
  ultimately have "tables_ok d1"
    using old(1) s(1) by (fastforce simp: tables_ok_def d1)
  moreover have "grants_ok d1" using old(2) by (simp add: grants_ok_def d1)
  moreover have "sessions_ok d1"
    unfolding sessions_ok_def
  proof
    fix r assume "r \<in> set (db_sessions d1)"
    then consider "r = s" | "r \<in> set (db_sessions d)" by (auto simp: d1)
    then show "session_times r \<and> os_Kind r \<in> set session_kinds \<and> (\<exists>g \<in> set (db_grants d1). outlives g r)
      \<and> (if os_Kind r = ''refresh_token'' then \<exists>a \<in> set (db_sessions d1). access_pair r a
         else os_AccessTokenID r = None)"
    proof cases
      case 1
      have "session_times s" using c(3) s by (simp add: session_times_def not_before_def After_def)
      moreover have "\<exists>g \<in> set (db_grants d1). outlives g s"
        using assms(3) s by (simp add: d1 outlives_def)
      moreover have "if kind = ''refresh_token'' then \<exists>a \<in> set (db_sessions d1). access_pair s a
         else os_AccessTokenID s = None"
        using assms(4) c(2) s by (auto simp: d1 access_pair_def)
      ultimately show ?thesis using c(1) s(3) 1 by simp
    next
      case 2
      with old(3) have r: "session_times r" "os_Kind r \<in> set session_kinds" "\<exists>g \<in> set (db_grants d). outlives g r"
        "if os_Kind r = ''refresh_token'' then \<exists>a \<in> set (db_sessions d). access_pair r a
         else os_AccessTokenID r = None"
        unfolding sessions_ok_def by blast+
      from r(4) have "if os_Kind r = ''refresh_token'' then \<exists>a \<in> set (db_sessions d1). access_pair r a
         else os_AccessTokenID r = None" by (auto simp: d1 split: if_splits)
      with r(1-3) show ?thesis by (simp add: d1)
    qed
  qed
  ultimately show ?thesis by (simp add: auth_consistent_def)
qed

lemma consistent_grant:
  assumes "auth_consistent d" "CreateOAuthGrant request account epoch client resource t x d = Inr (g, d1)"
  shows "auth_consistent d1" "g \<in> set (db_grants d1)" "og_RetainUntil g = pg_time x"
proof -
  have d1: "d1 = d\<lparr>db_grants := db_grants d @ [g], db_sequence := db_sequence d + 1\<rparr>"
    and g: "og_ID g = db_sequence d" "og_RequestID g = request" "og_AccountID g = account"
      "og_RevokedAt g = None" "og_RevocationReason g = None" "og_RetainUntil g = pg_time x"
    and c: "\<not> list_ex (\<lambda>r. og_RequestID r = request) (db_grants d)"
      "list_ex (\<lambda>a. ua_ID a = account) (db_accounts d)"
    using assms(2) by (auto simp: CreateOAuthGrant_def Let_def)
  have old: "tables_ok d" "grants_ok d" "sessions_ok d" using assms(1) by (simp_all add: auth_consistent_def)
  have "request \<notin> og_RequestID ` set (db_grants d)" using c(1) by (auto simp: list_ex_iff)
  moreover have "db_sequence d \<notin> og_ID ` set (db_grants d)" using old(1) by (auto simp: tables_ok_def)
  ultimately have "tables_ok d1" using old(1) g by (fastforce simp: tables_ok_def d1)
  moreover have "grants_ok d1" using old(2) g c(2) by (auto simp: grants_ok_def d1 list_ex_iff intro: rev_image_eqI)
  moreover have "sessions_ok d1" using old(3) by (fastforce simp: sessions_ok_def d1)
  ultimately show "auth_consistent d1" by (simp add: auth_consistent_def)
  show "g \<in> set (db_grants d1)" "og_RetainUntil g = pg_time x" by (simp_all add: d1 g)
qed

text \<open>Extending a grant first and inserting then gives the same database.\<close>

lemma extend_commutes:
  assumes "insert_session jsonb grant kind signature access t x payload d = Inr (i, d1)"
    "ExtendOAuthGrantRetention grant x d1 = Inr ((), d2)"
  shows "\<exists>d'. ExtendOAuthGrantRetention grant x d = Inr ((), d')
     \<and> insert_session jsonb grant kind signature access t x payload d' = Inr (i, d2)"
proof -
  obtain p where p: "jsonb payload = Some p"
    using assms(1) by (cases "jsonb payload") (simp_all add: insert_session_def)
  have ids: "list_ex (\<lambda>g. og_ID g = grant) (update_where Q (\<lambda>g. g\<lparr>og_RetainUntil := r g\<rparr>) gs)
      = list_ex (\<lambda>g. og_ID g = grant) gs" for Q r gs
    by (induction gs) (auto simp: update_where_def)
  show ?thesis
    using assms unfolding insert_session_def ExtendOAuthGrantRetention_def Let_def p option.case
    by (clarsimp simp: ids) (simp split: option.splits)
qed

lemma consistent_token:
  assumes "auth_consistent d" "insert_session jsonb grant kind signature access t x payload d = Inr (i, d1)"
    "ExtendOAuthGrantRetention grant x d1 = Inr ((), d2)"
    "access = None \<or> (\<exists>a \<in> set (db_sessions d). access = Some (os_ID a) \<and> os_Kind a = ''access_token'' \<and> os_GrantID a = grant)"
  shows "auth_consistent d2"
proof -
  obtain d' where d': "ExtendOAuthGrantRetention grant x d = Inr ((), d')"
    "insert_session jsonb grant kind signature access t x payload d' = Inr (i, d2)"
    using extend_commutes [OF assms(2,3)] by blast
  have "list_ex (\<lambda>g. og_ID g = grant) (db_grants d)"
    using assms(2) by (auto simp: insert_session_def Let_def split: option.splits)
  then obtain g where "g \<in> set (db_grants d)" "og_ID g = grant" by (auto simp: list_ex_iff)
  then have "\<exists>g \<in> set (db_grants d'). og_ID g = grant \<and> instant (pg_time x) \<le> instant (og_RetainUntil g)"
    using d'(1) greatest_ge(2)
    by (intro bexI [of _ "g\<lparr>og_RetainUntil := greatest (og_RetainUntil g) (pg_time x)\<rparr>"])
      (auto simp: ExtendOAuthGrantRetention_def set_update_where)
  moreover have "db_sessions d' = db_sessions d" using d'(1) by (auto simp: ExtendOAuthGrantRetention_def)
  ultimately show ?thesis
    using consistent_insert [OF consistent_retention [OF assms(1) d'(1)] d'(2)] assms(4) by auto
qed

lemma consistent_deletes:
  assumes "auth_consistent d"
  shows "DeleteOAuthSessionsForGrant grant d = Inr (a, d') \<Longrightarrow> auth_consistent d'"
    "DeleteOAuthGrant grant d = Inr (b, d') \<Longrightarrow> auth_consistent d'"
proof -
  have old: "tables_ok d" "grants_ok d" "sessions_ok d" using assms by (simp_all add: auth_consistent_def)
  let ?ss = "filter (\<lambda>s. os_GrantID s \<noteq> grant) (db_sessions d)"
  have sess: "sessions_ok (d\<lparr>db_sessions := ?ss\<rparr>)"
    using old(3) unfolding sessions_ok_def by (fastforce simp: access_pair_def split: if_splits)
  have tab: "tables_ok (d\<lparr>db_sessions := ?ss, db_grants := filter P (db_grants d)\<rparr>)" for P
    using old(1) by (auto simp: tables_ok_def distinct_map_filter)
  show "auth_consistent d'" if "DeleteOAuthSessionsForGrant grant d = Inr (a, d')"
    using that sess tab [of "\<lambda>_. True"] old(2)
    by (auto simp: DeleteOAuthSessionsForGrant_def Let_def auth_consistent_def grants_ok_def)
  show "auth_consistent d'" if D: "DeleteOAuthGrant grant d = Inr (b, d')"
  proof -
    have d': "d' = d\<lparr>db_sessions := ?ss, db_grants := filter (\<lambda>g. og_ID g \<noteq> grant) (db_grants d)\<rparr>"
      using D by (auto simp: DeleteOAuthGrant_def DeleteOAuthSessionsForGrant_def Let_def
        split: sum.splits prod.splits)
    have "sessions_ok d'"
      using sess unfolding sessions_ok_def d' by (fastforce simp: outlives_def)
    with tab old(2) show ?thesis by (auto simp: auth_consistent_def d' grants_ok_def)
  qed
qed

text \<open>The other tables, and what the operator does.\<close>

lemma consistent_event: "auth_consistent d \<Longrightarrow> RecordOAuthSecurityEvent c grant kind d = Inr (a, d')
    \<Longrightarrow> auth_consistent d'"
  by (erule consistent_same) (auto simp: RecordOAuthSecurityEvent_def split: if_splits option.splits)

lemma consistent_consents:
  "auth_consistent d \<Longrightarrow> CreatePendingConsentRow c handle ciphertext x d = Inr (a, d') \<Longrightarrow> auth_consistent d'"
  "auth_consistent d \<Longrightarrow> BindPendingConsentRow session t consent d = Inr (b, d') \<Longrightarrow> auth_consistent d'"
  "auth_consistent d \<Longrightarrow> ConsumePendingConsentRow t consent session d = Inr (b, d') \<Longrightarrow> auth_consistent d'"
  by (erule consistent_same; auto simp: CreatePendingConsentRow_def BindPendingConsentRow_def
    ConsumePendingConsentRow_def Let_def)+

lemma consistent_logins:
  "auth_consistent d \<Longrightarrow> CreateLogin c state browser nonce pkce path pending x d = Inr (a, d') \<Longrightarrow> auth_consistent d'"
  "auth_consistent d \<Longrightarrow> ConsumeLogin t state browser d = Inr (l, d') \<Longrightarrow> auth_consistent d'"
  by (erule consistent_same; auto simp: CreateLogin_def ConsumeLogin_def Let_def map_sum_def split: sum.splits)+

lemma consistent_web:
  "auth_consistent d \<Longrightarrow> CreateWebSession session account epoch t x d = Inr (a, d') \<Longrightarrow> auth_consistent d'"
  "auth_consistent d \<Longrightarrow> RevokeWebSession t session d = Inr (n, d') \<Longrightarrow> auth_consistent d'"
  by (erule consistent_same; auto simp: CreateWebSession_def RevokeWebSession_def Let_def)+

lemma consistent_cleanups:
  "auth_consistent d \<Longrightarrow> DeleteExpiredLoginTransactions l t n d = Inr (a, d') \<Longrightarrow> auth_consistent d'"
  "auth_consistent d \<Longrightarrow> DeleteExpiredPendingConsents l t n d = Inr (a, d') \<Longrightarrow> auth_consistent d'"
  "auth_consistent d \<Longrightarrow> DeleteExpiredWebSessions l t n d = Inr (a, d') \<Longrightarrow> auth_consistent d'"
  by (erule consistent_same; auto simp: DeleteExpiredLoginTransactions_def DeleteExpiredPendingConsents_def
    DeleteExpiredWebSessions_def Let_def)+

lemma ids_update_where: "(\<And>x. F (f x) = F x) \<Longrightarrow> F ` set (update_where P f xs) = F ` set xs"
  unfolding set_update_where image_image by (rule image_cong) auto

lemma consistent_account: "auth_consistent d \<Longrightarrow> UpsertUserAccount lower issuer subject email name t d = Inr (u, d')
    \<Longrightarrow> auth_consistent d'"
  by (erule consistent_same) (auto simp: UpsertUserAccount_def Let_def ids_update_where
    simp del: image_subset_iff split: option.splits sum.splits)

lemma consistent_block:
  assumes "auth_consistent d" "block_user_account c account reason d = Inr (a, d')"
  shows "auth_consistent d'"
proof (rule consistent_grants [OF assms(1) grant_kept_revoke])
  show "db_grants d' = update_where (\<lambda>g. og_AccountID g = account)
    (\<lambda>g. g\<lparr>og_RevokedAt := (case og_RevokedAt g of Some r \<Rightarrow> Some r | None \<Rightarrow> Some (pg_time c)),
       og_RevocationReason := (case og_RevocationReason g of Some r \<Rightarrow> Some r | None \<Rightarrow> Some ''account_blocked'')\<rparr>)
    (db_grants d)"
    using assms(2) by (auto simp: block_user_account_def Let_def split: if_splits)
qed (use assms(2) in \<open>auto simp: block_user_account_def Let_def ids_update_where split: if_splits\<close>)

lemma consistent_unblock: "auth_consistent d \<Longrightarrow> unblock_user_account account reason d = Inr (a, d')
    \<Longrightarrow> auth_consistent d'"
  by (erule consistent_same) (auto simp: unblock_user_account_def ids_update_where split: if_splits)

section \<open>Every run\<close>

interpretation consistency: auth_laws auth_consistent
proof unfold_locales
  fix d request account epoch client resource t x g d1 jsonb signature payload i d2
  assume d: "auth_consistent d"
    and g: "CreateOAuthGrant request account epoch client resource t x d = Inr (g, d1)"
    and s: "CreateOAuthSession jsonb (og_ID g) ''authorize_code'' signature t x payload d1 = Inr (i, d2)"
  have "\<exists>r \<in> set (db_grants d1). og_ID r = og_ID g
      \<and> (''authorize_code'' \<noteq> ''pkce'' \<longrightarrow> instant (pg_time x) \<le> instant (og_RetainUntil r))"
    using consistent_grant(2,3) [OF d g] by (intro bexI [of _ g]) simp_all
  from consistent_insert [OF consistent_grant(1) [OF d g] s [unfolded CreateOAuthSession_def] this]
  show "auth_consistent d2" by simp
next
  fix d jsonb grant signature t x payload i d1 d2
  assume "auth_consistent d" "CreateOAuthSession jsonb grant ''access_token'' signature t x payload d = Inr (i, d1)"
    "ExtendOAuthGrantRetention grant x d1 = Inr ((), d2)"
  then show "auth_consistent d2" unfolding CreateOAuthSession_def by (blast intro: consistent_token)
next
  fix d a access jsonb grant signature t x payload i d1 d2
  assume "auth_consistent d" "LockOAuthCredential ''access_token'' access d = Inr (a, d)" "os_GrantID a = grant"
    "CreateOAuthRefreshSession jsonb grant signature (Some (os_ID a)) t x payload d = Inr (i, d1)"
    "ExtendOAuthGrantRetention grant x d1 = Inr ((), d2)"
  then show "auth_consistent d2"
    unfolding CreateOAuthRefreshSession_def LockOAuthCredential_def select_one_Inr
    by (blast intro: consistent_token dest: find_SomeD)
next
  fix jsonb grant signature t x payload
  show "stmt_keeps auth_consistent (CreateOAuthSession jsonb grant ''pkce'' signature t x payload)"
    unfolding stmt_keeps_def CreateOAuthSession_def
  proof (intro allI impI)
    fix d i d' assume d: "auth_consistent d"
      and s: "insert_session jsonb grant ''pkce'' signature None t x payload d = Inr (i, d')"
    then have "list_ex (\<lambda>g. og_ID g = grant) (db_grants d)"
      by (auto simp: insert_session_def Let_def split: option.splits)
    with consistent_insert [OF d s] show "auth_consistent d'" by (auto simp: list_ex_iff)
  qed
qed (auto simp: stmt_keeps_def intro: consistent_consume consistent_revoke consistent_family consistent_deletes
    consistent_event consistent_consents consistent_logins consistent_web consistent_cleanups
    consistent_account consistent_block consistent_unblock)

lemma empty_consistent: "auth_consistent empty_db"
  by (simp add: auth_consistent_def tables_ok_def grants_ok_def sessions_ok_def empty_db_def)

end
