(* ===== verification/OAuth_Calls.thy ===== *)
theory OAuth_Calls
  imports Auth_Consistency
begin

text \<open>
  What every storage call does to the operation it runs on, whether it succeeds or not: its view
  of the database moves by statements, it may note something, and it may fail the operation. The
  locale \<open>operation_laws\<close> says which of these steps a property of operations has to survive; from
  them follows that the calls keep it. What a call sees, and what it leaves, is a \<open>trace\<close>.
\<close>

section \<open>Steps of the transaction\<close>

abbreviation view :: "Operation \<Rightarrow> auth_db" where
  "view w \<equiv> tx_db (op_tx w)"

definition stmt_moves :: "(auth_db \<Rightarrow> auth_db \<Rightarrow> bool) \<Rightarrow> 'a stmt \<Rightarrow> bool" where
  "stmt_moves R s \<longleftrightarrow> (\<forall>d a d'. s d = Inr (a, d') \<longrightarrow> R d d')"

definition moved :: "(auth_db \<Rightarrow> auth_db \<Rightarrow> bool) \<Rightarrow> pg_tx \<Rightarrow> pg_tx \<Rightarrow> bool" where
  "moved R x y \<longleftrightarrow> R (tx_db x) (tx_db y) \<and> tx_base y = tx_base x \<and> tx_save y = tx_save x"

locale operation_laws =
  fixes R :: "auth_db \<Rightarrow> auth_db \<Rightarrow> bool" and P :: "Operation \<Rightarrow> bool"
  assumes R_refl: "\<And>d. R d d"
    and R_trans: "\<And>d d' d''. R d d' \<Longrightarrow> R d' d'' \<Longrightarrow> R d d''"
    and moving: "\<And>w x. P w \<Longrightarrow> moved R (op_tx w) x \<Longrightarrow> P (w\<lparr>op_tx := x\<rparr>)"
    and saving: "\<And>w x. P w \<Longrightarrow> tx_db x = view w \<Longrightarrow> tx_base x = tx_base (op_tx w)
        \<Longrightarrow> tx_save x = None \<or> tx_save x = Some (view w) \<Longrightarrow> P (w\<lparr>op_tx := x\<rparr>)"
    and failing: "\<And>w. P w \<Longrightarrow> P (w\<lparr>op_storageFailed := True\<rparr>)"
    and noting: "\<And>w. P w \<Longrightarrow> P (w\<lparr>op_issuanceAttempted := True\<rparr>)"
      "\<And>w c. P w \<Longrightarrow> P (w\<lparr>op_replay := Some c\<rparr>)"
      "\<And>w n l. P w \<Longrightarrow> P (w\<lparr>op_openSavepoints := n, op_savepoints := l\<rparr>)"
    and consume_moves: "\<And>t kind signature. stmt_moves R (ConsumeOAuthSession t kind signature)"
    and revoke_moves: "\<And>t Q. stmt_moves R (revoke_sessions t Q)"
    and family_moves: "\<And>grant t reason. stmt_moves R (RevokeOAuthGrantFamily grant t reason)"
    and retention_moves: "\<And>grant x. stmt_moves R (ExtendOAuthGrantRetention grant x)"
    and consent_moves: "\<And>session t consent. stmt_moves R (BindPendingConsentRow session t consent)"
      "\<And>t consent session. stmt_moves R (ConsumePendingConsentRow t consent session)"
begin

lemma reads_move: "stmt_reads s \<Longrightarrow> stmt_moves R s"
  unfolding stmt_reads_def stmt_moves_def using R_refl by blast

lemma lock_moves:
  "stmt_moves R (LockOAuthAccount i)" "stmt_moves R (LockOAuthGrant i)"
  "stmt_moves R (LockOAuthGrantByRequestID r)" "stmt_moves R (LockOAuthCredential k s)"
  "stmt_moves R (LockWebSessionForConsent i)" "stmt_moves R (LockPendingConsent i)"
  "stmt_moves R (FindOAuthCredentialOwner k s)" "stmt_moves R (FindOAuthGrantOwner r)"
  "stmt_moves R (FindPendingConsentSessionOwner h s)" "stmt_moves R no_change"
  by (auto intro!: reads_move simp: reads_simps LockOAuthAccount_def LockOAuthGrant_def
    LockOAuthGrantByRequestID_def LockOAuthCredential_def LockWebSessionForConsent_def LockPendingConsent_def)

lemma statement_moves:
  "stmt_moves R (RevokeOAuthSession t kind signature)" "stmt_moves R (RevokeOAuthAccessTokensForGrant t grant)"
  by (simp_all add: RevokeOAuthSession_def RevokeOAuthAccessTokensForGrant_def revoke_moves)

lemmas moves = lock_moves statement_moves consume_moves family_moves retention_moves consent_moves

lemma moved_refl: "moved R x x"
  by (simp add: moved_def R_refl)

lemma moved_trans: "moved R x y \<Longrightarrow> moved R y z \<Longrightarrow> moved R x z"
  by (auto simp: moved_def intro: R_trans)

lemma exec_moved: "stmt_moves R s \<Longrightarrow> keeps (moved R x0) (exec env s)"
  by (auto simp: keeps_def exec_def tick_def moved_def stmt_moves_def intro: R_trans
    split: option.splits fault.splits sum.splits prod.splits)

lemma exec_at_moved: "(\<And>c. stmt_moves R (s c)) \<Longrightarrow> keeps (moved R x0) (exec_at env s)"
  unfolding exec_at_def by (intro keeps_intro exec_moved)

lemma on_tx_keeps_op:
  assumes "\<And>x0. keeps (moved R x0) m"
  shows "keeps P (on_tx m)"
  unfolding keeps_def
proof (intro allI impI)
  fix w assume w: "P w"
  have "moved R (op_tx w) (snd (run_state m (op_tx w)))" by (rule keepsD [OF assms moved_refl])
  with moving [OF w] show "P (snd (run_state (on_tx m) w))" by (simp add: on_tx_def case_prod_unfold)
qed

lemma query_keeps_op: "stmt_moves R s \<Longrightarrow> keeps P (query env s)"
  unfolding query_def by (intro on_tx_keeps_op exec_moved)

lemma event_keeps_op: "(\<And>c. stmt_moves R (s c)) \<Longrightarrow> keeps P (on_tx (exec_at env s))"
  by (intro on_tx_keeps_op exec_at_moved)

lemma time_keeps_op: "keeps P (time_now env)"
  unfolding time_now_def by (rule on_tx_keeps_op) (simp add: keeps_def tx_now_def tick_def moved_def R_refl)

lemma notes_keep:
  "keeps P attempt_issuance" "keeps P (modify (op_replay_update (\<lambda>_. Some c)))"
  "keeps P (modify (\<lambda>w. w\<lparr>op_openSavepoints := n w, op_savepoints := l w\<rparr>))"
  "keeps P (modify (\<lambda>w. w\<lparr>op_savepoints := l w, op_openSavepoints := n w\<rparr>))"
proof -
  have swap: "w\<lparr>op_savepoints := l w, op_openSavepoints := n w\<rparr> = w\<lparr>op_openSavepoints := n w, op_savepoints := l w\<rparr>"
    for w :: Operation and n l by simp
  show "keeps P (modify (\<lambda>w. w\<lparr>op_savepoints := l w, op_openSavepoints := n w\<rparr>))"
    unfolding swap using noting by (simp add: keeps_def modify_def)
qed (use noting in \<open>simp_all add: keeps_def modify_def attempt_issuance_def\<close>)

lemma fail_keeps_op: "keeps P (op_fail e)"
  using failing by (simp add: keeps_def)

lemma notFound_keeps_op: "keeps P (notFoundOrFailure e)"
  unfolding notFoundOrFailure_def by (intro keeps_intro fail_keeps_op)

lemma lookup_keeps_op: "stmt_moves R s \<Longrightarrow> keeps P (lookup env s)"
  unfolding lookup_def by (intro keeps_intro query_keeps_op notFound_keeps_op)

lemmas steps = query_keeps_op event_keeps_op time_keeps_op notes_keep fail_keeps_op notFound_keeps_op
  lookup_keeps_op moves

lemma context_keeps_op: "keeps P (operationQueriesAny cx)" "keeps P (operationQueries cx purpose)"
proof -
  show any: "keeps P (operationQueriesAny cx)"
    unfolding operationQueriesAny_def by (intro keeps_intro)
  show "keeps P (operationQueries cx purpose)"
    unfolding operationQueries_def by (intro keeps_intro any)
qed

lemma locking_keeps_op:
  "keeps P (lockCredential env kind signature)" "keeps P (lockGrantByRequestID env requestID)"
  "keeps P (lockGrantForRevocation env requestID)"
  unfolding lockCredential_def lockGrantByRequestID_def lockGrantForRevocation_def
  by (intro keeps_intro steps)+

lemma reading_keeps_op:
  "keeps P (lockAndValidateCredential env kind signature tokenType)"
  "keeps P (read_credential env kind signature tokenType target cg)"
  unfolding lockAndValidateCredential_def read_credential_def
  by (intro keeps_intro steps locking_keeps_op)+

lemma token_write_keeps_op: "keeps P (token_write env cx request)"
  unfolding token_write_def by (intro keeps_intro steps context_keeps_op locking_keeps_op)

lemmas calls = steps context_keeps_op locking_keeps_op reading_keeps_op token_write_keeps_op

lemma getters_keep_op:
  "keeps P (GetAuthorizeCodeSession env cx signature target)" "keeps P (GetAccessTokenSession env cx signature target)"
  "keeps P (GetRefreshTokenSession env cx signature target)" "keeps P (GetPKCERequestSession env cx signature target)"
  unfolding GetAuthorizeCodeSession_def GetAccessTokenSession_def GetRefreshTokenSession_def GetPKCERequestSession_def
  by (intro keeps_intro calls)+

lemma spenders_keep_op:
  "keeps P (InvalidateAuthorizeCodeSession env cx signature)" "keeps P (DeletePKCERequestSession env cx signature)"
  "keeps P (RotateRefreshToken env cx requestID signature)"
  unfolding InvalidateAuthorizeCodeSession_def DeletePKCERequestSession_def RotateRefreshToken_def
  by (intro keeps_intro calls)+

lemma revokers_keep_op:
  "keeps P (DeleteAccessTokenSession env cx signature)" "keeps P (DeleteRefreshTokenSession env cx signature)"
  unfolding DeleteAccessTokenSession_def DeleteRefreshTokenSession_def revoke_credential_def
  by (intro keeps_intro calls)+

lemma savepoints_keep_op:
  "keeps P (store_BeginTX env cx)" "keeps P (store_Commit env cx)"
proof -
  have sv: "keeps P (on_tx (tx_savepoint env))" "keeps P (on_tx (tx_release env))"
    unfolding keeps_def
    by (auto simp: on_tx_def tx_savepoint_def tx_release_def run_bind exec_def no_change_def tick_def
      split: prod.splits sum.splits option.splits fault.splits if_splits
      intro: moving saving simp: moved_def R_refl)
  show "keeps P (store_BeginTX env cx)" "keeps P (store_Commit env cx)"
    unfolding store_BeginTX_def store_Commit_def store_savepoint_def close_savepoint_def
    by (intro keeps_intro steps sv)+
qed

text \<open>The calls with a law of their own.\<close>

lemma consent_check_moved: "keeps (moved R x0) (lockAndValidateConsent env handle session t account toBind)"
  unfolding lockAndValidateConsent_def consent_lookup_def by (intro keeps_intro exec_moved moves)

lemma consent_keeps_op:
  assumes "\<And>w. P w \<Longrightarrow> P (w\<lparr>op_consentDecision := decision\<rparr>)"
  shows "keeps P (ConsumePendingConsent env cx handle session t decision)"
proof -
  have noted: "keeps P (modify (op_consentDecision_update (\<lambda>_. decision)))" using assms by (simp add: keeps_def modify_def)
  show ?thesis
    unfolding ConsumePendingConsent_def
    by (intro keeps_intro calls on_tx_keeps_op consent_check_moved noted)
qed

lemma rollback_keeps_op:
  assumes "\<And>w x. P w \<Longrightarrow> tx_save (op_tx w) = Some (tx_db x) \<Longrightarrow> tx_base x = tx_base (op_tx w)
      \<Longrightarrow> tx_save x = None \<Longrightarrow> P (w\<lparr>op_tx := x\<rparr>)"
  shows "keeps P (store_Rollback env cx)"
proof -
  have rb: "keeps P (on_tx (tx_rollback_to env))"
    unfolding keeps_def
  proof (intro allI impI)
    fix w assume w: "P w"
    obtain r x where x: "run_state (tx_rollback_to env) (op_tx w) = (r, x)" by fastforce
    then have "moved R (op_tx w) x \<or> (tx_save (op_tx w) = Some (tx_db x) \<and> tx_base x = tx_base (op_tx w) \<and> tx_save x = None)"
      by (auto simp: tx_rollback_to_def tick_def moved_def R_refl split: option.splits fault.splits if_splits)
    with moving [OF w] assms [OF w] x show "P (snd (run_state (on_tx (tx_rollback_to env)) w))"
      by (auto simp: on_tx_def)
  qed
  show ?thesis
    unfolding store_Rollback_def store_savepoint_def close_savepoint_def
    by (intro keeps_intro steps rb)
qed

lemma perform_keeps_op:
  assumes "\<And>cx signature rq. c = CallCreateCode cx signature rq \<Longrightarrow> keeps P (CreateAuthorizeCodeSession env cx signature rq)"
    "\<And>cx signature rq. c = CallCreateAccess cx signature rq \<Longrightarrow> keeps P (CreateAccessTokenSession env cx signature rq)"
    "\<And>cx signature a rq. c = CallCreateRefresh cx signature a rq \<Longrightarrow> keeps P (CreateRefreshTokenSession env cx signature a rq)"
    "\<And>cx signature rq. c = CallCreatePKCE cx signature rq \<Longrightarrow> keeps P (CreatePKCERequestSession env cx signature rq)"
    "\<And>cx requestID. c = CallRevoke cx requestID \<Longrightarrow> keeps P (revokeGrant env cx requestID)"
    "\<And>cx h s t d. c = CallConsent cx h s t d \<Longrightarrow> keeps P (ConsumePendingConsent env cx h s t d)"
    "\<And>cx. c = CallRollback cx \<Longrightarrow> keeps P (store_Rollback env cx)"
  shows "keeps P (perform env c)"
  using assms by (cases c) (simp_all add: history.succeeds_keeps getters_keep_op spenders_keep_op revokers_keep_op
    savepoints_keep_op)

end

text \<open>With laws for the insertion of credentials and the audit of a replay.\<close>

locale writing_laws = operation_laws +
  assumes insert_moves: "\<And>jsonb grant kind signature access t x payload.
        stmt_moves R (insert_session jsonb grant kind signature access t x payload)"
    and event_moves: "\<And>c grant kind. stmt_moves R (RecordOAuthSecurityEvent c grant kind)"
    and completing: "\<And>w. P w \<Longrightarrow> P (w\<lparr>op_replayComplete := True\<rparr>)" "\<And>w. P w \<Longrightarrow> P (w\<lparr>op_pkceCreated := True\<rparr>)"
begin

lemma writes_move:
  "stmt_moves R (CreateOAuthSession jsonb grant kind signature t x payload)"
  "stmt_moves R (CreateOAuthRefreshSession jsonb grant signature access t x payload)"
  by (simp_all add: CreateOAuthSession_def CreateOAuthRefreshSession_def insert_moves)

lemma completions_keep:
  "keeps P (modify (op_replayComplete_update (\<lambda>_. True)))" "keeps P (modify (op_pkceCreated_update (\<lambda>_. True)))"
  using completing by (simp_all add: keeps_def modify_def)

lemmas write_calls = calls writes_move event_moves completions_keep

lemma writers_keep_op:
  "keeps P (CreateAccessTokenSession env cx signature request)"
  "keeps P (CreateRefreshTokenSession env cx signature access request)"
  "keeps P (CreatePKCERequestSession env cx signature request)" "keeps P (revokeGrant env cx requestID)"
  unfolding CreateAccessTokenSession_def CreateRefreshTokenSession_def CreatePKCERequestSession_def extend_retention_def
    revokeGrant_def
  by (intro keeps_intro write_calls)+

lemma code_keeps_op:
  assumes "\<And>w. P w \<Longrightarrow> P (w\<lparr>op_codeCreated := True\<rparr>)"
    and "\<And>request account epoch client resource t x. stmt_moves R (CreateOAuthGrant request account epoch client resource t x)"
  shows "keeps P (CreateAuthorizeCodeSession env cx signature request)"
proof -
  have noted: "keeps P (modify (op_codeCreated_update (\<lambda>_. True)))" using assms(1) by (simp add: keeps_def modify_def)
  show ?thesis
    unfolding CreateAuthorizeCodeSession_def by (intro keeps_intro write_calls assms(2) noted)
qed

lemma perform_writes:
  assumes "\<And>cx signature rq. c = CallCreateCode cx signature rq \<Longrightarrow> keeps P (CreateAuthorizeCodeSession env cx signature rq)"
    "\<And>cx h s t d. c = CallConsent cx h s t d \<Longrightarrow> keeps P (ConsumePendingConsent env cx h s t d)"
    "\<And>cx. c = CallRollback cx \<Longrightarrow> keeps P (store_Rollback env cx)"
  shows "keeps P (perform env c)"
  using assms by (intro perform_keeps_op writers_keep_op) simp_all

end

end
