(* ===== verification/OAuth_Trace.thy ===== *)
theory OAuth_Trace
  imports OAuth_Calls
begin

text \<open>
  The calls of an operation one after the other, with the operation each found and left; what
  stays fixed over them; and what a successful call tells about the rows it saw.
\<close>

section \<open>Traces\<close>

fun trace :: "oauth_env \<Rightarrow> oauth_call list \<Rightarrow> Operation \<Rightarrow> (oauth_call \<times> Operation \<times> bool \<times> Operation) list" where
  "trace env [] w = []"
| "trace env (c # cs) w = (let (ok, w') = run_state (perform env c) w in (c, w, ok, w') # trace env cs w')"

definition protocol_trace :: "oauth_env \<Rightarrow> Binding \<Rightarrow> CredentialKind \<Rightarrow> string \<Rightarrow> oauth_call list \<Rightarrow> pg_pool
    \<Rightarrow> (oauth_call \<times> Operation \<times> bool \<times> Operation) list" where
  "protocol_trace env b kind presented cs p =
    (case fst (store_Begin env b kind presented p) of Inl _ \<Rightarrow> [] | Inr w \<Rightarrow> trace env cs w)"

definition run_end :: "oauth_env \<Rightarrow> oauth_call list \<Rightarrow> Operation \<Rightarrow> Operation" where
  "run_end env cs w = snd (run_state (performs env cs) w)"

lemma run_end_simps [simp]:
  "run_end env [] w = w"
  "run_end env (c # cs) w = run_end env cs (snd (run_state (perform env c) w))"
  by (simp_all add: run_end_def run_bind case_prod_unfold)

lemma run_end_append: "run_end env (cs @ cs') w = run_end env cs' (run_end env cs w)"
  by (induction cs arbitrary: w) simp_all

lemma run_end_keeps: "(\<And>c. c \<in> set cs \<Longrightarrow> keeps P (perform env c)) \<Longrightarrow> P w \<Longrightarrow> P (run_end env cs w)"
  by (induction cs arbitrary: w) (simp_all add: keepsD)

lemma trace_split:
  assumes "(c, w1, ok, w2) \<in> set (trace env cs w)"
  shows "\<exists>pre post. cs = pre @ c # post \<and> w1 = run_end env pre w \<and> run_state (perform env c) w1 = (ok, w2)
    \<and> run_end env cs w = run_end env post w2"
  using assms
proof (induction cs arbitrary: w)
  case (Cons c' cs)
  obtain ok' w' where r: "run_state (perform env c') w = (ok', w')" by fastforce
  from Cons.prems r consider "c = c'" "w1 = w" "ok = ok'" "w2 = w'" | "(c, w1, ok, w2) \<in> set (trace env cs w')"
    by auto
  then show ?case
  proof cases
    case 1 with r show ?thesis by (intro exI [of _ "[]"] exI [of _ cs]) simp
  next
    case 2
    from Cons.IH [OF this] obtain pre post where "cs = pre @ c # post" "w1 = run_end env pre w'"
      "run_state (perform env c) w1 = (ok, w2)" "run_end env cs w' = run_end env post w2" by blast
    with r show ?thesis by (intro exI [of _ "c' # pre"] exI [of _ post]) simp
  qed
qed simp

lemma trace_results: "map (\<lambda>(c, w, ok, w'). ok) (trace env cs w) = fst (run_state (performs env cs) w)"
  by (induction cs arbitrary: w) (simp_all add: run_bind case_prod_unfold Let_def)

lemma trace_nth:
  assumes "i < length cs"
  shows "\<exists>w1 w2. (cs ! i, w1, fst (run_state (performs env cs) w) ! i, w2) \<in> set (trace env cs w) \<and> (i = 0 \<longrightarrow> w1 = w)"
  using assms
proof (induction cs arbitrary: i w)
  case (Cons c cs)
  obtain ok w' where c: "run_state (perform env c) w = (ok, w')" by fastforce
  then have r: "fst (run_state (performs env (c # cs)) w) = ok # fst (run_state (performs env cs) w')"
    by (simp add: run_bind case_prod_unfold)
  show ?case
  proof (cases i)
    case 0 with c r show ?thesis by (intro exI [of _ w] exI [of _ w']) simp
  next
    case (Suc j)
    with Cons.IH [of j w'] Cons.prems obtain w1 w2
      where "(cs ! j, w1, fst (run_state (performs env cs) w') ! j, w2) \<in> set (trace env cs w')" by auto
    with Suc c r show ?thesis by (intro exI [of _ w1] exI [of _ w2]) simp
  qed
qed simp

section \<open>What stays fixed\<close>

definition steady :: "Operation \<Rightarrow> Operation \<Rightarrow> bool" where
  "steady w0 w \<longleftrightarrow> op_binding w = op_binding w0 \<and> op_authorizeAccountEpoch w = op_authorizeAccountEpoch w0
     \<and> tx_base (op_tx w) = tx_base (op_tx w0) \<and> op_finished w = op_finished w0
     \<and> (op_storageFailed w0 \<longrightarrow> op_storageFailed w) \<and> (op_issuanceAttempted w0 \<longrightarrow> op_issuanceAttempted w)"

interpretation frame: writing_laws "\<lambda>_ _. True" "steady w0" for w0
  by unfold_locales (simp_all add: steady_def moved_def stmt_moves_def)

lemma perform_steady: "keeps (steady w0) (perform env c)"
  by (intro frame.perform_writes frame.code_keeps_op frame.consent_keeps_op frame.rollback_keeps_op)
    (simp_all add: steady_def stmt_moves_def)

lemma steady_refl: "steady w w"
  by (simp add: steady_def)

lemma run_end_steady: "steady w (run_end env cs w)"
  by (rule run_end_keeps [OF perform_steady steady_refl])

lemma trace_steady:
  assumes "(c, w1, ok, w2) \<in> set (trace env cs w)"
  shows "steady w w1" "steady w1 w2" "steady w2 (run_end env cs w)"
proof -
  obtain pre post where s: "cs = pre @ c # post" "w1 = run_end env pre w"
    "run_state (perform env c) w1 = (ok, w2)" "run_end env cs w = run_end env post w2"
    using trace_split [OF assms] by blast
  show "steady w w1" using s(2) by (simp add: run_end_steady)
  show "steady w1 w2" using keepsD [OF perform_steady [of w1 env c] steady_refl] s(3) by simp
  show "steady w2 (run_end env cs w)" using s(4) by (simp add: run_end_steady)
qed

text \<open>Without a rollback to a savepoint the view only grows.\<close>

interpretation grows: writing_laws evolves "\<lambda>w. evolves d (view w)" for d
proof unfold_locales
  fix jsonb grant kind signature access t x payload
  show "stmt_moves evolves (insert_session jsonb grant kind signature access t x payload)"
    by (simp add: stmt_moves_def evolves_insert)
qed (auto simp: moved_def stmt_moves_def intro: evolves_trans evolves_consume evolves_revoke evolves_family
    evolves_retention evolves_event evolves_consents)

lemma perform_grows:
  assumes "\<And>cx. c \<noteq> CallRollback cx"
  shows "keeps (\<lambda>w. evolves d (view w)) (perform env c)"
  using assms by (intro grows.perform_writes grows.code_keeps_op grows.consent_keeps_op)
    (auto simp: stmt_moves_def intro: evolves_grant)

lemma run_end_grows: "(\<And>cx. CallRollback cx \<notin> set cs) \<Longrightarrow> evolves d (view w) \<Longrightarrow> evolves d (view (run_end env cs w))"
  by (rule run_end_keeps [where P = "\<lambda>w. evolves d (view w)"]) (auto intro: perform_grows)

lemma trace_grows:
  assumes "(c, w1, ok, w2) \<in> set (trace env cs w)" "\<And>cx. CallRollback cx \<notin> set cs"
  shows "evolves (view w2) (view (run_end env cs w))"
proof -
  obtain pre post where s: "cs = pre @ c # post" "run_end env cs w = run_end env post w2"
    using trace_split [OF assms(1)] by blast
  have "\<And>cx. CallRollback cx \<notin> set post" using s(1) assms(2) by auto
  from run_end_grows [OF this evolves_refl] s(2) show ?thesis by simp
qed

lemma trace_grown:
  assumes "(c, w1, ok, w2) \<in> set (trace env cs w)" "\<And>cx. CallRollback cx \<notin> set cs"
  shows "evolves (view w) (view w2)"
proof -
  obtain pre post where s: "cs = pre @ c # post" "w1 = run_end env pre w" "run_state (perform env c) w1 = (ok, w2)"
    using trace_split [OF assms(1)] by blast
  have "w2 = run_end env (pre @ [c]) w" using s(2,3) by (simp add: run_end_append)
  moreover have "\<And>cx. CallRollback cx \<notin> set (pre @ [c])" using s(1) assms(2) by auto
  ultimately show ?thesis using run_end_grows evolves_refl by blast
qed

section \<open>How a run begins and ends\<close>

lemma begin_shape:
  assumes "store_Begin env b kind presented p = (Inr w, p')"
  shows "op_binding w = b" "tx_base (op_tx w) = pl_db p" "view w = pl_db p" "tx_save (op_tx w) = None"
    "\<not> op_storageFailed w" "\<not> op_finished w" "\<not> op_issuanceAttempted w" "op_consentDecision w = ConsentUndecided"
    "op_replay w = None" "validateBinding env b kind presented = None" "\<not> op_replayComplete w"
proof -
  have x: "tx_base x' = pl_db p \<and> tx_db x' = pl_db p \<and> tx_save x' = None"
    if "run_state (exec env (LockOAuthAccount i)) (begun p) = (Inr a, x')" for i a x'
    using that by (auto simp: exec_def begun_def tick_def LockOAuthAccount_def select_one_Inr
      split: option.splits fault.splits sum.splits prod.splits)
  show "op_binding w = b" "tx_base (op_tx w) = pl_db p" "view w = pl_db p" "tx_save (op_tx w) = None"
    "\<not> op_storageFailed w" "\<not> op_finished w" "\<not> op_issuanceAttempted w" "op_consentDecision w = ConsentUndecided"
    "op_replay w = None" "validateBinding env b kind presented = None" "\<not> op_replayComplete w"
    using assms x by (auto simp: store_Begin_def new_operation_def begun_def dest!: pool_begin_cases(1)
      split: option.splits sum.splits prod.splits if_splits)
qed

lemma committed_run:
  assumes "run_protocol env b kind presented cs e p = (Inr (oks, outcome, err), p')"
    "outcome \<noteq> OutcomeRolledBack"
  obtains w perr where "fst (store_Begin env b kind presented p) = Inr w"
    "protocol_trace env b kind presented cs p = trace env cs w"
    "commit_policy (run_end env cs w) perr = (Some outcome, False)" "err = None"
    "pl_db p' = view (run_end env cs w)" "e = Finishing perr"
proof -
  obtain w q where w: "store_Begin env b kind presented p = (Inr w, q)"
    using assms(1) by (auto simp: run_protocol_def split: prod.splits sum.splits)
  define v where "v = run_end env cs w"
  obtain r v' where c: "run_state (conclude env e) v = (r, v')" by fastforce
  from assms(1) w c have r: "r = (outcome, err)" "p' = settle (op_tx v')"
    by (auto simp: run_protocol_def v_def run_end_def case_prod_unfold)
  have nf: "\<not> op_finished v"
    using begin_shape(6) [OF w] run_end_steady [of w env cs] by (simp add: steady_def v_def)
  obtain perr where e: "e = Finishing perr"
    using c r assms(2) by (cases e) (auto simp: conclude_def run_bind split: prod.splits)
  obtain oc inc where pol: "commit_policy v perr = (oc, inc)" by fastforce
  show thesis
  proof (cases oc)
    case None
    with pol e c r assms(2) nf show thesis
      by (auto simp: conclude_def run_bind op_Finish_def modify_def split: prod.splits)
  next
    case (Some out)
    then have "inc = False" using pol by (auto simp: commit_policy_def split: if_splits)
    let ?f = "v\<lparr>op_finished := True, op_presented := []\<rparr>"
    obtain er x where x: "run_state (tx_commit env) (op_tx v) = (er, x)" by fastforce
    have fin: "run_state (op_Finish env perr) v = ((if er \<noteq> None then (OutcomeRolledBack, Some errStorageFailure)
        else (out, None)), ?f\<lparr>op_tx := x\<rparr>)"
      using nf pol Some x by (simp add: op_Finish_def run_bind modify_def on_tx_def)
    then have "r = (if er \<noteq> None then (OutcomeRolledBack, Some errStorageFailure) else (out, None))"
      "op_tx v' = x"
      using c e by (auto simp: conclude_def run_bind op_Rollback_def modify_def)
    with r assms(2) have "er = None" "out = outcome" "err = None" by (auto split: if_splits)
    moreover have "tx_base x = tx_db (op_tx v)"
      using x \<open>er = None\<close> by (auto simp: tx_commit_def Let_def tick_def split: if_splits option.splits fault.splits)
    ultimately show thesis
      using that [of w perr] w pol Some \<open>inc = False\<close> e r(2) \<open>op_tx v' = x\<close>
      by (simp add: protocol_trace_def settle_def v_def)
  qed
qed

end
