(* ===== verification/OAuth_Acceptance.thy ===== *)
theory OAuth_Acceptance
  imports OAuth_Trace
begin

text \<open>
  Calls that present a credential: what the database must hold for one to succeed, and what a
  call that spends a credential leaves behind.
\<close>

fun presents :: "oauth_call \<Rightarrow> (string \<times> string) option" where
  "presents (CallGetCode cx signature target) = Some (''authorize_code'', signature)"
| "presents (CallInvalidateCode cx signature) = Some (''authorize_code'', signature)"
| "presents (CallGetAccess cx signature target) = Some (''access_token'', signature)"
| "presents (CallGetRefresh cx signature target) = Some (''refresh_token'', signature)"
| "presents (CallRotate cx requestID signature) = Some (''refresh_token'', signature)"
| "presents (CallGetPKCE cx signature target) = Some (''pkce'', signature)"
| "presents (CallDeletePKCE cx signature) = Some (''pkce'', signature)"
| "presents _ = None"

text \<open>The calls that take a credential out of use when they succeed.\<close>

fun spends :: "oauth_call \<Rightarrow> (string \<times> string) option" where
  "spends (CallInvalidateCode cx signature) = Some (''authorize_code'', signature)"
| "spends (CallRotate cx requestID signature) = Some (''refresh_token'', signature)"
| "spends (CallDeletePKCE cx signature) = Some (''pkce'', signature)"
| "spends (CallDeleteAccess cx signature) = Some (''access_token'', signature)"
| "spends (CallDeleteRefresh cx signature) = Some (''refresh_token'', signature)"
| "spends _ = None"

definition live_grant :: "oauth_env \<Rightarrow> Binding \<Rightarrow> auth_db \<Rightarrow> AuthOauthGrant \<Rightarrow> bool" where
  "live_grant env b d g \<longleftrightarrow> og_RevokedAt g = None \<and> og_Resource g = cr_resource (en_clients env)
     \<and> bd_Resource b = og_Resource g \<and> cr_clients (en_clients env) (og_ClientID g) \<noteq> None
     \<and> (bd_Purpose b = PurposeIntrospection \<or> bd_ClientID b = og_ClientID g)
     \<and> (\<exists>a \<in> set (db_accounts d). ua_ID a = og_AccountID g \<and> ua_Status a = ''active''
          \<and> ua_AuthorizationEpoch a = og_AccountEpoch g)"

definition spent :: "AuthOauthSession \<Rightarrow> bool" where
  "spent s \<longleftrightarrow> os_ConsumedAt s \<noteq> None \<or> os_RevokedAt s \<noteq> None"

text \<open>A credential row with what stands behind it.\<close>

definition live :: "oauth_env \<Rightarrow> Binding \<Rightarrow> auth_db \<Rightarrow> AuthOauthSession \<Rightarrow> bool" where
  "live env b d s \<longleftrightarrow> \<not> spent s
     \<and> (\<exists>g \<in> set (db_grants d). og_ID g = os_GrantID s \<and> live_grant env b d g)"

section \<open>Reading rows\<close>

definition still :: "Operation \<Rightarrow> Operation \<Rightarrow> bool" where
  "still w w' \<longleftrightarrow> (\<exists>x. w' = w\<lparr>op_tx := x\<rparr> \<and> tx_db x = view w)"

lemma still_refl: "still w w"
  by (auto simp: still_def intro: exI [of _ "op_tx w"])

lemma still_trans: "still w w' \<Longrightarrow> still w' w'' \<Longrightarrow> still w w''"
  by (auto simp: still_def)

lemma still_view: "still w w' \<Longrightarrow> view w' = view w \<and> op_binding w' = op_binding w \<and> op_kind w' = op_kind w"
  by (auto simp: still_def)

text \<open>What a program leaves and returns, as a predicate on where it starts.\<close>

definition wp :: "('s, 'a) state \<Rightarrow> ('a \<Rightarrow> 's \<Rightarrow> bool) \<Rightarrow> 's \<Rightarrow> bool" where
  "wp m Q w \<longleftrightarrow> (case run_state m w of (r, w') \<Rightarrow> Q r w')"

named_theorems wp_intro "from what must hold at the end to what must hold before"

lemma wpD: "wp m Q w \<Longrightarrow> run_state m w = (r, w') \<Longrightarrow> Q r w'"
  by (simp add: wp_def)

lemma wp_leaves [wp_intro]:
  "Q a w \<Longrightarrow> wp (State_Monad.return a) Q w" "Q' (Inl e) w \<Longrightarrow> wp (refuse e) Q' w"
  "(\<And>w. Q' (Inl errStorageFailure) w) \<Longrightarrow> wp (op_fail e) Q' w"
  "(\<And>e w. Q' (Inl e) w) \<Longrightarrow> wp (notFoundOrFailure e) Q' w"
  by (simp_all add: wp_def refuse_def notFoundOrFailure_def)

lemma wp_cases [wp_intro]:
  "(b \<Longrightarrow> wp m Q w) \<Longrightarrow> (\<not> b \<Longrightarrow> wp m' Q w) \<Longrightarrow> wp (if b then m else m') Q w"
  "(\<And>e. r = Inl e \<Longrightarrow> wp (f e) Q w) \<Longrightarrow> (\<And>a. r = Inr a \<Longrightarrow> wp (g a) Q w)
    \<Longrightarrow> wp (case r of Inl e \<Rightarrow> f e | Inr a \<Rightarrow> g a) Q w"
  "(x = None \<Longrightarrow> wp m Q w) \<Longrightarrow> (\<And>y. x = Some y \<Longrightarrow> wp (h y) Q w)
    \<Longrightarrow> wp (case x of None \<Rightarrow> m | Some y \<Rightarrow> h y) Q w"
  "(\<And>u v. z = (u, v) \<Longrightarrow> wp (k u v) Q w) \<Longrightarrow> wp (case z of (u, v) \<Rightarrow> k u v) Q w"
  by (auto split: sum.splits option.splits prod.splits)

lemma wp_let [wp_intro]: "wp (f x) Q w \<Longrightarrow> wp (let y = x in f y) Q w"
  by simp

lemma wp_get [wp_intro]: "wp (f w) Q w \<Longrightarrow> wp (do { x \<leftarrow> State_Monad.get; f x }) Q w"
  by (simp add: wp_def run_bind)

lemma wp_modify [wp_intro]: "wp m Q (f w) \<Longrightarrow> wp (do { modify f; m }) Q w"
  by (simp add: wp_def run_bind modify_def)

lemma wp_weaken: "wp m Q w \<Longrightarrow> (\<And>r w'. Q r w' \<Longrightarrow> Q' r w') \<Longrightarrow> wp m Q' w"
  by (auto simp: wp_def split: prod.splits)

lemma wp_bind: "wp m S w \<Longrightarrow> (\<And>r w1. S r w1 \<Longrightarrow> wp (k r) Q w1) \<Longrightarrow> wp (State_Monad.bind m k) Q w"
  by (fastforce simp: wp_def run_bind split: prod.splits)

lemma wp_time [wp_intro]: "(\<And>t w1. still w w1 \<Longrightarrow> wp (k t) Q w1) \<Longrightarrow> wp (do { t \<leftarrow> time_now env; k t }) Q w"
  by (rule wp_bind [where S = "\<lambda>_. still w"])
    (auto simp: wp_def time_now_def on_tx_def tx_now_def tick_def still_def)

definition sent :: "'a stmt \<Rightarrow> Operation \<Rightarrow> 'a \<Rightarrow> Operation \<Rightarrow> bool" where
  "sent s w a w' \<longleftrightarrow> s (view w) = Inr (a, view w') \<and> (\<exists>x. w' = w\<lparr>op_tx := x\<rparr>)"

lemma wp_query [wp_intro]:
  assumes "\<And>e w1. wp (f e) Q w1" "\<And>a w1. sent s w a w1 \<Longrightarrow> wp (k a) Q w1"
  shows "wp (do { r \<leftarrow> query env s; case r of Inl e \<Rightarrow> f e | Inr a \<Rightarrow> k a }) Q w"
proof (rule wp_bind [where S = "\<lambda>r w1. case r of Inl e \<Rightarrow> True | Inr a \<Rightarrow> sent s w a w1"])
  obtain r w1 where q: "run_state (query env s) w = (r, w1)" by fastforce
  show "wp (query env s) (\<lambda>r w1. case r of Inl e \<Rightarrow> True | Inr a \<Rightarrow> sent s w a w1) w"
  proof (cases r)
    case (Inr a)
    with q obtain d where d: "s (view w) = Inr (a, d)" "w1 = w\<lparr>op_tx := tick ((op_tx w)\<lparr>tx_db := d\<rparr>)\<rparr>"
      by (auto dest: query_Inr)
    then have "sent s w a w1" unfolding sent_def by (simp add: tick_def) blast
    with q Inr show ?thesis by (simp add: wp_def)
  qed (use q in \<open>simp add: wp_def\<close>)
qed (use assms in \<open>auto split: sum.splits\<close>)

lemma wp_lookup [wp_intro]:
  assumes "\<And>e w1. wp (f e) Q w1" "\<And>a w1. sent s w a w1 \<Longrightarrow> wp (k a) Q w1"
  shows "wp (do { r \<leftarrow> lookup env s; case r of Inl e \<Rightarrow> f e | Inr a \<Rightarrow> k a }) Q w"
proof (rule wp_bind [where S = "\<lambda>r w1. case r of Inl e \<Rightarrow> True | Inr a \<Rightarrow> sent s w a w1"])
  show "wp (lookup env s) (\<lambda>r w1. case r of Inl e \<Rightarrow> True | Inr a \<Rightarrow> sent s w a w1) w"
    unfolding lookup_def by (intro wp_intro) simp_all
qed (use assms in \<open>auto split: sum.splits\<close>)

lemma sent_select: "sent (select_one table P) w a w' \<Longrightarrow> still w w' \<and> find P (table (view w)) = Some a"
  by (auto simp: sent_def select_one_Inr still_def)

lemma sent_reads: "sent s w a w' \<Longrightarrow> stmt_reads s \<Longrightarrow> still w w'"
  by (auto simp: sent_def stmt_reads_def still_def)

lemma sent_locks:
  "sent (LockOAuthAccount i) w a w' \<Longrightarrow> still w w' \<and> a \<in> set (db_accounts (view w)) \<and> ua_ID a = i"
  "sent (LockOAuthGrant i) w g w' \<Longrightarrow> still w w' \<and> g \<in> set (db_grants (view w)) \<and> og_ID g = i"
  "sent (LockOAuthCredential kind signature) w s w' \<Longrightarrow> still w w' \<and> s \<in> set (db_sessions (view w))
     \<and> session_key s = (kind, signature)"
  "sent (FindOAuthCredentialOwner kind signature) w o1 w' \<Longrightarrow> still w w'"
  using sent_reads [OF _ reads_simps(2)]
  by (auto simp: LockOAuthAccount_def LockOAuthGrant_def LockOAuthCredential_def session_key_def
    dest!: sent_select find_SomeD)

text \<open>A locked credential: its first row, its grant and its account.\<close>

definition locked_row :: "oauth_env \<Rightarrow> Binding \<Rightarrow> auth_db \<Rightarrow> string \<Rightarrow> string \<Rightarrow> AuthOauthSession
    \<Rightarrow> AuthOauthGrant \<Rightarrow> bool" where
  "locked_row env b d kind signature s g \<longleftrightarrow> s \<in> set (db_sessions d) \<and> session_key s = (kind, signature)
     \<and> g \<in> set (db_grants d) \<and> og_ID g = os_GrantID s \<and> live_grant env b d g"

lemma locked_grant_live:
  assumes "validateLockedGrant env w a g = None" "a \<in> set (db_accounts d)" "ua_ID a = og_AccountID g"
  shows "live_grant env (op_binding w) d g"
  using assms by (auto simp: validateLockedGrant_def live_grant_def firsterr_eval fails_def GetClient_def
    split: if_splits option.splits)

lemma lockCredential_wp: "wp (lockCredential env kind signature) (\<lambda>r w'. \<forall>c g. r = Inr (c, g) \<longrightarrow>
    still w w' \<and> (\<exists>s gr. locked_row env (op_binding w) (view w) kind signature s gr
      \<and> c = credential_of s \<and> g = grant_of gr)) w"
  unfolding lockCredential_def
proof (intro wp_intro)
  fix o1 w1 i j a w2 gr w3 s w4
  assume "sent (FindOAuthCredentialOwner kind signature) w o1 w1" "sent (LockOAuthAccount j) w1 a w2"
    "sent (LockOAuthGrant i) w2 gr w3" "sent (LockOAuthCredential kind signature) w3 s w4"
    and e: "\<not> (os_GrantID s \<noteq> og_ID gr \<or> ua_ID a \<noteq> og_AccountID gr)" "validateLockedGrant env w4 a gr = None"
  then have s: "still w w1" "still w1 w2" "still w2 w3" "still w3 w4"
    and a: "a \<in> set (db_accounts (view w1))" and g: "gr \<in> set (db_grants (view w2))"
    and r: "s \<in> set (db_sessions (view w3))" "session_key s = (kind, signature)"
    by (blast dest: sent_locks)+
  have t: "still w w2" "still w w3" "still w w4" using s still_trans by blast+
  have v: "view w1 = view w" "view w2 = view w" "view w3 = view w" "op_binding w4 = op_binding w"
    using s(1) t by (simp_all add: still_view)
  from locked_grant_live [OF e(2)] a g r e(1)
  have "locked_row env (op_binding w) (view w) kind signature s gr" by (simp add: locked_row_def v)
  with t(3) show "\<forall>c g. Inr (credential_of s, grant_of gr) = Inr (c, g) \<longrightarrow> still w w4 \<and>
     (\<exists>s gr. locked_row env (op_binding w) (view w) kind signature s gr \<and> c = credential_of s \<and> g = grant_of gr)"
    by auto
qed simp_all

section \<open>Calls\<close>

lemma wp_context:
  "(\<And>r. wp (k r) Q w) \<Longrightarrow> wp (do { r \<leftarrow> operationQueriesAny cx; k r }) Q w"
  "(\<And>r. wp (k r) Q w) \<Longrightarrow> wp (do { r \<leftarrow> operationQueries cx purpose; k r }) Q w"
proof -
  have any: "wp (operationQueriesAny cx) (\<lambda>_ w'. w' = w) w" for w
    unfolding operationQueriesAny_def by (intro wp_intro) simp_all
  show "wp (do { r \<leftarrow> operationQueriesAny cx; k r }) Q w" if "\<And>r. wp (k r) Q w"
    by (rule wp_bind [OF any]) (simp add: that)
  have "wp (operationQueries cx purpose) (\<lambda>_ w'. w' = w) w"
    unfolding operationQueries_def by (rule wp_bind [OF any]) (hypsubst, intro wp_intro, simp_all)
  then show "wp (do { r \<leftarrow> operationQueries cx purpose; k r }) Q w" if "\<And>r. wp (k r) Q w"
    by (rule wp_bind) (simp add: that)
qed

lemma wp_locking:
  assumes "\<And>e w1. wp (f e) Q w1"
    and "\<And>s gr w1. still w w1 \<Longrightarrow> locked_row env (op_binding w) (view w) kind signature s gr
      \<Longrightarrow> wp (k (credential_of s, grant_of gr)) Q w1"
  shows "wp (do { r \<leftarrow> lockCredential env kind signature; case r of Inl e \<Rightarrow> f e | Inr cg \<Rightarrow> k cg }) Q w"
  by (rule wp_bind [OF lockCredential_wp]) (use assms in \<open>auto split: sum.splits\<close>)

lemma wp_reading: "(\<And>r w1. wp (k r) Q w1) \<Longrightarrow> wp (do { r \<leftarrow> read_credential env kind signature tt target cg; k r }) Q w"
  by (rule wp_bind [where S = "\<lambda>_ _. True"]) (simp_all add: wp_def case_prod_unfold)

lemma wp_validating:
  assumes "\<And>e w1. wp (f e) Q w1"
    and "\<And>s gr w1. still w w1 \<Longrightarrow> locked_row env (op_binding w) (view w) kind signature s gr
      \<Longrightarrow> wp (k (grant_of gr)) Q w1"
  shows "wp (do { r \<leftarrow> lockAndValidateCredential env kind signature tt; case r of Inl e \<Rightarrow> f e | Inr g \<Rightarrow> k g }) Q w"
proof (rule wp_bind)
  show "wp (lockAndValidateCredential env kind signature tt) (\<lambda>r w1. case r of Inl e \<Rightarrow> True
    | Inr g \<Rightarrow> \<exists>s gr. still w w1 \<and> locked_row env (op_binding w) (view w) kind signature s gr \<and> g = grant_of gr) w"
    unfolding lockAndValidateCredential_def by (intro wp_locking wp_intro) auto
qed (use assms in \<open>auto split: sum.splits\<close>)

definition accepts_row :: "oauth_env \<Rightarrow> Operation \<Rightarrow> string \<Rightarrow> string \<Rightarrow> bool" where
  "accepts_row env w kind signature \<longleftrightarrow> (\<exists>s gr. locked_row env (op_binding w) (view w) kind signature s gr
     \<and> (\<exists>u \<in> set (db_sessions (view w)). session_key u = (kind, signature) \<and> \<not> spent u))"

definition all_spent :: "string \<Rightarrow> string \<Rightarrow> auth_db \<Rightarrow> bool" where
  "all_spent kind signature d \<longleftrightarrow> (\<forall>s \<in> set (db_sessions d). session_key s = (kind, signature) \<longrightarrow> spent s)"

lemma accepts_rowI: "locked_row env (op_binding w) (view w) kind signature s gr \<Longrightarrow> \<not> spent s
    \<Longrightarrow> accepts_row env w kind signature"
  by (auto simp: accepts_row_def locked_row_def)

lemma getters_accept:
  "wp (GetAuthorizeCodeSession env cx signature target) (\<lambda>r w'. snd r = None \<longrightarrow> accepts_row env w ''authorize_code'' signature) w"
  "wp (GetAccessTokenSession env cx signature target) (\<lambda>r w'. snd r = None \<longrightarrow> accepts_row env w ''access_token'' signature) w"
  "wp (GetRefreshTokenSession env cx signature target) (\<lambda>r w'. snd r = None \<longrightarrow> accepts_row env w ''refresh_token'' signature) w"
  "wp (GetPKCERequestSession env cx signature target) (\<lambda>r w'. snd r = None \<longrightarrow> accepts_row env w ''pkce'' signature) w"
  unfolding GetAuthorizeCodeSession_def GetAccessTokenSession_def GetRefreshTokenSession_def GetPKCERequestSession_def
  by (intro wp_context wp_locking wp_reading wp_intro;
      simp add: spent_def credential_of_def accepts_rowI)+

text \<open>Consuming and revoking.\<close>

lemma updated_row: "r \<in> set (update_where P f xs) \<Longrightarrow> \<exists>s \<in> set xs. r = (if P s then f s else s)"
  by (auto simp: update_where_def)

lemma all_spent_update:
  assumes "db_sessions d' = update_where P f (db_sessions d)"
    and "\<And>s. session_key (f s) = session_key s" "\<And>s. spent (f s)"
    and "\<And>s. session_key s = (kind, signature) \<Longrightarrow> \<not> P s \<Longrightarrow> s \<in> set (db_sessions d) \<Longrightarrow> spent s"
  shows "all_spent kind signature d'"
  unfolding all_spent_def assms(1)
proof (intro ballI impI)
  fix r assume "r \<in> set (update_where P f (db_sessions d))" and k: "session_key r = (kind, signature)"
  from updated_row [OF this(1)] obtain s where "s \<in> set (db_sessions d)" "r = (if P s then f s else s)" by blast
  with k assms(2-4) show "spent r" by (cases "P s") auto
qed

lemma sent_consume:
  assumes "sent (ConsumeOAuthSession t kind signature) w n w'"
  shows "all_spent kind signature (view w')"
    "n = 1 \<Longrightarrow> \<exists>u \<in> set (db_sessions (view w)). session_key u = (kind, signature) \<and> \<not> spent u"
proof -
  have d: "view w' = (view w)\<lparr>db_sessions := update_where (unspent kind signature)
      (\<lambda>s. s\<lparr>os_ConsumedAt := Some (greatest (pg_time t) (os_CreatedAt s))\<rparr>) (db_sessions (view w))\<rparr>"
    and n: "n = count_where (unspent kind signature) (db_sessions (view w))"
    using assms by (auto simp: sent_def ConsumeOAuthSession_def)
  have "db_sessions (view w') = update_where (unspent kind signature)
      (\<lambda>s. s\<lparr>os_ConsumedAt := Some (greatest (pg_time t) (os_CreatedAt s))\<rparr>) (db_sessions (view w))"
    using d by simp
  then show "all_spent kind signature (view w')"
    by (rule all_spent_update) (simp_all add: session_key_def unspent_def spent_def)
  show "\<exists>u \<in> set (db_sessions (view w)). session_key u = (kind, signature) \<and> \<not> spent u" if "n = 1"
  proof -
    have "filter (unspent kind signature) (db_sessions (view w)) \<noteq> []"
      using n that by (auto simp: count_where_def)
    then obtain u where "u \<in> set (db_sessions (view w))" "unspent kind signature u"
      unfolding filter_empty_conv by blast
    then show ?thesis by (auto simp: unspent_def session_key_def spent_def)
  qed
qed

lemma sent_revoke:
  "sent (revoke_sessions t P) w n w' \<Longrightarrow> all_spent kind signature (view w) \<Longrightarrow> all_spent kind signature (view w')"
  "sent (RevokeOAuthSession t kind signature) w n w' \<Longrightarrow> all_spent kind signature (view w')"
proof -
  have d: "db_sessions (view w') = update_where Q (revoke_session t) (db_sessions (view w))"
    if "sent (revoke_sessions t Q) w n w'" for Q
  proof -
    have "view w' = (view w)\<lparr>db_sessions := update_where Q (revoke_session t) (db_sessions (view w))\<rparr>"
      using that by (auto simp: sent_def revoke_sessions_def)
    then show ?thesis by simp
  qed
  have r: "session_key (revoke_session t s) = session_key s" "spent (revoke_session t s)" for s
    by (simp_all add: session_key_def spent_def revoke_session_def split: option.splits)
  show "all_spent kind signature (view w')" if "sent (revoke_sessions t P) w n w'" "all_spent kind signature (view w)"
    using that(2) r by (intro all_spent_update [OF d [OF that(1)]]) (auto simp: all_spent_def)
  show "all_spent kind signature (view w')" if "sent (RevokeOAuthSession t kind signature) w n w'"
    using r by (intro all_spent_update [OF d [OF that [unfolded RevokeOAuthSession_def]]]) (auto simp: session_key_def)
qed

lemma still_spent: "still w w' \<Longrightarrow> all_spent kind signature (view w') = all_spent kind signature (view w)"
  by (simp add: still_view)

lemma accepts_row_still:
  assumes "locked_row env (op_binding w) (view w) kind signature s gr" "still w w1" "still w1 w2"
    "sent (ConsumeOAuthSession t kind signature) w2 n w3" "n = 1"
  shows "accepts_row env w kind signature"
proof -
  have "view w2 = view w" using still_view [OF still_trans [OF assms(2,3)]] by simp
  with assms(1) sent_consume(2) [OF assms(4,5)] show ?thesis unfolding accepts_row_def by metis
qed

lemma spent_still: "sent (ConsumeOAuthSession t kind signature) w n w1 \<Longrightarrow> still w1 w2
    \<Longrightarrow> sent (revoke_sessions t' P) w2 m w3 \<Longrightarrow> all_spent kind signature (view w3)"
  using sent_revoke(1) sent_consume(1) still_spent by blast

lemma spenders_accept:
  "wp (InvalidateAuthorizeCodeSession env cx signature) (\<lambda>r w'. \<forall>a. r = Inr a \<longrightarrow>
     accepts_row env w ''authorize_code'' signature \<and> all_spent ''authorize_code'' signature (view w')) w"
  "wp (DeletePKCERequestSession env cx signature) (\<lambda>r w'. \<forall>a. r = Inr a \<longrightarrow>
     accepts_row env w ''pkce'' signature \<and> all_spent ''pkce'' signature (view w')) w"
  "wp (RotateRefreshToken env cx requestID signature) (\<lambda>r w'. \<forall>a. r = Inr a \<longrightarrow>
     accepts_row env w ''refresh_token'' signature \<and> all_spent ''refresh_token'' signature (view w')) w"
  unfolding InvalidateAuthorizeCodeSession_def DeletePKCERequestSession_def RotateRefreshToken_def
    RevokeOAuthAccessTokensForGrant_def
  by (intro wp_context wp_validating wp_intro;
      auto intro: accepts_row_still sent_consume(1) spent_still)+

lemma revokers_spend:
  "wp (DeleteAccessTokenSession env cx signature) (\<lambda>r w'. \<forall>a. r = Inr a \<longrightarrow> all_spent ''access_token'' signature (view w')) w"
  "wp (DeleteRefreshTokenSession env cx signature) (\<lambda>r w'. \<forall>a. r = Inr a \<longrightarrow> all_spent ''refresh_token'' signature (view w')) w"
  unfolding DeleteAccessTokenSession_def DeleteRefreshTokenSession_def revoke_credential_def
  by (intro wp_context wp_validating wp_intro; auto intro: sent_revoke(2))+

lemma wp_succeeds:
  "wp m (\<lambda>r w'. \<forall>a. r = Inr a \<longrightarrow> Q w') w \<Longrightarrow> wp (succeeds m) (\<lambda>ok w'. ok \<longrightarrow> Q w') w"
  "wp g (\<lambda>r w'. snd r = None \<longrightarrow> Q w') w \<Longrightarrow> wp (returns g) (\<lambda>ok w'. ok \<longrightarrow> Q w') w"
  by (auto simp: wp_def succeeds_def returns_def run_bind split: prod.splits sum.splits)

text \<open>What the success of a call says.\<close>

lemma presented_row:
  assumes "run_state (perform env c) w = (True, w')" "presents c = Some (kind, signature)"
  shows "accepts_row env w kind signature"
proof -
  have "wp (perform env c) (\<lambda>ok w'. ok \<longrightarrow> accepts_row env w kind signature) w"
    using assms(2) by (cases c)
      (auto intro!: wp_succeeds getters_accept spenders_accept [THEN wp_weaken])
  from wpD [OF this assms(1)] show ?thesis by simp
qed

lemma spent_row:
  assumes "run_state (perform env c) w = (True, w')" "spends c = Some (kind, signature)"
  shows "all_spent kind signature (view w')"
proof -
  have "wp (perform env c) (\<lambda>ok w'. ok \<longrightarrow> all_spent kind signature (view w')) w"
    using assms(2) by (cases c)
      (auto intro!: wp_succeeds revokers_spend spenders_accept [THEN wp_weaken])
  from wpD [OF this assms(1)] show ?thesis by simp
qed

text \<open>With unique keys and numbers, it is the one row of that key.\<close>

lemma presented_live:
  assumes "run_state (perform env c) w = (True, w')" "presents c = Some (kind, signature)" "tables_ok (view w)"
  shows "\<exists>s \<in> set (db_sessions (view w)). session_key s = (kind, signature) \<and> live env (op_binding w) (view w) s"
proof -
  obtain s gr u where r: "locked_row env (op_binding w) (view w) kind signature s gr"
    "u \<in> set (db_sessions (view w))" "session_key u = (kind, signature)" "\<not> spent u"
    using presented_row [OF assms(1,2)] by (auto simp: accepts_row_def)
  have "distinct (map session_key (db_sessions (view w)))" using assms(3) by (simp add: tables_ok_def)
  with r have "u = s" by (auto simp: locked_row_def distinct_map inj_on_def)
  with r show ?thesis by (auto simp: locked_row_def live_def)
qed

end
