(* ===== verification/Auth_Example.thy ===== *)
theory Auth_Example
  imports OAuth_Acceptance
begin

text \<open>
  One concrete deployment, evaluated: a client, an account that logs in, a consent, an authorization
  and a code exchange. The JSON port keeps one snapshot, which is the one request the example has.
\<close>

definition ex_time :: "int \<Rightarrow> gotime" where
  "ex_time s = \<lparr>instant = s * 1000000000, repr = 0\<rparr>"

definition ex_resource :: string where "ex_resource = ''https://h/mcp''"

definition ex_clients :: ClientRegistry where
  "ex_clients = \<lparr>cr_resource = ex_resource, cr_clients = [''c'' \<mapsto>
     \<lparr>cc_ClientID = ''c'', cc_ClientName = ''n'', cc_RedirectURIs = [''https://a/b''],
      cc_TokenEndpointAuthMethod = ''none'', cc_GrantTypes = [''authorization_code'', ''refresh_token''],
      cc_ResponseTypes = [''code''], cc_Scope = ''mcp:read''\<rparr>]\<rparr>"

definition ex_stored :: StoredRequest where
  "ex_stored = \<lparr>sr_Version = 1, sr_ID = ''r'', sr_RequestedAt = ex_time 10, sr_ClientID = ''c'',
     sr_RequestedScopes = [''mcp:read''], sr_GrantedScopes = [''mcp:read''],
     sr_RequestedAudience = [ex_resource], sr_GrantedAudience = [ex_resource], sr_Form = Some [],
     sr_Session = \<lparr>ss_ExpiresAt = Some [(AuthorizeCode, ex_time 310), (AccessToken, ex_time 910), (RefreshToken, ex_time 9910)],
       ss_Subject = ''1'', ss_AccountID = 1, ss_AccountEpoch = 1, ss_Resource = ex_resource\<rparr>\<rparr>"

definition ex_request :: Requester where
  "ex_request = \<lparr>rq_ID = ''r'', rq_RequestedAt = ex_time 10,
     rq_Client = Some \<lparr>fc_ID = ''c'', fc_RedirectURIs = [''https://a/b''],
       fc_GrantTypes = [''authorization_code'', ''refresh_token''], fc_ResponseTypes = [''code''],
       fc_Scopes = [''mcp:read''], fc_Audience = [ex_resource], fc_Public = True\<rparr>,
     rq_RequestedScopes = [''mcp:read''], rq_GrantedScopes = [''mcp:read''],
     rq_RequestedAudience = [ex_resource], rq_GrantedAudience = [ex_resource], rq_Form = Some [],
     rq_Session = Some \<lparr>sn_DefaultSession = Some \<lparr>ds_ExpiresAt = ss_ExpiresAt (sr_Session ex_stored), ds_Username = [],
         ds_Subject = ''1'', ds_Extra = []\<rparr>,
       sn_AccountID = 1, sn_AccountEpoch = 1, sn_Resource = ex_resource\<rparr>\<rparr>"

definition ex_codec :: codec_env where
  "ex_codec = \<lparr>fo_GetUsername = ds_Username, fo_GetSubject = ds_Subject,
     fo_GetExpiresAt = (\<lambda>ds k. case map_of (elems (ds_ExpiresAt ds)) k of Some t \<Rightarrow> t | None \<Rightarrow> ex_time 0),
     js_Marshal = (\<lambda>_. Inr ''{}''), js_Unmarshal = (\<lambda>_. Inr ex_stored)\<rparr>"

definition ex_env :: oauth_env where
  "ex_env = \<lparr>en_fault = (\<lambda>_. None), en_now = (\<lambda>_. ex_time 20), en_clock = (\<lambda>_. ex_time 20),
     en_jsonb = Some, en_lower = id, en_clients = ex_clients, en_codec = ex_codec,
     en_Signature = (\<lambda>_ s. s), en_Validate = (\<lambda>_ _ _ _. None)\<rparr>"

definition ex_ids :: id_env where
  "ex_ids = \<lparr>en_fault = (\<lambda>_. None), en_now = (\<lambda>_. ex_time 20), en_clock = (\<lambda>_. ex_time 20),
     en_jsonb = Some, en_lower = id, en_ParseRequestURI = (\<lambda>_. None), en_ToLower = id\<rparr>"

definition ex_cx :: opctx where "ex_cx = \<lparr>cx_Operation = True, cx_Savepoint = None\<rparr>"

definition ex_sp :: opctx where "ex_sp = \<lparr>cx_Operation = True, cx_Savepoint = Some 0\<rparr>"

definition ex_login :: pg_pool where
  "ex_login = snd (run_state (Store_CompleteLogin ex_ids
     \<lparr>pf_Issuer = ''i'', pf_Subject = ''s'', pf_Email = ''e'', pf_DisplayName = ''n''\<rparr> ''w'' (ex_time 20) (ex_time 5000))
     \<lparr>pl_db = empty_db, pl_tick = 0\<rparr>)"

definition ex_pending :: pg_pool where
  "ex_pending = snd (run_state (CreatePendingConsent ex_env False ''h'' ''x'' (ex_time 600)) ex_login)"

definition ex_bound :: pg_pool where
  "ex_bound = snd (run_state (withShortConsent ex_env False ''h'' (Some ''w'') (ex_time 20) True) ex_pending)"

definition ex_authorize :: Binding where
  "ex_authorize = \<lparr>bd_Purpose = PurposeAuthorize, bd_ClientID = ''c'', bd_Resource = ex_resource, bd_AccountID = 1\<rparr>"

definition ex_approval :: "oauth_call list" where
  "ex_approval = [CallConsent ex_cx ''h'' ''w'' (ex_time 20) ConsentApprove, CallCreateCode ex_cx ''k'' (Some ex_request),
     CallCreatePKCE ex_cx ''k'' (Some ex_request)]"

definition ex_granted :: pg_pool where
  "ex_granted = snd (run_protocol ex_env ex_authorize CredentialNone [] ex_approval (Finishing None) ex_bound)"

section \<open>Evaluation\<close>

text \<open>Programs are run from the front: the rest of a sequence is not rewritten before its turn.\<close>

lemma bind_opaque: "State_Monad.bind m f = State_Monad.bind m f" by (rule refl)

lemma run_steps:
  "run_state (on_tx m) w = (case run_state m (op_tx w) of (r, x) \<Rightarrow> (r, w\<lparr>op_tx := x\<rparr>))"
  "run_state (modify h) w = ((), h w)"
  "run_state (exec env s) x = (
     if tx_status x \<noteq> TxOpen then (Inl (not_open (tx_status x)), tick x)
     else case en_fault env (tx_tick x) of
       Some (Refused m) \<Rightarrow> (Inl (Errorf m []), tick (x\<lparr>tx_status := TxFailed\<rparr>))
     | Some (Lost m) \<Rightarrow> (Inl (Errorf m []), tick (x\<lparr>tx_status := TxLost\<rparr>))
     | Some (Unanswered m) \<Rightarrow> (Inl (Errorf m []), tick (x\<lparr>tx_status := TxLost\<rparr>))
     | None \<Rightarrow> (case s (tx_db x) of
         Inr (a, d) \<Rightarrow> (Inr a, tick (x\<lparr>tx_db := d\<rparr>))
       | Inl e \<Rightarrow> (Inl e, tick (if e = ErrNoRows then x else x\<lparr>tx_status := TxFailed\<rparr>))))"
  "run_state (tx_now env) x = (en_now env (tx_tick x), tick x)"
  "run_state (with_tx env failed body) p = (case pool_begin env p of
     (Inl e, p') \<Rightarrow> (failed e, p')
   | (Inr x, _) \<Rightarrow> (case run_state (do { r \<leftarrow> body; tx_rollback env; State_Monad.return r }) x of
       (r, x') \<Rightarrow> (r, settle x')))"
  "run_state (tx_commit env) x =
     (let closed = tick (x\<lparr>tx_status := TxClosed\<rparr>); done = closed\<lparr>tx_base := tx_db x\<rparr> in
     if tx_status x = TxFailed then (Some ErrTxCommitRollback, closed)
     else if tx_status x \<noteq> TxOpen then (Some (not_open (tx_status x)), tick x)
     else case en_fault env (tx_tick x) of
       None \<Rightarrow> (None, done)
     | Some (Refused m) \<Rightarrow> (Some (Errorf m []), closed)
     | Some (Lost m) \<Rightarrow> (Some (Errorf m []), closed)
     | Some (Unanswered m) \<Rightarrow> (Some (Errorf m []), done))"
  "run_state (tx_rollback env) x = (
     if tx_status x = TxClosed then (Some ErrTxClosed, tick x)
     else (case en_fault env (tx_tick x) of
         None \<Rightarrow> if tx_status x = TxLost then Some (not_open TxLost) else None
       | Some (Refused m) \<Rightarrow> Some (Errorf m []) | Some (Lost m) \<Rightarrow> Some (Errorf m [])
       | Some (Unanswered m) \<Rightarrow> Some (Errorf m []),
       tick (x\<lparr>tx_status := TxClosed\<rparr>)))"
  by (simp_all add: on_tx_def modify_def exec_def tx_now_def with_tx_def tx_commit_def tx_rollback_def)

lemmas evaluation = run_bind run_steps tick_def pool_begin_def begun_def settle_def pg_time_def greatest_def
  After_def Before_def IsZero_def fails_def firsterr_eval checked_def Let_def map_sum_def
  select_one_def first_row_def update_where_def count_where_def



lemma TrimSpace_letter: "byte_of c < 128 \<Longrightarrow> \<not> IsSpace (byte_of c) \<Longrightarrow> TrimSpace [c] = [c]"
  by (simp add: TrimSpace_def rune_chunks_def range_runes_def)

lemmas letters = TrimSpace_letter byte_of_def IsSpace_def btrim_def

lemma ex_login_eq: "ex_login = \<lparr>pl_db =
    \<lparr>db_accounts =
       [\<lparr>ua_ID = 1, ua_Issuer = ''i'', ua_Subject = ''s'', ua_Email = ''e'',
           ua_DisplayName = ''n'', ua_Status = ''active'',
           ua_AuthorizationEpoch = 1,
           ua_FirstSeenAt = \<lparr>instant = 20000000000, repr = 0\<rparr>,
           ua_LastLoginAt = \<lparr>instant = 20000000000, repr = 0\<rparr>\<rparr>],
       db_logins = [],
       db_websessions =
         [\<lparr>ws_ID = 2, ws_SessionHash = ''w'', ws_AccountID = 1,
             ws_AccountEpoch = 1,
             ws_IssuedAt = \<lparr>instant = 20000000000, repr = 0\<rparr>,
             ws_ExpiresAt = \<lparr>instant = 5000000000000, repr = 0\<rparr>,
             ws_RevokedAt = None\<rparr>],
       db_consents = [], db_grants = [], db_sessions = [], db_events = [],
       db_sequence = 3\<rparr>,
    pl_tick = 6\<rparr>"
  by (simp add: ex_login_def Store_CompleteLogin_def complete_login_def evaluation letters
     ex_ids_def ex_time_def normalizeProfile_def validateProfile_def UpsertUserAccount_def LockUserAccount_def CreateWebSession_def
     empty_db_def principalFromAccount_def cong: bind_opaque)

lemma format_one: "format_id 1 = ''1''"
proof -
  have "char_of (49::nat) = CHR ''1''" by code_simp
  then show ?thesis by (simp add: format_id_def FormatInt_def nat_digits.simps char_of_byte_def)
qed

lemma ex_encode: "codec_Encode ex_codec ex_clients (Some ex_request) = Inr ''{}''"
  by (simp add: codec_Encode_def ex_request_def ex_codec_def ex_clients_def ex_stored_def stored_of_def GetClient_def
     validateStored_def validateStoredSession_def validateStoredForm_def exactStringSet_single evaluation letters
     filterStoredForm_def cloneExpirationMap_def format_one each_def form_get_def ex_time_def ex_resource_def)

lemma ex_decode: "codec_Decode ex_codec ex_clients payload None = Inr ex_request"
  by (simp add: codec_Decode_def ex_request_def ex_codec_def ex_clients_def ex_stored_def GetClient_def
     validateStored_def validateStoredSession_def validateStoredForm_def exactStringSet_single evaluation letters
     hydrateSession_def cloneForm_def cloneExpirationMap_def format_one each_def form_get_def ex_time_def ex_resource_def)

lemmas operations = run_protocol_def store_Begin_def validateBinding_def new_operation_def conclude_def op_Finish_def
  op_Rollback_def commit_policy_def approvalComplete_def error_is_def performs.simps perform.simps succeeds_def returns_def
  operationQueries_def operationQueriesAny_def operation_of_def query_def time_now_def lookup_def refuse_def
  notFoundOrFailure_def op_fail_def exec_at_def

lemmas statements = LockOAuthAccount_def LockOAuthGrant_def LockOAuthGrantByRequestID_def LockOAuthCredential_def
  FindOAuthCredentialOwner_def FindOAuthGrantOwner_def CreateOAuthGrant_def CreateOAuthSession_def insert_session_def session_kinds_def

lemma ex_bound_eq: "ex_bound = \<lparr>pl_db = (pl_db ex_login)\<lparr>
     db_consents := [\<lparr>pc_ID = 3, pc_HandleHash = ''h'', pc_RequestCiphertext = ''x'', pc_CreatedAt = ex_time 20,
       pc_ExpiresAt = ex_time 600, pc_BoundWebSessionID = Some 2, pc_BoundAt = Some (ex_time 20), pc_ConsumedAt = None\<rparr>],
     db_sequence := 4\<rparr>, pl_tick = 18\<rparr>"
  by (simp add: ex_bound_def ex_pending_def ex_login_eq CreatePendingConsent_def withShortConsent_def validateShortConsentCall_def
     lockAndValidateConsent_def consent_lookup_def consent_refused_def CreatePendingConsentRow_def FindPendingConsentSessionOwner_def
     LockWebSessionForConsent_def LockPendingConsent_def BindPendingConsentRow_def unbound_def evaluation operations statements
     ex_env_def ex_time_def cong: bind_opaque)

definition ex_grant :: AuthOauthGrant where
  "ex_grant = \<lparr>og_ID = 4, og_RequestID = ''r'', og_AccountID = 1, og_AccountEpoch = 1, og_ClientID = ''c'',
     og_Resource = ex_resource, og_CreatedAt = ex_time 20, og_RevokedAt = None, og_RevocationReason = None,
     og_RetainUntil = ex_time 310\<rparr>"

definition ex_session :: "int \<Rightarrow> string \<Rightarrow> AuthOauthSession" where
  "ex_session i kind = \<lparr>os_ID = i, os_GrantID = 4, os_Kind = kind, os_Signature = ''k'', os_AccessTokenID = None,
     os_CreatedAt = ex_time 20, os_ExpiresAt = ex_time 310, os_ConsumedAt = None, os_RevokedAt = None,
     os_RequestPayload = ''{}''\<rparr>"

lemma ex_env_simps:
  "en_fault ex_env n = None" "en_now ex_env n = ex_time 20" "en_clock ex_env n = ex_time 20" "en_jsonb ex_env = Some"
  "en_clients ex_env = ex_clients" "en_codec ex_env = ex_codec" "en_Signature ex_env k z = z" "en_Validate ex_env n k rq z = None"
  by (simp_all add: ex_env_def)

lemma ex_client_simps: "cr_resource ex_clients = ex_resource" "GetClient ex_clients ''c'' = Inr (the (rq_Client ex_request))"
  "rq_ID ex_request = ''r''" "client_id ex_request = ''c''" "rq_Client ex_request \<noteq> None"
  by (simp_all add: ex_clients_def GetClient_def ex_request_def client_id_def)

definition ex_session_of :: Session where "ex_session_of = the (rq_Session ex_request)"

lemma ex_session_simps: "rq_Session ex_request = Some ex_session_of" "sn_AccountID ex_session_of = 1"
  "sn_AccountEpoch ex_session_of = 1" "sn_Resource ex_session_of = ex_resource"
  "session_expiry ex_env ex_session_of AuthorizeCode = ex_time 310"
  "session_expiry ex_env ex_session_of AccessToken = ex_time 910"
  "session_expiry ex_env ex_session_of RefreshToken = ex_time 9910"
  by (simp_all add: ex_session_of_def ex_request_def session_expiry_def ex_env_def ex_codec_def ex_stored_def)

lemmas example = ex_env_simps ex_client_simps ex_session_simps ex_encode ex_decode

lemma ex_granted_run: "run_protocol ex_env ex_authorize CredentialNone [] ex_approval (Finishing None) ex_bound
  = (Inr ([True, True, True], OutcomeCommitted, None), \<lparr>pl_db = (pl_db ex_bound)\<lparr>
      db_consents := [\<lparr>pc_ID = 3, pc_HandleHash = ''h'', pc_RequestCiphertext = ''x'', pc_CreatedAt = ex_time 20,
        pc_ExpiresAt = ex_time 600, pc_BoundWebSessionID = Some 2, pc_BoundAt = Some (ex_time 20),
        pc_ConsumedAt = Some (ex_time 20)\<rparr>],
      db_grants := [ex_grant], db_sessions := [ex_session 5 ''authorize_code'', ex_session 6 ''pkce''],
      db_sequence := 7\<rparr>, pl_tick = 35\<rparr>)"
  by (simp add: ex_bound_eq ex_login_eq ex_authorize_def ex_approval_def ex_cx_def ConsumePendingConsent_def
     CreateAuthorizeCodeSession_def CreatePKCERequestSession_def attempt_issuance_def encodeRequest_def
     lockAndValidateConsent_def consent_lookup_def consent_refused_def FindPendingConsentSessionOwner_def
     LockWebSessionForConsent_def LockPendingConsent_def ConsumePendingConsentRow_def unconsumed_def
     lockGrantByRequestID_def validateLockedGrant_def validateWriteSnapshot_def grant_of_def
     example evaluation operations statements letters
     ex_resource_def ex_time_def ex_grant_def ex_session_def cong: bind_opaque)

lemmas ex_granted_eq = ex_granted_def [unfolded ex_granted_run snd_conv]

text \<open>The code is exchanged for an access and a refresh token.\<close>

definition ex_binding :: Binding where
  "ex_binding = \<lparr>bd_Purpose = PurposeTokenExchange, bd_ClientID = ''c'', bd_Resource = ex_resource, bd_AccountID = 0\<rparr>"

definition ex_exchange :: "oauth_call list" where
  "ex_exchange = [CallGetCode ex_cx ''k'' None, CallGetPKCE ex_cx ''k'' None, CallDeletePKCE ex_cx ''k'', CallBeginTX ex_cx,
     CallInvalidateCode ex_sp ''k'', CallCreateAccess ex_sp ''a'' (Some ex_request),
     CallCreateRefresh ex_sp ''f'' ''a'' (Some ex_request), CallCommit ex_sp]"

definition ex_exchanged :: pg_pool where
  "ex_exchanged = snd (run_protocol ex_env ex_binding CredentialCode ''k'' ex_exchange (Finishing None) ex_granted)"

lemmas credentials = lockCredential_def lockAndValidateCredential_def read_credential_def validateCredentialSnapshot_def
  lockGrantByRequestID_def validateLockedGrant_def validateWriteSnapshot_def grant_of_def credential_of_def
  databaseTimeEqual_def encodeRequest_def attempt_issuance_def token_write_def extend_retention_def
  GetAuthorizeCodeSession_def GetPKCERequestSession_def DeletePKCERequestSession_def InvalidateAuthorizeCodeSession_def
  CreateAccessTokenSession_def CreateRefreshTokenSession_def store_BeginTX_def store_Commit_def store_savepoint_def
  close_savepoint_def savepoint_active_def tx_savepoint_def tx_release_def no_change_def ConsumeOAuthSession_def unspent_def
  CreateOAuthRefreshSession_def ExtendOAuthGrantRetention_def prove_def

lemma ex_exchanged_run: "run_protocol ex_env ex_binding CredentialCode ''k'' ex_exchange (Finishing None) ex_granted
  = (Inr ([True, True, True, True, True, True, True, True], OutcomeCommitted, None), \<lparr>pl_db = (pl_db ex_granted)\<lparr>
      db_grants := [ex_grant\<lparr>og_RetainUntil := ex_time 9910\<rparr>],
      db_sessions := [(ex_session 5 ''authorize_code'')\<lparr>os_ConsumedAt := Some (ex_time 20)\<rparr>,
        (ex_session 6 ''pkce'')\<lparr>os_ConsumedAt := Some (ex_time 20)\<rparr>,
        (ex_session 7 ''access_token'')\<lparr>os_Signature := ''a'', os_ExpiresAt := ex_time 910\<rparr>,
        (ex_session 8 ''refresh_token'')\<lparr>os_Signature := ''f'', os_ExpiresAt := ex_time 9910, os_AccessTokenID := Some 7\<rparr>],
      db_sequence := 9\<rparr>, pl_tick = 72\<rparr>)"
  by (simp add: ex_granted_eq ex_bound_eq ex_login_eq ex_binding_def ex_exchange_def ex_cx_def ex_sp_def
     example evaluation operations statements credentials letters
     ex_resource_def ex_time_def ex_grant_def ex_session_def cong: bind_opaque)

lemmas ex_exchanged_eq = ex_exchanged_def [unfolded ex_exchanged_run snd_conv]

text \<open>The code is presented again, and refused without the operation failing.\<close>

lemma ex_replay_run: "fst (run_protocol ex_env ex_binding CredentialCode ''z'' [CallGetCode ex_cx ''k'' None] (Finishing None) ex_exchanged)
  = Inr ([False], OutcomeCommitted, None)"
  by (simp add: ex_exchanged_eq ex_granted_eq ex_bound_eq ex_login_eq ex_binding_def ex_cx_def
     example evaluation operations statements credentials letters
     ex_resource_def ex_time_def ex_grant_def ex_session_def cong: bind_opaque)

section \<open>Reachability\<close>

lemma ex_bound_reachable: "auth_run empty_db (pl_db ex_bound)"
proof -
  have "auth_step empty_db (pl_db ex_login)"
    using auth_step.complete_login [of "\<lparr>pl_db = empty_db, pl_tick = 0\<rparr>" ex_ids
      "\<lparr>pf_Issuer = ''i'', pf_Subject = ''s'', pf_Email = ''e'', pf_DisplayName = ''n''\<rparr>" "''w''" "ex_time 20" "ex_time 5000"]
    by (simp add: ex_login_def left_by_def)
  moreover have "auth_step (pl_db ex_login) (pl_db ex_pending)"
    using auth_step.create_consent [of ex_login ex_env False "''h''" "''x''" "ex_time 600"]
    by (simp add: ex_pending_def left_by_def)
  moreover have "auth_step (pl_db ex_pending) (pl_db ex_bound)"
    using auth_step.short_consent [of ex_pending ex_env False "''h''" "Some ''w''" "ex_time 20" True]
    by (simp add: ex_bound_def left_by_def)
  ultimately show ?thesis by (meson rtranclp.rtrancl_refl rtranclp.rtrancl_into_rtrancl)
qed

lemma ex_granted_reachable: "auth_run empty_db (pl_db ex_granted)"
  using rtranclp.rtrancl_into_rtrancl [OF ex_bound_reachable
    auth_step.protocol [of ex_bound ex_env ex_authorize CredentialNone "[]" ex_approval "Finishing None"]]
  by (simp add: ex_granted_def)

text \<open>The account is blocked and unblocked, and the code presented.\<close>

definition ex_blocked :: auth_db where
  "ex_blocked = (case block_user_account (ex_time 30) 1 ''x'' (pl_db ex_granted) of Inr (_, d) \<Rightarrow> d | Inl _ \<Rightarrow> empty_db)"

definition ex_unblocked :: pg_pool where
  "ex_unblocked = \<lparr>pl_db = (case unblock_user_account 1 ''x'' ex_blocked of Inr (_, d) \<Rightarrow> d | Inl _ \<Rightarrow> empty_db), pl_tick = 0\<rparr>"

lemma ex_blocking: "block_user_account (ex_time 30) 1 ''x'' (pl_db ex_granted) = Inr ((), ex_blocked)"
  by (simp add: ex_blocked_def block_user_account_def ex_granted_eq ex_bound_eq ex_login_eq letters Let_def)

lemma ex_unblocking: "unblock_user_account 1 ''x'' ex_blocked = Inr ((), pl_db ex_unblocked)"
  by (simp add: ex_unblocked_def ex_blocked_def unblock_user_account_def block_user_account_def ex_granted_eq ex_bound_eq
    ex_login_eq letters Let_def update_where_def)

lemma ex_unblocked_rows:
  "db_sequence ex_blocked = 7" "db_sessions (pl_db ex_unblocked) = [ex_session 5 ''authorize_code'', ex_session 6 ''pkce'']"
  "\<exists>g \<in> set (db_grants (pl_db ex_unblocked)). og_ID g = 4 \<and> og_AccountID g = 1"
  by (simp_all add: ex_unblocked_def ex_blocked_def unblock_user_account_def block_user_account_def ex_granted_eq ex_bound_eq
    ex_login_eq letters Let_def update_where_def ex_grant_def)

end
