(* ===== verification/Auth_Safety.thy ===== *)
theory Auth_Safety
  imports Auth_Example
begin

text \<open>
  The promises of the authorization server, over whole runs: the tables stay consistent, an
  accepted credential is live, a spent one is never accepted again, and neither is what was granted
  to an account before it was blocked.
\<close>

section \<open>What an operation sees\<close>

context auth_laws begin

lemma run_end_good: "op_good I w \<Longrightarrow> op_good I (run_end env cs w)"
  by (rule run_end_keeps [OF perform_keeps])

lemma protocol_trace_good:
  assumes "I (pl_db p)" "(c, w1, ok, w2) \<in> set (protocol_trace env b kind presented cs p)" "\<not> op_storageFailed w1"
  shows "I (view w1)"
proof -
  obtain w q where b: "store_Begin env b kind presented p = (Inr w, q)" and t: "(c, w1, ok, w2) \<in> set (trace env cs w)"
    using assms(2) by (cases "store_Begin env b kind presented p") (auto simp: protocol_trace_def split: sum.splits)
  obtain pre where "w1 = run_end env pre w" using trace_split [OF t] by blast
  with begin_good(2) [OF assms(1) b] run_end_good have "op_good I w1" by simp
  with assms(3) show ?thesis by (simp add: op_good_def tx_good_def)
qed

end

lemma run_consistent: "auth_run d d' \<Longrightarrow> auth_consistent d \<Longrightarrow> auth_consistent d'"
  by (rule consistency.auth_run_keeps)

lemma protocol_trace_binding:
  assumes "(c, w1, ok, w2) \<in> set (protocol_trace env b kind presented cs p)"
  shows "op_binding w1 = b" "run_state (perform env c) w1 = (ok, w2)"
proof -
  obtain w q where b: "store_Begin env b kind presented p = (Inr w, q)" and t: "(c, w1, ok, w2) \<in> set (trace env cs w)"
    using assms by (cases "store_Begin env b kind presented p") (auto simp: protocol_trace_def split: sum.splits)
  show "op_binding w1 = b" using trace_steady(1) [OF t] begin_shape(1) [OF b] by (simp add: steady_def)
  show "run_state (perform env c) w1 = (ok, w2)" using trace_split [OF t] by blast
qed

lemma committed_trace:
  assumes "run_protocol env b kind presented cs e p = (Inr (oks, outcome, err), p')" "outcome \<noteq> OutcomeRolledBack"
    "(c, w1, ok, w2) \<in> set (protocol_trace env b kind presented cs p)"
  shows "\<not> op_storageFailed w1" "(\<And>cx. CallRollback cx \<notin> set cs) \<Longrightarrow> evolves (view w2) (pl_db p')"
proof -
  obtain w perr where r: "protocol_trace env b kind presented cs p = trace env cs w"
    "commit_policy (run_end env cs w) perr = (Some outcome, False)" "pl_db p' = view (run_end env cs w)"
    by (rule committed_run [OF assms(1,2)])
  have t: "(c, w1, ok, w2) \<in> set (trace env cs w)" using assms(3) r(1) by simp
  have "\<not> op_storageFailed (run_end env cs w)" using r(2) by (auto simp: commit_policy_def split: if_splits)
  then show "\<not> op_storageFailed w1" using trace_steady(2,3) [OF t] by (auto simp: steady_def)
  show "evolves (view w2) (pl_db p')" if "\<And>cx. CallRollback cx \<notin> set cs"
    using trace_grows [OF t that] r(3) by simp
qed

text \<open>The calls of an operation that has begun.\<close>

lemma nth_call:
  assumes "fst (run_protocol env b kind presented cs e p) = Inr (oks, r)" "i < length cs"
  obtains w w' where "(cs ! i, w, oks ! i, w') \<in> set (protocol_trace env b kind presented cs p)"
    "i = 0 \<Longrightarrow> view w = pl_db p \<and> \<not> op_storageFailed w"
    "(\<And>cx. CallRollback cx \<notin> set cs) \<Longrightarrow> evolves (pl_db p) (view w')"
proof -
  obtain w q where w: "store_Begin env b kind presented p = (Inr w, q)"
    using assms(1) by (auto simp: run_protocol_def split: prod.splits sum.splits)
  have "oks = fst (run_state (performs env cs) w)"
    using assms(1) w by (auto simp: run_protocol_def split: prod.splits)
  with trace_nth [OF assms(2)] obtain w1 w2 where t: "(cs ! i, w1, oks ! i, w2) \<in> set (trace env cs w)"
    "i = 0 \<longrightarrow> w1 = w" by blast
  with that [of w1 w2] w begin_shape [OF w] trace_grown [OF t(1)] show thesis by (auto simp: protocol_trace_def)
qed

section \<open>Promises\<close>

text \<open>C8 (invariant): in every database the system can reach - whatever operations ran, whatever calls
  the protocol library made in them, and whatever statement was refused, lost or left unanswered - numbers,
  request identifiers and credential signatures are unique, every credential belongs to a grant and every
  grant to an account, a grant is retained at least until its code and tokens expire, a refresh token points
  to an access token of its own grant, and a grant has a revocation time exactly when it has a reason.\<close>

theorem reachable_consistent:
  assumes "auth_run empty_db d"
  shows "auth_consistent d"
  using consistency.auth_run_keeps [OF assms empty_consistent] .

theorem reachable_consistent_witness: "auth_consistent (pl_db ex_granted) \<and> db_sessions (pl_db ex_granted) \<noteq> []"
  using reachable_consistent [OF ex_granted_reachable] by (simp add: ex_granted_eq)

text \<open>C5 (safety): when an operation commits, every credential presented to it in a call that succeeded was,
  at that call, a row neither consumed nor revoked, under an unrevoked grant for this resource and a registered
  client - the client the operation is bound to, unless it introspects - whose account is active at the very
  epoch the grant was given.\<close>

theorem accepted_is_live:
  assumes "auth_run empty_db (pl_db p)"
    and "run_protocol env b kind presented cs e p = (Inr (oks, OutcomeCommitted, err), p')"
    and "(c, w, True, w') \<in> set (protocol_trace env b kind presented cs p)"
    and "presents c = Some (k, signature)"
  shows "\<exists>s \<in> set (db_sessions (view w)). session_key s = (k, signature) \<and> live env b (view w) s"
proof -
  have c: "auth_consistent (pl_db p)" by (rule run_consistent [OF assms(1) empty_consistent])
  have "\<not> op_storageFailed w" by (rule committed_trace [OF assms(2) _ assms(3)]) simp
  from consistency.protocol_trace_good [OF c assms(3) this] have "tables_ok (view w)"
    by (simp add: auth_consistent_def)
  from presented_live [OF protocol_trace_binding(2) [OF assms(3)] assms(4) this]
  show ?thesis by (simp add: protocol_trace_binding(1) [OF assms(3)])
qed

theorem accepted_is_live_witness: "\<exists>s \<in> set (db_sessions (pl_db ex_granted)).
   session_key s = (''authorize_code'', ''k'') \<and> live ex_env ex_binding (pl_db ex_granted) s"
proof -
  have run: "fst (run_protocol ex_env ex_binding CredentialCode ''k'' ex_exchange (Finishing None) ex_granted)
      = Inr ([True, True, True, True, True, True, True, True], OutcomeCommitted, None)"
    by (simp only: ex_exchanged_run fst_conv)
  obtain w w' where w: "(ex_exchange ! 0, w, [True, True, True, True, True, True, True, True] ! 0, w')
      \<in> set (protocol_trace ex_env ex_binding CredentialCode ''k'' ex_exchange ex_granted)" "view w = pl_db ex_granted"
    by (rule nth_call [OF run, of 0]) (auto simp: ex_exchange_def)
  have "presents (ex_exchange ! 0) = Some (''authorize_code'', ''k'')" by (simp add: ex_exchange_def)
  from accepted_is_live [OF ex_granted_reachable ex_exchanged_run w(1) [unfolded nth_Cons_0] this] show ?thesis
    by (simp add: w(2))
qed

text \<open>The one row of a key decides.\<close>

lemma key_unique: "tables_ok d \<Longrightarrow> s \<in> set (db_sessions d) \<Longrightarrow> r \<in> set (db_sessions d)
    \<Longrightarrow> session_key s = session_key r \<Longrightarrow> s = r"
  by (auto simp: tables_ok_def distinct_map dest: inj_onD)

lemma grant_unique: "tables_ok d \<Longrightarrow> g \<in> set (db_grants d) \<Longrightarrow> h \<in> set (db_grants d) \<Longrightarrow> og_ID g = og_ID h \<Longrightarrow> g = h"
  by (auto simp: tables_ok_def distinct_map dest: inj_onD)




lemma block_revokes:
  assumes "block_user_account clock account reason d = Inr ((), d')" "g \<in> set (db_grants d')" "og_AccountID g = account"
  shows "og_RevokedAt g \<noteq> None"
proof -
  define f where "f = (\<lambda>g :: AuthOauthGrant. g\<lparr>
     og_RevokedAt := (case og_RevokedAt g of Some r \<Rightarrow> Some r | None \<Rightarrow> Some (pg_time clock)),
     og_RevocationReason := (case og_RevocationReason g of Some r \<Rightarrow> Some r | None \<Rightarrow> Some ''account_blocked'')\<rparr>)"
  have "db_grants d' = update_where (\<lambda>g. og_AccountID g = account) f (db_grants d)"
    using assms(1) by (auto simp: block_user_account_def Let_def f_def split: if_splits)
  with assms(2) obtain h where "g = (if og_AccountID h = account then f h else h)"
    by (auto dest!: updated_row)
  then show ?thesis using assms(3) by (cases "og_AccountID h = account") (simp_all add: f_def split: option.split)
qed

text \<open>C11 (safety): blocking an account is final for everything granted to it: no code or token under a grant
  from before the block is accepted by any later operation, even after the account was unblocked again.\<close>

theorem blocked_never_accepted:
  assumes "auth_run empty_db d" and "block_user_account clock account reason d = Inr ((), d')"
    and "auth_run d' (pl_db q)"
    and "(c, v, ok, v') \<in> set (protocol_trace env b kind presented cs q)" "\<not> op_storageFailed v"
    and "presents c = Some (k, signature)"
    and "s \<in> set (db_sessions (view v))" "session_key s = (k, signature)"
    and "g \<in> set (db_grants (view v))" "og_ID g = os_GrantID s" "og_AccountID g = account" "og_ID g < db_sequence d'"
  shows "\<not> ok"
proof
  assume ok: "ok"
  have "auth_run empty_db (pl_db q)"
    using assms(1,3) auth_step.blocking [OF assms(2)] by (meson rtranclp.rtrancl_into_rtrancl rtranclp_trans)
  then have c: "auth_consistent (pl_db q)" by (rule run_consistent [OF _ empty_consistent])
  from consistency.protocol_trace_good [OF this assms(4,5)] have t: "tables_ok (view v)"
    by (simp add: auth_consistent_def)
  have "evolves d' (pl_db q)" by (rule auth_run_evolves [OF assms(3)])
  also have "evolves (pl_db q) (view v)"
    using history.protocol_trace_good [OF _ assms(4,5), of "pl_db q"] by (simp add: history_def)
  finally obtain g0 where "g0 \<in> set (db_grants d')" "grant_from g0 g"
    using assms(9,12) by (auto simp: evolves_def grants_from_def)
  with block_revokes [OF assms(2)] assms(11) have "og_RevokedAt g \<noteq> None" by (auto simp: grant_from_def)
  moreover have run: "run_state (perform env c) v = (True, v')" using protocol_trace_binding(2) [OF assms(4)] ok by simp
  obtain r h where r: "r \<in> set (db_sessions (view v))" "session_key r = (k, signature)"
    and h: "h \<in> set (db_grants (view v))" "og_ID h = os_GrantID r" "og_RevokedAt h = None"
    using presented_live [OF run assms(6) t] unfolding live_def live_grant_def by blast
  have "s = r" by (rule key_unique [OF t assms(7) r(1)]) (simp add: assms(8) r(2))
  then have "g = h" by (intro grant_unique [OF t assms(9) h(1)]) (simp add: assms(10) h(2))
  ultimately show False using h(3) by simp
qed

theorem blocked_never_accepted_witness:
  "\<nexists>e r. fst (run_protocol ex_env ex_binding CredentialCode ''k'' [CallGetCode ex_cx ''k'' None] e ex_unblocked) = Inr ([True], r)"
proof (intro notI, elim exE)
  fix e r
  let ?c = "CallGetCode ex_cx ''k'' None"
  assume run: "fst (run_protocol ex_env ex_binding CredentialCode ''k'' [?c] e ex_unblocked) = Inr ([True], r)"
  obtain w w' where w: "([?c] ! 0, w, [True] ! 0, w')
      \<in> set (protocol_trace ex_env ex_binding CredentialCode ''k'' [?c] ex_unblocked)"
    "view w = pl_db ex_unblocked" "\<not> op_storageFailed w"
    by (rule nth_call [OF run, of 0]) auto
  obtain g where g: "g \<in> set (db_grants (pl_db ex_unblocked))" "og_ID g = 4" "og_AccountID g = 1"
    using ex_unblocked_rows(3) by blast
  have "auth_run ex_blocked (pl_db ex_unblocked)" using auth_step.unblocking [OF ex_unblocking] by blast
  from blocked_never_accepted [OF ex_granted_reachable ex_blocking this w(1) [unfolded nth_Cons_0] w(3), of "''authorize_code''" "''k''"
        "ex_session 5 ''authorize_code''" g] g
  show False by (simp add: w(2) ex_unblocked_rows session_key_def ex_session_def)
qed

end
