(* ===== verification/Auth_Issuance.thy ===== *)
theory Auth_Issuance
  imports Auth_Safety
begin

text \<open>
  Where grants come from, and what an operation may commit when it detected a replay. Both are
  properties of every state an operation passes through, whatever the calls were.
\<close>

section \<open>Any end of a run\<close>

lemma any_run:
  assumes "run_protocol env b kind presented cs e p = (Inr (oks, outcome, err), p')"
  obtains (unchanged) "pl_db p' = pl_db p"
  | (committed) w q perr out where "store_Begin env b kind presented p = (Inr w, q)"
    "oks = fst (run_state (performs env cs) w)" "commit_policy (run_end env cs w) perr = (Some out, False)"
    "pl_db p' = view (run_end env cs w)" "outcome = out \<or> outcome = OutcomeRolledBack"
proof -
  obtain w q where w: "store_Begin env b kind presented p = (Inr w, q)"
    using assms by (auto simp: run_protocol_def split: prod.splits sum.splits)
  define v where "v = run_end env cs w"
  obtain r v' where c: "run_state (conclude env e) v = (r, v')" by fastforce
  from assms w c have r: "r = (outcome, err)" "p' = settle (op_tx v')" "oks = fst (run_state (performs env cs) w)"
    by (auto simp: run_protocol_def v_def run_end_def case_prod_unfold)
  have st: "steady w v" by (simp add: v_def run_end_steady)
  then have nf: "\<not> op_finished v" and base: "tx_base (op_tx v) = pl_db p"
    using begin_shape(2,6) [OF w] by (simp_all add: steady_def)
  have roll: "tx_base (snd (run_state (tx_rollback env) x)) = tx_base x" for x
    by (auto simp: tx_rollback_def tick_def)
  show thesis
  proof (cases e)
    case Leaving
    then have "tx_base (op_tx v') = pl_db p"
      using c nf base roll [of "op_tx v"]
      by (auto simp: conclude_def run_bind op_Rollback_def modify_def on_tx_def split: prod.splits)
    then show thesis using r(2) by (intro unchanged) (simp add: settle_def)
  next
    case (Finishing perr)
    obtain oc inc where pol: "commit_policy v perr = (oc, inc)" by fastforce
    show thesis
    proof (cases oc)
      case None
      then have "tx_base (op_tx v') = pl_db p"
        using c nf base roll [of "op_tx v"] pol Finishing
        by (auto simp: conclude_def run_bind op_Finish_def op_Rollback_def modify_def on_tx_def split: prod.splits)
      then show thesis using r(2) by (intro unchanged) (simp add: settle_def)
    next
      case (Some out)
      then have "inc = False" using pol by (auto simp: commit_policy_def split: if_splits)
      obtain er x where x: "run_state (tx_commit env) (op_tx v) = (er, x)" by fastforce
      have fin: "run_state (op_Finish env perr) v = ((if er \<noteq> None then (OutcomeRolledBack, Some errStorageFailure)
          else (out, None)), (v\<lparr>op_finished := True, op_presented := []\<rparr>)\<lparr>op_tx := x\<rparr>)"
        using nf pol Some x by (simp add: op_Finish_def run_bind modify_def on_tx_def)
      then have v': "r = (if er \<noteq> None then (OutcomeRolledBack, Some errStorageFailure) else (out, None))" "op_tx v' = x"
        using c Finishing by (auto simp: conclude_def run_bind op_Rollback_def modify_def)
      have "tx_base x = pl_db p \<or> tx_base x = view v"
        using x base by (auto simp: tx_commit_def Let_def tick_def split: if_splits option.splits fault.splits)
      then show thesis
      proof
        assume "tx_base x = pl_db p"
        then show thesis using r(2) v'(2) by (intro unchanged) (simp add: settle_def)
      next
        assume "tx_base x = view v"
        moreover have "outcome = out \<or> outcome = OutcomeRolledBack" using v'(1) r(1) by (auto split: if_splits)
        ultimately show thesis
          using committed [OF w r(3), of perr out] pol Some \<open>inc = False\<close> r(2) v'(2) by (simp add: settle_def v_def)
      qed
    qed
  qed
qed

section \<open>Grants\<close>

definition grants_within :: "auth_db \<Rightarrow> auth_db \<Rightarrow> bool" where
  "grants_within d d' \<longleftrightarrow> (\<forall>g' \<in> set (db_grants d'). \<exists>g \<in> set (db_grants d). grant_from g g')"

lemma grants_within_same [simp]: "db_grants d' = db_grants d \<Longrightarrow> grants_within d d'"
  unfolding grants_within_def by (auto intro: grant_from_refl)

lemma grants_within_update:
  assumes "db_grants d' = update_where P f (db_grants d)" and "\<And>g. grant_from g (f g)"
  shows "grants_within d d'"
  unfolding grants_within_def
proof
  fix g' assume "g' \<in> set (db_grants d')"
  then obtain g where g: "g \<in> set (db_grants d)" "g' = (if P g then f g else g)"
    unfolding assms(1) by (blast dest: updated_row)
  then have "grant_from g g'" using assms(2) by simp
  with g(1) show "\<exists>g \<in> set (db_grants d). grant_from g g'" by blast
qed

lemma grants_within_trans: "grants_within d d' \<Longrightarrow> grants_within d' d'' \<Longrightarrow> grants_within d d''"
  unfolding grants_within_def by (meson grant_from_trans)

definition issued_under :: "Operation \<Rightarrow> AuthOauthGrant \<Rightarrow> bool" where
  "issued_under w g \<longleftrightarrow> op_issuanceAttempted w \<and> bd_Purpose (op_binding w) = PurposeAuthorize
     \<and> og_AccountID g = bd_AccountID (op_binding w) \<and> og_ClientID g = bd_ClientID (op_binding w)
     \<and> og_Resource g = bd_Resource (op_binding w) \<and> og_AccountEpoch g = op_authorizeAccountEpoch w"

definition new_grants_issued :: "int \<Rightarrow> Operation \<Rightarrow> auth_db \<Rightarrow> bool" where
  "new_grants_issued n w d \<longleftrightarrow> (\<forall>g \<in> set (db_grants d). n \<le> og_ID g \<longrightarrow> issued_under w g)"

definition issue_ok :: "int \<Rightarrow> Operation \<Rightarrow> bool" where
  "issue_ok n w \<longleftrightarrow> new_grants_issued n w (view w) \<and> (\<forall>d. tx_save (op_tx w) = Some d \<longrightarrow> new_grants_issued n w d)"

lemma issued_under_from: "issued_under w g \<Longrightarrow> grant_from g g' \<Longrightarrow> issued_under w g'"
  by (simp add: issued_under_def grant_from_def)

lemma new_grants_within: "new_grants_issued n w d \<Longrightarrow> grants_within d d' \<Longrightarrow> new_grants_issued n w d'"
  unfolding new_grants_issued_def grants_within_def
  by (metis grant_from_def issued_under_from)

lemma issue_ok_same:
  assumes "issue_ok n w" "op_issuanceAttempted w \<Longrightarrow> op_issuanceAttempted w'" "op_binding w' = op_binding w"
    "op_authorizeAccountEpoch w' = op_authorizeAccountEpoch w" "grants_within (view w) (view w')"
    "\<And>d. tx_save (op_tx w') = Some d \<Longrightarrow> tx_save (op_tx w) = Some d \<or> d = view w"
  shows "issue_ok n w'"
proof -
  have u: "issued_under w g \<Longrightarrow> issued_under w' g" for g using assms(2-4) by (simp add: issued_under_def)
  then have n: "new_grants_issued n w d \<Longrightarrow> new_grants_issued n w' d" for d by (auto simp: new_grants_issued_def)
  show ?thesis
    using assms(1,5,6) n new_grants_within unfolding issue_ok_def by blast
qed

interpretation issuing: writing_laws grants_within "issue_ok n" for n
proof unfold_locales
  fix w and x :: pg_tx assume w: "issue_ok n w"
  { assume "moved grants_within (op_tx w) x"
    then show "issue_ok n (w\<lparr>op_tx := x\<rparr>)" by (intro issue_ok_same [OF w]) (auto simp: moved_def) }
  { assume "tx_db x = view w" "tx_save x = None \<or> tx_save x = Some (view w)"
    then show "issue_ok n (w\<lparr>op_tx := x\<rparr>)" by (intro issue_ok_same [OF w]) auto }
  { show "issue_ok n (w\<lparr>op_storageFailed := True\<rparr>)" "issue_ok n (w\<lparr>op_issuanceAttempted := True\<rparr>)"
      "issue_ok n (w\<lparr>op_replayComplete := True\<rparr>)" "issue_ok n (w\<lparr>op_pkceCreated := True\<rparr>)"
      by (rule issue_ok_same [OF w]; simp)+ }
  { fix c show "issue_ok n (w\<lparr>op_replay := Some c\<rparr>)" by (rule issue_ok_same [OF w]; simp) }
  { fix m l show "issue_ok n (w\<lparr>op_openSavepoints := m, op_savepoints := l\<rparr>)" by (rule issue_ok_same [OF w]; simp) }
next
  fix grant t reason
  show "stmt_moves grants_within (RevokeOAuthGrantFamily grant t reason)"
    unfolding stmt_moves_def RevokeOAuthGrantFamily_def revoke_sessions_def
    by (auto intro!: grants_within_update simp: grant_from_def)
next
  fix grant x show "stmt_moves grants_within (ExtendOAuthGrantRetention grant x)"
    unfolding stmt_moves_def ExtendOAuthGrantRetention_def
    by (auto intro!: grants_within_update simp: grant_from_def)
qed (auto simp: stmt_moves_def insert_session_def ConsumeOAuthSession_def revoke_sessions_def RecordOAuthSecurityEvent_def
    BindPendingConsentRow_def ConsumePendingConsentRow_def Let_def split: option.splits if_splits
    intro: grants_within_trans)


lemma wp_via: "keeps P m \<Longrightarrow> P w \<Longrightarrow> (\<And>r w1. P w1 \<Longrightarrow> wp (k r) Q w1) \<Longrightarrow> wp (State_Monad.bind m k) Q w"
  by (rule wp_bind [where S = "\<lambda>_. P"]) (auto simp: wp_def keeps_def split: prod.splits)

lemma wp_keeps: "keeps P m \<Longrightarrow> P w \<Longrightarrow> wp m (\<lambda>_. P) w"
  by (simp add: wp_def keeps_def case_prod_unfold)

lemma keeps_wp: "(\<And>w. P w \<Longrightarrow> wp m (\<lambda>_. P) w) \<Longrightarrow> keeps P m"
  by (simp add: wp_def keeps_def case_prod_unfold)

lemma wp_purpose:
  assumes "\<And>e. wp (k (Inl e)) Q w" "bd_Purpose (op_binding w) = purpose \<Longrightarrow> wp (k (Inr ())) Q w"
  shows "wp (do { r \<leftarrow> operationQueries cx purpose; k r }) Q w"
proof (rule wp_bind)
  show "wp (operationQueries cx purpose) (\<lambda>r w'. w' = w \<and> (r = Inr () \<longrightarrow> bd_Purpose (op_binding w) = purpose)) w"
    by (auto simp: operationQueries_def operationQueriesAny_def wp_def run_bind refuse_def split: option.splits)
next
  fix r :: "gerr + unit" and w1 assume "w1 = w \<and> (r = Inr () \<longrightarrow> bd_Purpose (op_binding w) = purpose)"
  with assms show "wp (k r) Q w1" by (cases r) simp_all
qed

lemma query_issues:
  assumes "issue_ok n w" and "\<And>a d. s (view w) = Inr (a, d) \<Longrightarrow> new_grants_issued n w d"
  shows "wp (query env s) (\<lambda>_. issue_ok n) w"
  using assms unfolding wp_def query_def on_tx_def exec_def issue_ok_def new_grants_issued_def issued_under_def
  by (auto simp: tick_def split: option.splits fault.splits sum.splits prod.splits)

lemma issue_ok_noted:
  assumes "issue_ok n w"
  shows "issue_ok n (w\<lparr>op_codeCreated := c\<rparr>)" "issue_ok n (w\<lparr>op_consentDecision := decision\<rparr>)"
  by (rule issue_ok_same [OF assms]; simp)+

lemma created_issued:
  assumes "issue_ok n w" "op_issuanceAttempted w" "bd_Purpose (op_binding w) = PurposeAuthorize"
    and "account = bd_AccountID (op_binding w)" "epoch = op_authorizeAccountEpoch w"
    and "client = bd_ClientID (op_binding w)" "resource = bd_Resource (op_binding w)"
  shows "wp (query env (CreateOAuthGrant request account epoch client resource t x)) (\<lambda>_. issue_ok n) w"
  by (rule query_issues [OF assms(1)])
    (use assms in \<open>auto simp: CreateOAuthGrant_def Let_def checked_Inr issue_ok_def new_grants_issued_def issued_under_def\<close>)

lemma keeps_both: "keeps P m \<Longrightarrow> keeps Q m \<Longrightarrow> keeps (\<lambda>w. P w \<and> Q w) m"
  by (simp add: keeps_def)

definition attempting :: "int \<Rightarrow> Operation \<Rightarrow> Operation \<Rightarrow> bool" where
  "attempting n w0 w \<longleftrightarrow> issue_ok n w \<and> steady w0 w"

lemma attempting_time: "keeps (attempting n w0) (time_now env)"
  unfolding attempting_def by (intro keeps_both issuing.time_keeps_op frame.time_keeps_op)

lemma code_issues: "keeps (issue_ok n) (CreateAuthorizeCodeSession env cx signature request)"
proof (rule keeps_wp)
  fix w0 assume w0: "issue_ok n w0"
  have fail: "issue_ok n w \<Longrightarrow> wp (op_fail e) (\<lambda>_. issue_ok n) w" for w and e :: gerr
    by (intro wp_keeps issuing.fail_keeps_op)
  have refuse: "issue_ok n w \<Longrightarrow> wp (refuse e) (\<lambda>_. issue_ok n) w" for w and e :: gerr
    by (simp add: wp_def refuse_def)
  have noted: "keeps (issue_ok n) (modify (op_codeCreated_update (\<lambda>_. True)))"
    by (simp add: keeps_def modify_def issue_ok_noted(1))
  define w where "w = w0\<lparr>op_issuanceAttempted := True\<rparr>"
  have w: "issue_ok n w" "steady w w" "op_issuanceAttempted w" "op_binding w = op_binding w0"
    using issuing.noting(1) [OF w0] by (simp_all add: w_def steady_refl)
  show "wp (CreateAuthorizeCodeSession env cx signature request) (\<lambda>_. issue_ok n) w0"
    unfolding CreateAuthorizeCodeSession_def attempt_issuance_def
    apply (rule wp_purpose; simp only: sum.case)
     apply (rule refuse [OF w0])
    subgoal premises purpose
      apply (rule wp_modify)
      apply (fold w_def)
      apply (intro wp_cases fail refuse w wp_get wp_let)
      apply (rule wp_via [where P = "attempting n w", OF attempting_time])
       apply (simp add: attempting_def w)
      apply (rule wp_bind, rule created_issued [where n = n])
             prefer 8
             apply (intro wp_cases wp_keeps keeps_intro issuing.write_calls noted)
      using w purpose
             apply (simp_all add: attempting_def steady_def)
      done
    done
qed

lemma perform_issues: "keeps (issue_ok n) (perform env c)"
proof (intro issuing.perform_writes code_issues issuing.consent_keeps_op issue_ok_noted(2) issuing.rollback_keeps_op)
  fix w and x :: pg_tx assume w: "issue_ok n w" "tx_save (op_tx w) = Some (tx_db x)" "tx_save x = None"
  then have "new_grants_issued n w (tx_db x)" by (simp add: issue_ok_def)
  with w(3) show "issue_ok n (w\<lparr>op_tx := x\<rparr>)" by (simp add: issue_ok_def new_grants_issued_def issued_under_def)
qed

section \<open>Approval\<close>

interpretation deciding: writing_laws "\<lambda>_ _. True" "\<lambda>w. op_consentDecision w = D" for D
  by unfold_locales (simp_all add: stmt_moves_def)

lemma consent_decides:
  assumes "op_consentDecision w = D"
  shows "wp (ConsumePendingConsent env cx handle session t decision)
    (\<lambda>r w'. op_consentDecision w' = (if isl r then D else decision)) w"
proof -
  have fail: "op_consentDecision w = D \<Longrightarrow> wp (op_fail e) (\<lambda>r w'. op_consentDecision w' = (if isl r then D else decision)) w"
    for w and e by (simp add: wp_def)
  have missing: "op_consentDecision w = D
      \<Longrightarrow> wp (notFoundOrFailure e) (\<lambda>r w'. op_consentDecision w' = (if isl r then D else decision)) w" for w and e
    by (simp add: wp_def notFoundOrFailure_def refuse_def)
  have checks: "keeps (\<lambda>w. op_consentDecision w = D) (on_tx (lockAndValidateConsent env handle session t i False))" for i
    by (intro deciding.on_tx_keeps_op deciding.consent_check_moved)
  note via = wp_via [where P = "\<lambda>w. op_consentDecision w = D"]
  show ?thesis
    unfolding ConsumePendingConsent_def
    by (rule via [OF deciding.context_keeps_op(2) assms])
      (intro wp_cases wp_get wp_modify via [OF checks] via [OF deciding.query_keeps_op] fail missing
        deciding.moves; simp add: wp_def refuse_def)
qed

lemma other_decides:
  assumes "\<And>cx h s t d. c \<noteq> CallConsent cx h s t d"
  shows "keeps (\<lambda>w. op_consentDecision w = D) (perform env c)"
proof (intro deciding.perform_writes deciding.code_keeps_op deciding.rollback_keeps_op)
  fix cx h s t d assume "c = CallConsent cx h s t d"
  with assms show "keeps (\<lambda>w. op_consentDecision w = D) (ConsumePendingConsent env cx h s t d)" by blast
qed (simp_all add: stmt_moves_def)

lemma perform_decides:
  assumes "run_state (perform env c) w = (ok, w')"
  shows "op_consentDecision w' = op_consentDecision w
    \<or> (\<exists>cx h s t. ok \<and> c = CallConsent cx h s t (op_consentDecision w'))"
proof (cases "\<exists>cx h s t d. c = CallConsent cx h s t d")
  case True
  then obtain cx h s t d where c: "c = CallConsent cx h s t d" by blast
  obtain r v where r: "run_state (ConsumePendingConsent env cx h s t d) w = (r, v)" by fastforce
  then have "v = w'" "ok \<longleftrightarrow> \<not> isl r" using assms c by (auto simp: succeeds_def run_bind split: sum.splits)
  with wpD [OF consent_decides [OF refl] r] c show ?thesis by (auto split: if_splits)
next
  case False
  then have "keeps (\<lambda>w. op_consentDecision w = D) (perform env c)" for D by (intro other_decides) blast
  from keepsD [OF this refl] show ?thesis using assms by (metis snd_conv)
qed

lemma run_decides:
  "op_consentDecision (run_end env cs w) = op_consentDecision w
    \<or> (\<exists>cx h s t. (CallConsent cx h s t (op_consentDecision (run_end env cs w)), True)
        \<in> set (zip cs (fst (run_state (performs env cs) w))))"
proof (induction cs arbitrary: w)
  case (Cons c cs)
  obtain ok w' where c: "run_state (perform env c) w = (ok, w')" by fastforce
  from perform_decides [OF c] Cons.IH [of w'] c show ?case
    by (fastforce simp: run_bind case_prod_unfold)
qed simp

lemma begin_epoch:
  assumes "store_Begin env b kind presented p = (Inr w, q)" "bd_Purpose b = PurposeAuthorize"
  shows "\<exists>a \<in> set (db_accounts (pl_db p)). ua_ID a = bd_AccountID b \<and> ua_Status a = ''active''
    \<and> ua_AuthorizationEpoch a = op_authorizeAccountEpoch w"
proof -
  have locked: "a \<in> set (db_accounts (pl_db p)) \<and> ua_ID a = i"
    if "run_state (exec env (LockOAuthAccount i)) (begun p) = (Inr a, x')" for i a x'
    using that by (auto simp: exec_def begun_def tick_def LockOAuthAccount_def select_one_Inr dest: find_SomeD
      split: option.splits fault.splits sum.splits prod.splits)
  from assms show ?thesis
    by (auto simp: store_Begin_def new_operation_def dest!: pool_begin_cases(1) locked
      split: option.splits sum.splits prod.splits if_splits)
qed

text \<open>C6 (safety): a grant that an operation leaves in the database is what its account approved: the operation
  is an authorization for exactly this account, client and resource, the account was active when it began and
  the grant carries the epoch the account had then, and in the same transaction an approval of the pending
  consent succeeded. This holds however the operation ended and whatever the database answered.\<close>

theorem grants_are_approved:
  assumes "auth_run empty_db (pl_db p)"
    and "run_protocol env b kind presented cs e p = (Inr (oks, outcome, err), p')"
    and "g \<in> set (db_grants (pl_db p'))" and "db_sequence (pl_db p) \<le> og_ID g"
  shows "bd_Purpose b = PurposeAuthorize \<and> og_AccountID g = bd_AccountID b \<and> og_ClientID g = bd_ClientID b
    \<and> og_Resource g = bd_Resource b
    \<and> (\<exists>a \<in> set (db_accounts (pl_db p)). ua_ID a = og_AccountID g \<and> ua_Status a = ''active''
         \<and> ua_AuthorizationEpoch a = og_AccountEpoch g)
    \<and> (\<exists>cx h s t. (CallConsent cx h s t ConsentApprove, True) \<in> set (zip cs oks))"
proof -
  let ?n = "db_sequence (pl_db p)"
  have "auth_consistent (pl_db p)" by (rule run_consistent [OF assms(1) empty_consistent])
  then have old: "\<forall>g \<in> set (db_grants (pl_db p)). og_ID g < ?n" by (simp add: auth_consistent_def tables_ok_def)
  from assms(2) show ?thesis
  proof (cases rule: any_run)
    case unchanged
    with old assms(3,4) show ?thesis by fastforce
  next
    case (committed w q perr out)
    let ?v = "run_end env cs w"
    note begun = begin_shape [OF committed(1)]
    have "issue_ok ?n w"
      using old begun(3,4) by (auto simp: issue_ok_def new_grants_issued_def)
    with run_end_keeps [OF perform_issues] have "issue_ok ?n ?v" by blast
    with assms(3,4) committed(4) have g: "issued_under ?v g" by (auto simp: issue_ok_def new_grants_issued_def)
    have st: "op_binding ?v = b" "op_authorizeAccountEpoch ?v = op_authorizeAccountEpoch w"
      using run_end_steady [of w env cs] begun(1) by (simp_all add: steady_def)
    with g have purpose: "bd_Purpose b = PurposeAuthorize" by (simp add: issued_under_def)
    have "op_consentDecision ?v = ConsentApprove"
      using committed(3) g st(1) by (auto simp: commit_policy_def approvalComplete_def issued_under_def split: if_splits)
    with run_decides [of env cs w] begun(8) committed(2)
    have "\<exists>cx h s t. (CallConsent cx h s t ConsentApprove, True) \<in> set (zip cs oks)" by auto
    moreover note begin_epoch [OF committed(1) purpose]
    ultimately show ?thesis using g st by (auto simp: issued_under_def)
  qed
qed

theorem grants_are_approved_witness:
  "\<exists>cx h s t. (CallConsent cx h s t ConsentApprove, True) \<in> set (zip ex_approval [True, True, True])"
  using grants_are_approved [OF ex_bound_reachable ex_granted_run, of ex_grant]
  by (simp add: ex_grant_def ex_bound_eq ex_login_eq)

end
