(* ===== verification/Auth_Replay.thy ===== *)
theory Auth_Replay
  imports Auth_Issuance
begin

text \<open>
  An operation that detected a replay and commits as such: it issues nothing, records one security
  event, and the grant of that event is revoked with everything issued under it.
\<close>

section \<open>Rows that only lose their use\<close>

definition rows_kept :: "auth_db \<Rightarrow> auth_db \<Rightarrow> bool" where
  "rows_kept d d' \<longleftrightarrow> list_all2 grant_from (db_grants d) (db_grants d')
     \<and> list_all2 session_from (db_sessions d) (db_sessions d')"



lemma rows_kept_refl [simp]: "rows_kept d d"
  by (simp add: rows_kept_def list.rel_refl)











section \<open>The operation\<close>













section \<open>The revocation\<close>












end
