(* ===== verification/Auth_Liveness.thy ===== *)
theory Auth_Liveness
  imports Auth_Replay
begin

text \<open>
  The other direction of acceptance: a credential that is live in the database is accepted when
  nothing fails. Rows are found by their keys, so the keys of the accounts are needed as well.
\<close>

section \<open>Accounts\<close>

definition accounts_ok :: "auth_db \<Rightarrow> bool" where
  "accounts_ok d \<longleftrightarrow> distinct (map ua_ID (db_accounts d)) \<and> (\<forall>a \<in> set (db_accounts d). ua_ID a < db_sequence d)"

lemma accounts_ok_same:
  "accounts_ok d \<Longrightarrow> map ua_ID (db_accounts d') = map ua_ID (db_accounts d) \<Longrightarrow> db_sequence d \<le> db_sequence d'
    \<Longrightarrow> accounts_ok d'"
proof -
  assume d: "accounts_ok d" "map ua_ID (db_accounts d') = map ua_ID (db_accounts d)" "db_sequence d \<le> db_sequence d'"
  have "set (map ua_ID (db_accounts d')) = set (map ua_ID (db_accounts d))" using d(2) by (rule arg_cong)
  then have "ua_ID ` set (db_accounts d') = ua_ID ` set (db_accounts d)" by simp
  with d show ?thesis unfolding accounts_ok_def by (metis (no_types, lifting) imageE image_eqI less_le_trans)
qed

lemma accounts_account:
  assumes "accounts_ok d" "UpsertUserAccount lower issuer subject email name t d = Inr (r, d')"
  shows "accounts_ok d'"
proof -
  have "db_sequence d' = db_sequence d + 1 \<and> (map ua_ID (db_accounts d') = map ua_ID (db_accounts d)
      \<or> map ua_ID (db_accounts d') = map ua_ID (db_accounts d) @ [db_sequence d])"
    using assms(2) by (cases "find (\<lambda>a. ua_Issuer a = issuer \<and> ua_Subject a = subject) (db_accounts d)")
      (auto simp: UpsertUserAccount_def Let_def map_update_where split: sum.splits)
  then show ?thesis
  proof (elim conjE disjE)
    assume n: "db_sequence d' = db_sequence d + 1" and m: "map ua_ID (db_accounts d') = map ua_ID (db_accounts d) @ [db_sequence d]"
    from m have "ua_ID ` set (db_accounts d') = insert (db_sequence d) (ua_ID ` set (db_accounts d))"
      by (metis list.set_map set_append list.set(1) list.set(2) Un_insert_right sup_bot_right)
    then have "\<forall>a \<in> set (db_accounts d'). ua_ID a < db_sequence d'"
      using assms(1) n unfolding accounts_ok_def by (smt (verit) image_iff insert_iff)
    moreover have "db_sequence d \<notin> ua_ID ` set (db_accounts d)" using assms(1) by (auto simp: accounts_ok_def)
    ultimately show ?thesis using assms(1) m by (simp add: accounts_ok_def)
  qed (use assms(1) in \<open>auto intro: accounts_ok_same\<close>)
qed

lemma accounts_insert: "insert_session jsonb grant kind signature access t x payload d = Inr (i, d') \<Longrightarrow> accounts_ok d \<Longrightarrow> accounts_ok d'"
  by (auto simp: insert_session_def Let_def split: option.splits elim!: accounts_ok_same)

lemma stmt_keepsD: "stmt_keeps I s \<Longrightarrow> I d \<Longrightarrow> s d = Inr (a, d') \<Longrightarrow> I d'"
  unfolding stmt_keeps_def by blast

lemma accounts_statements:
  "stmt_keeps accounts_ok (CreateOAuthGrant request account epoch client resource t x)"
  "stmt_keeps accounts_ok (ExtendOAuthGrantRetention grant x)"
  "stmt_keeps accounts_ok (ConsumeOAuthSession t kind signature)" "stmt_keeps accounts_ok (revoke_sessions t P)"
  "stmt_keeps accounts_ok (RevokeOAuthGrantFamily grant t reason)"
  "stmt_keeps accounts_ok (RecordOAuthSecurityEvent c grant kind')"
  "stmt_keeps accounts_ok (CreatePendingConsentRow c handle ciphertext x)"
  "stmt_keeps accounts_ok (BindPendingConsentRow session t consent)"
  "stmt_keeps accounts_ok (ConsumePendingConsentRow t consent session)"
  by (auto simp: stmt_keeps_def CreateOAuthGrant_def ExtendOAuthGrantRetention_def ConsumeOAuthSession_def revoke_sessions_def
    RevokeOAuthGrantFamily_def RecordOAuthSecurityEvent_def CreatePendingConsentRow_def BindPendingConsentRow_def
    ConsumePendingConsentRow_def Let_def split: option.splits if_splits elim!: accounts_ok_same)

lemma accounts_identity:
  "stmt_keeps accounts_ok (CreateLogin c state browser nonce pkce path pending x)"
  "stmt_keeps accounts_ok (ConsumeLogin t state browser)"
  "stmt_keeps accounts_ok (CreateWebSession session account epoch t x)" "stmt_keeps accounts_ok (RevokeWebSession t session)"
  "stmt_keeps accounts_ok (DeleteExpiredLoginTransactions l t n)" "stmt_keeps accounts_ok (DeleteExpiredPendingConsents l t n)"
  "stmt_keeps accounts_ok (DeleteExpiredWebSessions l t n)" "stmt_keeps accounts_ok (DeleteOAuthSessionsForGrant grant)"
  "stmt_keeps accounts_ok (DeleteOAuthGrant grant)"
  by (auto simp: stmt_keeps_def CreateLogin_def ConsumeLogin_def CreateWebSession_def RevokeWebSession_def
    DeleteExpiredLoginTransactions_def DeleteExpiredPendingConsents_def DeleteExpiredWebSessions_def
    DeleteOAuthSessionsForGrant_def DeleteOAuthGrant_def first_row_def Let_def
    split: option.splits if_splits sum.splits elim!: accounts_ok_same)

lemma accounts_operator:
  "stmt_keeps accounts_ok (block_user_account c account reason)" "stmt_keeps accounts_ok (unblock_user_account account reason)"
  by (auto simp: stmt_keeps_def block_user_account_def unblock_user_account_def Let_def map_update_where
    split: if_splits elim!: accounts_ok_same)

interpretation accounts: auth_laws accounts_ok
proof unfold_locales
  fix d request account epoch client resource t x g d1 jsonb signature payload i d2
  assume "accounts_ok d" "CreateOAuthGrant request account epoch client resource t x d = Inr (g, d1)"
    "CreateOAuthSession jsonb (og_ID g) ''authorize_code'' signature t x payload d1 = Inr (i, d2)"
  then show "accounts_ok d2"
    unfolding CreateOAuthSession_def by (blast intro: accounts_insert stmt_keepsD [OF accounts_statements(1)])
next
  fix d jsonb grant signature t x payload i d1 d2
  assume "accounts_ok d" "CreateOAuthSession jsonb grant ''access_token'' signature t x payload d = Inr (i, d1)"
    "ExtendOAuthGrantRetention grant x d1 = Inr ((), d2)"
  then show "accounts_ok d2"
    unfolding CreateOAuthSession_def by (blast intro: accounts_insert stmt_keepsD [OF accounts_statements(2)])
next
  fix d a access jsonb grant signature t x payload i d1 d2
  assume "accounts_ok d" "CreateOAuthRefreshSession jsonb grant signature (Some (os_ID a)) t x payload d = Inr (i, d1)"
    "ExtendOAuthGrantRetention grant x d1 = Inr ((), d2)"
  then show "accounts_ok d2"
    unfolding CreateOAuthRefreshSession_def by (blast intro: accounts_insert stmt_keepsD [OF accounts_statements(2)])
next
  fix lower issuer subject email name t
  show "stmt_keeps accounts_ok (UpsertUserAccount lower issuer subject email name t)"
    using accounts_account by (auto simp: stmt_keeps_def)
next
  fix jsonb grant signature t x payload
  show "stmt_keeps accounts_ok (CreateOAuthSession jsonb grant ''pkce'' signature t x payload)"
    unfolding stmt_keeps_def CreateOAuthSession_def using accounts_insert by blast
qed (rule accounts_statements accounts_identity accounts_operator)+

lemma empty_accounts: "accounts_ok empty_db"
  by (simp add: accounts_ok_def empty_db_def)

section \<open>Introspection of a live token\<close>

lemma find_only: "x \<in> set xs \<Longrightarrow> P x \<Longrightarrow> (\<And>y. y \<in> set xs \<Longrightarrow> P y \<Longrightarrow> y = x) \<Longrightarrow> find P xs = Some x"
proof (cases "find P xs")
  case None
  assume "x \<in> set xs" "P x"
  with None show ?thesis by (simp add: find_None_iff)
next
  case (Some y)
  assume "\<And>y. y \<in> set xs \<Longrightarrow> P y \<Longrightarrow> y = x"
  from this [of y] find_SomeD [OF Some] Some show ?thesis by simp
qed

text \<open>What the four statements of \<open>lockCredential\<close> find for a credential and its owners.\<close>

lemma rows_found:
  assumes "tables_ok d" "accounts_ok d" "s \<in> set (db_sessions d)" "session_key s = (kind, signature)"
    and "g \<in> set (db_grants d)" "og_ID g = os_GrantID s" "a \<in> set (db_accounts d)" "ua_ID a = og_AccountID g"
  shows "FindOAuthCredentialOwner kind signature d = Inr ((og_ID g, og_AccountID g), d)"
    "LockOAuthAccount (og_AccountID g) d = Inr (a, d)" "LockOAuthGrant (og_ID g) d = Inr (g, d)"
    "LockOAuthCredential kind signature d = Inr (s, d)"
proof -
  have inj: "inj_on session_key (set (db_sessions d))" "inj_on og_ID (set (db_grants d))" "inj_on ua_ID (set (db_accounts d))"
    using assms(1,2) by (simp_all add: tables_ok_def accounts_ok_def distinct_map)
  have s: "s' = s" if "s' \<in> set (db_sessions d)" "os_Kind s' = kind \<and> os_Signature s' = signature" for s'
    using inj_onD [OF inj(1), of s' s] that assms(3,4) by (simp add: session_key_def)
  have g: "g' = g" if "g' \<in> set (db_grants d)" "og_ID g' = og_ID g" for g'
    using inj_onD [OF inj(2) that(2)] that(1) assms(5) by simp
  have a: "a' = a" if "a' \<in> set (db_accounts d)" "ua_ID a' = og_AccountID g" for a'
    using inj_onD [OF inj(3), of a' a] that assms(7,8) by simp
  have key: "os_Kind s = kind \<and> os_Signature s = signature" using assms(4) by (simp add: session_key_def)
  have "find (\<lambda>(s, g). og_ID g = os_GrantID s \<and> os_Kind s = kind \<and> os_Signature s = signature)
      (List.product (db_sessions d) (db_grants d)) = Some (s, g)"
  proof (rule find_only)
    fix y assume y: "y \<in> set (List.product (db_sessions d) (db_grants d))"
      "case y of (s, g) \<Rightarrow> og_ID g = os_GrantID s \<and> os_Kind s = kind \<and> os_Signature s = signature"
    obtain s' g' where [simp]: "y = (s', g')" by fastforce
    from y have "s' = s" by (intro s) auto
    with y assms(6) have "g' = g" by (intro g) auto
    with \<open>s' = s\<close> show "y = (s, g)" by simp
  qed (use assms(3,5,6) key in auto)
  then show "FindOAuthCredentialOwner kind signature d = Inr ((og_ID g, og_AccountID g), d)"
    by (simp add: FindOAuthCredentialOwner_def first_row_def)
  show "LockOAuthAccount (og_AccountID g) d = Inr (a, d)"
  proof -
    have "find (\<lambda>a. ua_ID a = og_AccountID g) (db_accounts d) = Some a"
      by (rule find_only) (fact assms(7) assms(8) a)+
    then show ?thesis by (simp add: LockOAuthAccount_def select_one_def first_row_def)
  qed
  show "LockOAuthGrant (og_ID g) d = Inr (g, d)"
  proof -
    have "find (\<lambda>h. og_ID h = og_ID g) (db_grants d) = Some g"
      by (rule find_only) (fact assms(5) refl g)+
    then show ?thesis by (simp add: LockOAuthGrant_def select_one_def first_row_def)
  qed
  show "LockOAuthCredential kind signature d = Inr (s, d)"
  proof -
    have "find (\<lambda>s. os_Kind s = kind \<and> os_Signature s = signature) (db_sessions d) = Some s"
      by (rule find_only) (fact assms(3) key s)+
    then show ?thesis by (simp add: LockOAuthCredential_def select_one_def first_row_def)
  qed
qed

text \<open>C13 (liveness): a live access token is always accepted. When no statement fails, introspecting a token
  that is live in a reachable database, and whose stored request decodes to one that matches its rows, succeeds
  and commits, and the database is as it was.\<close>

theorem live_token_introspects:
  assumes "auth_run empty_db (pl_db p)" and "en_fault env = (\<lambda>_. None)"
    and "validateBinding env b CredentialAccess presented = None" "bd_Purpose b = PurposeIntrospection"
    and "s \<in> set (db_sessions (pl_db p))" "session_key s = (''access_token'', signature)" "live env b (pl_db p) s"
    and "codec_Decode (en_codec env) (en_clients env) (os_RequestPayload s) target = Inr rq"
    and "\<And>g. g \<in> set (db_grants (pl_db p)) \<Longrightarrow> og_ID g = os_GrantID s
      \<Longrightarrow> validateCredentialSnapshot env rq (grant_of g) (credential_of s) AccessToken = None"
  shows "\<exists>q. run_protocol env b CredentialAccess presented [CallGetAccess \<lparr>cx_Operation = True, cx_Savepoint = None\<rparr> signature target]
      (Finishing None) p = (Inr ([True], OutcomeCommitted, None), q) \<and> pl_db q = pl_db p"
proof -
  let ?d = "pl_db p"
  have ok: "tables_ok ?d" "accounts_ok ?d"
    using run_consistent [OF assms(1) empty_consistent] accounts.auth_run_keeps [OF assms(1) empty_accounts]
    by (simp_all add: auth_consistent_def)
  obtain g a where g: "g \<in> set (db_grants ?d)" "og_ID g = os_GrantID s" "live_grant env b ?d g"
    and a: "a \<in> set (db_accounts ?d)" "ua_ID a = og_AccountID g" "ua_Status a = ''active''" "ua_AuthorizationEpoch a = og_AccountEpoch g"
    using assms(7) by (auto simp: live_def live_grant_def)
  note found = rows_found [OF ok assms(5,6) g(1,2) a(1,2)]
  have free: "os_ConsumedAt s = None" "os_RevokedAt s = None" using assms(7) by (simp_all add: live_def spent_def)
  have grant: "og_RevokedAt g = None" "og_Resource g = cr_resource (en_clients env)" "bd_Resource b = og_Resource g"
    using g(3) by (simp_all add: live_grant_def)
  obtain c where client: "GetClient (en_clients env) (og_ClientID g) = Inr c"
    using g(3) by (auto simp: live_grant_def GetClient_def split: option.splits)
  show ?thesis
    using assms(2-4,8) assms(9) [OF g(1,2)] found free grant client a(2-4) g(2)
    by (simp add: run_protocol_def store_Begin_def new_operation_def evaluation perform.simps performs.simps returns_def
      GetAccessTokenSession_def lockCredential_def read_credential_def operationQueriesAny_def operation_of_def
      query_def lookup_def validateLockedGrant_def conclude_def op_Finish_def op_Rollback_def commit_policy_def
      approvalComplete_def credential_of_def grant_of_def tx_commit_def tx_rollback_def cong: bind_opaque)
qed

definition ex_introspection :: Binding where
  "ex_introspection = \<lparr>bd_Purpose = PurposeIntrospection, bd_ClientID = [], bd_Resource = ex_resource, bd_AccountID = 0\<rparr>"

lemma ex_exchanged_reachable: "auth_run empty_db (pl_db ex_exchanged)"
  using rtranclp.rtrancl_into_rtrancl [OF ex_granted_reachable
    auth_step.protocol [of ex_granted ex_env ex_binding CredentialCode "''k''" ex_exchange "Finishing None"]]
  by (simp add: ex_exchanged_def)

definition ex_access :: AuthOauthSession where
  "ex_access = (ex_session 7 ''access_token'')\<lparr>os_Signature := ''a'', os_ExpiresAt := ex_time 910\<rparr>"

lemma ex_access_live: "ex_access \<in> set (db_sessions (pl_db ex_exchanged))"
    "live ex_env ex_introspection (pl_db ex_exchanged) ex_access"
  by (simp_all add: ex_exchanged_eq ex_granted_eq ex_bound_eq ex_login_eq live_def live_grant_def spent_def ex_introspection_def
      ex_access_def ex_session_def ex_grant_def ex_env_def ex_clients_def)

lemma ex_access_snapshot:
  assumes "g \<in> set (db_grants (pl_db ex_exchanged))"
  shows "validateCredentialSnapshot ex_env ex_request (grant_of g) (credential_of ex_access) AccessToken = None"
  using assms by (simp add: ex_exchanged_eq ex_grant_def validateCredentialSnapshot_def ex_access_def ex_session_def grant_of_def
      credential_of_def databaseTimeEqual_def validateWriteSnapshot_def example evaluation ex_time_def ex_resource_def)

theorem live_token_introspects_witness:
  "\<exists>q. run_protocol ex_env ex_introspection CredentialAccess ''a'' [CallGetAccess \<lparr>cx_Operation = True, cx_Savepoint = None\<rparr> ''a'' None]
      (Finishing None) ex_exchanged = (Inr ([True], OutcomeCommitted, None), q) \<and> pl_db q = pl_db ex_exchanged"
proof (rule live_token_introspects [OF ex_exchanged_reachable _ _ _ ex_access_live(1) _ ex_access_live(2)])
  show "codec_Decode (en_codec ex_env) (en_clients ex_env) (os_RequestPayload ex_access) None = Inr ex_request"
    by (simp add: example)
  show "validateCredentialSnapshot ex_env ex_request (grant_of g) (credential_of ex_access) AccessToken = None"
    if "g \<in> set (db_grants (pl_db ex_exchanged))" for g using that by (rule ex_access_snapshot)
qed (simp_all add: ex_env_def ex_introspection_def validateBinding_def example evaluation session_key_def ex_access_def ex_session_def)

end
