(* ===== verification/Model_Vocabulary.thy ===== *)
theory Model_Vocabulary
  imports Go_Prelude
begin

text \<open>
  The closed vocabularies of \<open>internal/corpus/model\<close>: Go string types with named constants and
  a \<open>Valid\<close> method. A Go value of such a type can be any string (it is decoded from JSON or
  from a database row), so the model keeps the string and \<open>Valid\<close> is a real check: a
  datatype of the constants would make every validator below it accept by construction.
\<close>

section \<open>internal/corpus/model/identity.go\<close>

abbreviation (input) IdentityEntityDocument :: string where "IdentityEntityDocument \<equiv> ''document''"

definition IdentityEntityKind_Valid :: "string \<Rightarrow> bool" where
  "IdentityEntityKind_Valid s \<longleftrightarrow> s = IdentityEntityDocument"

abbreviation (input) IdentityAssertionObserved :: string where "IdentityAssertionObserved \<equiv> ''observed''"
abbreviation (input) IdentityAssertionMerge :: string where "IdentityAssertionMerge \<equiv> ''merge''"
abbreviation (input) IdentityAssertionSplit :: string where "IdentityAssertionSplit \<equiv> ''split''"
abbreviation (input) IdentityAssertionContinuity :: string where "IdentityAssertionContinuity \<equiv> ''continuity''"

definition IdentityAssertionKind_Valid :: "string \<Rightarrow> bool" where
  "IdentityAssertionKind_Valid s \<longleftrightarrow> s = IdentityAssertionObserved \<or> s = IdentityAssertionMerge
    \<or> s = IdentityAssertionSplit \<or> s = IdentityAssertionContinuity"

abbreviation (input) IdentityReviewUnreviewed :: string where "IdentityReviewUnreviewed \<equiv> ''unreviewed''"
abbreviation (input) IdentityReviewConfirmed :: string where "IdentityReviewConfirmed \<equiv> ''confirmed''"
abbreviation (input) IdentityReviewRejected :: string where "IdentityReviewRejected \<equiv> ''rejected''"
abbreviation (input) IdentityReviewUnresolved :: string where "IdentityReviewUnresolved \<equiv> ''unresolved''"

definition IdentityReviewState_Valid :: "string \<Rightarrow> bool" where
  "IdentityReviewState_Valid s \<longleftrightarrow> s = IdentityReviewUnreviewed \<or> s = IdentityReviewConfirmed
    \<or> s = IdentityReviewRejected \<or> s = IdentityReviewUnresolved"

abbreviation (input) LegacyIdentityResolved :: string where "LegacyIdentityResolved \<equiv> ''resolved''"
abbreviation (input) LegacyIdentityAmbiguous :: string where "LegacyIdentityAmbiguous \<equiv> ''ambiguous''"
abbreviation (input) LegacyIdentityUnavailable :: string where "LegacyIdentityUnavailable \<equiv> ''unavailable''"

definition LegacyIdentityMappingState_Valid :: "string \<Rightarrow> bool" where
  "LegacyIdentityMappingState_Valid s \<longleftrightarrow> s = LegacyIdentityResolved \<or> s = LegacyIdentityAmbiguous
    \<or> s = LegacyIdentityUnavailable"


section \<open>internal/corpus/model/provenance.go\<close>

abbreviation (input) ConversionRawBlocks :: string where "ConversionRawBlocks \<equiv> ''raw_blocks''"
abbreviation (input) ConversionNormalizedBlocks :: string where "ConversionNormalizedBlocks \<equiv> ''normalized_blocks''"
abbreviation (input) ConversionRawText :: string where "ConversionRawText \<equiv> ''raw_text''"
abbreviation (input) ConversionNormalizedText :: string where "ConversionNormalizedText \<equiv> ''normalized_text''"
abbreviation (input) ConversionManifest :: string where "ConversionManifest \<equiv> ''output_manifest''"

definition ConversionArtifactRole_Valid :: "string \<Rightarrow> bool" where
  "ConversionArtifactRole_Valid s \<longleftrightarrow> s = ConversionRawBlocks \<or> s = ConversionNormalizedBlocks \<or> s = ConversionRawText
    \<or> s = ConversionNormalizedText \<or> s = ConversionManifest"

abbreviation (input) ProvenanceOriginalBytes :: string where "ProvenanceOriginalBytes \<equiv> ''original_bytes''"
abbreviation (input) ProvenanceMemberBytes :: string where "ProvenanceMemberBytes \<equiv> ''member_bytes''"
abbreviation (input) ProvenanceRawText :: string where "ProvenanceRawText \<equiv> ''raw_text''"
abbreviation (input) ProvenanceNormalizedText :: string where "ProvenanceNormalizedText \<equiv> ''normalized_text''"

definition ProvenanceSpace_Valid :: "string \<Rightarrow> bool" where
  "ProvenanceSpace_Valid s \<longleftrightarrow> s = ProvenanceOriginalBytes \<or> s = ProvenanceMemberBytes \<or> s = ProvenanceRawText
    \<or> s = ProvenanceNormalizedText"

abbreviation (input) QualityRecordMetric :: string where "QualityRecordMetric \<equiv> ''metric''"
abbreviation (input) QualityRecordFinding :: string where "QualityRecordFinding \<equiv> ''finding''"
abbreviation (input) QualityRecordGap :: string where "QualityRecordGap \<equiv> ''gap''"

definition QualityRecordKind_Valid :: "string \<Rightarrow> bool" where
  "QualityRecordKind_Valid s \<longleftrightarrow> s = QualityRecordMetric \<or> s = QualityRecordFinding \<or> s = QualityRecordGap"


section \<open>internal/corpus/model/source_states.go\<close>

abbreviation (input) SourceWindowFrozen :: string where "SourceWindowFrozen \<equiv> ''frozen''"
abbreviation (input) SourceWindowProgressing :: string where "SourceWindowProgressing \<equiv> ''progressing''"
abbreviation (input) SourceWindowComplete :: string where "SourceWindowComplete \<equiv> ''complete''"
abbreviation (input) SourceWindowIncomplete :: string where "SourceWindowIncomplete \<equiv> ''incomplete''"
abbreviation (input) SourceWindowFailed :: string where "SourceWindowFailed \<equiv> ''failed''"

definition SourceWindowState_Valid :: "string \<Rightarrow> bool" where
  "SourceWindowState_Valid s \<longleftrightarrow> s = SourceWindowFrozen \<or> s = SourceWindowProgressing \<or> s = SourceWindowComplete
    \<or> s = SourceWindowIncomplete \<or> s = SourceWindowFailed"

abbreviation (input) DiscoveryPageRequested :: string where "DiscoveryPageRequested \<equiv> ''requested''"
abbreviation (input) DiscoveryPageCaptured :: string where "DiscoveryPageCaptured \<equiv> ''captured''"
abbreviation (input) DiscoveryPageDecoded :: string where "DiscoveryPageDecoded \<equiv> ''decoded''"
abbreviation (input) DiscoveryPageAccepted :: string where "DiscoveryPageAccepted \<equiv> ''accepted''"
abbreviation (input) DiscoveryPageFailed :: string where "DiscoveryPageFailed \<equiv> ''failed''"

definition DiscoveryPageState_Valid :: "string \<Rightarrow> bool" where
  "DiscoveryPageState_Valid s \<longleftrightarrow> s = DiscoveryPageRequested \<or> s = DiscoveryPageCaptured \<or> s = DiscoveryPageDecoded
    \<or> s = DiscoveryPageAccepted \<or> s = DiscoveryPageFailed"

abbreviation (input) ArtifactRequestDue :: string where "ArtifactRequestDue \<equiv> ''due''"
abbreviation (input) ArtifactRequestLeased :: string where "ArtifactRequestLeased \<equiv> ''leased''"
abbreviation (input) ArtifactRequestFetched :: string where "ArtifactRequestFetched \<equiv> ''fetched''"
abbreviation (input) ArtifactRequestVerified :: string where "ArtifactRequestVerified \<equiv> ''verified''"
abbreviation (input) ArtifactRequestFailed :: string where "ArtifactRequestFailed \<equiv> ''failed''"
abbreviation (input) ArtifactRequestExhausted :: string where "ArtifactRequestExhausted \<equiv> ''exhausted''"
abbreviation (input) ArtifactRequestExpired :: string where "ArtifactRequestExpired \<equiv> ''expired''"

definition ArtifactRequestState_Valid :: "string \<Rightarrow> bool" where
  "ArtifactRequestState_Valid s \<longleftrightarrow> s = ArtifactRequestDue \<or> s = ArtifactRequestLeased \<or> s = ArtifactRequestFetched
    \<or> s = ArtifactRequestVerified \<or> s = ArtifactRequestFailed
    \<or> s = ArtifactRequestExhausted \<or> s = ArtifactRequestExpired"

abbreviation (input) ArtifactRoleMain :: string where "ArtifactRoleMain \<equiv> ''main''"
abbreviation (input) ArtifactRoleAppendix :: string where "ArtifactRoleAppendix \<equiv> ''appendix''"
abbreviation (input) ArtifactRoleOriginalScan :: string where "ArtifactRoleOriginalScan \<equiv> ''original_scan''"

definition ArtifactRole_Valid :: "string \<Rightarrow> bool" where
  "ArtifactRole_Valid s \<longleftrightarrow> s = ArtifactRoleMain \<or> s = ArtifactRoleAppendix \<or> s = ArtifactRoleOriginalScan"

abbreviation (input) RetentionOwnerExecution :: string where "RetentionOwnerExecution \<equiv> ''execution''"
abbreviation (input) RetentionOwnerObservationRevision :: string where "RetentionOwnerObservationRevision \<equiv> ''observation_revision''"
abbreviation (input) RetentionOwnerDocumentRevision :: string where "RetentionOwnerDocumentRevision \<equiv> ''document_revision''"
abbreviation (input) RetentionOwnerBuild :: string where "RetentionOwnerBuild \<equiv> ''build''"
abbreviation (input) RetentionOwnerRelease :: string where "RetentionOwnerRelease \<equiv> ''release''"

definition RetentionOwnerKind_Valid :: "string \<Rightarrow> bool" where
  "RetentionOwnerKind_Valid s \<longleftrightarrow> s = RetentionOwnerExecution \<or> s = RetentionOwnerObservationRevision
    \<or> s = RetentionOwnerDocumentRevision \<or> s = RetentionOwnerBuild
    \<or> s = RetentionOwnerRelease"

abbreviation (input) DiscoveryClaimIssued :: string where "DiscoveryClaimIssued \<equiv> ''issued''"
abbreviation (input) DiscoveryClaimSettled :: string where "DiscoveryClaimSettled \<equiv> ''settled''"
abbreviation (input) DiscoveryClaimReleased :: string where "DiscoveryClaimReleased \<equiv> ''released''"

definition DiscoveryClaimState_Valid :: "string \<Rightarrow> bool" where
  "DiscoveryClaimState_Valid s \<longleftrightarrow> s = DiscoveryClaimIssued \<or> s = DiscoveryClaimSettled \<or> s = DiscoveryClaimReleased"


section \<open>internal/corpus/model/intake.go\<close>

abbreviation (input) Candidate :: string where "Candidate \<equiv> ''candidate''"
abbreviation (input) Quarantined :: string where "Quarantined \<equiv> ''quarantined''"
abbreviation (input) Accepted :: string where "Accepted \<equiv> ''accepted''"
abbreviation (input) AcceptedWithGaps :: string where "AcceptedWithGaps \<equiv> ''accepted_with_gaps''"
abbreviation (input) Excluded :: string where "Excluded \<equiv> ''excluded''"

definition AcceptanceState_Valid :: "string \<Rightarrow> bool" where
  "AcceptanceState_Valid s \<longleftrightarrow> s = Candidate \<or> s = Quarantined \<or> s = Accepted \<or> s = AcceptedWithGaps \<or> s = Excluded"

abbreviation (input) DecisionRetryConverter :: string where "DecisionRetryConverter \<equiv> ''retry_converter''"
abbreviation (input) DecisionAcceptOCR :: string where "DecisionAcceptOCR \<equiv> ''accept_non_binding_ocr''"
abbreviation (input) DecisionAcceptGaps :: string where "DecisionAcceptGaps \<equiv> ''accept_with_named_gaps''"
abbreviation (input) DecisionExclude :: string where "DecisionExclude \<equiv> ''exclude_coverage_gap''"
abbreviation (input) DecisionAlternateSource :: string where "DecisionAlternateSource \<equiv> ''attach_alternate_official_source''"

definition DecisionKind_Valid :: "string \<Rightarrow> bool" where
  "DecisionKind_Valid s \<longleftrightarrow> s = DecisionRetryConverter \<or> s = DecisionAcceptOCR \<or> s = DecisionAcceptGaps
    \<or> s = DecisionExclude \<or> s = DecisionAlternateSource"

abbreviation (input) GapSourceWindow :: string where "GapSourceWindow \<equiv> ''source_window''"
abbreviation (input) GapArtifact :: string where "GapArtifact \<equiv> ''artifact''"
abbreviation (input) GapDocumentRevision :: string where "GapDocumentRevision \<equiv> ''document_revision''"
abbreviation (input) GapProvision :: string where "GapProvision \<equiv> ''provision''"
abbreviation (input) GapPart :: string where "GapPart \<equiv> ''part''"

definition GapKind_Valid :: "string \<Rightarrow> bool" where
  "GapKind_Valid s \<longleftrightarrow> s = GapSourceWindow \<or> s = GapArtifact \<or> s = GapDocumentRevision \<or> s = GapProvision
    \<or> s = GapPart"

abbreviation (input) ResidencyPublic :: string where "ResidencyPublic \<equiv> ''public_non_personal''"
abbreviation (input) ResidencyPersonal :: string where "ResidencyPersonal \<equiv> ''personal_data''"
abbreviation (input) ResidencyUnclassified :: string where "ResidencyUnclassified \<equiv> ''unclassified''"

definition ResidencyClass_Valid :: "string \<Rightarrow> bool" where
  "ResidencyClass_Valid s \<longleftrightarrow> s = ResidencyPublic \<or> s = ResidencyPersonal \<or> s = ResidencyUnclassified"


section \<open>internal/corpus/model/blocks.go\<close>

abbreviation (input) OriginalBytes :: string where "OriginalBytes \<equiv> ''original_bytes''"
abbreviation (input) DecodedMember :: string where "DecodedMember \<equiv> ''decoded_package_member''"
abbreviation (input) RawText :: string where "RawText \<equiv> ''raw_converter_text''"
abbreviation (input) NormalizedText :: string where "NormalizedText \<equiv> ''normalized_text''"

definition CoordinateSpace_Valid :: "string \<Rightarrow> bool" where
  "CoordinateSpace_Valid s \<longleftrightarrow> s = OriginalBytes \<or> s = DecodedMember \<or> s = RawText \<or> s = NormalizedText"

abbreviation (input) BlockHeading :: string where "BlockHeading \<equiv> ''heading''"
abbreviation (input) BlockParagraph :: string where "BlockParagraph \<equiv> ''paragraph''"
abbreviation (input) BlockListItem :: string where "BlockListItem \<equiv> ''list_item''"
abbreviation (input) BlockTable :: string where "BlockTable \<equiv> ''table''"
abbreviation (input) BlockImage :: string where "BlockImage \<equiv> ''image''"
abbreviation (input) BlockPageBreak :: string where "BlockPageBreak \<equiv> ''page_break''"

definition BlockKind_Valid :: "string \<Rightarrow> bool" where
  "BlockKind_Valid s \<longleftrightarrow> s = BlockHeading \<or> s = BlockParagraph \<or> s = BlockListItem \<or> s = BlockTable
    \<or> s = BlockImage \<or> s = BlockPageBreak"

abbreviation (input) AuthorityBinding :: string where "AuthorityBinding \<equiv> ''binding''"
abbreviation (input) AuthorityNonBinding :: string where "AuthorityNonBinding \<equiv> ''non_binding''"
abbreviation (input) AuthorityUnknown :: string where "AuthorityUnknown \<equiv> ''unknown''"

definition Authority_Valid :: "string \<Rightarrow> bool" where
  "Authority_Valid s \<longleftrightarrow> s = AuthorityBinding \<or> s = AuthorityNonBinding \<or> s = AuthorityUnknown"

abbreviation (input) EditDecode :: string where "EditDecode \<equiv> ''decode''"
abbreviation (input) EditNormalize :: string where "EditNormalize \<equiv> ''normalize''"
abbreviation (input) EditReplace :: string where "EditReplace \<equiv> ''replace''"
abbreviation (input) EditInsert :: string where "EditInsert \<equiv> ''insert''"
abbreviation (input) EditDelete :: string where "EditDelete \<equiv> ''delete''"

definition EditKind_Valid :: "string \<Rightarrow> bool" where
  "EditKind_Valid s \<longleftrightarrow> s = EditDecode \<or> s = EditNormalize \<or> s = EditReplace \<or> s = EditInsert
    \<or> s = EditDelete"


section \<open>internal/corpus/model/conversion.go\<close>

abbreviation (input) SeverityInfo :: string where "SeverityInfo \<equiv> ''info''"
abbreviation (input) SeverityWarning :: string where "SeverityWarning \<equiv> ''warning''"
abbreviation (input) SeverityBlocking :: string where "SeverityBlocking \<equiv> ''blocking''"

definition Severity_Valid :: "string \<Rightarrow> bool" where
  "Severity_Valid s \<longleftrightarrow> s = SeverityInfo \<or> s = SeverityWarning \<or> s = SeverityBlocking"

abbreviation (input) MetricMeasured :: string where "MetricMeasured \<equiv> ''measured''"
abbreviation (input) MetricUnknown :: string where "MetricUnknown \<equiv> ''unknown''"
abbreviation (input) MetricNotApplicable :: string where "MetricNotApplicable \<equiv> ''not_applicable''"

definition MetricState_Valid :: "string \<Rightarrow> bool" where
  "MetricState_Valid s \<longleftrightarrow> s = MetricMeasured \<or> s = MetricUnknown \<or> s = MetricNotApplicable"

abbreviation (input) MetricPageAccounting :: string where "MetricPageAccounting \<equiv> ''page_accounting''"
abbreviation (input) MetricTextCoverage :: string where "MetricTextCoverage \<equiv> ''text_coverage''"
abbreviation (input) MetricDiacriticValidity :: string where "MetricDiacriticValidity \<equiv> ''diacritic_validity_rate''"
abbreviation (input) MetricCorruption :: string where "MetricCorruption \<equiv> ''corruption_rate''"
abbreviation (input) MetricStructureCompleteness :: string where "MetricStructureCompleteness \<equiv> ''structure_completeness''"
abbreviation (input) MetricCitationParse :: string where "MetricCitationParse \<equiv> ''citation_parse_rate''"
abbreviation (input) MetricTableIntegrity :: string where "MetricTableIntegrity \<equiv> ''table_integrity''"
abbreviation (input) MetricMetadataAgreement :: string where "MetricMetadataAgreement \<equiv> ''metadata_agreement''"
abbreviation (input) MetricProvenanceCompleteness :: string where "MetricProvenanceCompleteness \<equiv> ''provenance_completeness''"
abbreviation (input) MetricGeometry :: string where "MetricGeometry \<equiv> ''geometry''"
abbreviation (input) MetricFidelity :: string where "MetricFidelity \<equiv> ''fidelity''"

definition MetricKind_Valid :: "string \<Rightarrow> bool" where
  "MetricKind_Valid s \<longleftrightarrow> s = MetricPageAccounting \<or> s = MetricTextCoverage \<or> s = MetricDiacriticValidity
    \<or> s = MetricCorruption \<or> s = MetricStructureCompleteness
    \<or> s = MetricCitationParse \<or> s = MetricTableIntegrity
    \<or> s = MetricMetadataAgreement \<or> s = MetricProvenanceCompleteness
    \<or> s = MetricGeometry \<or> s = MetricFidelity"

abbreviation (input) QualityAccepted :: string where "QualityAccepted \<equiv> ''accepted''"
abbreviation (input) QualityAcceptedWithGaps :: string where "QualityAcceptedWithGaps \<equiv> ''accepted_with_gaps''"
abbreviation (input) QualityQuarantined :: string where "QualityQuarantined \<equiv> ''quarantined''"
abbreviation (input) QualityNeedsOCR :: string where "QualityNeedsOCR \<equiv> ''needs_ocr''"

definition QualityOutcome_Valid :: "string \<Rightarrow> bool" where
  "QualityOutcome_Valid s \<longleftrightarrow> s = QualityAccepted \<or> s = QualityAcceptedWithGaps \<or> s = QualityQuarantined
    \<or> s = QualityNeedsOCR"

abbreviation (input) PartBody :: string where "PartBody \<equiv> ''body''"
abbreviation (input) PartIssuedText :: string where "PartIssuedText \<equiv> ''issued_text''"
abbreviation (input) PartAppendix :: string where "PartAppendix \<equiv> ''appendix''"
abbreviation (input) PartForm :: string where "PartForm \<equiv> ''form''"
abbreviation (input) PartTable :: string where "PartTable \<equiv> ''table''"
abbreviation (input) PartAttachment :: string where "PartAttachment \<equiv> ''attachment''"
abbreviation (input) PartExcludedBlock :: string where "PartExcludedBlock \<equiv> ''excluded_block''"

definition PartKind_Valid :: "string \<Rightarrow> bool" where
  "PartKind_Valid s \<longleftrightarrow> s = PartBody \<or> s = PartIssuedText \<or> s = PartAppendix \<or> s = PartForm \<or> s = PartTable
    \<or> s = PartAttachment \<or> s = PartExcludedBlock"


section \<open>internal/corpus/model/observations.go\<close>

abbreviation (input) PurposeListing :: string where "PurposeListing \<equiv> ''listing''"
abbreviation (input) PurposeDetail :: string where "PurposeDetail \<equiv> ''detail''"
abbreviation (input) PurposeArtifact :: string where "PurposeArtifact \<equiv> ''artifact''"
abbreviation (input) PurposeNumber :: string where "PurposeNumber \<equiv> ''number''"

definition RequestPurpose_Valid :: "string \<Rightarrow> bool" where
  "RequestPurpose_Valid s \<longleftrightarrow> s = PurposeListing \<or> s = PurposeDetail \<or> s = PurposeArtifact \<or> s = PurposeNumber"


text \<open>The states that admit a document to a release build.\<close>

definition BuildEligible :: "string \<Rightarrow> bool" where
  "BuildEligible s \<longleftrightarrow> s = Accepted \<or> s = AcceptedWithGaps"

text \<open>Declared conversion formats; the empty declaration is allowed.\<close>

definition ArtifactFormatValid :: "string \<Rightarrow> bool" where
  "ArtifactFormatValid v \<longleftrightarrow> v \<in> set [[], ''unknown'', ''doc'', ''docx'', ''html'', ''pdf'',
     ''png'', ''jpeg'', ''tiff'', ''xlsx'', ''ppt'', ''pptx'', ''odp'']"

text \<open>No vocabulary has the empty string, Go's zero value, as a member.\<close>

lemma zero_value_invalid [simp]:
  "\<not> CoordinateSpace_Valid []" "\<not> BlockKind_Valid []" "\<not> Authority_Valid []"
  "\<not> EditKind_Valid []" "\<not> Severity_Valid []" "\<not> MetricKind_Valid []" "\<not> MetricState_Valid []"
  "\<not> QualityOutcome_Valid []" "\<not> PartKind_Valid []" "\<not> GapKind_Valid []" "\<not> AcceptanceState_Valid []"
  "\<not> DecisionKind_Valid []" "\<not> ResidencyClass_Valid []"
  by (simp_all add: CoordinateSpace_Valid_def BlockKind_Valid_def Authority_Valid_def EditKind_Valid_def
      Severity_Valid_def MetricKind_Valid_def MetricState_Valid_def QualityOutcome_Valid_def
      PartKind_Valid_def GapKind_Valid_def AcceptanceState_Valid_def DecisionKind_Valid_def
      ResidencyClass_Valid_def)

lemma BuildEligible_Valid: "BuildEligible s \<Longrightarrow> AcceptanceState_Valid s"
  by (auto simp: BuildEligible_def AcceptanceState_Valid_def)

end
