(* ===== verification/Model_Keys.thy ===== *)
theory Model_Keys
  imports Model_Vocabulary Go_Json
begin

text \<open>
  The key grammars and content references of \<open>internal/corpus/model\<close> (\<open>assets.go\<close> and
  \<open>intake.go\<close>): opaque ledger keys, document and revision keys, SHA-256 digests, asset paths,
  transport envelopes and the manifest values built from them.
\<close>

section \<open>Digests and assets (assets.go)\<close>

text \<open>The loop \<open>for _, c := range s\<close> that returns an error on a character outside \<open>0-9a-f\<close>.\<close>

definition require_hex :: "gerr \<Rightarrow> string \<Rightarrow> check" where
  "require_hex err s =
     each (\<lambda>c. fails (\<not> (between CHR ''0'' CHR ''9'' c \<or> between CHR ''a'' CHR ''f'' c)) err) (runes s)"

type_synonym Digest = string

definition Digest_Validate :: "Digest \<Rightarrow> check" where
  "Digest_Validate d = firsterr [
     fails (length d \<noteq> 64) (Errorf ''digest must contain 64 lowercase hexadecimal characters'' []),
     require_hex (Errorf ''digest must contain 64 lowercase hexadecimal characters'' []) d]"

record AssetRef =
  as_Path :: string
  as_SHA256 :: Digest
  as_ByteSize :: int

definition AssetRef_Validate :: "AssetRef \<Rightarrow> check" where
  "AssetRef_Validate a = firsterr [
     fails (as_Path a = ''.'' \<or> \<not> ValidPath (as_Path a) \<or> ContainsAny (as_Path a) [CHR 0x5C, CHR '':''])
       (Errorf ''asset path must be slash-separated and relative without traversal or drive names'' []),
     each (\<lambda>c. fails (c < 32 \<or> c = 127) (Errorf ''asset path must not contain control characters'' []))
       (runes (as_Path a)),
     wrap ''asset digest: %w'' (Digest_Validate (as_SHA256 a)),
     fails (as_ByteSize a < 0) (Errorf ''asset byte size must not be negative'' [])]"

section \<open>Ledger keys (intake.go)\<close>

definition ValidateKey :: "string \<Rightarrow> check" where
  "ValidateKey key = firsterr [
     fails (length key = 0 \<or> length key > 128
         \<or> \<not> (between CHR ''a'' CHR ''z'' (byte_of (key ! 0)) \<or> between CHR ''0'' CHR ''9'' (byte_of (key ! 0))))
       (Errorf ''key requires 1 to 128 lowercase identifier characters'' []),
     each (\<lambda>c. fails (\<not> (between CHR ''a'' CHR ''z'' c \<or> between CHR ''0'' CHR ''9'' c
         \<or> is_rune CHR ''-'' c \<or> is_rune CHR ''_'' c \<or> is_rune CHR ''.'' c))
       (Errorf ''key requires lowercase identifier characters'' [])) (runes key)]"

text \<open>
  The two loops of \<open>ValidateRevisionKey\<close>: the positions of the UUID separators are byte offsets
  of the \<open>range\<close> loop. The reads of \<open>parts\<close> are in range after the second check.
\<close>

definition require_letters :: "gerr \<Rightarrow> string \<Rightarrow> check" where
  "require_letters err s =
     each (\<lambda>c. fails (c < byte_of CHR ''a'' \<or> c > byte_of CHR ''z'') err) (runes s)"

definition require_uuid :: "string \<Rightarrow> check" where
  "require_uuid s = each (\<lambda>(i, c).
     if i = 8 \<or> i = 13 \<or> i = 18 \<or> i = 23
     then fails (\<not> is_rune CHR ''-'' c) (Errorf ''document identity requires UUID separators'' [])
     else fails (\<not> (between CHR ''0'' CHR ''9'' c \<or> between CHR ''a'' CHR ''f'' c))
       (Errorf ''document identity requires lowercase hexadecimal characters'' [])) (range_runes s)"

definition ValidateRevisionKey :: "string \<Rightarrow> string \<Rightarrow> check" where
  "ValidateRevisionKey key country =
    (let parts = Split CHR '':'' key in firsterr [
     fails (length key \<noteq> 43 \<and> length key \<noteq> 112)
       (Errorf ''invalid canonical document or revision key length'' []),
     fails ((length parts \<noteq> 3 \<and> length parts \<noteq> 5) \<or> length (parts ! 0) \<noteq> 2 \<or> parts ! 1 \<noteq> ''doc'')
       (Errorf ''invalid canonical document key'' []),
     require_letters (Errorf ''document country requires two lowercase letters'' []) (parts ! 0),
     fails (parts ! 0 \<noteq> country) (Errorf ''document country must match execution country'' []),
     fails (length (parts ! 2) \<noteq> 36) (Errorf ''document identity requires a lowercase UUID'' []),
     require_uuid (parts ! 2),
     if length parts = 5
     then firsterr [
       fails (parts ! 3 \<noteq> ''rev'') (Errorf ''invalid revision key marker'' []),
       wrap ''revision digest: %w'' (Digest_Validate (parts ! 4))]
     else None])"

record GapRef =
  gap_Kind :: string
  gap_Key :: string
  gap_ReasonCode :: string
  gap_ReportHash :: Digest

definition GapRef_Validate :: "GapRef \<Rightarrow> check" where
  "GapRef_Validate g = firsterr [
     fails (\<not> GapKind_Valid (gap_Kind g) \<or> gap_Key g = [] \<or> gap_ReasonCode g = [])
       (Errorf ''gap requires a known scope, key and reason code'' []),
     wrap ''g.ReportHash: %w'' (Digest_Validate (gap_ReportHash g))]"

record CaptureRef =
  cap_Country :: string
  cap_SourceID :: string
  cap_CaptureKey :: string
  cap_Asset :: AssetRef
  cap_MediaType :: string
  cap_RequestHash :: Digest
  cap_ResponseHash :: Digest
  cap_TransportReceipt :: AssetRef

definition CaptureRef_Validate :: "CaptureRef \<Rightarrow> check" where
  "CaptureRef_Validate c = firsterr [
     fails (cap_Country c = [] \<or> cap_SourceID c = [] \<or> cap_CaptureKey c = [] \<or> cap_MediaType c = [])
       (Errorf ''capture identity and media type are required'' []),
     wrap ''Asset: %w'' (AssetRef_Validate (cap_Asset c)),
     wrap ''RequestHash: %w'' (Digest_Validate (cap_RequestHash c)),
     wrap ''ResponseHash: %w'' (Digest_Validate (cap_ResponseHash c)),
     wrap ''c.TransportReceipt: %w'' (AssetRef_Validate (cap_TransportReceipt c))]"

record ResidencyAdmission =
  res_ArtifactHash :: Digest
  res_PolicyHash :: Digest
  res_Class :: string
  res_ReasonCode :: string
  res_Report :: AssetRef

definition Admitted :: "ResidencyAdmission \<Rightarrow> bool" where
  "Admitted a \<longleftrightarrow> res_Class a = ResidencyPublic"

definition ResidencyAdmission_Validate :: "ResidencyAdmission \<Rightarrow> check" where
  "ResidencyAdmission_Validate a = firsterr [
     fails (\<not> ResidencyClass_Valid (res_Class a) \<or> res_ReasonCode a = [])
       (Errorf ''residency requires classification and reason'' []),
     range_map Digest_Validate [(''artifact hash'', res_ArtifactHash a), (''policy hash'', res_PolicyHash a)],
     wrap ''a.Report: %w'' (AssetRef_Validate (res_Report a))]"

section \<open>Transport envelopes (intake.go)\<close>

definition envelope_kinds :: "string list" where
  "envelope_kinds = [''capture'', ''observation'', ''request'', ''page'', ''detail'', ''conversion'',
     ''quality'', ''residency'', ''execution'', ''result'', ''decoder'', ''convert'', ''screen'']"

definition ValidateEnvelopeKey :: "string \<Rightarrow> string \<Rightarrow> check" where
  "ValidateEnvelopeKey key kind =
    (let prefix = kind @ ''-'' in firsterr [
     fails (kind \<notin> set envelope_kinds) (Errorf ''unknown envelope key kind'' []),
     fails (\<not> HasPrefix key prefix \<or> length key \<noteq> length prefix + 32)
       (Errorf ''envelope key requires kind prefix and 32 lowercase hexadecimal characters'' []),
     require_hex (Errorf ''envelope key requires lowercase hexadecimal characters'' [])
       (drop (length prefix) key)])"

definition ValidateEnvelope :: "string \<Rightarrow> string \<Rightarrow> Digest \<Rightarrow> check" where
  "ValidateEnvelope key kind manifest = firsterr [
     wrap ''ledger key: %w'' (ValidateEnvelopeKey key kind),
     wrap ''manifest digest: %w'' (Digest_Validate manifest)]"

text \<open>\<open>json.Marshal\<close> of the anonymous struct with the fields \<open>Key\<close> and \<open>Manifest\<close>.\<close>

definition MarshalEnvelope :: "string \<Rightarrow> string \<Rightarrow> Digest \<Rightarrow> gerr + nat list" where
  "MarshalEnvelope key kind manifest =
    (case ValidateEnvelope key kind manifest of
       Some err \<Rightarrow> Inl (Wrapf ''serialize envelope: %w'' [] [err])
     | None \<Rightarrow> Inr (ascii_bytes ''{'' @ json_string ''Key'' @ ascii_bytes '':'' @ json_string key
         @ ascii_bytes '','' @ json_string ''Manifest'' @ ascii_bytes '':'' @ json_string manifest
         @ ascii_bytes ''}''))"

definition serialize :: "string \<Rightarrow> gerr + nat list \<Rightarrow> gerr + nat list" where
  "serialize f r = (case r of Inl err \<Rightarrow> Inl (Wrapf f [] [err]) | Inr bs \<Rightarrow> Inr bs)"

text \<open>Every envelope type of the package has the same two fields.\<close>

record Envelope =
  env_Key :: string
  env_Manifest :: Digest

definition CaptureEnvelope_Validate :: "Envelope \<Rightarrow> check" where
  "CaptureEnvelope_Validate e =
     wrap ''capture envelope: %w'' (ValidateEnvelope (env_Key e) ''capture'' (env_Manifest e))"

definition CaptureEnvelope_MarshalJSON :: "Envelope \<Rightarrow> gerr + nat list" where
  "CaptureEnvelope_MarshalJSON e =
     serialize ''serialize capture envelope: %w'' (MarshalEnvelope (env_Key e) ''capture'' (env_Manifest e))"

definition ObservationEnvelope_Validate :: "Envelope \<Rightarrow> check" where
  "ObservationEnvelope_Validate e =
     wrap ''observation envelope: %w'' (ValidateEnvelope (env_Key e) ''observation'' (env_Manifest e))"

definition ObservationEnvelope_MarshalJSON :: "Envelope \<Rightarrow> gerr + nat list" where
  "ObservationEnvelope_MarshalJSON e =
     serialize ''serialize observation envelope: %w'' (MarshalEnvelope (env_Key e) ''observation'' (env_Manifest e))"

definition FollowUpEnvelope_Validate :: "Envelope \<Rightarrow> check" where
  "FollowUpEnvelope_Validate e =
     wrap ''request envelope: %w'' (ValidateEnvelope (env_Key e) ''request'' (env_Manifest e))"

definition FollowUpEnvelope_MarshalJSON :: "Envelope \<Rightarrow> gerr + nat list" where
  "FollowUpEnvelope_MarshalJSON e =
     serialize ''serialize request envelope: %w'' (MarshalEnvelope (env_Key e) ''request'' (env_Manifest e))"

definition ListingPageEnvelope_Validate :: "Envelope \<Rightarrow> check" where
  "ListingPageEnvelope_Validate e =
     wrap ''page envelope: %w'' (ValidateEnvelope (env_Key e) ''page'' (env_Manifest e))"

definition ListingPageEnvelope_MarshalJSON :: "Envelope \<Rightarrow> gerr + nat list" where
  "ListingPageEnvelope_MarshalJSON e =
     serialize ''serialize page envelope: %w'' (MarshalEnvelope (env_Key e) ''page'' (env_Manifest e))"

definition DetailEnvelope_Validate :: "Envelope \<Rightarrow> check" where
  "DetailEnvelope_Validate e =
     wrap ''detail envelope: %w'' (ValidateEnvelope (env_Key e) ''detail'' (env_Manifest e))"

definition DetailEnvelope_MarshalJSON :: "Envelope \<Rightarrow> gerr + nat list" where
  "DetailEnvelope_MarshalJSON e =
     serialize ''serialize detail envelope: %w'' (MarshalEnvelope (env_Key e) ''detail'' (env_Manifest e))"

definition ConversionEnvelope_Validate :: "Envelope \<Rightarrow> check" where
  "ConversionEnvelope_Validate e =
     wrap ''conversion envelope: %w'' (ValidateEnvelope (env_Key e) ''conversion'' (env_Manifest e))"

definition ConversionEnvelope_MarshalJSON :: "Envelope \<Rightarrow> gerr + nat list" where
  "ConversionEnvelope_MarshalJSON e =
     serialize ''serialize conversion envelope: %w'' (MarshalEnvelope (env_Key e) ''conversion'' (env_Manifest e))"

definition QualityEnvelope_Validate :: "Envelope \<Rightarrow> check" where
  "QualityEnvelope_Validate e =
     wrap ''quality envelope: %w'' (ValidateEnvelope (env_Key e) ''quality'' (env_Manifest e))"

definition QualityEnvelope_MarshalJSON :: "Envelope \<Rightarrow> gerr + nat list" where
  "QualityEnvelope_MarshalJSON e =
     serialize ''serialize quality envelope: %w'' (MarshalEnvelope (env_Key e) ''quality'' (env_Manifest e))"

definition ResidencyEnvelope_Validate :: "Envelope \<Rightarrow> check" where
  "ResidencyEnvelope_Validate e =
     wrap ''residency envelope: %w'' (ValidateEnvelope (env_Key e) ''residency'' (env_Manifest e))"

definition ResidencyEnvelope_MarshalJSON :: "Envelope \<Rightarrow> gerr + nat list" where
  "ResidencyEnvelope_MarshalJSON e =
     serialize ''serialize residency envelope: %w'' (MarshalEnvelope (env_Key e) ''residency'' (env_Manifest e))"

section \<open>What the grammars accept\<close>

definition digest_ok :: "Digest \<Rightarrow> bool" where
  "digest_ok d \<longleftrightarrow> length d = 64 \<and> (\<forall>c \<in> set d. hex_char c)"

definition key_char :: "char \<Rightarrow> bool" where
  "key_char c \<longleftrightarrow> lower_alnum (byte_of c) \<or> c = CHR ''-'' \<or> c = CHR ''_'' \<or> c = CHR ''.''"

definition ledger_key :: "string \<Rightarrow> bool" where
  "ledger_key k \<longleftrightarrow> k \<noteq> [] \<and> length k \<le> 128 \<and> lower_alnum (byte_of (hd k)) \<and> (\<forall>c \<in> set k. key_char c)"

definition uuid_text :: "string \<Rightarrow> bool" where
  "uuid_text u \<longleftrightarrow> length u = 36 \<and>
    (\<forall>i < 36. if i = 8 \<or> i = 13 \<or> i = 18 \<or> i = 23 then u ! i = CHR ''-'' else hex_char (u ! i))"

definition country_code :: "string \<Rightarrow> bool" where
  "country_code c \<longleftrightarrow> length c = 2 \<and> (\<forall>x \<in> set c. lower_letter (byte_of x))"

lemma between_ascii: "byte_of hi < 128 \<Longrightarrow> between lo hi r \<Longrightarrow> r < 128"
  by (simp add: between_def)

lemma require_hex_None [simp]: "require_hex e s = None \<longleftrightarrow> (\<forall>c \<in> set s. hex_char c)"
  using runes_ascii [of lower_hex s] lower_hex_ascii
  by (auto simp: require_hex_def hex_char_def lower_hex_def)

lemma Digest_Validate_None [simp]: "Digest_Validate d = None \<longleftrightarrow> digest_ok d"
  by (simp add: Digest_Validate_def digest_ok_def)

lemma ValidateKey_None [simp]: "ValidateKey k = None \<longleftrightarrow> ledger_key k"
proof -
  let ?P = "\<lambda>c. between CHR ''a'' CHR ''z'' c \<or> between CHR ''0'' CHR ''9'' c
         \<or> is_rune CHR ''-'' c \<or> is_rune CHR ''_'' c \<or> is_rune CHR ''.'' c"
  have "(\<forall>r \<in> set (runes k). ?P r) \<longleftrightarrow> (\<forall>c \<in> set k. ?P (byte_of c))"
    by (rule runes_ascii) (auto simp: between_def is_rune_def byte_of_def)
  then show ?thesis
    by (cases k) (auto simp: ValidateKey_def ledger_key_def key_char_def lower_alnum_def lower_letter_def)
qed

lemma ledger_key_no_sep: "ledger_key k \<Longrightarrow> c \<in> {CHR ''/'', CHR '':''} \<Longrightarrow> c \<notin> set k"
  by (auto simp: ledger_key_def key_char_def lower_alnum_def lower_letter_def between_def byte_of_def)

lemma require_letters_None [simp]:
  "require_letters e s = None \<longleftrightarrow> (\<forall>c \<in> set s. lower_letter (byte_of c))"
  using runes_ascii [of lower_letter s] lower_letter_ascii
  by (auto simp: require_letters_def lower_letter_def between_def not_less)

lemma require_uuid_None [simp]: "length u = 36 \<Longrightarrow> require_uuid u = None \<longleftrightarrow> uuid_text u"
proof -
  assume u: "length u = 36"
  let ?P = "\<lambda>(i::nat) c. if i = 8 \<or> i = 13 \<or> i = 18 \<or> i = 23 then is_rune CHR ''-'' c else lower_hex c"
  have "require_uuid u = None \<longleftrightarrow> (\<forall>(i, c) \<in> set (range_runes u). ?P i c)"
    unfolding require_uuid_def each_None lower_hex_def
    by (intro ball_cong refl) (auto split: if_splits)
  also have "\<dots> \<longleftrightarrow> (\<forall>j < length u. ?P j (byte_of (u ! j)))"
    by (rule range_runes_ascii) (auto simp: is_rune_def byte_of_def lower_hex_ascii split: if_splits)
  also have "\<dots> \<longleftrightarrow> uuid_text u"
    using u by (simp add: uuid_text_def hex_char_def)
  finally show ?thesis .
qed

lemma digest_ok_no_sep: "digest_ok d \<Longrightarrow> CHR '':'' \<notin> set d"
  by (auto simp: digest_ok_def)

lemma uuid_text_no_sep: "uuid_text u \<Longrightarrow> CHR '':'' \<notin> set u"
  by (force simp: uuid_text_def in_set_conv_nth split: if_splits)

lemma country_code_no_sep: "country_code c \<Longrightarrow> CHR '':'' \<notin> set c"
  by (auto simp: country_code_def lower_letter_def between_def byte_of_def)

lemma length_3_conv: "length xs = 3 \<longleftrightarrow> (\<exists>a b c. xs = [a, b, c])"
  by (auto simp: numeral_3_eq_3 length_Suc_conv)

lemma length_5_conv: "length xs = 5 \<longleftrightarrow> (\<exists>a b c d e. xs = [a, b, c, d, e])"
  by (auto simp: eval_nat_numeral length_Suc_conv)

text \<open>The accepted document and revision keys, written out: a revision key has a digest.\<close>

definition revision_text :: "string \<Rightarrow> string \<times> Digest option \<Rightarrow> string" where
  "revision_text c p = c @ '':doc:'' @ fst p @ (case snd p of None \<Rightarrow> [] | Some d \<Rightarrow> '':rev:'' @ d)"

definition revision_fields :: "string \<times> Digest option \<Rightarrow> bool" where
  "revision_fields p \<longleftrightarrow> uuid_text (fst p) \<and> pred_option digest_ok (snd p)"

definition revision_parts :: "string \<Rightarrow> string \<times> Digest option \<Rightarrow> string list" where
  "revision_parts c p = [c, ''doc'', fst p] @ (case snd p of None \<Rightarrow> [] | Some d \<Rightarrow> [''rev'', d])"

lemma join_revision_parts: "join CHR '':'' (revision_parts c p) = revision_text c p"
  by (simp add: revision_parts_def revision_text_def split: option.split)

lemma Split_revision_text:
  assumes "country_code c" "revision_fields p"
  shows "Split CHR '':'' (revision_text c p) = revision_parts c p"
proof -
  have "\<forall>q \<in> set (revision_parts c p). CHR '':'' \<notin> set q"
    using assms by (cases "snd p") (simp_all add: revision_parts_def revision_fields_def
        country_code_no_sep uuid_text_no_sep digest_ok_no_sep)
  then show ?thesis
    using Split_join [of "revision_parts c p" "CHR '':''"] by (simp add: join_revision_parts) (simp add: revision_parts_def)
qed

lemma revision_parts_inj:
  "revision_parts c p = revision_parts c' p' \<longleftrightarrow> c = c' \<and> p = p'"
  by (auto simp: revision_parts_def prod_eq_iff split: option.splits)

lemma length_revision_text:
  "country_code c \<Longrightarrow> revision_fields p \<Longrightarrow>
     length (revision_text c p) = (if snd p = None then 43 else 112)"
  by (auto simp: revision_text_def revision_fields_def country_code_def uuid_text_def digest_ok_def
      split: option.split)

lemma uuid_text_length: "uuid_text u \<Longrightarrow> length u = 36"
  by (simp add: uuid_text_def)

lemma ValidateRevisionKey_parts:
  assumes "ValidateRevisionKey key country = None"
  shows "country_code country \<and> (\<exists>p. revision_fields p \<and> Split CHR '':'' key = revision_parts country p)"
proof -
  from assms consider "length (Split CHR '':'' key) = 3" | "length (Split CHR '':'' key) = 5"
    by (auto simp: ValidateRevisionKey_def Let_def)
  then show ?thesis
  proof cases
    case 1
    then obtain a b u where S: "Split CHR '':'' key = [a, b, u]" by (auto simp: length_3_conv)
    with assms have "country_code country" "revision_fields (u, None)"
      "[a, b, u] = revision_parts country (u, None)"
      by (auto simp: ValidateRevisionKey_def country_code_def revision_fields_def revision_parts_def)
    with S show ?thesis by metis
  next
    case 2
    then obtain a b u m d where S: "Split CHR '':'' key = [a, b, u, m, d]" by (auto simp: length_5_conv)
    with assms have "country_code country" "revision_fields (u, Some d)"
      "[a, b, u, m, d] = revision_parts country (u, Some d)"
      by (auto simp: ValidateRevisionKey_def country_code_def revision_fields_def revision_parts_def)
    with S show ?thesis by metis
  qed
qed

lemma ValidateRevisionKey_text:
  assumes "country_code c" "revision_fields p"
  shows "ValidateRevisionKey (revision_text c p) c = None"
proof -
  obtain u d where p: "p = (u, d)" by (cases p)
  with assms have "length u = 36" "uuid_text u" by (auto simp: revision_fields_def uuid_text_length)
  with assms p show ?thesis
    by (cases d) (simp_all add: ValidateRevisionKey_def Split_revision_text length_revision_text
        revision_parts_def revision_fields_def country_code_def)
qed

text \<open>
  \<open>ValidateRevisionKey\<close> accepts exactly the strings
  \<open>country:doc:uuid\<close> and \<open>country:doc:uuid:rev:digest\<close> with the given two-letter country, a
  lowercase UUID in 8-4-4-4-12 form and a 64-digit lowercase hexadecimal digest; and the UUID
  and digest of an accepted key are determined by the key.
\<close>

theorem revision_key_grammar:
  "ValidateRevisionKey key country = None \<longleftrightarrow>
     country_code country \<and> (\<exists>!p. revision_fields p \<and> key = revision_text country p)"
proof
  assume "ValidateRevisionKey key country = None"
  from ValidateRevisionKey_parts [OF this] obtain p where c: "country_code country"
    and p: "revision_fields p" "Split CHR '':'' key = revision_parts country p" by blast
  then have "key = revision_text country p" by (metis join_Split join_revision_parts)
  with c p show "country_code country \<and> (\<exists>!p. revision_fields p \<and> key = revision_text country p)"
    by (metis Split_revision_text revision_parts_inj)
qed (auto intro: ValidateRevisionKey_text)

section \<open>Transport envelopes\<close>

definition hex_text :: "nat \<Rightarrow> string \<Rightarrow> bool" where
  "hex_text n h \<longleftrightarrow> length h = n \<and> (\<forall>c \<in> set h. hex_char c)"

lemma envelope_kinds_plain:
  assumes "kind \<in> set envelope_kinds"
  shows "CHR ''-'' \<notin> set kind" and "\<forall>c \<in> set kind. plain_byte (byte_of c)"
  using assms
  by (auto simp: envelope_kinds_def intro!: lower_alnum_plain
      simp: lower_alnum_def lower_letter_def between_def byte_of_def)

lemma ValidateEnvelopeKey_None:
  "ValidateEnvelopeKey key kind = None \<longleftrightarrow>
     kind \<in> set envelope_kinds \<and> (\<exists>h. hex_text 32 h \<and> key = kind @ ''-'' @ h)"
proof
  assume L: "ValidateEnvelopeKey key kind = None"
  then obtain h where h: "key = kind @ ''-'' @ h"
    by (auto simp: ValidateEnvelopeKey_def HasPrefix_iff)
  with L show "kind \<in> set envelope_kinds \<and> (\<exists>h. hex_text 32 h \<and> key = kind @ ''-'' @ h)"
    by (auto simp: ValidateEnvelopeKey_def hex_text_def)
qed (auto simp: ValidateEnvelopeKey_def HasPrefix_iff hex_text_def)

lemma hex_text_no_dash: "hex_text n h \<Longrightarrow> CHR ''-'' \<notin> set h"
  by (auto simp: hex_text_def)

lemma envelope_key_Split:
  "ValidateEnvelopeKey key kind = None \<Longrightarrow>
     \<exists>h. Split CHR ''-'' key = [kind, h] \<and> hex_text 32 h \<and> key = kind @ ''-'' @ h"
  using Split_append [of "CHR ''-''" kind]
  by (auto simp: ValidateEnvelopeKey_None envelope_kinds_plain hex_text_no_dash Split_free)

definition envelope_json :: "string \<Rightarrow> Digest \<Rightarrow> nat list" where
  "envelope_json key m = ascii_bytes (''{\"Key\":\"'' @ key @ ''\",\"Manifest\":\"'' @ m @ ''\"}'')"

lemma json_string_hex: "\<forall>c \<in> set h. hex_char c \<Longrightarrow> json_string h = [34] @ ascii_bytes h @ [34]"
  by (simp add: json_string_plain ascii_bytes_def hex_char_def lower_hex_plain)

lemma json_string_envelope_key:
  assumes "ValidateEnvelopeKey key kind = None"
  shows "json_string key = [34] @ ascii_bytes key @ [34]"
proof -
  from assms obtain h where "kind \<in> set envelope_kinds" "hex_text 32 h" "key = kind @ ''-'' @ h"
    by (auto simp: ValidateEnvelopeKey_None)
  then have "\<forall>c \<in> set key. plain_byte (byte_of c)"
    using envelope_kinds_plain(2) [of kind]
    by (auto simp: hex_text_def hex_char_def lower_hex_plain) (simp add: plain_byte_def byte_of_def json_escape_def)
  then show ?thesis by (simp add: json_string_plain ascii_bytes_def)
qed

lemma json_field_names:
  "json_string ''Key'' = ascii_bytes ''\"Key\"''" "json_string ''Manifest'' = ascii_bytes ''\"Manifest\"''"
  by (simp_all add: json_string_plain plain_byte_def byte_of_def json_escape_def ascii_bytes_def)

lemma MarshalEnvelope_Inr:
  "MarshalEnvelope key kind m = Inr bs \<longleftrightarrow>
     ValidateEnvelope key kind m = None \<and> bs = envelope_json key m"
proof (cases "ValidateEnvelope key kind m")
  case None
  then have "ValidateEnvelopeKey key kind = None" "digest_ok m" by (auto simp: ValidateEnvelope_def)
  then have "json_string key = [34] @ ascii_bytes key @ [34]" "json_string m = [34] @ ascii_bytes m @ [34]"
    by (simp_all add: json_string_envelope_key json_string_hex digest_ok_def)
  with None show ?thesis
    by (auto simp: MarshalEnvelope_def envelope_json_def json_field_names ascii_bytes_def byte_of_def)
qed (simp add: MarshalEnvelope_def)

text \<open>
  C39 (safety): \<open>MarshalEnvelope\<close> produces output only for a valid envelope, and then exactly
  the JSON object of the ledger key (a kind of the closed list, a dash and 32 lowercase
  hexadecimal digits) and the manifest digest: no title, URL, path or other free text can cross
  the transport boundary. The bytes determine kind, key and manifest, so an envelope of one kind
  is never read as one of another.
\<close>

theorem envelope_transport:
  assumes "MarshalEnvelope key kind m = Inr bs"
  shows "kind \<in> set envelope_kinds \<and> (\<exists>h. hex_text 32 h \<and> key = kind @ ''-'' @ h) \<and> digest_ok m
     \<and> bs = envelope_json key m
     \<and> (MarshalEnvelope key' kind' m' = Inr bs \<longrightarrow> kind' = kind \<and> key' = key \<and> m' = m)"
proof -
  from assms have v: "ValidateEnvelope key kind m = None" and bs: "bs = envelope_json key m"
    by (simp_all add: MarshalEnvelope_Inr)
  then have k: "ValidateEnvelopeKey key kind = None" and m: "digest_ok m"
    by (simp_all add: ValidateEnvelope_def)
  have "kind' = kind \<and> key' = key \<and> m' = m" if "MarshalEnvelope key' kind' m' = Inr bs"
  proof -
    from that have k': "ValidateEnvelopeKey key' kind' = None" and m': "digest_ok m'"
      and eq: "envelope_json key' m' = envelope_json key m"
      by (simp_all add: MarshalEnvelope_Inr ValidateEnvelope_def bs)
    from eq have "key' @ ''\",\"Manifest\":\"'' @ m' @ ''\"}'' = key @ ''\",\"Manifest\":\"'' @ m @ ''\"}''"
      by (simp only: envelope_json_def ascii_bytes_inj) simp
    moreover have "length m' = length m" using m m' by (simp add: digest_ok_def)
    ultimately have "key' = key" "m' = m" by auto
    moreover from envelope_key_Split [OF k] envelope_key_Split [OF k'] \<open>key' = key\<close>
    have "kind' = kind" by auto
    ultimately show ?thesis by simp
  qed
  with k m bs show ?thesis unfolding ValidateEnvelopeKey_None by blast
qed

theorem envelope_transport_witness:
  "\<exists>bs. MarshalEnvelope (''capture-'' @ replicate 32 CHR ''0'') ''capture'' (replicate 64 CHR ''a'') = Inr bs
     \<and> bs = envelope_json (''capture-'' @ replicate 32 CHR ''0'') (replicate 64 CHR ''a'')"
proof -
  have hex: "hex_char CHR ''0''" "hex_char CHR ''a''"
    by (simp_all add: hex_char_def lower_hex_def between_def byte_of_def)
  then have "ValidateEnvelope (''capture-'' @ replicate 32 CHR ''0'') ''capture'' (replicate 64 CHR ''a'') = None"
    by (simp add: ValidateEnvelope_def digest_ok_def ValidateEnvelopeKey_None envelope_kinds_def hex_text_def)
  then obtain bs where "MarshalEnvelope (''capture-'' @ replicate 32 CHR ''0'') ''capture'' (replicate 64 CHR ''a'') = Inr bs"
    by (auto simp: MarshalEnvelope_Inr)
  then show ?thesis using envelope_transport [of _ _ _ bs] by blast
qed

section \<open>Asset paths\<close>

text \<open>How a file system walks the components of a path from a directory.\<close>

fun walk :: "string list \<Rightarrow> string list \<Rightarrow> string list" where
  "walk d [] = d"
| "walk d (e # es) =
    walk (if e = [] \<or> e = ''.'' then d else if e = ''..'' then butlast d else d @ [e]) es"

lemma walk_plain: "\<forall>e \<in> set es. e \<noteq> [] \<and> e \<noteq> ''.'' \<and> e \<noteq> ''..'' \<Longrightarrow> walk d es = d @ es"
  by (induction es arbitrary: d) auto

lemma AssetRef_Validate_None:
  "AssetRef_Validate a = None \<longleftrightarrow> as_Path a \<noteq> ''.'' \<and> ValidPath (as_Path a)
     \<and> \<not> ContainsAny (as_Path a) [CHR 0x5C, CHR '':''] \<and> (\<forall>c \<in> set (runes (as_Path a)). 32 \<le> c \<and> c \<noteq> 127)
     \<and> digest_ok (as_SHA256 a) \<and> 0 \<le> as_ByteSize a"
  by (auto simp: AssetRef_Validate_def not_less)

text \<open>
  C40 (safety): the path of an accepted asset reference, joined to any directory, names a file
  strictly below that directory, with no dot or empty components, no drive or backslash
  separators and no control bytes; two accepted references with different paths never name the
  same file.
\<close>

theorem asset_path_contained:
  assumes "AssetRef_Validate a = None" and "AssetRef_Validate b = None"
  shows "walk d (Split CHR ''/'' (as_Path a)) = d @ Split CHR ''/'' (as_Path a)
     \<and> (walk d (Split CHR ''/'' (as_Path a)) = walk d (Split CHR ''/'' (as_Path b)) \<longrightarrow> as_Path a = as_Path b)
     \<and> (\<forall>c \<in> set (as_Path a). 32 \<le> byte_of c \<and> byte_of c \<noteq> 127 \<and> c \<noteq> CHR '':'' \<and> c \<noteq> CHR 0x5C)"
proof -
  have w: "walk d (Split CHR ''/'' (as_Path x)) = d @ Split CHR ''/'' (as_Path x)"
    if "AssetRef_Validate x = None" for x
    using that by (intro walk_plain) (auto simp: AssetRef_Validate_None ValidPath_def)
  have "32 \<le> byte_of c \<and> byte_of c \<noteq> 127 \<and> c \<noteq> CHR '':'' \<and> c \<noteq> CHR 0x5C" if "c \<in> set (as_Path a)" for c
  proof (cases "byte_of c < 128")
    case True
    with that assms(1) ascii_char_is_rune [OF that True] show ?thesis
      by (auto simp: AssetRef_Validate_None ContainsAny_def)
  next
    case False
    then show ?thesis by (auto simp: byte_of_def)
  qed
  with w assms show ?thesis by (simp add: Split_inject)
qed

definition sample_digest :: Digest where
  "sample_digest = replicate 64 CHR ''0''"

lemma sample_digest_ok [simp]: "digest_ok sample_digest"
  by (simp add: sample_digest_def digest_ok_def hex_char_def lower_hex_def between_def byte_of_def)

definition sample_asset :: "string \<Rightarrow> int \<Rightarrow> AssetRef" where
  "sample_asset p n = \<lparr>as_Path = p, as_SHA256 = sample_digest, as_ByteSize = n\<rparr>"

lemma sample_asset_ok [simp]:
  "0 \<le> n \<Longrightarrow> AssetRef_Validate (sample_asset ''runs/a.json'' n) = None"
proof -
  let ?p = "''runs/a.json''"
  have "\<forall>c \<in> set ?p. 32 \<le> byte_of c \<and> byte_of c < 127" by (simp add: byte_of_def)
  then have "\<forall>r \<in> set (runes ?p). 32 \<le> r \<and> r < 127"
    using runes_ascii [of "\<lambda>r. 32 \<le> r \<and> r < 127" ?p] by fastforce
  moreover have "ValidString ?p" by (rule ValidString_ascii) (simp add: byte_of_def)
  moreover assume "0 \<le> n"
  ultimately show ?thesis
    by (auto simp: AssetRef_Validate_None sample_asset_def ValidPath_def ContainsAny_def)
qed

theorem asset_path_contained_witness:
  "walk [''data''] (Split CHR ''/'' (as_Path (sample_asset ''runs/a.json'' 7))) = [''data'', ''runs'', ''a.json'']"
proof -
  have "AssetRef_Validate (sample_asset ''runs/a.json'' 7) = None" by simp
  from asset_path_contained [OF this this, of "[''data'']"] show ?thesis
    by (simp add: sample_asset_def)
qed

end
