(* ===== verification/Frozen_Budget.thy ===== *)
theory Frozen_Budget
  imports Go_Prelude
begin

text \<open>
  Frozen allowances: the interface of a counter that is only ever decreased by what is charged
  to it (\<open>frozen_budget\<close>), and the algebra of validation steps that charge items and bytes
  while they check (\<open>charges\<close>). The bound of \<open>internal/corpus/model\<close> and the report budget of
  \<open>internal/corpus/quality\<close> interpret the interface.
\<close>

section \<open>The allowance interface\<close>

fun spend_all :: "(int \<Rightarrow> 's \<Rightarrow> 's option) \<Rightarrow> int list \<Rightarrow> 's \<Rightarrow> 's option" where
  "spend_all spend [] s = Some s"
| "spend_all spend (n # ns) s =
     (case spend n s of None \<Rightarrow> None | Some s' \<Rightarrow> spend_all spend ns s')"

locale frozen_budget =
  fixes avail :: "'s \<Rightarrow> int"
    and spend :: "int \<Rightarrow> 's \<Rightarrow> 's option"
  assumes spend_refused: "spend n s = None \<longleftrightarrow> avail s < n"
    and spend_exact: "spend n s = Some s' \<Longrightarrow> avail s' = avail s - n"
begin

lemma spend_within: "spend n s = Some s' \<Longrightarrow> 0 \<le> avail s'"
  using spend_refused [of n s] spend_exact [of n s s'] by simp

lemma spend_all_exact: "spend_all spend ns s = Some s' \<Longrightarrow> avail s' = avail s - sum_list ns"
  by (induction ns arbitrary: s) (auto split: option.splits dest: spend_exact)

text \<open>A sequence of charges is granted iff the allowance covers their sum.\<close>

lemma spend_all_granted:
  assumes "\<forall>n \<in> set ns. 0 \<le> n" and "0 \<le> avail s"
  shows "(\<exists>s'. spend_all spend ns s = Some s') \<longleftrightarrow> sum_list ns \<le> avail s"
  using assms
proof (induction ns arbitrary: s)
  case (Cons n ns)
  have pos: "0 \<le> sum_list ns" using Cons.prems by (intro sum_list_nonneg) auto
  show ?case
  proof (cases "spend n s")
    case None
    moreover from None have "avail s < n" by (simp add: spend_refused)
    ultimately show ?thesis using pos by simp
  next
    case (Some s')
    with Cons.IH [of s'] Cons.prems spend_exact [OF Some] spend_within [OF Some] show ?thesis by auto
  qed
qed simp

end

section \<open>Validation steps\<close>

text \<open>
  A step consumes part of the bound or fails; a validator is a sequence of steps, each run on
  the bound the one before left.
\<close>

type_synonym 's step = "'s \<Rightarrow> gerr + 's"

fun steps :: "'s step list \<Rightarrow> 's step" where
  "steps [] s = Inr s"
| "steps (f # fs) s = (case f s of Inl e \<Rightarrow> Inl e | Inr s' \<Rightarrow> steps fs s')"

definition check_step :: "check \<Rightarrow> 's step" where
  "check_step c s = (case c of None \<Rightarrow> Inr s | Some e \<Rightarrow> Inl e)"

definition outcome :: "gerr + 's \<Rightarrow> check" where
  "outcome r = (case r of Inl e \<Rightarrow> Some e | Inr _ \<Rightarrow> None)"

lemma outcome_simps [simp]: "outcome (Inl e) = Some e" "outcome (Inr s) = None"
  by (simp_all add: outcome_def)

definition granted :: "gerr + 's \<Rightarrow> 's option" where
  "granted r = (case r of Inl e \<Rightarrow> None | Inr s \<Rightarrow> Some s)"

lemma granted_simps [simp]: "granted (Inl e) = None" "granted (Inr s) = Some s"
  by (simp_all add: granted_def)

lemma granted_Some [simp]: "granted r = Some s \<longleftrightarrow> r = Inr s"
  by (cases r) auto

lemma granted_None: "granted r = None \<longleftrightarrow> (\<exists>e. r = Inl e)"
  by (cases r) auto

record decodedRuleBound =
  bnd_items :: int
  bnd_bytes :: int

text \<open>
  \<open>charges f i n P\<close>: from a nonnegative bound, \<open>f\<close> succeeds iff \<open>P\<close> holds and the bound covers
  \<open>i\<close> items and \<open>n\<close> bytes, and then leaves exactly what remains.
\<close>

definition charges :: "decodedRuleBound step \<Rightarrow> int \<Rightarrow> int \<Rightarrow> bool \<Rightarrow> bool" where
  "charges f i n P \<longleftrightarrow> 0 \<le> i \<and> 0 \<le> n \<and>
     (\<forall>s. 0 \<le> bnd_items s \<and> 0 \<le> bnd_bytes s \<longrightarrow>
        (if P \<and> i \<le> bnd_items s \<and> n \<le> bnd_bytes s
         then f s = Inr \<lparr>bnd_items = bnd_items s - i, bnd_bytes = bnd_bytes s - n\<rparr>
         else (\<exists>e. f s = Inl e)))"

lemma charges_cong: "charges f i n P \<Longrightarrow> i = i' \<Longrightarrow> n = n' \<Longrightarrow> P = P' \<Longrightarrow> charges f i' n' P'"
  by simp

lemma charges_check: "charges (check_step c) 0 0 (c = None)"
  by (auto simp: charges_def check_step_def)

lemma charges_Nil: "charges (steps []) 0 0 True"
  by (simp add: charges_def)

lemma charges_Cons:
  assumes f: "charges f i n P" and fs: "charges (steps fs) j m Q"
  shows "charges (steps (f # fs)) (i + j) (n + m) (P \<and> Q)"
  unfolding charges_def
proof (intro conjI allI impI)
  show "0 \<le> i + j" "0 \<le> n + m" using assms by (auto simp: charges_def)
  fix s :: decodedRuleBound
  assume s: "0 \<le> bnd_items s \<and> 0 \<le> bnd_bytes s"
  let ?s = "\<lparr>bnd_items = bnd_items s - i, bnd_bytes = bnd_bytes s - n\<rparr>"
  show "if (P \<and> Q) \<and> i + j \<le> bnd_items s \<and> n + m \<le> bnd_bytes s
         then steps (f # fs) s = Inr \<lparr>bnd_items = bnd_items s - (i + j), bnd_bytes = bnd_bytes s - (n + m)\<rparr>
         else (\<exists>e. steps (f # fs) s = Inl e)"
  proof (cases "P \<and> i \<le> bnd_items s \<and> n \<le> bnd_bytes s")
    case True
    with f s have eq: "f s = Inr ?s" by (auto simp: charges_def)
    from fs True have "if Q \<and> j \<le> bnd_items ?s \<and> m \<le> bnd_bytes ?s
         then steps fs ?s = Inr \<lparr>bnd_items = bnd_items ?s - j, bnd_bytes = bnd_bytes ?s - m\<rparr>
         else (\<exists>e. steps fs ?s = Inl e)"
      by (simp add: charges_def)
    with eq True show ?thesis by (auto split: if_splits simp: diff_diff_eq)
  next
    case False
    with f s obtain e where "f s = Inl e" by (auto simp: charges_def split: if_splits)
    moreover have "\<not> ((P \<and> Q) \<and> i + j \<le> bnd_items s \<and> n + m \<le> bnd_bytes s)"
      using False fs by (auto simp: charges_def)
    ultimately show ?thesis by (simp del: not_le)
  qed
qed

lemma charges_map:
  assumes "\<And>x. x \<in> set xs \<Longrightarrow> charges (f x) (i x) (n x) (P x)"
  shows "charges (steps (map f xs)) (\<Sum>x\<leftarrow>xs. i x) (\<Sum>x\<leftarrow>xs. n x) (\<forall>x \<in> set xs. P x)"
  using assms
proof (induction xs)
  case Nil
  then show ?case by (simp add: charges_def)
next
  case (Cons x xs)
  have "charges (steps (f x # map f xs)) (i x + (\<Sum>x\<leftarrow>xs. i x)) (n x + (\<Sum>x\<leftarrow>xs. n x)) (P x \<and> (\<forall>x \<in> set xs. P x))"
    using Cons by (intro charges_Cons) auto
  then show ?case by (simp del: steps.simps)
qed

lemma charges_enumerate:
  assumes "\<And>j x. x \<in> set xs \<Longrightarrow> charges (f j x) (i x) (n x) (P x)"
  shows "charges (steps (map (\<lambda>(j, x). f j x) (enumerate k xs)))
           (\<Sum>x\<leftarrow>xs. i x) (\<Sum>x\<leftarrow>xs. n x) (\<forall>x \<in> set xs. P x)"
  using assms
proof (induction xs arbitrary: k)
  case Nil
  then show ?case by (simp add: charges_def)
next
  case (Cons x xs)
  have "charges (steps (f k x # map (\<lambda>(j, x). f j x) (enumerate (Suc k) xs)))
      (i x + (\<Sum>x\<leftarrow>xs. i x)) (n x + (\<Sum>x\<leftarrow>xs. n x)) (P x \<and> (\<forall>x \<in> set xs. P x))"
    using Cons by (intro charges_Cons) auto
  then show ?case by (simp del: steps.simps)
qed

lemma charges_outcome:
  assumes "charges f i n P" "0 \<le> items" "0 \<le> bytes"
  shows "outcome (f \<lparr>bnd_items = items, bnd_bytes = bytes\<rparr>) = None
           \<longleftrightarrow> P \<and> i \<le> items \<and> n \<le> bytes"
  using assms unfolding charges_def
  by (auto split: if_splits dest!: spec [of _ "\<lparr>bnd_items = items, bnd_bytes = bytes\<rparr>"])

end
