(* ===== verification/Model_Blocks.thy ===== *)
theory Model_Blocks
  imports Model_Keys Frozen_Budget
begin

text \<open>
  \<open>internal/corpus/model/blocks.go\<close>, with \<open>Finding\<close> and \<open>decodedRuleBound\<close> of
  \<open>conversion.go\<close>: byte ranges and spans, converted blocks, offset maps and edit ledgers, and
  the decoded inputs of pure rules, whose validators charge every collection entry and every
  string byte to a frozen bound.
\<close>

section \<open>Ranges and spans\<close>

record ByteRange =
  br_Start :: int
  br_End :: int

definition ByteRange_Validate :: "ByteRange \<Rightarrow> check" where
  "ByteRange_Validate r =
     fails (br_Start r < 0 \<or> br_End r \<le> br_Start r) (Errorf ''byte range requires 0 <= start < end'' [])"

text \<open>Pointers to scalars are options; the validators only read them.\<close>

record Span =
  sp_ArtifactHash :: Digest
  sp_BlockID :: string
  sp_Space :: string
  sp_Range :: "ByteRange option"
  sp_Page :: "int option"
  sp_Object :: string
  sp_Member :: string
  sp_TokenOrdinal :: "int option"
  sp_ReasonCode :: string

definition Span_Validate :: "Span \<Rightarrow> check" where
  "Span_Validate s = firsterr [
     wrap ''ArtifactHash: %w'' (Digest_Validate (sp_ArtifactHash s)),
     fails (\<not> CoordinateSpace_Valid (sp_Space s)
         \<or> (case sp_Page s of None \<Rightarrow> False | Some p \<Rightarrow> p < 1)
         \<or> (case sp_TokenOrdinal s of None \<Rightarrow> False | Some t \<Rightarrow> t < 0))
       (Errorf ''invalid span coordinate or ordinal'' []),
     (case sp_Range s of
        Some r \<Rightarrow> wrap ''s.Range: %w'' (ByteRange_Validate r)
      | None \<Rightarrow> fails (sp_ReasonCode s \<noteq> ''BYTE_MAPPING_UNAVAILABLE''
            \<or> (sp_Page s = None \<and> sp_Object s = [] \<and> sp_Member s = []))
          (Errorf ''unavailable byte mapping requires reason and usable anchor'' []))]"

section \<open>Findings (conversion.go)\<close>

record Finding =
  fnd_ReasonCode :: string
  fnd_Severity :: string
  fnd_Scope :: string
  fnd_ScopeKey :: string
  fnd_Spans :: "Span list"
  fnd_Evidence :: "AssetRef list"

definition Finding_Validate :: "Finding \<Rightarrow> check" where
  "Finding_Validate f = firsterr [
     fails (fnd_ReasonCode f = [] \<or> \<not> Severity_Valid (fnd_Severity f) \<or> \<not> GapKind_Valid (fnd_Scope f)
         \<or> fnd_ScopeKey f = []) (Errorf ''finding requires reason, severity and typed scope'' []),
     each (\<lambda>s. wrap ''source span: %w'' (Span_Validate s)) (fnd_Spans f),
     each (\<lambda>a. wrap ''asset reference: %w'' (AssetRef_Validate a)) (fnd_Evidence f)]"

definition validateFindings :: "Finding list \<Rightarrow> check" where
  "validateFindings fs = each (\<lambda>f. wrap ''finding: %w'' (Finding_Validate f)) fs"

section \<open>Blocks, offset maps and edits\<close>

record Block =
  blk_ID :: string
  blk_ParentID :: string
  blk_Ordinal :: int
  blk_Kind :: string
  blk_RawText :: string
  blk_NormalizedText :: AssetRef
  blk_Language :: string
  blk_Authority :: string
  blk_SourceSpans :: "Span list"
  blk_Content :: "AssetRef option"
  blk_Findings :: "Finding list"

definition Block_Validate :: "Block \<Rightarrow> check" where
  "Block_Validate b = firsterr [
     fails (\<not> ValidString (blk_RawText b)) (Errorf ''block text must be UTF-8'' []),
     fails (blk_ID b = [] \<or> blk_ParentID b = blk_ID b \<or> blk_Ordinal b < 0 \<or> \<not> BlockKind_Valid (blk_Kind b)
         \<or> \<not> Authority_Valid (blk_Authority b) \<or> blk_Language b = [] \<or> blk_SourceSpans b = [])
       (Errorf ''invalid block identity, kind, authority or provenance'' []),
     wrap ''NormalizedText: %w'' (AssetRef_Validate (blk_NormalizedText b)),
     each (\<lambda>s. wrap ''source span: %w'' (Span_Validate s)) (blk_SourceSpans b),
     (case blk_Content b of None \<Rightarrow> None | Some a \<Rightarrow> wrap ''Content: %w'' (AssetRef_Validate a)),
     wrap ''findings: %w'' (validateFindings (blk_Findings b))]"

record OffsetMapSegment =
  oms_Sources :: "Span list"
  oms_Destinations :: "Span list"
  oms_Transform :: string
  oms_Ordinal :: int

definition OffsetMapSegment_Validate :: "OffsetMapSegment \<Rightarrow> check" where
  "OffsetMapSegment_Validate m = firsterr [
     fails (oms_Sources m = [] \<or> oms_Destinations m = [] \<or> oms_Transform m = [] \<or> oms_Ordinal m < 0)
       (Errorf ''map segment requires both sides and transform order'' []),
     each (\<lambda>spans. each (\<lambda>s. wrap ''source span: %w'' (Span_Validate s)) spans)
       [oms_Sources m, oms_Destinations m]]"

record EditLedgerEntry =
  ele_Kind :: string
  ele_Ordinal :: int
  ele_Rule :: string
  ele_Version :: string
  ele_Inputs :: "Span list"
  ele_Outputs :: "Span list"
  ele_Removed :: "AssetRef option"
  ele_Replacement :: "AssetRef option"
  ele_Evidence :: AssetRef

definition EditLedgerEntry_Validate :: "EditLedgerEntry \<Rightarrow> check" where
  "EditLedgerEntry_Validate e = firsterr [
     fails (\<not> EditKind_Valid (ele_Kind e) \<or> ele_Ordinal e < 0 \<or> ele_Rule e = [] \<or> ele_Version e = [])
       (Errorf ''invalid edit operation or rule'' []),
     fails ((ele_Kind e \<noteq> EditInsert \<and> ele_Inputs e = []) \<or> (ele_Kind e \<noteq> EditDelete \<and> ele_Outputs e = [])
         \<or> (ele_Inputs e = [] \<and> ele_Outputs e = []))
       (Errorf ''edit requires applicable input and output spans'' []),
     each (\<lambda>spans. each (\<lambda>s. wrap ''source span: %w'' (Span_Validate s)) spans) [ele_Inputs e, ele_Outputs e],
     each (\<lambda>a. case a of None \<Rightarrow> None | Some r \<Rightarrow> wrap ''asset reference: %w'' (AssetRef_Validate r))
       [ele_Removed e, ele_Replacement e],
     wrap ''e.Evidence: %w'' (AssetRef_Validate (ele_Evidence e))]"

section \<open>The decoded rule bound (conversion.go)\<close>

record RuleLimits =
  lim_MaxItems :: int
  lim_MaxBytes :: int

definition RuleLimits_Validate :: "RuleLimits \<Rightarrow> check" where
  "RuleLimits_Validate l =
     fails (lim_MaxItems l \<le> 0 \<or> lim_MaxBytes l \<le> 0) (Errorf ''rule limits must be positive'' [])"

definition new_bound :: "RuleLimits \<Rightarrow> decodedRuleBound" where
  "new_bound l = \<lparr>bnd_items = lim_MaxItems l, bnd_bytes = lim_MaxBytes l\<rparr>"

definition bound_collection :: "int \<Rightarrow> decodedRuleBound step" where
  "bound_collection count b =
     (if count > bnd_items b then Inl (Errorf ''decoded input exceeds frozen item bound'' [])
      else Inr (b\<lparr>bnd_items := bnd_items b - count\<rparr>))"

text \<open>
  In \<open>strings\<close>, the length check and the subtraction (\<open>bound_bytes\<close>) precede the UTF-8 scan of
  each value.
\<close>

definition bound_bytes :: "int \<Rightarrow> decodedRuleBound step" where
  "bound_bytes n b =
     (if n > bnd_bytes b then Inl (Errorf ''decoded input exceeds frozen byte bound'' [])
      else Inr (b\<lparr>bnd_bytes := bnd_bytes b - n\<rparr>))"

fun bound_strings :: "string list \<Rightarrow> decodedRuleBound step" where
  "bound_strings [] b = Inr b"
| "bound_strings (v # vs) b =
     (case bound_bytes (int (length v)) b of
        Inl e \<Rightarrow> Inl e
      | Inr b' \<Rightarrow> if \<not> ValidString v then Inl (Errorf ''decoded input requires valid UTF-8'' [])
          else bound_strings vs b')"

definition bound_span :: "Span \<Rightarrow> decodedRuleBound step" where
  "bound_span s = bound_strings
     [sp_ArtifactHash s, sp_BlockID s, sp_Space s, sp_Object s, sp_Member s, sp_ReasonCode s]"

section \<open>Decoded rule inputs\<close>

record DecodedBlock =
  dbl_ID :: string
  dbl_ParentID :: string
  dbl_Kind :: string
  dbl_RawText :: string
  dbl_NormalizedText :: string
  dbl_Language :: string
  dbl_Authority :: string
  dbl_SourceSpans :: "Span list"

record DecodedDocument =
  dec_OriginalHash :: Digest
  dec_CandidateDigest :: Digest
  dec_Blocks :: "DecodedBlock list"
  dec_Limits :: RuleLimits

text \<open>A span of a bounded collection: its strings are charged before it is validated.\<close>

definition bounded_span :: "string \<Rightarrow> farg list \<Rightarrow> Span \<Rightarrow> decodedRuleBound step" where
  "bounded_span f as s = steps [
     bound_span s,
     check_step (map_option (\<lambda>e. Wrapf f as [e]) (Span_Validate s))]"

definition bounded_spans :: "string \<Rightarrow> (int \<Rightarrow> farg list) \<Rightarrow> Span list \<Rightarrow> decodedRuleBound step" where
  "bounded_spans f as spans = steps (map (\<lambda>(j, s). bounded_span f (as (int j)) s) (enumerate 0 spans))"

text \<open>The body of the block loop; \<open>seen\<close> holds the IDs of the blocks before.\<close>

definition decoded_block :: "nat \<Rightarrow> string list \<Rightarrow> DecodedBlock \<Rightarrow> decodedRuleBound step" where
  "decoded_block i seen b = steps [
     bound_collection (int (length (dbl_SourceSpans b))),
     bound_strings [dbl_ID b, dbl_ParentID b, dbl_Kind b, dbl_RawText b, dbl_NormalizedText b,
       dbl_Language b, dbl_Authority b],
     check_step (fails (dbl_ID b = [] \<or> dbl_ID b \<in> set seen \<or> \<not> BlockKind_Valid (dbl_Kind b)
         \<or> \<not> Authority_Valid (dbl_Authority b) \<or> dbl_Language b = [] \<or> dbl_SourceSpans b = [])
       (Errorf ''decoded block %d requires identity and provenance'' [FInt (int i)])),
     bounded_spans ''block %d span %d: %w'' (\<lambda>j. [FInt (int i), FInt j]) (dbl_SourceSpans b)]"

fun decoded_blocks :: "nat \<Rightarrow> string list \<Rightarrow> DecodedBlock list \<Rightarrow> decodedRuleBound step list" where
  "decoded_blocks i seen [] = []"
| "decoded_blocks i seen (b # bs) = decoded_block i seen b # decoded_blocks (Suc i) (dbl_ID b # seen) bs"

definition DecodedDocument_Validate :: "DecodedDocument \<Rightarrow> check" where
  "DecodedDocument_Validate d = firsterr [
     wrap ''limits: %w'' (RuleLimits_Validate (dec_Limits d)),
     outcome (steps ([
       bound_collection (int (length (dec_Blocks d))),
       bound_strings [dec_OriginalHash d, dec_CandidateDigest d],
       check_step (each (\<lambda>(name, h). map_option (\<lambda>e. Wrapf ''%s hash: %w'' [FStr name] [e]) (Digest_Validate h))
         [(''original'', dec_OriginalHash d), (''candidate'', dec_CandidateDigest d)])]
       @ decoded_blocks 0 [] (dec_Blocks d)) (new_bound (dec_Limits d)))]"

record TextInput =
  txt_Text :: string
  txt_Sources :: "Span list"
  txt_Limits :: RuleLimits

definition TextInput_Validate :: "TextInput \<Rightarrow> check" where
  "TextInput_Validate i = firsterr [
     wrap ''limits: %w'' (RuleLimits_Validate (txt_Limits i)),
     outcome (steps [
       bound_collection (int (length (txt_Sources i))),
       bound_strings [txt_Text i],
       check_step (fails (txt_Sources i = []) (Errorf ''text input requires source spans'' [])),
       bounded_spans ''source span %d: %w'' (\<lambda>n. [FInt n]) (txt_Sources i)] (new_bound (txt_Limits i)))]"

record SourceNode =
  sn_ID :: string
  sn_ParentID :: string
  sn_Label :: string
  sn_BlockIDs :: "string list"
  sn_Sources :: "Span list"

record SourceTree =
  tree_Nodes :: "SourceNode list"
  tree_Limits :: RuleLimits

definition source_node :: "nat \<Rightarrow> SourceNode \<Rightarrow> decodedRuleBound step" where
  "source_node i n = steps [
     bound_collection (int (length (sn_Sources n))),
     bound_collection (int (length (sn_BlockIDs n))),
     bound_strings [sn_ID n, sn_ParentID n, sn_Label n],
     check_step (fails (sn_ID n = [] \<or> sn_Sources n = [])
       (Errorf ''source node %d requires identity and provenance'' [FInt (int i)])),
     steps (map (\<lambda>x. bound_strings [x]) (sn_BlockIDs n)),
     bounded_spans ''source node %d span %d: %w'' (\<lambda>j. [FInt (int i), FInt j]) (sn_Sources n)]"

definition SourceTree_Validate :: "SourceTree \<Rightarrow> check" where
  "SourceTree_Validate t = firsterr [
     wrap ''limits: %w'' (RuleLimits_Validate (tree_Limits t)),
     outcome (steps (bound_collection (int (length (tree_Nodes t)))
       # map (\<lambda>(i, n). source_node i n) (enumerate 0 (tree_Nodes t))) (new_bound (tree_Limits t)))]"

section \<open>What the bound charges\<close>

interpretation bound_items: frozen_budget bnd_items "\<lambda>n b. granted (bound_collection n b)"
  by unfold_locales (auto simp: bound_collection_def split: if_splits)

interpretation bound_bytes: frozen_budget bnd_bytes "\<lambda>n b. granted (bound_bytes n b)"
  by unfold_locales (auto simp: bound_bytes_def split: if_splits)

lemma bound_strings_spend:
  "granted (bound_strings vs b) =
     (if \<forall>v \<in> set vs. ValidString v
      then spend_all (\<lambda>n b. granted (bound_bytes n b)) (map (\<lambda>v. int (length v)) vs) b else None)"
  by (induction vs b rule: bound_strings.induct) (auto split: sum.splits option.splits)

lemma bound_strings_items: "bound_strings vs b = Inr b' \<Longrightarrow> bnd_items b' = bnd_items b"
  by (induction vs b rule: bound_strings.induct) (auto simp: bound_bytes_def split: sum.splits if_splits)

definition byte_count :: "string list \<Rightarrow> int" where
  "byte_count vs = (\<Sum>v\<leftarrow>vs. int (length v))"

lemma byte_count_nonneg [simp]: "0 \<le> byte_count vs"
  by (auto simp: byte_count_def intro!: sum_list_nonneg)

lemma charges_collection: "charges (bound_collection (int n)) (int n) 0 True"
  by (auto simp: charges_def bound_collection_def)

lemma charges_strings: "charges (bound_strings vs) 0 (byte_count vs) (\<forall>v \<in> set vs. ValidString v)"
  unfolding charges_def
proof (intro conjI allI impI)
  fix s :: decodedRuleBound
  assume s: "0 \<le> bnd_items s \<and> 0 \<le> bnd_bytes s"
  let ?ns = "map (\<lambda>v. int (length v)) vs"
  have sum: "sum_list ?ns = byte_count vs" by (simp add: byte_count_def)
  from s have iff: "(\<exists>s'. spend_all (\<lambda>n b. granted (bound_bytes n b)) ?ns s = Some s') \<longleftrightarrow> byte_count vs \<le> bnd_bytes s"
    using bound_bytes.spend_all_granted [of ?ns s] sum by simp
  show "if (\<forall>v\<in>set vs. ValidString v) \<and> 0 \<le> bnd_items s \<and> byte_count vs \<le> bnd_bytes s
      then bound_strings vs s = Inr \<lparr>bnd_items = bnd_items s - 0, bnd_bytes = bnd_bytes s - byte_count vs\<rparr>
      else \<exists>e. bound_strings vs s = Inl e"
  proof (cases "bound_strings vs s")
    case (Inl e)
    with iff s show ?thesis using bound_strings_spend [of vs s] by (auto split: if_splits)
  next
    case (Inr s')
    then have sp: "\<forall>v\<in>set vs. ValidString v" "spend_all (\<lambda>n b. granted (bound_bytes n b)) ?ns s = Some s'"
      using bound_strings_spend [of vs s] by (auto split: if_splits)
    have "bnd_items s' = bnd_items s" "bnd_bytes s' = bnd_bytes s - byte_count vs"
      using bound_strings_items [OF Inr] bound_bytes.spend_all_exact [OF sp(2)] sum by simp_all
    with Inr sp iff s show ?thesis by auto
  qed
qed simp_all

definition span_strings :: "Span \<Rightarrow> string list" where
  "span_strings s = [sp_ArtifactHash s, sp_BlockID s, sp_Space s, sp_Object s, sp_Member s, sp_ReasonCode s]"

definition span_ok :: "Span \<Rightarrow> bool" where
  "span_ok s \<longleftrightarrow> (\<forall>v \<in> set (span_strings s). ValidString v) \<and> Span_Validate s = None"

lemma charges_bounded_span: "charges (bounded_span f as s) 0 (byte_count (span_strings s)) (span_ok s)"
  unfolding bounded_span_def bound_span_def span_ok_def span_strings_def
  by (rule charges_cong [OF charges_Cons [OF charges_strings charges_Cons [OF charges_check charges_Nil]]])
    (auto simp: span_strings_def)

lemma charges_bounded_spans:
  "charges (bounded_spans f as spans) 0 (\<Sum>s\<leftarrow>spans. byte_count (span_strings s)) (\<forall>s \<in> set spans. span_ok s)"
  unfolding bounded_spans_def
  by (rule charges_cong [OF charges_enumerate [where i = "\<lambda>_. 0", OF charges_bounded_span]]) simp_all

section \<open>Decoded documents, texts and trees\<close>

lemma byte_count_append [simp]: "byte_count (vs @ ws) = byte_count vs + byte_count ws"
  by (simp add: byte_count_def)

lemma byte_count_Nil [simp]: "byte_count [] = 0"
  by (simp add: byte_count_def)

lemma byte_count_Cons [simp]: "byte_count (v # vs) = int (length v) + byte_count vs"
  by (simp add: byte_count_def)

lemma byte_count_concat: "byte_count (concat (map f xs)) = (\<Sum>x\<leftarrow>xs. byte_count (f x))"
  by (induction xs) (simp_all add: byte_count_def)

definition spans_strings :: "Span list \<Rightarrow> string list" where
  "spans_strings spans = concat (map span_strings spans)"

lemma byte_count_spans: "(\<Sum>s\<leftarrow>spans. byte_count (span_strings s)) = byte_count (spans_strings spans)"
  by (simp add: spans_strings_def byte_count_concat)

definition block_strings :: "DecodedBlock \<Rightarrow> string list" where
  "block_strings b = [dbl_ID b, dbl_ParentID b, dbl_Kind b, dbl_RawText b, dbl_NormalizedText b,
     dbl_Language b, dbl_Authority b] @ spans_strings (dbl_SourceSpans b)"

definition decoded_strings :: "DecodedDocument \<Rightarrow> string list" where
  "decoded_strings d = [dec_OriginalHash d, dec_CandidateDigest d] @ concat (map block_strings (dec_Blocks d))"

definition decoded_items :: "DecodedDocument \<Rightarrow> int" where
  "decoded_items d = int (length (dec_Blocks d)) + (\<Sum>b\<leftarrow>dec_Blocks d. int (length (dbl_SourceSpans b)))"

definition block_ok :: "DecodedBlock \<Rightarrow> bool" where
  "block_ok b \<longleftrightarrow> dbl_ID b \<noteq> [] \<and> BlockKind_Valid (dbl_Kind b) \<and> Authority_Valid (dbl_Authority b)
     \<and> dbl_Language b \<noteq> [] \<and> dbl_SourceSpans b \<noteq> []
     \<and> list_all (\<lambda>s. Span_Validate s = None) (dbl_SourceSpans b)"

lemma spans_ok_iff:
  "(\<forall>s \<in> set spans. span_ok s) \<longleftrightarrow>
     list_all ValidString (spans_strings spans) \<and> list_all (\<lambda>s. Span_Validate s = None) spans"
  by (auto simp: span_ok_def spans_strings_def list_all_iff)

lemma charges_decoded_block:
  "charges (decoded_block i seen b) (int (length (dbl_SourceSpans b))) (byte_count (block_strings b))
     (list_all ValidString (block_strings b) \<and> block_ok b \<and> dbl_ID b \<notin> set seen)"
  unfolding decoded_block_def
  by (rule charges_cong [OF charges_Cons [OF charges_collection charges_Cons [OF charges_strings
        charges_Cons [OF charges_check charges_Cons [OF charges_bounded_spans charges_Nil]]]]])
    (auto simp: block_strings_def byte_count_spans spans_ok_iff block_ok_def list_all_iff)

lemma charges_decoded_blocks:
  "charges (steps (decoded_blocks i seen bs)) (\<Sum>b\<leftarrow>bs. int (length (dbl_SourceSpans b)))
     (\<Sum>b\<leftarrow>bs. byte_count (block_strings b))
     (list_all ValidString (concat (map block_strings bs)) \<and> list_all block_ok bs
       \<and> distinct (map dbl_ID bs) \<and> set (map dbl_ID bs) \<inter> set seen = {})"
proof (induction bs arbitrary: i seen)
  case Nil
  then show ?case by (simp add: charges_def)
next
  case (Cons b bs)
  show ?case unfolding decoded_blocks.simps
    by (rule charges_cong [OF charges_Cons [OF charges_decoded_block Cons.IH]]) auto
qed

lemma RuleLimits_Validate_None [simp]:
  "RuleLimits_Validate l = None \<longleftrightarrow> 0 < lim_MaxItems l \<and> 0 < lim_MaxBytes l"
  by (auto simp: RuleLimits_Validate_def)

lemma bounded_outcome:
  assumes "charges f i n P"
  shows "firsterr [wrap m (RuleLimits_Validate l), outcome (f (new_bound l))] = None \<longleftrightarrow>
     0 < lim_MaxItems l \<and> 0 < lim_MaxBytes l \<and> P \<and> i \<le> lim_MaxItems l \<and> n \<le> lim_MaxBytes l"
  using charges_outcome [OF assms, of "lim_MaxItems l" "lim_MaxBytes l"]
  by (auto simp: new_bound_def)

text \<open>
  C38 (bounds): \<open>DecodedDocument.Validate\<close> accepts exactly the documents whose limits are
  positive, whose blocks and spans together number at most \<open>MaxItems\<close>, whose strings (hashes,
  enumeration values and provenance included) together have at most \<open>MaxBytes\<close> bytes, whose
  strings are all UTF-8, whose hashes are digests, and whose blocks have distinct nonempty
  identities, known kinds, a language and valid provenance. The interleaving of charging and
  checking in the code neither admits nor rejects more.
\<close>

theorem decoded_document_accepted:
  "DecodedDocument_Validate d = None \<longleftrightarrow>
     0 < lim_MaxItems (dec_Limits d) \<and> 0 < lim_MaxBytes (dec_Limits d)
     \<and> decoded_items d \<le> lim_MaxItems (dec_Limits d)
     \<and> byte_count (decoded_strings d) \<le> lim_MaxBytes (dec_Limits d)
     \<and> list_all ValidString (decoded_strings d)
     \<and> digest_ok (dec_OriginalHash d) \<and> digest_ok (dec_CandidateDigest d)
     \<and> distinct (map dbl_ID (dec_Blocks d)) \<and> list_all block_ok (dec_Blocks d)"
proof -
  have "charges (steps ([bound_collection (int (length (dec_Blocks d))),
       bound_strings [dec_OriginalHash d, dec_CandidateDigest d],
       check_step (each (\<lambda>(name, h). map_option (\<lambda>e. Wrapf ''%s hash: %w'' [FStr name] [e]) (Digest_Validate h))
         [(''original'', dec_OriginalHash d), (''candidate'', dec_CandidateDigest d)])]
       @ decoded_blocks 0 [] (dec_Blocks d)))
     (decoded_items d) (byte_count (decoded_strings d))
     (list_all ValidString (decoded_strings d) \<and> digest_ok (dec_OriginalHash d)
       \<and> digest_ok (dec_CandidateDigest d) \<and> distinct (map dbl_ID (dec_Blocks d))
       \<and> list_all block_ok (dec_Blocks d))"
    unfolding append.simps
    by (rule charges_cong [OF charges_Cons [OF charges_collection charges_Cons [OF charges_strings
          charges_Cons [OF charges_check charges_decoded_blocks]]]])
      (auto simp: decoded_items_def decoded_strings_def byte_count_concat list_all_iff)
  then show ?thesis unfolding DecodedDocument_Validate_def
    by (subst bounded_outcome) auto
qed

definition node_strings :: "SourceNode \<Rightarrow> string list" where
  "node_strings n = [sn_ID n, sn_ParentID n, sn_Label n] @ sn_BlockIDs n @ spans_strings (sn_Sources n)"

definition node_ok :: "SourceNode \<Rightarrow> bool" where
  "node_ok n \<longleftrightarrow> sn_ID n \<noteq> [] \<and> sn_Sources n \<noteq> [] \<and> list_all (\<lambda>s. Span_Validate s = None) (sn_Sources n)"

definition tree_items :: "SourceTree \<Rightarrow> int" where
  "tree_items t = int (length (tree_Nodes t))
     + (\<Sum>n\<leftarrow>tree_Nodes t. int (length (sn_Sources n)) + int (length (sn_BlockIDs n)))"

definition tree_strings :: "SourceTree \<Rightarrow> string list" where
  "tree_strings t = concat (map node_strings (tree_Nodes t))"

lemma charges_singletons:
  "charges (steps (map (\<lambda>x. bound_strings [x]) xs)) 0 (byte_count xs) (list_all ValidString xs)"
  by (rule charges_cong [OF charges_map [where i = "\<lambda>_. 0", OF charges_strings]])
    (auto simp: byte_count_def list_all_iff)

lemma charges_source_node:
  "charges (source_node i n) (int (length (sn_Sources n)) + int (length (sn_BlockIDs n)))
     (byte_count (node_strings n)) (list_all ValidString (node_strings n) \<and> node_ok n)"
  unfolding source_node_def
  by (rule charges_cong [OF charges_Cons [OF charges_collection charges_Cons [OF charges_collection
        charges_Cons [OF charges_strings charges_Cons [OF charges_check charges_Cons [OF charges_singletons
        charges_Cons [OF charges_bounded_spans charges_Nil]]]]]]])
    (auto simp: node_strings_def byte_count_spans spans_ok_iff node_ok_def list_all_iff)

text \<open>
  \<open>SourceTree.Validate\<close> accepts exactly the trees with positive limits whose
  nodes, sources and block IDs together number at most \<open>MaxItems\<close>, whose strings have at most
  \<open>MaxBytes\<close> bytes and are UTF-8, and whose nodes have an identity and valid provenance. It
  does not check that node IDs are distinct or that parents exist.
\<close>

theorem source_tree_accepted:
  "SourceTree_Validate t = None \<longleftrightarrow>
     0 < lim_MaxItems (tree_Limits t) \<and> 0 < lim_MaxBytes (tree_Limits t)
     \<and> tree_items t \<le> lim_MaxItems (tree_Limits t)
     \<and> byte_count (tree_strings t) \<le> lim_MaxBytes (tree_Limits t)
     \<and> list_all ValidString (tree_strings t) \<and> list_all node_ok (tree_Nodes t)"
proof -
  have "charges (steps (bound_collection (int (length (tree_Nodes t)))
       # map (\<lambda>(i, n). source_node i n) (enumerate 0 (tree_Nodes t))))
     (tree_items t) (byte_count (tree_strings t))
     (list_all ValidString (tree_strings t) \<and> list_all node_ok (tree_Nodes t))"
    by (rule charges_cong [OF charges_Cons [OF charges_collection charges_enumerate [OF charges_source_node]]])
      (auto simp: tree_items_def tree_strings_def byte_count_concat list_all_iff)
  then show ?thesis unfolding SourceTree_Validate_def
    by (subst bounded_outcome) auto
qed

text \<open>\<open>TextInput.Validate\<close>, likewise.\<close>

lemma text_input_accepted:
  "TextInput_Validate i = None \<longleftrightarrow>
     0 < lim_MaxItems (txt_Limits i) \<and> 0 < lim_MaxBytes (txt_Limits i)
     \<and> int (length (txt_Sources i)) \<le> lim_MaxItems (txt_Limits i)
     \<and> byte_count (txt_Text i # spans_strings (txt_Sources i)) \<le> lim_MaxBytes (txt_Limits i)
     \<and> list_all ValidString (txt_Text i # spans_strings (txt_Sources i))
     \<and> txt_Sources i \<noteq> [] \<and> list_all (\<lambda>s. Span_Validate s = None) (txt_Sources i)"
proof -
  have "charges (steps [
       bound_collection (int (length (txt_Sources i))),
       bound_strings [txt_Text i],
       check_step (fails (txt_Sources i = []) (Errorf ''text input requires source spans'' [])),
       bounded_spans ''source span %d: %w'' (\<lambda>n. [FInt n]) (txt_Sources i)])
     (int (length (txt_Sources i))) (byte_count (txt_Text i # spans_strings (txt_Sources i)))
     (list_all ValidString (txt_Text i # spans_strings (txt_Sources i))
       \<and> txt_Sources i \<noteq> [] \<and> list_all (\<lambda>s. Span_Validate s = None) (txt_Sources i))"
    by (rule charges_cong [OF charges_Cons [OF charges_collection charges_Cons [OF charges_strings
          charges_Cons [OF charges_check charges_Cons [OF charges_bounded_spans charges_Nil]]]]])
      (auto simp: byte_count_spans spans_ok_iff list_all_iff)
  then show ?thesis unfolding TextInput_Validate_def
    by (subst bounded_outcome) auto
qed

end
