(* ===== verification/Parent_Forest.thy ===== *)
theory Parent_Forest
  imports Go_Prelude
begin

text \<open>
  Parent maps: identities with the identity of their parent, the empty string for none. The
  specification of the cycle checks of \<open>ConvertedDocument.Validate\<close> and of the quality gate's
  \<open>validParents\<close> (\<open>forest\<close>), and what any checker that decides it gives its callers
  (\<open>forest_check\<close>). A Go map is an association list here, with its iteration order as an
  argument of the checkers.
\<close>

type_synonym parent_map = "(string \<times> string) list"

text \<open>Following parents from an identity ends at the empty string.\<close>

inductive rooted :: "parent_map \<Rightarrow> string \<Rightarrow> bool" where
  rooted_Nil: "rooted ps []"
| rooted_parent: "x \<noteq> [] \<Longrightarrow> map_of ps x = Some p \<Longrightarrow> rooted ps p \<Longrightarrow> rooted ps x"

inductive_cases rooted_elim: "rooted ps x"

definition parent_step :: "parent_map \<Rightarrow> (string \<times> string) set" where
  "parent_step ps = {(x, p). x \<noteq> [] \<and> map_of ps x = Some p}"

definition forest :: "parent_map \<Rightarrow> bool" where
  "forest ps \<longleftrightarrow> (\<forall>x \<in> fst ` set ps. rooted ps x)"

lemma rooted_parent_iff: "x \<noteq> [] \<Longrightarrow> map_of ps x = Some p \<Longrightarrow> rooted ps x \<longleftrightarrow> rooted ps p"
  by (auto intro: rooted.intros elim: rooted_elim)

lemma rooted_unknown: "x \<noteq> [] \<Longrightarrow> map_of ps x = None \<Longrightarrow> \<not> rooted ps x"
  by (auto elim: rooted_elim)

lemma rooted_cong: "map_of ps = map_of qs \<Longrightarrow> rooted ps x \<longleftrightarrow> rooted qs x"
proof -
  have "rooted ps x \<Longrightarrow> map_of ps = map_of qs \<Longrightarrow> rooted qs x" for ps qs x
    by (induction rule: rooted.induct) (auto intro: rooted.intros)
  then show "map_of ps = map_of qs \<Longrightarrow> rooted ps x \<longleftrightarrow> rooted qs x" by metis
qed

lemma map_of_rev: "distinct (map fst ps) \<Longrightarrow> map_of (rev ps) = map_of ps"
proof -
  assume d: "distinct (map fst ps)"
  then have "map_of (rev ps) k = Some v \<longleftrightarrow> map_of ps k = Some v" for k v
    by (simp add: map_of_eq_Some_iff rev_map [symmetric])
  then show ?thesis by (metis not_None_eq ext)
qed

lemma forest_rev: "distinct (map fst ps) \<Longrightarrow> forest (rev ps) \<longleftrightarrow> forest ps"
  by (simp add: forest_def rooted_cong [OF map_of_rev])

lemma parent_step_functional: "(x, p) \<in> parent_step ps \<Longrightarrow> (x, q) \<in> parent_step ps \<Longrightarrow> p = q"
  by (simp add: parent_step_def)

lemma parent_step_trancl:
  assumes "(x, p) \<in> parent_step ps" "(x, y) \<in> (parent_step ps)^+"
  shows "(p, y) \<in> (parent_step ps)^*"
  using assms by (metis parent_step_functional tranclD)

lemma rooted_acyclic: "rooted ps x \<Longrightarrow> (x, x) \<notin> (parent_step ps)^+"
proof (induction rule: rooted.induct)
  case (rooted_Nil ps)
  then show ?case by (auto simp: parent_step_def dest: tranclD)
next
  case (rooted_parent x ps p)
  have s: "(x, p) \<in> parent_step ps" using rooted_parent by (simp add: parent_step_def)
  show ?case
  proof
    assume "(x, x) \<in> (parent_step ps)^+"
    then have "(p, x) \<in> (parent_step ps)^*" by (rule parent_step_trancl [OF s])
    from this s have "(p, p) \<in> (parent_step ps)^+" by (rule rtrancl_into_trancl1)
    with rooted_parent show False by blast
  qed
qed

locale forest_check =
  fixes accept :: "parent_map \<Rightarrow> string list \<Rightarrow> bool"
  assumes accept_iff: "set order = fst ` set ps \<Longrightarrow> accept ps order \<longleftrightarrow> forest ps"
begin

lemma order_irrelevant:
  "set order = fst ` set ps \<Longrightarrow> set order' = fst ` set ps \<Longrightarrow> accept ps order \<longleftrightarrow> accept ps order'"
  by (simp add: accept_iff)

lemma accepted_closed:
  assumes "set order = fst ` set ps" "accept ps order" "map_of ps x = Some p" "x \<noteq> []" "p \<noteq> []"
  shows "p \<in> fst ` set ps"
proof -
  have "x \<in> fst ` set ps" using assms(3) by (metis image_eqI fst_conv map_of_SomeD)
  with assms have "rooted ps p" by (auto simp: accept_iff forest_def rooted_parent_iff)
  with assms(5) have "map_of ps p \<noteq> None" by (auto elim: rooted_elim)
  then show ?thesis by (simp add: map_of_eq_None_iff)
qed

lemma accepted_acyclic:
  assumes "set order = fst ` set ps" "accept ps order"
  shows "(x, x) \<notin> (parent_step ps)^+"
proof
  assume c: "(x, x) \<in> (parent_step ps)^+"
  then obtain p where "(x, p) \<in> parent_step ps" by (meson tranclD)
  then have "x \<in> fst ` set ps" by (force simp: parent_step_def dest: map_of_SomeD)
  with assms have "rooted ps x" by (auto simp: accept_iff forest_def)
  with c show False by (simp add: rooted_acyclic)
qed

end

end
