(* ===== verification/Model_Conversion.thy ===== *)
theory Model_Conversion
  imports Model_Blocks Parent_Forest
begin

text \<open>
  \<open>internal/corpus/model/conversion.go\<close>: the converted document with its parent cycle check,
  quality metrics, reports and profiles, and part results (staged and decoded).
\<close>

section \<open>Converted documents\<close>



text \<open>
  The inner loop of the cycle check: from \<open>current\<close> up the parents, states 1 (visiting) and 2
  (visited); it returns the states and the path it marked. Each turn marks an identity that had
  neither state, so it ends.
\<close>

function climb :: "parent_map \<Rightarrow> (string \<Rightarrow> nat) \<Rightarrow> string list \<Rightarrow> string \<Rightarrow> gerr + (string \<Rightarrow> nat) \<times> string list" where
  "climb parents states path current =
    (if current = [] then Inr (states, path)
     else case map_of parents current of
       None \<Rightarrow> Inl (Errorf ''unknown block parent'' [])
     | Some p \<Rightarrow>
         if states current = 1 then Inl (Errorf ''cyclic block parents'' [])
         else if states current = 2 then Inr (states, path)
         else climb parents (states(current := 1)) (path @ [current]) p)"
  by pat_completeness auto
termination
proof (relation "measure (\<lambda>(parents, states, path, current).
    length (filter (\<lambda>x. states x \<noteq> 1 \<and> states x \<noteq> 2) (map fst parents)))")
  fix parents :: parent_map and states :: "string \<Rightarrow> nat" and path current p
  assume a: "map_of parents current = Some p" "states current \<noteq> 1" "states current \<noteq> 2"
  then have "current \<in> set (map fst parents)" by (force dest: map_of_SomeD)
  with a show "((parents, states(current := 1), path @ [current], p), (parents, states, path, current)) \<in>
      measure (\<lambda>(parents, states, path, current).
        length (filter (\<lambda>x. states x \<noteq> 1 \<and> states x \<noteq> 2) (map fst parents)))"
    by (simp only: in_measure prod.case) (rule length_filter_strict, auto split: if_splits)
qed auto

declare climb.simps [simp del]

definition mark_visited :: "(string \<Rightarrow> nat) \<Rightarrow> string list \<Rightarrow> (string \<Rightarrow> nat)" where
  "mark_visited states path = (\<lambda>x. if x \<in> set path then 2 else states x)"

text \<open>The outer loop, over the map's identities in iteration order.\<close>

fun climb_all :: "parent_map \<Rightarrow> (string \<Rightarrow> nat) \<Rightarrow> string list \<Rightarrow> check" where
  "climb_all parents states [] = None"
| "climb_all parents states (i # ids) =
    (if states i = 2 then climb_all parents states ids
     else case climb parents states [] i of
       Inl e \<Rightarrow> Some e
     | Inr (states', path) \<Rightarrow> climb_all parents (mark_visited states' path) ids)"

text \<open>Climbing succeeds from rooted identities only, and fails from unrooted ones only.\<close>

lemma climb_Inr:
  assumes "climb ps st path cur = Inr (st', path')" "\<And>x. st x = 2 \<Longrightarrow> rooted ps x"
  shows "rooted ps cur \<and> (\<exists>new. path' = path @ new \<and> (\<forall>x \<in> set new. rooted ps x)
           \<and> st' = (\<lambda>x. if x \<in> set new then 1 else st x))"
  using assms
proof (induction ps st path cur rule: climb.induct)
  case (1 ps st path cur)
  show ?case
  proof (cases "cur = [] \<or> st cur = 2")
    case True
    with "1.prems" show ?thesis
      by (auto simp: climb.simps [of ps st path cur] rooted_Nil split: option.splits if_splits intro!: exI [of _ "[]"])
  next
    case False
    with "1.prems"(1) obtain p where p: "map_of ps cur = Some p" and st: "st cur \<noteq> 1" "st cur \<noteq> 2"
      and rec: "climb ps (st(cur := 1)) (path @ [cur]) p = Inr (st', path')"
      by (auto simp: climb.simps [of ps st path cur] split: option.splits if_splits)
    have "\<And>x. (st(cur := 1)) x = 2 \<Longrightarrow> rooted ps x"
      using "1.prems"(2) by (auto split: if_splits)
    from "1.IH" [OF _ p st rec this] False obtain new where r: "rooted ps p"
      and new: "path' = (path @ [cur]) @ new" "\<forall>x \<in> set new. rooted ps x"
        "st' = (\<lambda>x. if x \<in> set new then 1 else (st(cur := 1)) x)" by blast
    have "rooted ps cur" using False p r by (simp add: rooted_parent_iff)
    with new show ?thesis by (auto intro!: exI [of _ "cur # new"])
  qed
qed

lemma climb_Inl:
  assumes "climb ps st path cur = Inl e" "\<And>x. st x = 1 \<Longrightarrow> (x, cur) \<in> (parent_step ps)^+"
  shows "\<not> rooted ps cur"
  using assms
proof (induction ps st path cur rule: climb.induct)
  case (1 ps st path cur)
  have ne: "cur \<noteq> []" using "1.prems"(1) by (auto simp: climb.simps [of ps st path cur])
  show ?case
  proof (cases "map_of ps cur")
    case None
    with ne show ?thesis by (rule rooted_unknown)
  next
    case (Some p)
    show ?thesis
    proof (cases "st cur = 1")
      case True
      with "1.prems"(2) show ?thesis using rooted_acyclic by blast
    next
      case False
      have st: "st cur \<noteq> 2" using False Some ne "1.prems"(1) by (auto simp: climb.simps [of ps st path cur])
      have rec: "climb ps (st(cur := 1)) (path @ [cur]) p = Inl e"
        using False Some ne st "1.prems"(1) by (simp add: climb.simps [of ps st path cur])
      have step: "(cur, p) \<in> parent_step ps" using ne Some by (simp add: parent_step_def)
      have "\<And>x. (st(cur := 1)) x = 1 \<Longrightarrow> (x, p) \<in> (parent_step ps)^+"
        using "1.prems"(2) step by (metis fun_upd_other r_into_trancl trancl_into_trancl)
      from "1.IH" [OF ne Some False st rec this] show ?thesis
        using ne Some by (simp add: rooted_parent_iff)
    qed
  qed
qed

lemma climb_all_rooted:
  assumes "\<And>x. st x \<noteq> 1" "\<And>x. st x = 2 \<Longrightarrow> rooted ps x"
  shows "climb_all ps st ids = None \<longleftrightarrow> (\<forall>i \<in> set ids. rooted ps i)"
  using assms
proof (induction ids arbitrary: st)
  case (Cons i ids)
  show ?case
  proof (cases "st i = 2")
    case True
    with Cons show ?thesis by simp
  next
    case False
    show ?thesis
    proof (cases "climb ps st [] i")
      case (Inl e)
      with Cons.prems(1) have "\<not> rooted ps i" by (intro climb_Inl) auto
      with False Inl show ?thesis by simp
    next
      case (Inr r)
      obtain st' path where r: "r = (st', path)" by (cases r)
      from climb_Inr [OF Inr [unfolded r] Cons.prems(2)] have "rooted ps i" "\<forall>x \<in> set path. rooted ps x"
        "st' = (\<lambda>x. if x \<in> set path then 1 else st x)" by auto
      with Cons.IH [of "mark_visited st' path"] Cons.prems False Inr r show ?thesis
        by (auto simp: mark_visited_def split: if_splits)
    qed
  qed
qed simp

interpretation climbing: forest_check "\<lambda>ps order. climb_all ps (\<lambda>_. 0) order = None"
  by unfold_locales (simp add: climb_all_rooted forest_def)



definition block_parents :: "Block list \<Rightarrow> parent_map" where
  "block_parents bs = map (\<lambda>b. (blk_ID b, blk_ParentID b)) bs"

lemma fst_block_parents [simp]: "map fst (block_parents bs) = map blk_ID bs"
  by (simp add: block_parents_def)


text \<open>C21 (equivalence): the depth-first walk over the parents map that \<open>ConvertedDocument.Validate\<close>
  does, with its visiting and visited marks, rejects exactly the parent maps that are no forest
  (some identity whose parents never end at a root, because one is unknown or they cycle);
  which iteration order Go's map range takes does not matter.\<close>

theorem parent_walk_forest:
  assumes "set order = fst ` set parents"
  shows "climb_all parents (\<lambda>_. 0) order = None \<longleftrightarrow> forest parents"
  using assms by (rule climbing.accept_iff)

theorem parent_walk_forest_witness:
  "\<not> forest [(''a'', ''b''), (''b'', ''a'')] \<and> forest [(''a'', ''b''), (''b'', '''')]"
  using parent_walk_forest [of "[''b'', ''a'']" "[(''a'', ''b''), (''b'', ''a'')]"]
    parent_walk_forest [of "[''b'', ''a'']" "[(''a'', ''b''), (''b'', '''')]"]
  by (simp add: climb.simps mark_visited_def insert_commute)







section \<open>Quality metrics and reports\<close>

record QualityMetric =
  qm_Kind :: string
  qm_State :: string
  qm_Numerator :: int
  qm_Denominator :: int
  qm_Threshold :: string
  qm_Mandatory :: bool
  qm_Passed :: bool
  qm_ReasonCode :: string
  qm_Evidence :: "AssetRef list"
  qm_Exclusions :: "Span list"

definition QualityMetric_Validate :: "QualityMetric \<Rightarrow> check" where
  "QualityMetric_Validate m = firsterr [
     fails (\<not> MetricKind_Valid (qm_Kind m) \<or> \<not> MetricState_Valid (qm_State m) \<or> qm_Numerator m < 0
         \<or> qm_Denominator m < 0 \<or> qm_Threshold m = []) (Errorf ''invalid quality metric'' []),
     fails (qm_State m = MetricMeasured \<and> qm_Denominator m = 0)
       (Errorf ''measured metric requires a denominator'' []),
     fails (qm_State m \<noteq> MetricMeasured \<and> (qm_ReasonCode m = [] \<or> qm_Passed m \<or> qm_Numerator m \<noteq> 0
         \<or> qm_Denominator m \<noteq> 0))
       (Errorf ''unknown or inapplicable metric requires reason and no score/pass'' []),
     each (\<lambda>a. wrap ''asset reference: %w'' (AssetRef_Validate a)) (qm_Evidence m),
     each (\<lambda>s. wrap ''source span: %w'' (Span_Validate s)) (qm_Exclusions m)]"

record MetricRequirement =
  mr_Kind :: string
  mr_Mandatory :: bool
  mr_AllowNotApplicable :: bool
  mr_Threshold :: string

record QualityMetricProfile =
  qp_PolicyHash :: Digest
  qp_Metrics :: "MetricRequirement list"

text \<open>The loop with the \<open>seen\<close> map.\<close>

fun profile_loop :: "string list \<Rightarrow> MetricRequirement list \<Rightarrow> check" where
  "profile_loop seen [] = None"
| "profile_loop seen (m # ms) =
    (if \<not> MetricKind_Valid (mr_Kind m) \<or> mr_Threshold m = [] \<or> mr_Kind m \<in> set seen
     then Some (Errorf ''metric profile requires known, unique checks and thresholds'' [])
     else profile_loop (mr_Kind m # seen) ms)"

definition QualityMetricProfile_Validate :: "QualityMetricProfile \<Rightarrow> check" where
  "QualityMetricProfile_Validate p = firsterr [
     wrap ''policy hash: %w'' (Digest_Validate (qp_PolicyHash p)),
     fails (qp_Metrics p = []) (Errorf ''metric profile requires expected metrics'' []),
     profile_loop [] (qp_Metrics p)]"

record QualityReport =
  qr_ArtifactHash :: Digest
  qr_CandidateDigest :: Digest
  qr_Report :: AssetRef
  qr_PolicyHash :: Digest
  qr_ThresholdVersion :: string
  qr_Outcome :: string
  qr_Metrics :: "QualityMetric list"
  qr_Findings :: "Finding list"
  qr_DecisionRef :: string

text \<open>\<open>expected\<close>: the requirements by kind; a later entry of a kind replaces an earlier one.\<close>

definition expected_metrics :: "MetricRequirement list \<Rightarrow> string \<rightharpoonup> MetricRequirement" where
  "expected_metrics ms = map_of (rev (map (\<lambda>m. (mr_Kind m, m)) ms))"

definition expected_count :: "MetricRequirement list \<Rightarrow> nat" where
  "expected_count ms = length (remdups (map mr_Kind ms))"

fun metric_loop :: "(string \<rightharpoonup> MetricRequirement) \<Rightarrow> bool \<Rightarrow> string list \<Rightarrow> QualityMetric list \<Rightarrow> check" where
  "metric_loop expected accepting seen [] = None"
| "metric_loop expected accepting seen (m # ms) = firsterr [
     wrap ''quality metric: %w'' (QualityMetric_Validate m),
     fails (qm_Kind m \<in> set seen) (Errorf ''duplicate quality metric'' []),
     (case expected (qm_Kind m) of
        None \<Rightarrow> Some (Errorf ''unexpected quality metric'' [])
      | Some requirement \<Rightarrow> firsterr [
          fails (qm_Mandatory m \<noteq> mr_Mandatory requirement \<or> qm_Threshold m \<noteq> mr_Threshold requirement)
            (Errorf ''metric mandatory status or threshold differs from trusted profile'' []),
          fails (qm_State m = MetricNotApplicable
              \<and> (\<not> mr_AllowNotApplicable requirement \<or> qm_Evidence m = []))
            (Errorf ''not-applicable metric requires profile permission and qualification evidence'' []),
          fails (accepting \<and> mr_Mandatory requirement
              \<and> (qm_State m = MetricUnknown \<or> (qm_State m = MetricMeasured \<and> \<not> qm_Passed m)))
            (Errorf ''failed or unknown mandatory metric cannot pass'' [])]),
     metric_loop expected accepting (qm_Kind m # seen) ms]"

definition QualityReport_Validate :: "QualityReport \<Rightarrow> QualityMetricProfile \<Rightarrow> check" where
  "QualityReport_Validate r profile =
    (let accepting = (qr_Outcome r = QualityAccepted \<or> qr_Outcome r = QualityAcceptedWithGaps) in firsterr [
     wrap ''trusted metric profile: %w'' (QualityMetricProfile_Validate profile),
     fails (qp_PolicyHash profile \<noteq> qr_PolicyHash r)
       (Errorf ''metric profile policy does not match report'' []),
     fails (\<not> QualityOutcome_Valid (qr_Outcome r) \<or> qr_ThresholdVersion r = [] \<or> qr_Metrics r = [])
       (Errorf ''quality report requires outcome, threshold version and metrics'' []),
     range_map Digest_Validate [(''artifact hash'', qr_ArtifactHash r), (''candidate digest'', qr_CandidateDigest r),
       (''policy hash'', qr_PolicyHash r)],
     wrap ''report: %w'' (AssetRef_Validate (qr_Report r)),
     fails (qr_Outcome r = QualityAcceptedWithGaps \<and> qr_DecisionRef r = [])
       (Errorf ''named-gap acceptance requires a decision reference'' []),
     fails (length (qr_Metrics r) \<noteq> expected_count (qp_Metrics profile))
       (Errorf ''report must contain every expected metric exactly once'' []),
     metric_loop (expected_metrics (qp_Metrics profile)) accepting [] (qr_Metrics r),
     wrap ''findings: %w'' (validateFindings (qr_Findings r)),
     each (\<lambda>f. fails (accepting \<and> fnd_Severity f = SeverityBlocking)
       (Errorf ''blocking finding cannot pass'' [])) (qr_Findings r)])"

section \<open>What an accepting report has shown\<close>

definition metric_meets :: "bool \<Rightarrow> QualityMetric \<Rightarrow> MetricRequirement \<Rightarrow> bool" where
  "metric_meets accepting m q \<longleftrightarrow> qm_Mandatory m = mr_Mandatory q \<and> qm_Threshold m = mr_Threshold q
     \<and> (qm_State m = MetricNotApplicable \<longrightarrow> mr_AllowNotApplicable q \<and> qm_Evidence m \<noteq> [])
     \<and> (accepting \<and> mr_Mandatory q \<longrightarrow> qm_State m \<noteq> MetricUnknown
          \<and> (qm_State m = MetricMeasured \<longrightarrow> qm_Passed m))"

lemma metric_loop_None:
  "metric_loop ex acc seen ms = None \<longleftrightarrow>
     (\<forall>m \<in> set ms. QualityMetric_Validate m = None \<and> (\<exists>q. ex (qm_Kind m) = Some q \<and> metric_meets acc m q))
     \<and> distinct (map qm_Kind ms) \<and> qm_Kind ` set ms \<inter> set seen = {}"
proof (induction ms arbitrary: seen)
  case (Cons m ms)
  have "metric_loop ex acc seen (m # ms) = None \<longleftrightarrow> QualityMetric_Validate m = None
     \<and> (\<exists>q. ex (qm_Kind m) = Some q \<and> metric_meets acc m q)
     \<and> qm_Kind m \<notin> set seen \<and> metric_loop ex acc (qm_Kind m # seen) ms = None"
    by (auto simp: metric_meets_def split: option.splits)
  with Cons show ?case by auto
qed simp

lemma profile_loop_None:
  "profile_loop seen ms = None \<longleftrightarrow>
     (\<forall>q \<in> set ms. MetricKind_Valid (mr_Kind q) \<and> mr_Threshold q \<noteq> [])
     \<and> distinct (map mr_Kind ms) \<and> mr_Kind ` set ms \<inter> set seen = {}"
  by (induction ms arbitrary: seen) auto

lemma expected_metrics_Some:
  assumes "distinct (map mr_Kind ms)"
  shows "expected_metrics ms k = Some q \<longleftrightarrow> q \<in> set ms \<and> mr_Kind q = k"
proof -
  have "distinct (map fst (rev (map (\<lambda>m. (mr_Kind m, m)) ms)))"
    using assms by (simp add: rev_map [symmetric] comp_def)
  then show ?thesis by (auto simp: expected_metrics_def map_of_eq_Some_iff)
qed

lemma expected_count_distinct: "distinct (map mr_Kind ms) \<Longrightarrow> expected_count ms = length ms"
  by (simp add: expected_count_def distinct_remdups_id)

lemma report_metrics_complete:
  assumes "QualityReport_Validate r p = None"
  shows "distinct (map mr_Kind (qp_Metrics p)) \<and> distinct (map qm_Kind (qr_Metrics r))
    \<and> set (map qm_Kind (qr_Metrics r)) = set (map mr_Kind (qp_Metrics p))
    \<and> (\<forall>m \<in> set (qr_Metrics r). \<exists>q \<in> set (qp_Metrics p). mr_Kind q = qm_Kind m
         \<and> metric_meets (qr_Outcome r = QualityAccepted \<or> qr_Outcome r = QualityAcceptedWithGaps) m q)"
proof -
  let ?acc = "qr_Outcome r = QualityAccepted \<or> qr_Outcome r = QualityAcceptedWithGaps"
  have prof: "profile_loop [] (qp_Metrics p) = None"
    and len: "length (qr_Metrics r) = expected_count (qp_Metrics p)"
    and loop: "metric_loop (expected_metrics (qp_Metrics p)) ?acc [] (qr_Metrics r) = None"
    using assms by (simp_all add: QualityReport_Validate_def QualityMetricProfile_Validate_def Let_def)
  from prof have d: "distinct (map mr_Kind (qp_Metrics p))" by (simp add: profile_loop_None)
  have each: "\<forall>m \<in> set (qr_Metrics r). \<exists>q \<in> set (qp_Metrics p). mr_Kind q = qm_Kind m \<and> metric_meets ?acc m q"
    and dm: "distinct (map qm_Kind (qr_Metrics r))"
    using loop by (auto simp: metric_loop_None expected_metrics_Some [OF d])
  have "set (map qm_Kind (qr_Metrics r)) = set (map mr_Kind (qp_Metrics p))"
  proof (rule card_subset_eq)
    show "set (map qm_Kind (qr_Metrics r)) \<subseteq> set (map mr_Kind (qp_Metrics p))" using each by force
    show "card (set (map qm_Kind (qr_Metrics r))) = card (set (map mr_Kind (qp_Metrics p)))"
      using len by (simp only: distinct_card [OF d] distinct_card [OF dm] expected_count_distinct [OF d] length_map)
  qed simp
  with d dm each show ?thesis by blast
qed

text \<open>C23 (safety): a report that passes \<open>QualityReport.Validate\<close> with an accepting outcome has no
  blocking finding and, for every mandatory check of the trusted profile, exactly one metric:
  measured over a positive denominator and passed at the profile's threshold, or not applicable
  with the profile's permission and qualification evidence. It can not omit a check, repeat one,
  or lower a threshold.\<close>

theorem accepting_report_sound:
  assumes "QualityReport_Validate r p = None"
    and "qr_Outcome r = QualityAccepted \<or> qr_Outcome r = QualityAcceptedWithGaps"
    and "q \<in> set (qp_Metrics p)" and "mr_Mandatory q"
  shows "(\<exists>m \<in> set (qr_Metrics r). qm_Kind m = mr_Kind q \<and> qm_Threshold m = mr_Threshold q
      \<and> (qm_State m = MetricMeasured \<and> 0 < qm_Denominator m \<and> qm_Passed m
         \<or> qm_State m = MetricNotApplicable \<and> mr_AllowNotApplicable q \<and> qm_Evidence m \<noteq> []))
    \<and> card {m \<in> set (qr_Metrics r). qm_Kind m = mr_Kind q} = 1
    \<and> \<not> (\<exists>f \<in> set (qr_Findings r). fnd_Severity f = SeverityBlocking)"
proof (intro conjI)
  note complete = report_metrics_complete [OF assms(1)]
  have "mr_Kind q \<in> set (map qm_Kind (qr_Metrics r))" using complete assms(3) by auto
  then obtain m where m: "m \<in> set (qr_Metrics r)" "qm_Kind m = mr_Kind q" by auto
  with complete obtain q' where q': "q' \<in> set (qp_Metrics p)" "mr_Kind q' = mr_Kind q"
    "metric_meets (qr_Outcome r = QualityAccepted \<or> qr_Outcome r = QualityAcceptedWithGaps) m q'" by force
  have "q' = q" using complete q' assms(3) by (metis (no_types) eq_key_imp_eq_value distinct_map inj_onD)
  with q' assms have meets: "metric_meets True m q" by simp
  have "QualityMetric_Validate m = None"
    using assms(1) m by (simp add: QualityReport_Validate_def metric_loop_None Let_def)
  with meets m assms(4) show "\<exists>m \<in> set (qr_Metrics r). qm_Kind m = mr_Kind q \<and> qm_Threshold m = mr_Threshold q
      \<and> (qm_State m = MetricMeasured \<and> 0 < qm_Denominator m \<and> qm_Passed m
         \<or> qm_State m = MetricNotApplicable \<and> mr_AllowNotApplicable q \<and> qm_Evidence m \<noteq> [])"
    by (intro bexI [of _ m]) (auto simp: metric_meets_def QualityMetric_Validate_def MetricState_Valid_def)
  from complete have "distinct (map qm_Kind (qr_Metrics r))" by blast
  then have inj: "inj_on qm_Kind (set (qr_Metrics r))" by (simp add: distinct_map)
  have "x = m" if "x \<in> set (qr_Metrics r)" "qm_Kind x = mr_Kind q" for x
    using inj_onD [OF inj, of x m] m that by simp
  then have "{m' \<in> set (qr_Metrics r). qm_Kind m' = mr_Kind q} = {m}" using m by blast
  then show "card {m \<in> set (qr_Metrics r). qm_Kind m = mr_Kind q} = 1" by simp
  show "\<not> (\<exists>f \<in> set (qr_Findings r). fnd_Severity f = SeverityBlocking)"
    using assms(1,2) by (auto simp: QualityReport_Validate_def Let_def)
qed

definition sample_profile :: QualityMetricProfile where
  "sample_profile = \<lparr>qp_PolicyHash = sample_digest, qp_Metrics =
     [\<lparr>mr_Kind = MetricFidelity, mr_Mandatory = True, mr_AllowNotApplicable = False, mr_Threshold = ''9/10''\<rparr>]\<rparr>"

definition sample_report :: QualityReport where
  "sample_report = \<lparr>qr_ArtifactHash = sample_digest, qr_CandidateDigest = sample_digest,
     qr_Report = sample_asset ''runs/a.json'' 7, qr_PolicyHash = sample_digest, qr_ThresholdVersion = ''v1'',
     qr_Outcome = QualityAccepted, qr_Metrics =
       [\<lparr>qm_Kind = MetricFidelity, qm_State = MetricMeasured, qm_Numerator = 19, qm_Denominator = 20,
         qm_Threshold = ''9/10'', qm_Mandatory = True, qm_Passed = True, qm_ReasonCode = [],
         qm_Evidence = [], qm_Exclusions = []\<rparr>],
     qr_Findings = [], qr_DecisionRef = []\<rparr>"

theorem accepting_report_sound_witness:
  "card {m \<in> set (qr_Metrics sample_report). qm_Kind m = MetricFidelity} = 1"
proof -
  have "QualityReport_Validate sample_report sample_profile = None"
    by (simp add: QualityReport_Validate_def QualityMetricProfile_Validate_def sample_report_def sample_profile_def
        QualityMetric_Validate_def MetricKind_Valid_def MetricState_Valid_def QualityOutcome_Valid_def
        expected_metrics_def expected_count_def validateFindings_def Let_def)
  then show ?thesis
    using accepting_report_sound [of sample_report sample_profile "hd (qp_Metrics sample_profile)"]
    by (simp add: sample_profile_def sample_report_def)
qed

end
