(* ===== verification/Model_Parts.thy ===== *)
theory Model_Parts
  imports Model_Conversion
begin

text \<open>
  \<open>internal/corpus/model/conversion.go\<close>, second half: the six parser outputs of a part result,
  staged (\<open>PartResult\<close>) and decoded for pure rules (\<open>DecodedPartResult\<close>, whose validator
  charges every collection entry and string byte to the frozen bound before it looks at them),
  mapped text and body trees.
\<close>

section \<open>Staged part results\<close>

record ClassifiedRange =
  clr_Kind :: string
  clr_Namespace :: string
  clr_ArtifactHash :: Digest
  clr_BlockIDs :: "string list"
  clr_Spans :: "Span list"

record NamespaceBoundary =
  nsb_Key :: string
  nsb_ParentKey :: string
  nsb_Kind :: string
  nsb_Label :: AssetRef
  nsb_Boundary :: Span

record ArtifactExpectation =
  aex_ArtifactKey :: string
  aex_Role :: string
  aex_Required :: bool
  aex_Evidence :: Span

record ExcludedRange =
  exr_Span :: Span
  exr_ReasonCode :: string

record PartReference =
  prf_Span :: Span
  prf_Selector :: AssetRef
  prf_TargetKeys :: "string list"
  prf_Resolution :: AssetRef

record PartResult =
  pr_ClassifiedRanges :: "ClassifiedRange list"
  pr_Namespaces :: "NamespaceBoundary list"
  pr_RequiredArtifacts :: "ArtifactExpectation list"
  pr_Exclusions :: "ExcludedRange list"
  pr_ReferenceSpans :: "PartReference list"
  pr_Findings :: "Finding list"

definition PartResult_Validate :: "PartResult \<Rightarrow> check" where
  "PartResult_Validate p = firsterr [
     each (\<lambda>r. firsterr [
       fails (\<not> PartKind_Valid (clr_Kind r) \<or> clr_Namespace r = [] \<or> clr_BlockIDs r = [] \<or> clr_Spans r = [])
         (Errorf ''invalid classified part range'' []),
       wrap ''ArtifactHash: %w'' (Digest_Validate (clr_ArtifactHash r)),
       each (\<lambda>s. wrap ''source span: %w'' (Span_Validate s)) (clr_Spans r)]) (pr_ClassifiedRanges p),
     each (\<lambda>n. firsterr [
       fails (nsb_Key n = [] \<or> nsb_Key n = nsb_ParentKey n \<or> \<not> PartKind_Valid (nsb_Kind n))
         (Errorf ''invalid namespace boundary'' []),
       wrap ''n.Label: %w'' (AssetRef_Validate (nsb_Label n)),
       wrap ''n.Boundary: %w'' (Span_Validate (nsb_Boundary n))]) (pr_Namespaces p),
     each (\<lambda>a. firsterr [
       fails (aex_ArtifactKey a = [] \<or> aex_Role a = []) (Errorf ''invalid artifact expectation'' []),
       wrap ''Evidence: %w'' (Span_Validate (aex_Evidence a))]) (pr_RequiredArtifacts p),
     each (\<lambda>e. firsterr [
       fails (exr_ReasonCode e = []) (Errorf ''exclusion reason is required'' []),
       wrap ''Span: %w'' (Span_Validate (exr_Span e))]) (pr_Exclusions p),
     each (\<lambda>r. firsterr [
       wrap ''Span: %w'' (Span_Validate (prf_Span r)),
       each (\<lambda>a. wrap ''asset reference: %w'' (AssetRef_Validate a)) [prf_Selector r, prf_Resolution r]])
       (pr_ReferenceSpans p),
     wrap ''findings: %w'' (validateFindings (pr_Findings p))]"

record MappedText =
  mt_Text :: AssetRef
  mt_OffsetMap :: AssetRef
  mt_EditLedger :: AssetRef

definition MappedText_Validate :: "MappedText \<Rightarrow> check" where
  "MappedText_Validate m = range_map AssetRef_Validate
     [(''text'', mt_Text m), (''offset map'', mt_OffsetMap m), (''edit ledger'', mt_EditLedger m)]"

record BodyTree =
  bt_Tree :: AssetRef
  bt_CandidateHash :: Digest

definition BodyTree_Validate :: "BodyTree \<Rightarrow> check" where
  "BodyTree_Validate b = firsterr [
     wrap ''Tree: %w'' (AssetRef_Validate (bt_Tree b)),
     wrap ''b.CandidateHash: %w'' (Digest_Validate (bt_CandidateHash b))]"

section \<open>Decoded part results\<close>

record DecodedNamespace =
  dns_Key :: string
  dns_ParentKey :: string
  dns_Kind :: string
  dns_Label :: string
  dns_Boundary :: Span

record DecodedPartReference =
  dpr_Span :: Span
  dpr_Selector :: string
  dpr_TargetKeys :: "string list"
  dpr_Resolution :: string

record DecodedPartResult =
  dp_ClassifiedRanges :: "ClassifiedRange list"
  dp_Namespaces :: "DecodedNamespace list"
  dp_RequiredArtifacts :: "ArtifactExpectation list"
  dp_Exclusions :: "ExcludedRange list"
  dp_ReferenceSpans :: "DecodedPartReference list"
  dp_Findings :: "Finding list"
  dp_Limits :: RuleLimits

definition bound_range :: "ClassifiedRange \<Rightarrow> decodedRuleBound step" where
  "bound_range r = steps [
     bound_collection (int (length (clr_BlockIDs r))),
     bound_collection (int (length (clr_Spans r))),
     bound_strings [clr_Kind r, clr_Namespace r, clr_ArtifactHash r],
     steps (map (\<lambda>i. bound_strings [i]) (clr_BlockIDs r)),
     steps (map bound_span (clr_Spans r))]"

definition bound_namespace :: "DecodedNamespace \<Rightarrow> decodedRuleBound step" where
  "bound_namespace n = steps [
     bound_strings [dns_Key n, dns_ParentKey n, dns_Kind n, dns_Label n],
     bound_span (dns_Boundary n)]"

definition bound_expectation :: "ArtifactExpectation \<Rightarrow> decodedRuleBound step" where
  "bound_expectation a = steps [bound_strings [aex_ArtifactKey a, aex_Role a], bound_span (aex_Evidence a)]"

definition bound_exclusion :: "ExcludedRange \<Rightarrow> decodedRuleBound step" where
  "bound_exclusion e = steps [bound_strings [exr_ReasonCode e], bound_span (exr_Span e)]"

definition bound_reference :: "DecodedPartReference \<Rightarrow> decodedRuleBound step" where
  "bound_reference r = steps [
     bound_collection (int (length (dpr_TargetKeys r))),
     bound_strings [dpr_Selector r, dpr_Resolution r],
     steps (map (\<lambda>k. bound_strings [k]) (dpr_TargetKeys r)),
     bound_span (dpr_Span r)]"

definition bound_finding :: "Finding \<Rightarrow> decodedRuleBound step" where
  "bound_finding f = steps [
     bound_collection (int (length (fnd_Spans f))),
     bound_collection (int (length (fnd_Evidence f))),
     bound_strings [fnd_ReasonCode f, fnd_Severity f, fnd_Scope f, fnd_ScopeKey f],
     steps (map bound_span (fnd_Spans f)),
     steps (map (\<lambda>a. bound_strings [as_Path a, as_SHA256 a]) (fnd_Evidence f))]"

text \<open>The staged result built for the provenance check has nil namespaces and references.\<close>

definition decoded_provenance :: "DecodedPartResult \<Rightarrow> check" where
  "decoded_provenance p = firsterr [
     wrap ''decoded part provenance: %w'' (PartResult_Validate
       \<lparr>pr_ClassifiedRanges = dp_ClassifiedRanges p, pr_Namespaces = [],
        pr_RequiredArtifacts = dp_RequiredArtifacts p, pr_Exclusions = dp_Exclusions p,
        pr_ReferenceSpans = [], pr_Findings = dp_Findings p\<rparr>),
     each (\<lambda>n. firsterr [
       fails (dns_Key n = [] \<or> dns_Key n = dns_ParentKey n \<or> \<not> PartKind_Valid (dns_Kind n))
         (Errorf ''invalid decoded namespace'' []),
       wrap ''namespace boundary: %w'' (Span_Validate (dns_Boundary n))]) (dp_Namespaces p),
     each (\<lambda>r. wrap ''reference span: %w'' (Span_Validate (dpr_Span r))) (dp_ReferenceSpans p)]"

definition DecodedPartResult_Validate :: "DecodedPartResult \<Rightarrow> check" where
  "DecodedPartResult_Validate p = firsterr [
     wrap ''part limits: %w'' (RuleLimits_Validate (dp_Limits p)),
     outcome (steps [
       steps (map (\<lambda>count. bound_collection (int count)) [length (dp_ClassifiedRanges p),
         length (dp_Namespaces p), length (dp_RequiredArtifacts p), length (dp_Exclusions p),
         length (dp_ReferenceSpans p), length (dp_Findings p)]),
       steps (map bound_range (dp_ClassifiedRanges p)),
       steps (map bound_namespace (dp_Namespaces p)),
       steps (map bound_expectation (dp_RequiredArtifacts p)),
       steps (map bound_exclusion (dp_Exclusions p)),
       steps (map bound_reference (dp_ReferenceSpans p)),
       steps (map bound_finding (dp_Findings p)),
       check_step (decoded_provenance p)] (new_bound (dp_Limits p)))]"

section \<open>What a decoded part result is charged\<close>

definition range_strings :: "ClassifiedRange \<Rightarrow> string list" where
  "range_strings r = [clr_Kind r, clr_Namespace r, clr_ArtifactHash r] @ clr_BlockIDs r @ spans_strings (clr_Spans r)"

definition namespace_strings :: "DecodedNamespace \<Rightarrow> string list" where
  "namespace_strings n = [dns_Key n, dns_ParentKey n, dns_Kind n, dns_Label n] @ span_strings (dns_Boundary n)"

definition expectation_strings :: "ArtifactExpectation \<Rightarrow> string list" where
  "expectation_strings a = [aex_ArtifactKey a, aex_Role a] @ span_strings (aex_Evidence a)"

definition exclusion_strings :: "ExcludedRange \<Rightarrow> string list" where
  "exclusion_strings e = exr_ReasonCode e # span_strings (exr_Span e)"

definition reference_strings :: "DecodedPartReference \<Rightarrow> string list" where
  "reference_strings r = [dpr_Selector r, dpr_Resolution r] @ dpr_TargetKeys r @ span_strings (dpr_Span r)"

definition finding_strings :: "Finding \<Rightarrow> string list" where
  "finding_strings f = [fnd_ReasonCode f, fnd_Severity f, fnd_Scope f, fnd_ScopeKey f]
     @ spans_strings (fnd_Spans f) @ concat (map (\<lambda>a. [as_Path a, as_SHA256 a]) (fnd_Evidence f))"

definition part_strings :: "DecodedPartResult \<Rightarrow> string list" where
  "part_strings p = concat (map range_strings (dp_ClassifiedRanges p))
     @ concat (map namespace_strings (dp_Namespaces p))
     @ concat (map expectation_strings (dp_RequiredArtifacts p))
     @ concat (map exclusion_strings (dp_Exclusions p))
     @ concat (map reference_strings (dp_ReferenceSpans p))
     @ concat (map finding_strings (dp_Findings p))"

definition part_items :: "DecodedPartResult \<Rightarrow> int" where
  "part_items p = int (length (dp_ClassifiedRanges p) + length (dp_Namespaces p)
       + length (dp_RequiredArtifacts p) + length (dp_Exclusions p) + length (dp_ReferenceSpans p)
       + length (dp_Findings p))
     + (\<Sum>r\<leftarrow>dp_ClassifiedRanges p. int (length (clr_BlockIDs r)) + int (length (clr_Spans r)))
     + (\<Sum>r\<leftarrow>dp_ReferenceSpans p. int (length (dpr_TargetKeys r)))
     + (\<Sum>f\<leftarrow>dp_Findings p. int (length (fnd_Spans f)) + int (length (fnd_Evidence f)))"

text \<open>The shape all the counting steps share: charged for their strings, which are all UTF-8.\<close>

definition charges_for :: "decodedRuleBound step \<Rightarrow> int \<Rightarrow> string list \<Rightarrow> bool" where
  "charges_for f i vs \<longleftrightarrow> charges f i (byte_count vs) (list_all ValidString vs)"

lemma charges_for_strings: "charges_for (bound_strings vs) 0 vs"
  unfolding charges_for_def by (rule charges_cong [OF charges_strings]) (simp_all add: list_all_iff)

lemma charges_for_span: "charges_for (bound_span s) 0 (span_strings s)"
  unfolding bound_span_def span_strings_def by (rule charges_for_strings)

lemma charges_for_collection: "charges_for (bound_collection (int n)) (int n) []"
  unfolding charges_for_def by (rule charges_cong [OF charges_collection]) simp_all

lemma charges_for_Nil: "charges_for (steps []) 0 []"
  by (simp add: charges_for_def charges_def)

lemma charges_for_Cons:
  "charges_for f i vs \<Longrightarrow> charges_for (steps fs) j ws \<Longrightarrow> charges_for (steps (f # fs)) (i + j) (vs @ ws)"
  unfolding charges_for_def by (rule charges_cong [OF charges_Cons]) auto

lemma charges_for_map:
  assumes "\<And>x. charges_for (f x) (i x) (vs x)"
  shows "charges_for (steps (map f xs)) (\<Sum>x\<leftarrow>xs. i x) (concat (map vs xs))"
  using assms unfolding charges_for_def
  by (intro charges_cong [OF charges_map]) (auto simp: byte_count_concat list_all_iff)

lemma charges_for_cong: "charges_for f i vs \<Longrightarrow> i = i' \<Longrightarrow> vs = vs' \<Longrightarrow> charges_for f i' vs'"
  by simp

lemmas charges_for_intros = charges_for_Cons charges_for_Nil charges_for_strings charges_for_span
  charges_for_collection charges_for_map

lemma charges_range:
  "charges_for (bound_range r) (int (length (clr_BlockIDs r)) + int (length (clr_Spans r))) (range_strings r)"
  unfolding bound_range_def
  by (rule charges_for_cong, (rule charges_for_intros)+) (simp_all add: range_strings_def spans_strings_def)

lemma charges_namespace: "charges_for (bound_namespace n) 0 (namespace_strings n)"
  unfolding bound_namespace_def
  by (rule charges_for_cong, (rule charges_for_intros)+) (simp_all add: namespace_strings_def)

lemma charges_expectation: "charges_for (bound_expectation a) 0 (expectation_strings a)"
  unfolding bound_expectation_def
  by (rule charges_for_cong, (rule charges_for_intros)+) (simp_all add: expectation_strings_def)

lemma charges_exclusion: "charges_for (bound_exclusion e) 0 (exclusion_strings e)"
  unfolding bound_exclusion_def
  by (rule charges_for_cong, (rule charges_for_intros)+) (simp_all add: exclusion_strings_def)

lemma charges_reference: "charges_for (bound_reference r) (int (length (dpr_TargetKeys r))) (reference_strings r)"
  unfolding bound_reference_def
  by (rule charges_for_cong, (rule charges_for_intros)+) (simp_all add: reference_strings_def)

lemma charges_finding:
  "charges_for (bound_finding f) (int (length (fnd_Spans f)) + int (length (fnd_Evidence f))) (finding_strings f)"
  unfolding bound_finding_def
  by (rule charges_for_cong, (rule charges_for_intros)+) (simp_all add: finding_strings_def spans_strings_def)

lemmas collections = charges_for_map [OF charges_for_collection]
lemmas ranges = charges_for_map [OF charges_range]
lemmas namespaces = charges_for_map [OF charges_namespace]
lemmas expectations = charges_for_map [OF charges_expectation]
lemmas exclusions = charges_for_map [OF charges_exclusion]
lemmas references = charges_for_map [OF charges_reference]
lemmas findings = charges_for_map [OF charges_finding]

text \<open>
  C24 (bounds): \<open>DecodedPartResult.Validate\<close> accepts exactly the results with positive limits
  whose six collections and their nested collections together have at most \<open>MaxItems\<close> entries,
  all of whose strings together have at most \<open>MaxBytes\<close> bytes and are UTF-8, and whose
  provenance is valid: charging before traversing, in any of the nested loops, neither misses an
  entry nor counts one twice.
\<close>

theorem decoded_part_accepted:
  "DecodedPartResult_Validate p = None \<longleftrightarrow>
     0 < lim_MaxItems (dp_Limits p) \<and> 0 < lim_MaxBytes (dp_Limits p)
     \<and> part_items p \<le> lim_MaxItems (dp_Limits p)
     \<and> byte_count (part_strings p) \<le> lim_MaxBytes (dp_Limits p)
     \<and> list_all ValidString (part_strings p) \<and> decoded_provenance p = None"
proof -
  have "charges (steps [
       steps (map (\<lambda>count. bound_collection (int count)) [length (dp_ClassifiedRanges p),
         length (dp_Namespaces p), length (dp_RequiredArtifacts p), length (dp_Exclusions p),
         length (dp_ReferenceSpans p), length (dp_Findings p)]),
       steps (map bound_range (dp_ClassifiedRanges p)),
       steps (map bound_namespace (dp_Namespaces p)),
       steps (map bound_expectation (dp_RequiredArtifacts p)),
       steps (map bound_exclusion (dp_Exclusions p)),
       steps (map bound_reference (dp_ReferenceSpans p)),
       steps (map bound_finding (dp_Findings p)),
       check_step (decoded_provenance p)]) (part_items p) (byte_count (part_strings p))
     (list_all ValidString (part_strings p) \<and> decoded_provenance p = None)"
    by (rule charges_cong [OF charges_Cons [OF collections [unfolded charges_for_def] charges_Cons
          [OF ranges [unfolded charges_for_def] charges_Cons [OF namespaces [unfolded charges_for_def] charges_Cons
          [OF expectations [unfolded charges_for_def] charges_Cons [OF exclusions [unfolded charges_for_def] charges_Cons
          [OF references [unfolded charges_for_def] charges_Cons [OF findings [unfolded charges_for_def] charges_Cons
          [OF charges_check charges_Nil]]]]]]]]])
      (auto simp: part_items_def part_strings_def list_all_iff)
  then show ?thesis unfolding DecodedPartResult_Validate_def
    by (subst bounded_outcome) auto
qed

end
