(* ===== verification/Run_Vocabulary.thy ===== *)
theory Run_Vocabulary
  imports Model_Vocabulary
begin

text \<open>
  The closed vocabularies of \<open>internal/corpus/run\<close> (stages, scopes, outcomes, admission states),
  and which execution scope and intake subject each workflow kind permits.
\<close>

section \<open>internal/corpus/run/types.go\<close>

abbreviation (input) Discover :: string where "Discover \<equiv> ''discover''"
abbreviation (input) Fetch :: string where "Fetch \<equiv> ''fetch''"
abbreviation (input) Extract :: string where "Extract \<equiv> ''extract''"
abbreviation (input) OCR :: string where "OCR \<equiv> ''ocr''"
abbreviation (input) Normalize :: string where "Normalize \<equiv> ''normalize''"
abbreviation (input) Index :: string where "Index \<equiv> ''index''"
abbreviation (input) Dense :: string where "Dense \<equiv> ''dense''"
abbreviation (input) Lexical :: string where "Lexical \<equiv> ''lexical''"
abbreviation (input) Evaluate :: string where "Evaluate \<equiv> ''evaluate''"
abbreviation (input) Publish :: string where "Publish \<equiv> ''publish''"
abbreviation (input) Activate :: string where "Activate \<equiv> ''activate''"

definition Stage_Valid :: "string \<Rightarrow> bool" where
  "Stage_Valid s \<longleftrightarrow> s = Discover \<or> s = Fetch \<or> s = Extract \<or> s = OCR \<or> s = Normalize \<or> s = Index
    \<or> s = Dense \<or> s = Lexical \<or> s = Evaluate \<or> s = Publish \<or> s = Activate"


section \<open>internal/corpus/run/scopes.go\<close>

abbreviation (input) ScopeIntake :: string where "ScopeIntake \<equiv> ''intake''"
abbreviation (input) ScopeBatch :: string where "ScopeBatch \<equiv> ''batch''"
abbreviation (input) ScopeBuild :: string where "ScopeBuild \<equiv> ''build''"
abbreviation (input) ScopeControl :: string where "ScopeControl \<equiv> ''control''"

definition ScopeKind_Valid :: "string \<Rightarrow> bool" where
  "ScopeKind_Valid s \<longleftrightarrow> s = ScopeIntake \<or> s = ScopeBatch \<or> s = ScopeBuild \<or> s = ScopeControl"


section \<open>internal/corpus/run/intake.go\<close>

abbreviation (input) OutcomeSucceeded :: string where "OutcomeSucceeded \<equiv> ''succeeded''"
abbreviation (input) OutcomePendingRetry :: string where "OutcomePendingRetry \<equiv> ''pending_retry''"
abbreviation (input) OutcomeTerminalGap :: string where "OutcomeTerminalGap \<equiv> ''terminal_gap''"
abbreviation (input) OutcomeRejected :: string where "OutcomeRejected \<equiv> ''rejected''"
abbreviation (input) OutcomeFailed :: string where "OutcomeFailed \<equiv> ''failed''"

definition IntakeOutcome_Valid :: "string \<Rightarrow> bool" where
  "IntakeOutcome_Valid s \<longleftrightarrow> s = OutcomeSucceeded \<or> s = OutcomePendingRetry \<or> s = OutcomeTerminalGap
    \<or> s = OutcomeRejected \<or> s = OutcomeFailed"


section \<open>internal/corpus/run/admission.go\<close>

abbreviation (input) AdmissionProcessingFull :: string where "AdmissionProcessingFull \<equiv> ''processing_full''"
abbreviation (input) AdmissionOpenFull :: string where "AdmissionOpenFull \<equiv> ''open_full''"
abbreviation (input) AdmissionBothFull :: string where "AdmissionBothFull \<equiv> ''both_full''"
abbreviation (input) AdmissionResourceBusy :: string where "AdmissionResourceBusy \<equiv> ''resource_busy''"
abbreviation (input) AdmissionNotTurn :: string where "AdmissionNotTurn \<equiv> ''not_turn''"

definition AdmissionRefusal_Valid :: "string \<Rightarrow> bool" where
  "AdmissionRefusal_Valid s \<longleftrightarrow> s = AdmissionProcessingFull \<or> s = AdmissionOpenFull \<or> s = AdmissionBothFull
    \<or> s = AdmissionResourceBusy \<or> s = AdmissionNotTurn"

abbreviation (input) AdmissionReserved :: string where "AdmissionReserved \<equiv> ''reserved''"
abbreviation (input) AdmissionProcessing :: string where "AdmissionProcessing \<equiv> ''processing''"
abbreviation (input) AdmissionOpenOnly :: string where "AdmissionOpenOnly \<equiv> ''open_only''"
abbreviation (input) AdmissionClosing :: string where "AdmissionClosing \<equiv> ''closing''"
abbreviation (input) AdmissionReleased :: string where "AdmissionReleased \<equiv> ''released''"

definition AdmissionState_Valid :: "string \<Rightarrow> bool" where
  "AdmissionState_Valid s \<longleftrightarrow> s = AdmissionReserved \<or> s = AdmissionProcessing \<or> s = AdmissionOpenOnly
    \<or> s = AdmissionClosing \<or> s = AdmissionReleased"

abbreviation (input) AdmissionCompleted :: string where "AdmissionCompleted \<equiv> ''completed''"
abbreviation (input) AdmissionTerminalGap :: string where "AdmissionTerminalGap \<equiv> ''terminal_gap''"
abbreviation (input) AdmissionCancelled :: string where "AdmissionCancelled \<equiv> ''cancelled''"
abbreviation (input) AdmissionExpired :: string where "AdmissionExpired \<equiv> ''expired''"
abbreviation (input) AdmissionAbandoned :: string where "AdmissionAbandoned \<equiv> ''abandoned''"
abbreviation (input) AdmissionExecutionFailed :: string where "AdmissionExecutionFailed \<equiv> ''execution_failed''"

definition AdmissionTerminalReason_Valid :: "string \<Rightarrow> bool" where
  "AdmissionTerminalReason_Valid s \<longleftrightarrow> s = AdmissionCompleted \<or> s = AdmissionTerminalGap \<or> s = AdmissionCancelled
    \<or> s = AdmissionExpired \<or> s = AdmissionAbandoned \<or> s = AdmissionExecutionFailed"

abbreviation (input) DocumentExecutionRunning :: string where "DocumentExecutionRunning \<equiv> ''running''"
abbreviation (input) DocumentExecutionTerminal :: string where "DocumentExecutionTerminal \<equiv> ''terminal''"
abbreviation (input) DocumentExecutionUnknown :: string where "DocumentExecutionUnknown \<equiv> ''unknown''"

definition DocumentExecutionStatus_Valid :: "string \<Rightarrow> bool" where
  "DocumentExecutionStatus_Valid s \<longleftrightarrow> s = DocumentExecutionRunning \<or> s = DocumentExecutionTerminal
    \<or> s = DocumentExecutionUnknown"


section \<open>Workflow kinds\<close>

abbreviation (input) SourceSync :: string where "SourceSync \<equiv> ''SourceSync''"
abbreviation (input) DocumentIngest :: string where "DocumentIngest \<equiv> ''DocumentIngest''"
abbreviation (input) OcrBatch :: string where "OcrBatch \<equiv> ''OcrBatch''"
abbreviation (input) EmbedBatch :: string where "EmbedBatch \<equiv> ''EmbedBatch''"
abbreviation (input) CorpusBuild :: string where "CorpusBuild \<equiv> ''CorpusBuild''"
abbreviation (input) Promote :: string where "Promote \<equiv> ''Promote''"
abbreviation (input) Reprocess :: string where "Reprocess \<equiv> ''Reprocess''"
abbreviation (input) ControlReconcile :: string where "ControlReconcile \<equiv> ''ControlReconcile''"

definition Permits :: "string \<Rightarrow> string \<Rightarrow> bool" where
  "Permits k scope \<longleftrightarrow>
     (if k = SourceSync \<or> k = DocumentIngest \<or> k = Reprocess then scope = ScopeIntake
      else if k = OcrBatch \<or> k = EmbedBatch then scope = ScopeBatch
      else if k = CorpusBuild then scope = ScopeBuild
      else if k = Promote \<or> k = ControlReconcile then scope = ScopeControl
      else False)"

definition WorkflowKind_Valid :: "string \<Rightarrow> bool" where
  "WorkflowKind_Valid k \<longleftrightarrow> Permits k ScopeIntake \<or> Permits k ScopeBatch \<or> Permits k ScopeBuild
     \<or> Permits k ScopeControl"

abbreviation (input) SubjectDocumentVersion :: string where "SubjectDocumentVersion \<equiv> ''document_version''"
abbreviation (input) SubjectSourceWindow :: string where "SubjectSourceWindow \<equiv> ''source_window''"
abbreviation (input) SubjectReprocessSelection :: string where
  "SubjectReprocessSelection \<equiv> ''reprocess_selection''"

lemma Permits_unique: "Permits k s \<Longrightarrow> Permits k t \<Longrightarrow> s = t"
  by (auto simp: Permits_def split: if_splits)

lemma Permits_scope: "Permits k s \<Longrightarrow> ScopeKind_Valid s \<and> WorkflowKind_Valid k"
  by (auto simp: Permits_def WorkflowKind_Valid_def ScopeKind_Valid_def split: if_splits)

end
