(* ===== verification/Canonical_Encoding.thy ===== *)
theory Canonical_Encoding
  imports Go_Sha256
begin

text \<open>
  The canonical encoding under the idempotency keys of \<open>internal/corpus/run\<close>: every string
  preceded by its length as a big-endian \<open>uint64\<close>, every integer as one. Its lemmas
  (\<open>canonical_append\<close>) peel an encoded field off both sides of an equation, so that a sequence
  of fields determines the fields.
\<close>

definition writeCanonicalUint64 :: "string \<Rightarrow> u64 \<Rightarrow> string" where
  "writeCanonicalUint64 dst v = dst @ PutUint64 v"

definition writeCanonicalString :: "string \<Rightarrow> string \<Rightarrow> string" where
  "writeCanonicalString dst v = writeCanonicalUint64 dst (word_of_int (int (length v))) @ v"

text \<open>A Go string has at most \<open>2 ^ 63 - 1\<close> bytes.\<close>

definition go_string :: "string \<Rightarrow> bool" where
  "go_string s \<longleftrightarrow> length s < 2 ^ 63"

named_theorems canonical_append "peeling one encoded field off both sides"

lemma PutUint64_append [canonical_append]:
  "PutUint64 a @ x = PutUint64 b @ y \<longleftrightarrow> a = b \<and> x = y"
proof
  assume eq: "PutUint64 a @ x = PutUint64 b @ y"
  have "length (PutUint64 a) = length (PutUint64 b)" by (simp only: length_PutUint64)
  from append_eq_append_conv [OF disjI1 [OF this]] eq
  have "PutUint64 a = PutUint64 b" "x = y" by simp_all
  then show "a = b \<and> x = y" by (simp add: PutUint64_inj)
qed simp

lemma word_of_int_64: "(word_of_int a :: u64) = word_of_int b \<longleftrightarrow> a mod 2 ^ 64 = b mod 2 ^ 64"
  by (simp add: word_uint_eq_iff uint_word_of_int)

text \<open>One encoded string, as a constant of its own for the rewriting.\<close>

definition frame :: "string \<Rightarrow> string" where
  "frame v = PutUint64 (word_of_int (int (length v))) @ v"

lemma writeCanonicalString_frame: "writeCanonicalString dst v = dst @ frame v"
  by (simp add: writeCanonicalString_def writeCanonicalUint64_def frame_def)

lemma frame_append [canonical_append]:
  assumes "go_string v" "go_string w"
  shows "frame v @ x = frame w @ y \<longleftrightarrow> v = w \<and> x = y"
proof
  assume "frame v @ x = frame w @ y"
  then have l: "word_of_int (int (length v)) = (word_of_int (int (length w)) :: u64)" and r: "v @ x = w @ y"
    by (simp_all add: frame_def PutUint64_append)
  have "int (length v) < 2 ^ 64" "int (length w) < 2 ^ 64"
    using assms by (simp_all add: go_string_def)
  with l have "int (length v) = int (length w)"
    using word_of_int_64 [of "int (length v)" "int (length w)"] by simp
  with r show "v = w \<and> x = y" by simp
qed simp

lemma frame_eq [canonical_append]: "go_string v \<Longrightarrow> go_string w \<Longrightarrow> frame v = frame w \<longleftrightarrow> v = w"
  using frame_append [of v w "[]" "[]"] by simp

lemma PutUint64_eq [canonical_append]: "PutUint64 a = PutUint64 b \<longleftrightarrow> a = b"
  by (auto dest: PutUint64_inj)

text \<open>The conversion \<open>uint64(x)\<close> of a signed 64-bit integer is injective.\<close>

lemma uint64_inj:
  assumes "in_int64 a" "in_int64 b"
  shows "(word_of_int a :: u64) = word_of_int b \<longleftrightarrow> a = b"
proof
  assume "(word_of_int a :: u64) = word_of_int b"
  then have "a mod 2 ^ 64 = b mod 2 ^ 64" by (simp only: word_of_int_64)
  then have "(a + 2 ^ 63) mod 2 ^ 64 = (b + 2 ^ 63) mod 2 ^ 64" by (metis mod_add_left_eq)
  with assms show "a = b" by (simp add: in_int64_def min_int64_def max_int64_def)
qed simp


section \<open>Whole payloads\<close>

text \<open>A sequence of encoded strings followed by encoded integers, as the key functions write it.\<close>

definition canonical_payload :: "string list \<Rightarrow> int list \<Rightarrow> string" where
  "canonical_payload strings ints =
     foldl (\<lambda>dst v. writeCanonicalUint64 dst (word_of_int v)) (foldl writeCanonicalString [] strings) ints"

lemma foldl_strings: "foldl writeCanonicalString dst vs = dst @ concat (map frame vs)"
  by (induction vs arbitrary: dst) (simp_all add: writeCanonicalString_frame)

lemma foldl_uints:
  "foldl (\<lambda>dst v. writeCanonicalUint64 dst (word_of_int v)) dst ns = dst @ concat (map (\<lambda>n. PutUint64 (word_of_int n)) ns)"
  by (induction ns arbitrary: dst) (simp_all add: writeCanonicalUint64_def)

lemma uints_inj:
  "length ns = length ms \<Longrightarrow> list_all in_int64 ns \<Longrightarrow> list_all in_int64 ms \<Longrightarrow>
   concat (map (\<lambda>n. PutUint64 (word_of_int n)) ns) = concat (map (\<lambda>n. PutUint64 (word_of_int n)) ms) \<longleftrightarrow> ns = ms"
  by (induction ns ms rule: list_induct2) (auto simp: canonical_append uint64_inj)

lemma canonical_payload_inj:
  assumes "length ss = length ts" "length ns = length ms"
    and "list_all go_string ss" "list_all go_string ts" "list_all in_int64 ns" "list_all in_int64 ms"
  shows "canonical_payload ss ns = canonical_payload ts ms \<longleftrightarrow> ss = ts \<and> ns = ms"
  unfolding canonical_payload_def foldl_strings foldl_uints append_Nil
  using assms(1,3,4)
proof (induction ss ts rule: list_induct2)
  case Nil
  then show ?case using uints_inj [OF assms(2,5,6)] by simp
next
  case (Cons s ss t ts)
  then show ?case by (simp add: canonical_append)
qed

end
