(* ===== verification/Run_Types.thy ===== *)
theory Run_Types
  imports Run_Vocabulary Canonical_Encoding
begin

text \<open>
  \<open>internal/corpus/run/types.go\<close>: budgets, executions, shards, outcome counts, stage results and
  the idempotency key of a shard. \<open>uuid.UUID\<close> (github.com/google/uuid, not in the repository)
  is its 128 bits; its text form is a parameter \<open>us\<close> of the key, which relies on it being
  injective.
\<close>

section \<open>Records and validators\<close>

type_synonym UUID = "128 word"

abbreviation (input) uuid_Nil :: UUID where "uuid_Nil \<equiv> 0"

record Budget =
  b_MaxItems :: int
  b_MaxInputBytes :: int
  b_MaxPages :: int
  b_MaxElapsed :: int
  b_MaxConcurrent :: int

definition Budget_Validate :: "Budget \<Rightarrow> check" where
  "Budget_Validate b = firsterr [
     fails (b_MaxItems b \<le> 0) (Errorf ''max items must be positive'' []),
     fails (b_MaxInputBytes b \<le> 0) (Errorf ''max input bytes must be positive'' []),
     fails (b_MaxPages b \<le> 0) (Errorf ''max pages must be positive'' []),
     fails (b_MaxElapsed b \<le> 0) (Errorf ''max elapsed must be positive'' []),
     fails (b_MaxConcurrent b \<le> 0) (Errorf ''max concurrent must be positive'' [])]"

record Execution =
  x_Country :: string
  x_Owner :: string
  x_RunID :: UUID
  x_BuildID :: UUID
  x_LeaseFence :: int

definition validateIdentity :: "Execution \<Rightarrow> check" where
  "validateIdentity e = firsterr [
     fails (x_Country e = []) (Errorf ''country is required'' []),
     fails (x_Owner e = []) (Errorf ''owner is required'' []),
     fails (x_RunID e = uuid_Nil) (Errorf ''run ID is required'' []),
     fails (x_BuildID e = uuid_Nil) (Errorf ''build ID is required'' [])]"

definition Execution_Validate :: "Execution \<Rightarrow> check" where
  "Execution_Validate e = firsterr [
     validateIdentity e,
     fails (x_LeaseFence e \<le> 0) (Errorf ''lease fence must be positive'' [])]"

record Shard =
  sh_Execution :: Execution
  sh_Stage :: string
  sh_Cursor :: string
  sh_ManifestRef :: string
  sh_Recipe :: string
  sh_Budget :: Budget

definition Shard_Validate :: "Shard \<Rightarrow> check" where
  "Shard_Validate s = firsterr [
     wrap ''execution: %w'' (Execution_Validate (sh_Execution s)),
     fails (\<not> Stage_Valid (sh_Stage s)) (Errorf ''unknown stage %q'' [FStr (sh_Stage s)]),
     fails (sh_Recipe s = []) (Errorf ''recipe is required'' []),
     wrap ''budget: %w'' (Budget_Validate (sh_Budget s))]"

record Counts =
  c_Expected :: int
  c_Processed :: int
  c_Succeeded :: int
  c_PendingRetry :: int
  c_TerminalGap :: int
  c_AcceptedGaps :: int
  c_Rejected :: int
  c_Failed :: int

text \<open>The loop that takes the outcomes off \<open>remaining\<close>; \<open>Inr\<close> is what is left.\<close>

fun outcome_loop :: "int \<Rightarrow> int \<Rightarrow> int list \<Rightarrow> gerr + int" where
  "outcome_loop processed remaining [] = Inr remaining"
| "outcome_loop processed remaining (n # ns) =
     (if n > remaining then Inl (Errorf ''outcome counts exceed processed count %d'' [FInt processed])
      else outcome_loop processed (remaining - n) ns)"

definition Counts_Validate :: "Counts \<Rightarrow> check" where
  "Counts_Validate c = firsterr [
     each (\<lambda>(name, value). fails (value < 0) (Errorf ''%s count must not be negative'' [FStr name]))
       [(''expected'', c_Expected c), (''processed'', c_Processed c), (''succeeded'', c_Succeeded c),
        (''pending retry'', c_PendingRetry c), (''terminal gap'', c_TerminalGap c),
        (''accepted gaps'', c_AcceptedGaps c), (''rejected'', c_Rejected c), (''failed'', c_Failed c)],
     fails (c_Processed c > c_Expected c)
       (Errorf ''processed count %d exceeds expected count %d'' [FInt (c_Processed c), FInt (c_Expected c)]),
     (case outcome_loop (c_Processed c) (c_Processed c)
         [c_Succeeded c, c_PendingRetry c, c_TerminalGap c, c_Rejected c, c_Failed c] of
        Inl e \<Rightarrow> Some e
      | Inr remaining \<Rightarrow> fails (remaining \<noteq> 0)
          (Errorf ''processed count %d has %d unaccounted items'' [FInt (c_Processed c), FInt remaining])),
     fails (c_AcceptedGaps c > c_TerminalGap c)
       (Errorf ''accepted gap count %d exceeds terminal gap count %d''
         [FInt (c_AcceptedGaps c), FInt (c_TerminalGap c)])]"

record OutputRef =
  out_Ref :: string
  out_Digest :: string
  out_SizeBytes :: int
  out_MediaType :: string

definition OutputRef_Validate :: "OutputRef \<Rightarrow> check" where
  "OutputRef_Validate o' = firsterr [
     fails (out_Ref o' = []) (Errorf ''reference is required'' []),
     fails (out_Digest o' = []) (Errorf ''digest is required'' []),
     fails (out_SizeBytes o' < 0) (Errorf ''size bytes must not be negative'' [])]"

record Result =
  r_Shard :: Shard
  r_NextCursor :: string
  r_NextEligible :: "gotime option"
  r_Counts :: Counts
  r_GapAcceptanceRef :: string
  r_Complete :: bool
  r_Outputs :: "OutputRef slice"

fun output_loop :: "int \<Rightarrow> string list \<Rightarrow> OutputRef list \<Rightarrow> check" where
  "output_loop i seen [] = None"
| "output_loop i seen (o' # os) = firsterr [
     map_option (\<lambda>e. Wrapf ''output %d: %w'' [FInt i] [e]) (OutputRef_Validate o'),
     fails (out_Ref o' \<in> set seen) (Errorf ''output %d duplicates immutable reference'' [FInt i]),
     output_loop (i + 1) (out_Ref o' # seen) os]"

definition Result_Validate :: "Result \<Rightarrow> check" where
  "Result_Validate r = (let c = r_Counts r; b = sh_Budget (r_Shard r) in firsterr [
     wrap ''shard: %w'' (Shard_Validate (r_Shard r)),
     wrap ''counts: %w'' (Counts_Validate c),
     fails (c_Expected c > b_MaxItems b)
       (Errorf ''expected count %d exceeds item budget %d'' [FInt (c_Expected c), FInt (b_MaxItems b)]),
     fails (c_Processed c > b_MaxItems b)
       (Errorf ''processed count %d exceeds item budget %d'' [FInt (c_Processed c), FInt (b_MaxItems b)]),
     fails (c_AcceptedGaps c > 0 \<and> r_GapAcceptanceRef r = [])
       (Errorf ''gap acceptance reference is required for accepted gaps'' []),
     fails (c_AcceptedGaps c = 0 \<and> r_GapAcceptanceRef r \<noteq> [])
       (Errorf ''gap acceptance reference requires accepted gaps'' []),
     fails (c_PendingRetry c > 0 \<and> r_NextEligible r = None)
       (Errorf ''pending retry requires a next eligible time'' []),
     fails (c_PendingRetry c = 0 \<and> r_NextEligible r \<noteq> None)
       (Errorf ''next eligible time requires pending retry input'' []),
     (if r_Complete r then firsterr [
        fails (c_Processed c \<noteq> c_Expected c)
          (Errorf ''complete result must account for all expected input'' []),
        fails (c_PendingRetry c \<noteq> 0 \<or> c_Rejected c \<noteq> 0 \<or> c_Failed c \<noteq> 0)
          (Errorf ''complete result cannot contain pending retry, rejected, or failed input'' []),
        fails (c_TerminalGap c \<noteq> c_AcceptedGaps c)
          (Errorf ''complete result must accept every terminal gap'' []),
        fails (c_TerminalGap c > 0 \<and> r_GapAcceptanceRef r = [])
          (Errorf ''complete result with terminal gaps requires an acceptance reference'' [])]
      else None),
     output_loop 0 [] (elems (r_Outputs r))])"

section \<open>The idempotency key\<close>

definition key_payload :: "(UUID \<Rightarrow> string) \<Rightarrow> Shard \<Rightarrow> string" where
  "key_payload us s =
    (let e = sh_Execution s; b = sh_Budget s
     in canonical_payload
         [''corpus-stage-result-v1'', x_Country e, us (x_RunID e), us (x_BuildID e), sh_Stage s,
           sh_Cursor s, sh_ManifestRef s, sh_Recipe s]
         [b_MaxItems b, b_MaxInputBytes b, b_MaxPages b, b_MaxElapsed b, b_MaxConcurrent b])"

definition IdempotencyKey :: "(UUID \<Rightarrow> string) \<Rightarrow> Shard \<Rightarrow> string" where
  "IdempotencyKey us s = ''sha256:'' @ EncodeToString (sha256 (key_payload us s))"

section \<open>What the validators accept\<close>

lemma Budget_Validate_None [simp]:
  "Budget_Validate b = None \<longleftrightarrow> 0 < b_MaxItems b \<and> 0 < b_MaxInputBytes b \<and> 0 < b_MaxPages b
     \<and> 0 < b_MaxElapsed b \<and> 0 < b_MaxConcurrent b"
  by (auto simp: Budget_Validate_def)

lemma outcome_loop_zero:
  "\<forall>n \<in> set ns. 0 \<le> n \<Longrightarrow> outcome_loop p r ns = Inr 0 \<longleftrightarrow> sum_list ns = r"
proof (induction ns arbitrary: r)
  case (Cons n ns)
  have "0 \<le> sum_list ns" using Cons.prems by (intro sum_list_nonneg) auto
  with Cons show ?case by auto
qed auto

lemma output_loop_None:
  "output_loop i seen os = None \<longleftrightarrow>
     (\<forall>o' \<in> set os. OutputRef_Validate o' = None) \<and> distinct (map out_Ref os)
     \<and> out_Ref ` set os \<inter> set seen = {}"
  by (induction i seen os rule: output_loop.induct) auto

lemma counts_accounting:
  "Counts_Validate c = None \<longleftrightarrow>
     list_all (\<lambda>n. 0 \<le> n) [c_Succeeded c, c_PendingRetry c, c_TerminalGap c, c_AcceptedGaps c, c_Rejected c, c_Failed c]
     \<and> c_Succeeded c + c_PendingRetry c + c_TerminalGap c + c_Rejected c + c_Failed c = c_Processed c
     \<and> c_Processed c \<le> c_Expected c \<and> c_AcceptedGaps c \<le> c_TerminalGap c"
proof -
  let ?ns = "[c_Succeeded c, c_PendingRetry c, c_TerminalGap c, c_Rejected c, c_Failed c]"
  have "\<forall>n \<in> set ?ns. 0 \<le> n \<Longrightarrow>
      (case outcome_loop (c_Processed c) (c_Processed c) ?ns of Inl e \<Rightarrow> Some e
       | Inr remaining \<Rightarrow> fails (remaining \<noteq> 0) (f remaining)) = None \<longleftrightarrow> sum_list ?ns = c_Processed c" for f
    using outcome_loop_zero [of ?ns "c_Processed c" "c_Processed c"]
    by (auto split: sum.splits)
  then show ?thesis
    by (auto simp: Counts_Validate_def simp del: outcome_loop.simps)
qed

text \<open>
  \<open>Counts.Validate\<close> accepts exactly the counts in which no number is negative,
  at most the expected items are processed, every processed item has exactly one of the five
  outcomes (they sum to the processed count), and accepted gaps are terminal gaps.
\<close>

theorem counts_accounted:
  "Counts_Validate c = None \<longleftrightarrow>
     list_all (\<lambda>n. 0 \<le> n) [c_Succeeded c, c_PendingRetry c, c_TerminalGap c, c_AcceptedGaps c, c_Rejected c, c_Failed c]
     \<and> c_Succeeded c + c_PendingRetry c + c_TerminalGap c + c_Rejected c + c_Failed c = c_Processed c
     \<and> c_Processed c \<le> c_Expected c \<and> c_AcceptedGaps c \<le> c_TerminalGap c"
  by (rule counts_accounting)

text \<open>
  C37 (functional): \<open>Result.Validate\<close> accepts exactly the results of a valid shard with accounted
  counts whose expected input fits the item budget, with a gap acceptance reference iff gaps were
  accepted and a next eligible time iff input is pending retry, with distinct immutable outputs;
  and a complete result is one in which every expected item succeeded or is an accepted gap: that
  one equation is what the code's four completeness checks amount to.
\<close>

theorem result_accepted:
  "Result_Validate r = None \<longleftrightarrow>
     Shard_Validate (r_Shard r) = None \<and> Counts_Validate (r_Counts r) = None
     \<and> c_Expected (r_Counts r) \<le> b_MaxItems (sh_Budget (r_Shard r))
     \<and> (c_AcceptedGaps (r_Counts r) = 0 \<longleftrightarrow> r_GapAcceptanceRef r = [])
     \<and> (c_PendingRetry (r_Counts r) = 0 \<longleftrightarrow> r_NextEligible r = None)
     \<and> (if r_Complete r then c_Succeeded (r_Counts r) + c_AcceptedGaps (r_Counts r) = c_Expected (r_Counts r)
        else True)
     \<and> list_all (\<lambda>o'. OutputRef_Validate o' = None) (elems (r_Outputs r))
     \<and> distinct (map out_Ref (elems (r_Outputs r)))"
proof (cases "Counts_Validate (r_Counts r) = None")
  case True
  then have c: "0 \<le> c_Succeeded (r_Counts r)" "0 \<le> c_PendingRetry (r_Counts r)"
    "0 \<le> c_TerminalGap (r_Counts r)" "0 \<le> c_AcceptedGaps (r_Counts r)"
    "0 \<le> c_Rejected (r_Counts r)" "0 \<le> c_Failed (r_Counts r)"
    "c_Processed (r_Counts r) = c_Succeeded (r_Counts r) + c_PendingRetry (r_Counts r)
      + c_TerminalGap (r_Counts r) + c_Rejected (r_Counts r) + c_Failed (r_Counts r)"
    "c_Processed (r_Counts r) \<le> c_Expected (r_Counts r)" "c_AcceptedGaps (r_Counts r) \<le> c_TerminalGap (r_Counts r)"
    by (simp_all add: counts_accounting)
  from True c show ?thesis
    by (auto simp: Result_Validate_def Let_def output_loop_None list_all_iff not_less)
next
  case False
  then show ?thesis by (auto simp: Result_Validate_def Let_def)
qed

section \<open>What the idempotency key identifies\<close>

text \<open>The processing inputs: everything of a shard but the owner and the lease fence.\<close>

definition immutable_inputs :: "Shard \<Rightarrow> string list \<times> UUID list \<times> int list" where
  "immutable_inputs s =
    ([x_Country (sh_Execution s), sh_Stage s, sh_Cursor s, sh_ManifestRef s, sh_Recipe s],
     [x_RunID (sh_Execution s), x_BuildID (sh_Execution s)],
     [b_MaxItems (sh_Budget s), b_MaxInputBytes (sh_Budget s), b_MaxPages (sh_Budget s),
      b_MaxElapsed (sh_Budget s), b_MaxConcurrent (sh_Budget s)])"

text \<open>The values fit their Go types.\<close>

definition go_shard :: "(UUID \<Rightarrow> string) \<Rightarrow> Shard \<Rightarrow> bool" where
  "go_shard us s \<longleftrightarrow> list_all go_string (fst (immutable_inputs s))
     \<and> list_all (\<lambda>u. go_string (us u)) (fst (snd (immutable_inputs s)))
     \<and> list_all in_int64 (snd (snd (immutable_inputs s)))"

lemma go_string_short: "length s \<le> 512 \<Longrightarrow> go_string s"
  by (simp add: go_string_def)

lemma key_payload_inputs:
  assumes "inj us" "go_shard us s" "go_shard us t"
  shows "key_payload us s = key_payload us t \<longleftrightarrow> immutable_inputs s = immutable_inputs t"
  unfolding key_payload_def Let_def
  by (subst canonical_payload_inj) (use assms in \<open>auto simp: go_shard_def immutable_inputs_def inj_eq go_string_short\<close>)

lemma IdempotencyKey_eq:
  "IdempotencyKey us s = IdempotencyKey us t \<longleftrightarrow> sha256 (key_payload us s) = sha256 (key_payload us t)"
  by (auto simp: IdempotencyKey_def dest: EncodeToString_inj)

text \<open>
  C7 (roundtrip): two shards get the same idempotency key iff they agree in every processing
  input (country, run, build, stage, cursor, manifest, recipe and the five budget dimensions),
  or their encodings are a SHA-256 collision. The length prefixes keep adjacent strings apart;
  the scheduler's owner and fence do not enter.
\<close>

theorem key_identifies_inputs:
  assumes "inj us" and "go_shard us s" and "go_shard us t"
  shows "IdempotencyKey us s = IdempotencyKey us t \<longleftrightarrow> immutable_inputs s = immutable_inputs t
    \<or> (key_payload us s \<noteq> key_payload us t \<and> sha256 (key_payload us s) = sha256 (key_payload us t))"
  using key_payload_inputs [OF assms] by (auto simp: IdempotencyKey_eq)

text \<open>An injective text form of UUIDs and a shard, for the witnesses.\<close>

definition sample_uuid_text :: "UUID \<Rightarrow> string" where
  "sample_uuid_text u = EncodeToString (map char_of_byte (be_bytes 16 (unat u)))"

lemma sample_uuid_text_inj: "inj sample_uuid_text"
proof (rule injI)
  fix u v
  assume "sample_uuid_text u = sample_uuid_text v"
  then have "map char_of_byte (be_bytes 16 (unat u)) = map char_of_byte (be_bytes 16 (unat v))"
    unfolding sample_uuid_text_def by (rule EncodeToString_inj)
  then have "be_bytes 16 (unat u) = be_bytes 16 (unat v)"
    by (rule map_char_of_byte_inj) (auto dest: be_bytes_less)
  then have "unat u mod 256 ^ 16 = unat v mod 256 ^ 16" by (metis be_value_bytes)
  moreover have "unat x < 256 ^ 16" for x :: UUID
    by (rule order_less_le_trans [OF unsigned_less]) simp
  ultimately show "u = v" by (simp add: word_unat_eq_iff)
qed

lemma length_sample_uuid_text [simp]: "length (sample_uuid_text u) = 32"
  by (simp add: sample_uuid_text_def)

definition sample_budget :: Budget where
  "sample_budget = \<lparr>b_MaxItems = 10, b_MaxInputBytes = 1000, b_MaxPages = 100, b_MaxElapsed = 60, b_MaxConcurrent = 2\<rparr>"

definition sample_shard :: "string \<Rightarrow> int \<Rightarrow> Shard" where
  "sample_shard owner fence = \<lparr>sh_Execution = \<lparr>x_Country = ''vn'', x_Owner = owner, x_RunID = 1, x_BuildID = 2,
       x_LeaseFence = fence\<rparr>,
     sh_Stage = Fetch, sh_Cursor = ''c'', sh_ManifestRef = ''m'', sh_Recipe = ''r'', sh_Budget = sample_budget\<rparr>"

lemma sample_shard_go: "go_shard sample_uuid_text (sample_shard owner fence)"
  by (simp add: go_shard_def immutable_inputs_def sample_shard_def sample_budget_def go_string_def
      in_int64_def min_int64_def max_int64_def)

theorem key_identifies_inputs_witness:
  "IdempotencyKey sample_uuid_text (sample_shard ''a'' 1) = IdempotencyKey sample_uuid_text (sample_shard ''b'' 7)"
  using key_identifies_inputs [OF sample_uuid_text_inj sample_shard_go sample_shard_go, of "''a''" 1 "''b''" 7]
  by (simp add: immutable_inputs_def sample_shard_def)

end
