(* ===== verification/Run_Apply.thy ===== *)
theory Run_Apply
  imports Run_Types
begin

text \<open>
  \<open>internal/corpus/run/lease.go\<close> and \<open>apply.go\<close>: scheduler leases and the requests that commit
  a stage result. \<open>reflect.DeepEqual\<close> on two requests is equality of their records here: the
  slices are optional lists (nil is not empty), the only time in a request is \<open>NextEligible\<close>.
\<close>

section \<open>Leases\<close>

record Lease =
  l_Country :: string
  l_BuildID :: UUID
  l_Owner :: string
  l_Fence :: int
  l_ExpiresAt :: gotime

definition Lease_Validate :: "Lease \<Rightarrow> check" where
  "Lease_Validate l = firsterr [
     fails (l_Country l = []) (Errorf ''country is required'' []),
     fails (l_BuildID l = uuid_Nil) (Errorf ''build ID is required'' []),
     fails (l_Owner l = []) (Errorf ''owner is required'' []),
     fails (l_Fence l \<le> 0) (Errorf ''fence must be positive'' []),
     fails (IsZero (l_ExpiresAt l)) (Errorf ''expiry is required'' [])]"

definition validateLeaseOwner :: "Lease \<Rightarrow> Execution \<Rightarrow> gotime \<Rightarrow> check" where
  "validateLeaseOwner lease execution now = firsterr [
     wrap ''invalid lease: %w'' (Lease_Validate lease),
     fails (l_Country lease \<noteq> x_Country execution)
       (Errorf ''country %q does not match execution country %q''
         [FStr (l_Country lease), FStr (x_Country execution)]),
     fails (l_BuildID lease \<noteq> x_BuildID execution)
       (Errorf ''build ID %s does not match execution build ID %s''
         [FInt (uint (l_BuildID lease)), FInt (uint (x_BuildID execution))]),
     fails (l_Owner lease \<noteq> x_Owner execution)
       (Errorf ''owner %q does not match execution owner %q'' [FStr (l_Owner lease), FStr (x_Owner execution)]),
     fails (\<not> After (l_ExpiresAt lease) now) (Errorf ''lease expired at %s'' [FInt (instant (l_ExpiresAt lease))])]"

definition validateLeaseIdentity :: "Lease \<Rightarrow> Execution \<Rightarrow> gotime \<Rightarrow> check" where
  "validateLeaseIdentity lease execution now = firsterr [
     validateLeaseOwner lease execution now,
     fails (l_Fence lease \<noteq> x_LeaseFence execution)
       (Errorf ''fence %d does not match execution fence %d'' [FInt (l_Fence lease), FInt (x_LeaseFence execution)])]"

section \<open>Apply requests\<close>

record ApplyRequest =
  ar_IdempotencyKey :: string
  ar_Result :: Result
  ar_Outputs :: "OutputRef slice"

text \<open>The loop over \<open>r.Outputs\<close> runs once the lengths agree, so its indexing is in range.\<close>

definition ApplyRequest_Validate :: "(UUID \<Rightarrow> string) \<Rightarrow> ApplyRequest \<Rightarrow> check" where
  "ApplyRequest_Validate us r =
    (let outs = elems (ar_Outputs r); ress = elems (r_Outputs (ar_Result r)) in firsterr [
     fails (ar_IdempotencyKey r = []) (Errorf ''idempotency key is required'' []),
     wrap ''result: %w'' (Result_Validate (ar_Result r)),
     fails (ar_IdempotencyKey r \<noteq> IdempotencyKey us (r_Shard (ar_Result r)))
       (Errorf ''idempotency key does not match immutable shard inputs'' []),
     fails (length outs \<noteq> length ress) (Errorf ''apply outputs do not match result outputs'' []),
     (if length outs = length ress
      then each_idx (\<lambda>i (a, b). fails (a \<noteq> b) (Errorf ''apply output %d does not match result output'' [FInt i]))
        (zip outs ress)
      else None)])"

definition equalOptionalTime :: "gotime option \<Rightarrow> gotime option \<Rightarrow> bool" where
  "equalOptionalTime l r = (case (l, r) of
     (Some a, Some b) \<Rightarrow> TimeEqual a b
   | (None, None) \<Rightarrow> True
   | _ \<Rightarrow> False)"

text \<open>The assignments to the two copies before \<open>reflect.DeepEqual\<close>.\<close>

definition unschedule :: "Shard \<Rightarrow> Shard" where
  "unschedule s = s\<lparr>sh_Execution := (sh_Execution s)\<lparr>x_Owner := [], x_LeaseFence := 0\<rparr>\<rparr>"

definition immutable_part :: "ApplyRequest \<Rightarrow> ApplyRequest" where
  "immutable_part r = r\<lparr>ar_Result := (ar_Result r)\<lparr>r_NextEligible := None,
     r_Shard := unschedule (r_Shard (ar_Result r))\<rparr>\<rparr>"

definition SameImmutablePayload :: "ApplyRequest \<Rightarrow> ApplyRequest \<Rightarrow> bool" where
  "SameImmutablePayload l r =
     (if \<not> equalOptionalTime (r_NextEligible (ar_Result l)) (r_NextEligible (ar_Result r)) then False
      else immutable_part l = immutable_part r)"

definition applyRequest :: "(UUID \<Rightarrow> string) \<Rightarrow> Result \<Rightarrow> ApplyRequest" where
  "applyRequest us result = \<lparr>ar_IdempotencyKey = IdempotencyKey us (r_Shard result), ar_Result = result,
     ar_Outputs = append_nil (r_Outputs result)\<rparr>"

section \<open>Properties\<close>

lemma ApplyRequest_Validate_None:
  "ApplyRequest_Validate us r = None \<longleftrightarrow>
     Result_Validate (ar_Result r) = None \<and> ar_IdempotencyKey r = IdempotencyKey us (r_Shard (ar_Result r))
     \<and> elems (ar_Outputs r) = elems (r_Outputs (ar_Result r))"
proof -
  have same: "length xs = length ys \<Longrightarrow> each_idx (\<lambda>i (a, b). fails (a \<noteq> b) (e i)) (zip xs ys) = None \<longleftrightarrow> xs = ys"
    for xs ys :: "OutputRef list" and e
    by (simp add: list_eq_iff_nth_eq)
  have key: "IdempotencyKey us s \<noteq> []" for s by (simp add: IdempotencyKey_def)
  show ?thesis
    using key [of "r_Shard (ar_Result r)"]
    by (cases "length (elems (ar_Outputs r)) = length (elems (r_Outputs (ar_Result r)))")
      (auto simp: ApplyRequest_Validate_def Let_def same simp del: each_idx_None)
qed

lemma SameImmutablePayload_refl: "SameImmutablePayload r r"
  by (simp add: SameImmutablePayload_def equalOptionalTime_def TimeEqual_def split: option.split)

lemma equalOptionalTime_trans:
  "equalOptionalTime a b \<Longrightarrow> equalOptionalTime b c \<Longrightarrow> equalOptionalTime a c"
  by (auto simp: equalOptionalTime_def TimeEqual_def split: option.splits)

lemma equalOptionalTime_sym: "equalOptionalTime a b \<Longrightarrow> equalOptionalTime b a"
  by (auto simp: equalOptionalTime_def TimeEqual_def split: option.splits)

lemma SameImmutablePayload_equivp: "equivp SameImmutablePayload"
proof (rule equivpI)
  show "reflp SameImmutablePayload" by (rule reflpI) (rule SameImmutablePayload_refl)
  show "symp SameImmutablePayload"
    by (rule sympI) (auto simp: SameImmutablePayload_def dest: equalOptionalTime_sym split: if_splits)
  show "transp SameImmutablePayload"
    by (rule transpI) (auto simp: SameImmutablePayload_def dest: equalOptionalTime_trans split: if_splits)
qed

text \<open>
  \<open>SameImmutablePayload\<close>, by which a replayed commit is recognised, is an
  equivalence relation.
\<close>

theorem same_payload_equivalence: "equivp SameImmutablePayload"
  by (rule SameImmutablePayload_equivp)

lemma unschedule_key: "unschedule s = unschedule t \<Longrightarrow> IdempotencyKey us s = IdempotencyKey us t"
proof -
  assume "unschedule s = unschedule t"
  then have "immutable_inputs (unschedule s) = immutable_inputs (unschedule t)" by simp
  moreover have "key_payload us (unschedule x) = key_payload us x" for x
    by (simp add: unschedule_def key_payload_def Let_def)
  ultimately show ?thesis using \<open>unschedule s = unschedule t\<close> by (metis IdempotencyKey_eq)
qed

definition takeover :: "string \<Rightarrow> int \<Rightarrow> Result \<Rightarrow> Result" where
  "takeover owner fence r = r\<lparr>r_Shard := (r_Shard r)\<lparr>sh_Execution := (sh_Execution (r_Shard r))
     \<lparr>x_Owner := owner, x_LeaseFence := fence\<rparr>\<rparr>\<rparr>"

lemma Result_Validate_takeover:
  "Result_Validate r = None \<Longrightarrow> owner \<noteq> [] \<Longrightarrow> 0 < fence \<Longrightarrow> Result_Validate (takeover owner fence r) = None"
  by (auto simp: takeover_def Result_Validate_def Let_def Shard_Validate_def Execution_Validate_def
      validateIdentity_def)

lemma SameImmutablePayload_takeover:
  "SameImmutablePayload (applyRequest us r) (applyRequest us (takeover owner fence r))"
proof -
  have "IdempotencyKey us (r_Shard (takeover owner fence r)) = IdempotencyKey us (r_Shard r)"
    by (rule unschedule_key) (simp add: unschedule_def takeover_def)
  then show ?thesis
    by (simp add: SameImmutablePayload_def applyRequest_def immutable_part_def unschedule_def takeover_def
        equalOptionalTime_def TimeEqual_def split: option.split)
qed

text \<open>
  C28 (functional): when another owner takes a shard over under another positive fence
  (response-loss recovery), the request it builds for the same result is valid whenever the
  first one was, has the same idempotency key and is recognised as the same immutable payload.
\<close>

theorem takeover_replays:
  assumes "ApplyRequest_Validate us (applyRequest us r) = None" and "owner \<noteq> []" and "0 < fence"
  shows "ApplyRequest_Validate us (applyRequest us (takeover owner fence r)) = None
    \<and> ar_IdempotencyKey (applyRequest us (takeover owner fence r)) = ar_IdempotencyKey (applyRequest us r)
    \<and> SameImmutablePayload (applyRequest us r) (applyRequest us (takeover owner fence r))"
proof -
  have "Result_Validate r = None" using assms(1) by (simp add: ApplyRequest_Validate_None applyRequest_def)
  then have "Result_Validate (takeover owner fence r) = None" using assms by (simp add: Result_Validate_takeover)
  moreover have "IdempotencyKey us (r_Shard (takeover owner fence r)) = IdempotencyKey us (r_Shard r)"
    by (rule unschedule_key) (simp add: unschedule_def takeover_def)
  ultimately show ?thesis
    using SameImmutablePayload_takeover [of us r owner fence]
    by (simp add: ApplyRequest_Validate_None applyRequest_def)
qed

definition sample_result :: Result where
  "sample_result = \<lparr>r_Shard = sample_shard ''a'' 1, r_NextCursor = ''d'', r_NextEligible = None,
     r_Counts = \<lparr>c_Expected = 3, c_Processed = 3, c_Succeeded = 2, c_PendingRetry = 0, c_TerminalGap = 1,
       c_AcceptedGaps = 1, c_Rejected = 0, c_Failed = 0\<rparr>,
     r_GapAcceptanceRef = ''g'', r_Complete = True,
     r_Outputs = Some [\<lparr>out_Ref = ''o'', out_Digest = ''d'', out_SizeBytes = 4, out_MediaType = ''m''\<rparr>]\<rparr>"

lemma sample_result_ok: "Result_Validate sample_result = None"
  by (simp add: sample_result_def Result_Validate_def Let_def Shard_Validate_def sample_shard_def
      Execution_Validate_def validateIdentity_def Stage_Valid_def sample_budget_def Counts_Validate_def
      OutputRef_Validate_def)

theorem takeover_replays_witness:
  "SameImmutablePayload (applyRequest sample_uuid_text sample_result)
     (applyRequest sample_uuid_text (takeover ''b'' 2 sample_result))"
proof -
  have "ApplyRequest_Validate sample_uuid_text (applyRequest sample_uuid_text sample_result) = None"
    using sample_result_ok by (simp add: ApplyRequest_Validate_None applyRequest_def)
  from takeover_replays [OF this, of "''b''" 2] show ?thesis by simp
qed

text \<open>
  The comparison tells a nil output slice from an empty one. A committed result
  without outputs that comes back with a nil slice where the executor gave an empty one (or the
  other way round) is not the same immutable payload, although every output reference matches.
\<close>

theorem nil_outputs_differ:
  "\<not> SameImmutablePayload (applyRequest us (r\<lparr>r_Outputs := None\<rparr>)) (applyRequest us (r\<lparr>r_Outputs := Some []\<rparr>))
   \<and> ApplyRequest_Validate us (applyRequest us (r\<lparr>r_Outputs := None\<rparr>))
       = ApplyRequest_Validate us (applyRequest us (r\<lparr>r_Outputs := Some []\<rparr>))"
proof
  show "\<not> SameImmutablePayload (applyRequest us (r\<lparr>r_Outputs := None\<rparr>)) (applyRequest us (r\<lparr>r_Outputs := Some []\<rparr>))"
  proof
    assume "SameImmutablePayload (applyRequest us (r\<lparr>r_Outputs := None\<rparr>)) (applyRequest us (r\<lparr>r_Outputs := Some []\<rparr>))"
    then have "r_Outputs (ar_Result (immutable_part (applyRequest us (r\<lparr>r_Outputs := None\<rparr>))))
        = r_Outputs (ar_Result (immutable_part (applyRequest us (r\<lparr>r_Outputs := Some []\<rparr>))))"
      by (simp add: SameImmutablePayload_def split: if_splits)
    then show False by (simp add: immutable_part_def applyRequest_def)
  qed
  have "Result_Validate (r\<lparr>r_Outputs := None\<rparr>) = Result_Validate (r\<lparr>r_Outputs := Some []\<rparr>)"
    by (simp add: Result_Validate_def Let_def)
  then show "ApplyRequest_Validate us (applyRequest us (r\<lparr>r_Outputs := None\<rparr>))
      = ApplyRequest_Validate us (applyRequest us (r\<lparr>r_Outputs := Some []\<rparr>))"
    by (simp add: ApplyRequest_Validate_def applyRequest_def append_nil_def Let_def)
qed

end
