(* ===== verification/Run_Direct.thy ===== *)
theory Run_Direct
  imports Run_Apply "HOL-Library.State_Monad"
begin

text \<open>
  \<open>internal/corpus/run/direct.go\<close>: one shard executed under a renewable scheduler lease. The
  injected ports (clock, scheduler lease, executor, unit of work), the contexts and the
  \<open>select\<close> over channels are arguments (\<open>ports\<close>): functions on a world of any type, called in
  the order the code calls them, so a statement for all ports and worlds is one for all clocks,
  adapters, cancellations and interleavings. The state is the world and a log, newest event
  first, of what the runner has done; nothing reads the log.
\<close>

section \<open>Ports, log and primitive steps\<close>

text \<open>
  A turn of the \<open>select\<close>: \<open>SelDone e\<close> is \<open>runCtx.Done()\<close>, the context's error then being \<open>e\<close>
  (\<open>Err\<close> is not nil once \<open>Done\<close> is closed and does not change after).
\<close>

datatype branch = SelDone gerr | SelDeadline | SelResponse | SelRenew

datatype event =
    EvNow gotime                \<comment> \<open>\<open>d.clock.Now()\<close> returned\<close>
  | EvAcquired Lease            \<comment> \<open>\<open>Acquire\<close> returned without error\<close>
  | EvStarted Shard             \<comment> \<open>the goroutine runs \<open>executor.Execute\<close>\<close>
  | EvAwaited                   \<comment> \<open>the executor's response was received\<close>
  | EvRenewed Lease             \<comment> \<open>\<open>lease = renewed\<close>\<close>
  | EvApply int ApplyRequest    \<comment> \<open>\<open>uow.Apply\<close> is called under a context with this timeout\<close>
  | EvReleased int Lease        \<comment> \<open>\<open>leases.Release\<close> is called\<close>

record 'w ports =
  p_Now :: "'w \<Rightarrow> gotime \<times> 'w"
  p_CallerErr :: "'w \<Rightarrow> check \<times> 'w"
  p_RunErr :: "'w \<Rightarrow> check \<times> 'w"
  p_ApplyErr :: "int \<Rightarrow> 'w \<Rightarrow> check \<times> 'w"
  p_AfterRenew :: "int \<Rightarrow> 'w \<Rightarrow> unit \<times> 'w"
  p_AfterDeadline :: "int \<Rightarrow> 'w \<Rightarrow> unit \<times> 'w"
  p_Select :: "'w \<Rightarrow> branch \<times> 'w"
  p_Acquire :: "string \<Rightarrow> UUID \<Rightarrow> string \<Rightarrow> gotime \<Rightarrow> 'w \<Rightarrow> (Lease \<times> check) \<times> 'w"
  p_Renew :: "int \<Rightarrow> Lease \<Rightarrow> gotime \<Rightarrow> 'w \<Rightarrow> (Lease \<times> check) \<times> 'w"
  p_Release :: "int \<Rightarrow> Lease \<Rightarrow> 'w \<Rightarrow> check \<times> 'w"
  p_Start :: "Shard \<Rightarrow> 'w \<Rightarrow> unit \<times> 'w"
  p_Response :: "'w \<Rightarrow> (Result \<times> check) \<times> 'w"
  p_Apply :: "ApplyRequest \<Rightarrow> 'w \<Rightarrow> (Result \<times> check) \<times> 'w"

type_synonym ('w, 'a) runner = "('w \<times> event list, 'a) state"

definition call :: "('w \<Rightarrow> 'a \<times> 'w) \<Rightarrow> ('w, 'a) runner" where
  "call f = State (\<lambda>(w, log). case f w of (a, w') \<Rightarrow> (a, (w', log)))"

definition emit :: "event \<Rightarrow> ('w, unit) runner" where
  "emit e = State (\<lambda>(w, log). ((), (w, e # log)))"

definition now :: "'w ports \<Rightarrow> ('w, gotime) runner" where
  "now p = do { t \<leftarrow> call (p_Now p); emit (EvNow t); State_Monad.return t }"

definition await :: "'w ports \<Rightarrow> ('w, Result \<times> check) runner" where
  "await p = do { r \<leftarrow> call (p_Response p); emit EvAwaited; State_Monad.return r }"

section \<open>Configuration\<close>

abbreviation (input) "ErrLeaseIdentity \<equiv> Sentinel ''lease identity mismatch''"
abbreviation (input) "ErrLeaseLost \<equiv> Sentinel ''scheduler lease lost''"
abbreviation (input) "ErrStaleResult \<equiv> Sentinel ''stale stage result''"
abbreviation (input) "ErrNoProgress \<equiv> Sentinel ''stage made no progress''"
abbreviation (input) "DeadlineExceeded \<equiv> Sentinel ''context deadline exceeded''"

record Direct =
  d_leaseDuration :: int
  d_renewInterval :: int

text \<open>The booleans: whether the interface value passed in is nil.\<close>

definition NewDirect :: "bool \<Rightarrow> bool \<Rightarrow> bool \<Rightarrow> int \<Rightarrow> int \<Rightarrow> gerr + Direct" where
  "NewDirect leases_nil executor_nil uow_nil LeaseDuration RenewInterval =
    (if leases_nil then Inl (Errorf ''scheduler lease is required'' [])
     else if executor_nil then Inl (Errorf ''executor is required'' [])
     else if uow_nil then Inl (Errorf ''unit of work is required'' [])
     else if LeaseDuration \<le> 0 then Inl (Errorf ''lease duration must be positive'' [])
     else if RenewInterval \<le> 0 \<or> RenewInterval \<ge> LeaseDuration
       then Inl (Errorf ''renew interval must be positive and shorter than lease duration'' [])
     else Inr \<lparr>d_leaseDuration = LeaseDuration, d_renewInterval = RenewInterval\<rparr>)"

definition validateUnfencedShard :: "Shard \<Rightarrow> check" where
  "validateUnfencedShard s = firsterr [
     wrap ''execution: %w'' (validateIdentity (sh_Execution s)),
     fails (\<not> Stage_Valid (sh_Stage s)) (Errorf ''unknown stage %q'' [FStr (sh_Stage s)]),
     fails (sh_Recipe s = []) (Errorf ''recipe is required'' []),
     wrap ''budget: %w'' (Budget_Validate (sh_Budget s))]"

text \<open>Go's integer division truncates toward zero; \<open>remaining / 2\<close> is only used when positive.\<close>

definition nextRenewal :: "Direct \<Rightarrow> gotime \<Rightarrow> gotime \<Rightarrow> int" where
  "nextRenewal d t expiresAt =
    (let remaining = TimeSub expiresAt t in
     if d_renewInterval d < remaining then d_renewInterval d
     else let next = (if remaining < 0 then - (- remaining div 2) else remaining div 2) in
       if next \<le> 0 then 1 else next)"

definition zero_Result :: Result where
  "zero_Result = \<lparr>r_Shard = \<lparr>sh_Execution = \<lparr>x_Country = [], x_Owner = [], x_RunID = 0, x_BuildID = 0,
       x_LeaseFence = 0\<rparr>, sh_Stage = [], sh_Cursor = [], sh_ManifestRef = [], sh_Recipe = [],
       sh_Budget = \<lparr>b_MaxItems = 0, b_MaxInputBytes = 0, b_MaxPages = 0, b_MaxElapsed = 0, b_MaxConcurrent = 0\<rparr>\<rparr>,
     r_NextCursor = [], r_NextEligible = None,
     r_Counts = \<lparr>c_Expected = 0, c_Processed = 0, c_Succeeded = 0, c_PendingRetry = 0, c_TerminalGap = 0,
       c_AcceptedGaps = 0, c_Rejected = 0, c_Failed = 0\<rparr>,
     r_GapAcceptanceRef = [], r_Complete = False, r_Outputs = None\<rparr>"

definition failed :: "gerr \<Rightarrow> ('w, Result \<times> check) runner" where
  "failed e = State_Monad.return (zero_Result, Some e)"

section \<open>Applying a result\<close>

definition reown :: "Shard \<Rightarrow> Result \<Rightarrow> Result" where
  "reown shard committed = committed\<lparr>r_Shard := (r_Shard committed)\<lparr>sh_Execution := (sh_Execution (r_Shard committed))
     \<lparr>x_Owner := x_Owner (sh_Execution shard), x_LeaseFence := x_LeaseFence (sh_Execution shard)\<rparr>\<rparr>\<rparr>"

definition apply_result :: "(UUID \<Rightarrow> string) \<Rightarrow> 'w ports \<Rightarrow> int \<Rightarrow> Shard \<Rightarrow> Result \<Rightarrow> ('w, Result \<times> check) runner" where
  "apply_result us p timeout shard result = do {
     ctxErr \<leftarrow> call (p_ApplyErr p timeout);
     case ctxErr of Some e \<Rightarrow> failed e | None \<Rightarrow>
     if r_Shard result \<noteq> shard
     then failed (Wrapf ''%w: executor returned another shard'' [] [ErrStaleResult])
     else case Result_Validate result of Some e \<Rightarrow> failed (Wrapf ''validate executor result: %w'' [] [e]) | None \<Rightarrow>
     if \<not> r_Complete result \<and> c_Processed (r_Counts result) = 0 \<and> elems (r_Outputs result) = []
        \<and> r_NextEligible result = None \<and> (r_NextCursor result = [] \<or> r_NextCursor result = sh_Cursor shard)
     then failed ErrNoProgress
     else let request = applyRequest us result in
     case ApplyRequest_Validate us request of
       Some e \<Rightarrow> failed (Wrapf ''validate apply request: %w'' [] [e]) | None \<Rightarrow> do {
     emit (EvApply timeout request);
     response \<leftarrow> call (p_Apply p request);
     (case response of (committed, err) \<Rightarrow>
     case err of Some e \<Rightarrow> failed (Wrapf ''apply stage result: %w'' [] [e]) | None \<Rightarrow>
     case Result_Validate committed of Some e \<Rightarrow> failed (Wrapf ''validate committed result: %w'' [] [e]) | None \<Rightarrow>
     if \<not> SameImmutablePayload request (applyRequest us committed)
     then failed (Wrapf ''%w: unit of work returned another result payload'' [] [ErrStaleResult])
     else State_Monad.return (reown shard committed, None)) } }"

section \<open>The select loop\<close>

text \<open>\<open>cancel(); <-responses; return Result{}, e\<close>\<close>

definition stop :: "'w ports \<Rightarrow> gerr \<Rightarrow> ('w, Result \<times> check) runner" where
  "stop p e = do { await p; failed e }"

definition min_time :: "gotime \<Rightarrow> gotime \<Rightarrow> gotime" where
  "min_time deadlineAt t = (if Before deadlineAt t then deadlineAt else t)"

definition on_response :: "(UUID \<Rightarrow> string) \<Rightarrow> 'w ports \<Rightarrow> Shard \<Rightarrow> gotime \<Rightarrow> Lease \<Rightarrow> ('w, Result \<times> check) runner" where
  "on_response us p shard deadlineAt lease = do {
     response \<leftarrow> await p;
     ctxErr \<leftarrow> call (p_RunErr p);
     case ctxErr of Some e \<Rightarrow> failed e | None \<Rightarrow> do {
     t1 \<leftarrow> now p;
     if \<not> Before t1 deadlineAt then failed DeadlineExceeded
     else case snd response of Some e \<Rightarrow> failed (Wrapf ''execute shard: %w'' [] [e]) | None \<Rightarrow> do {
     t2 \<leftarrow> now p;
     if \<not> Before t2 (l_ExpiresAt lease)
     then failed (Wrapf ''%w: expired before result acceptance'' [] [ErrLeaseLost])
     else do {
     t3 \<leftarrow> now p;
     let timeout = TimeSub (min_time deadlineAt (l_ExpiresAt lease)) t3;
     applied \<leftarrow> apply_result us p timeout shard (fst response);
     applyContextErr \<leftarrow> call (p_ApplyErr p timeout);
     (case snd applied of Some e \<Rightarrow> State_Monad.return applied | None \<Rightarrow> do {
     ctxErr' \<leftarrow> call (p_RunErr p);
     case ctxErr' of Some e \<Rightarrow> failed e | None \<Rightarrow> do {
     t4 \<leftarrow> now p;
     if \<not> Before t4 deadlineAt then failed DeadlineExceeded
     else case applyContextErr of
       Some _ \<Rightarrow> failed (Wrapf ''%w: expired before commit response'' [] [ErrLeaseLost])
     | None \<Rightarrow> do {
     t5 \<leftarrow> now p;
     if \<not> Before t5 (l_ExpiresAt lease)
     then failed (Wrapf ''%w: expired before commit response'' [] [ErrLeaseLost])
     else State_Monad.return applied } } }) } } } }"

text \<open>The renewal branch: the error it returns with, or the lease it goes on with.\<close>

definition on_renew :: "'w ports \<Rightarrow> Direct \<Rightarrow> Shard \<Rightarrow> gotime \<Rightarrow> Lease \<Rightarrow> ('w, (Result \<times> check) + Lease) runner" where
  "on_renew p d shard deadlineAt lease = do {
     t \<leftarrow> now p;
     ctxErr \<leftarrow> call (p_RunErr p);
     case ctxErr of Some e \<Rightarrow> do { r \<leftarrow> stop p e; State_Monad.return (Inl r) } | None \<Rightarrow>
     if \<not> Before t deadlineAt then do { r \<leftarrow> stop p DeadlineExceeded; State_Monad.return (Inl r) }
     else if \<not> Before t (l_ExpiresAt lease)
     then do { r \<leftarrow> stop p (Wrapf ''%w: expired before renewal'' [] [ErrLeaseLost]); State_Monad.return (Inl r) }
     else do {
     response \<leftarrow> call (p_Renew p (TimeSub (l_ExpiresAt lease) t) lease
       (min_time deadlineAt (TimeAdd t (d_leaseDuration d))));
     (case response of (renewed, renewErr) \<Rightarrow>
     case renewErr of
       Some e \<Rightarrow> do {
         await p;
         ctxErr' \<leftarrow> call (p_RunErr p);
         State_Monad.return (Inl (zero_Result, Some (case ctxErr' of Some e' \<Rightarrow> e'
           | None \<Rightarrow> Wrapf ''%w: renew: %w'' [] [ErrLeaseLost, e]))) }
     | None \<Rightarrow> do {
         postRenewNow \<leftarrow> now p;
         case validateLeaseIdentity renewed (sh_Execution shard) postRenewNow of
           Some e \<Rightarrow> do {
             r \<leftarrow> stop p (Wrapf ''%w: renewed lease: %w'' [] [ErrLeaseLost, e]);
             State_Monad.return (Inl r) }
         | None \<Rightarrow> do {
             emit (EvRenewed renewed);
             call (p_AfterRenew p (nextRenewal d postRenewNow (l_ExpiresAt renewed)));
             State_Monad.return (Inr renewed) } }) } }"

text \<open>
  The loop, with fuel for its turns (\<open>None\<close>: out of fuel). It returns the lease the deferred
  release will see beside the result.
\<close>

fun direct_loop :: "nat \<Rightarrow> (UUID \<Rightarrow> string) \<Rightarrow> 'w ports \<Rightarrow> Direct \<Rightarrow> Shard \<Rightarrow> gotime \<Rightarrow> Lease
    \<Rightarrow> ('w, ((Result \<times> check) \<times> Lease) option) runner" where
  "direct_loop 0 us p d shard deadlineAt lease = State_Monad.return None"
| "direct_loop (Suc n) us p d shard deadlineAt lease = do {
     choice \<leftarrow> call (p_Select p);
     case choice of
       SelDone e \<Rightarrow> do { r \<leftarrow> stop p e; State_Monad.return (Some (r, lease)) }
     | SelDeadline \<Rightarrow> do { r \<leftarrow> stop p DeadlineExceeded; State_Monad.return (Some (r, lease)) }
     | SelResponse \<Rightarrow> do { r \<leftarrow> on_response us p shard deadlineAt lease; State_Monad.return (Some (r, lease)) }
     | SelRenew \<Rightarrow> do {
         r \<leftarrow> on_renew p d shard deadlineAt lease;
         case r of Inl r' \<Rightarrow> State_Monad.return (Some (r', lease))
         | Inr renewed \<Rightarrow> direct_loop n us p d shard deadlineAt renewed } }"

section \<open>Execute\<close>

text \<open>The deferred release: it joins its own error to the result's.\<close>

definition release :: "'w ports \<Rightarrow> Direct \<Rightarrow> Lease \<Rightarrow> Result \<times> check \<Rightarrow> ('w, Result \<times> check) runner" where
  "release p d lease r = do {
     t \<leftarrow> now p;
     let remaining = TimeSub (l_ExpiresAt lease) t;
     let timeout = (if remaining > 0 \<and> remaining < d_renewInterval d then remaining else d_renewInterval d);
     emit (EvReleased timeout lease);
     releaseErr \<leftarrow> call (p_Release p timeout lease);
     State_Monad.return (case releaseErr of None \<Rightarrow> r
       | Some e \<Rightarrow> (fst r, Some (Wrapf ''join'' []
           ((case snd r of None \<Rightarrow> [] | Some e' \<Rightarrow> [e']) @ [Wrapf ''release scheduler lease: %w'' [] [e]])))) }"

definition fence_shard :: "Shard \<Rightarrow> int \<Rightarrow> Shard" where
  "fence_shard shard f = shard\<lparr>sh_Execution := (sh_Execution shard)\<lparr>x_LeaseFence := f\<rparr>\<rparr>"

definition Execute :: "nat \<Rightarrow> (UUID \<Rightarrow> string) \<Rightarrow> 'w ports \<Rightarrow> Direct \<Rightarrow> Shard \<Rightarrow> ('w, (Result \<times> check) option) runner" where
  "Execute fuel us p d shard =
    (if x_LeaseFence (sh_Execution shard) \<noteq> 0
     then State_Monad.return (Some (zero_Result,
       Some (Errorf ''validate shard: lease fence must be zero before acquisition'' [])))
     else case validateUnfencedShard shard of
       Some e \<Rightarrow> State_Monad.return (Some (zero_Result, Some (Wrapf ''validate shard: %w'' [] [e]))) | None \<Rightarrow> do {
     callerErr \<leftarrow> call (p_CallerErr p);
     case callerErr of Some e \<Rightarrow> State_Monad.return (Some (zero_Result, Some e)) | None \<Rightarrow> do {
     t0 \<leftarrow> now p;
     let deadlineAt = TimeAdd t0 (b_MaxElapsed (sh_Budget shard));
     acquired \<leftarrow> call (p_Acquire p (x_Country (sh_Execution shard)) (x_BuildID (sh_Execution shard))
       (x_Owner (sh_Execution shard)) (min_time deadlineAt (TimeAdd t0 (d_leaseDuration d))));
     (case acquired of (lease, acquireErr) \<Rightarrow>
     case acquireErr of
       Some e \<Rightarrow> State_Monad.return (Some (zero_Result, Some (Wrapf ''acquire scheduler lease: %w'' [] [e])))
     | None \<Rightarrow> do {
     emit (EvAcquired lease);
     t1 \<leftarrow> now p;
     case validateLeaseOwner lease (sh_Execution shard) t1 of
       Some e \<Rightarrow> do {
         r \<leftarrow> release p d lease (zero_Result, Some (Wrapf ''%w: %w'' [] [ErrLeaseIdentity, e]));
         State_Monad.return (Some r) }
     | None \<Rightarrow> do {
     let shard' = fence_shard shard (l_Fence lease);
     t2 \<leftarrow> now p;
     if \<not> Before t2 deadlineAt
     then do { r \<leftarrow> release p d lease (zero_Result, Some DeadlineExceeded); State_Monad.return (Some r) }
     else do {
     emit (EvStarted shard');
     call (p_Start p shard');
     call (p_AfterRenew p (nextRenewal d t2 (l_ExpiresAt lease)));
     call (p_AfterDeadline p (TimeSub deadlineAt t2));
     finished \<leftarrow> direct_loop fuel us p d shard' deadlineAt lease;
     (case finished of None \<Rightarrow> State_Monad.return None
      | Some (r, lease') \<Rightarrow> do { r' \<leftarrow> release p d lease' r; State_Monad.return (Some r') }) } } }) } })"

section \<open>The protocol\<close>

text \<open>
  What the runner promises the scheduler and the store, as a state machine over its events. Each
  phase keeps the first clock reading, the lease it holds and the readings since it was entered
  (newest first).
\<close>

datatype phase =
    Idle "gotime list"
  | Holding gotime Lease "gotime list"
  | Running gotime Shard Lease "gotime list"
  | Responded gotime Shard Lease "gotime list"
  | Applied gotime Shard Lease ApplyRequest "gotime list"
  | Finished "(Shard \<times> ApplyRequest) option"

definition deadline_of :: "Shard \<Rightarrow> gotime \<Rightarrow> gotime" where
  "deadline_of s t0 = TimeAdd t0 (b_MaxElapsed (sh_Budget s))"

definition same_grant :: "Lease \<Rightarrow> Lease \<Rightarrow> bool" where
  "same_grant l l' \<longleftrightarrow> l_Country l = l_Country l' \<and> l_BuildID l = l_BuildID l' \<and> l_Owner l = l_Owner l' \<and> l_Fence l = l_Fence l'"

definition release_ok :: "Direct \<Rightarrow> int \<Rightarrow> Lease \<Rightarrow> Lease \<Rightarrow> bool" where
  "release_ok d timeout l l' \<longleftrightarrow> l' = l \<and> 0 < timeout \<and> timeout \<le> d_renewInterval d"

fun pstep :: "(UUID \<Rightarrow> string) \<Rightarrow> Direct \<Rightarrow> Shard \<Rightarrow> phase \<Rightarrow> event \<Rightarrow> phase option" where
  "pstep us d s (Idle ts) (EvNow t) = Some (Idle (t # ts))"
| "pstep us d s (Idle [t0]) (EvAcquired l) = Some (Holding t0 l [])"
| "pstep us d s (Holding t0 l ts) (EvNow t) = Some (Holding t0 l (t # ts))"
| "pstep us d s (Holding t0 l [t2, t1]) (EvStarted sh) =
     (if sh = fence_shard s (l_Fence l) \<and> validateLeaseOwner l (sh_Execution s) t1 = None
         \<and> Before t2 (deadline_of s t0)
      then Some (Running t0 sh l []) else None)"
| "pstep us d s (Running t0 sh l ts) (EvNow t) = Some (Running t0 sh l (t # ts))"
| "pstep us d s (Running t0 sh l [t2, t1]) (EvRenewed l') =
     (if Before t1 (l_ExpiresAt l) \<and> Before t1 (deadline_of s t0) \<and> same_grant l l' \<and> Before t2 (l_ExpiresAt l')
      then Some (Running t0 sh l' []) else None)"
| "pstep us d s (Running t0 sh l ts) EvAwaited = Some (Responded t0 sh l [])"
| "pstep us d s (Responded t0 sh l ts) (EvNow t) = Some (Responded t0 sh l (t # ts))"
| "pstep us d s (Responded t0 sh l [t3, t2, t1]) (EvApply timeout req) =
     (if Before t1 (deadline_of s t0) \<and> Before t2 (l_ExpiresAt l)
         \<and> timeout = TimeSub (min_time (deadline_of s t0) (l_ExpiresAt l)) t3
         \<and> r_Shard (ar_Result req) = sh \<and> ApplyRequest_Validate us req = None
      then Some (Applied t0 sh l req []) else None)"
| "pstep us d s (Applied t0 sh l req ts) (EvNow t) = Some (Applied t0 sh l req (t # ts))"
| "pstep us d s (Holding t0 l (t # ts)) (EvReleased timeout l') =
     (if release_ok d timeout l l' then Some (Finished None) else None)"
| "pstep us d s (Responded t0 sh l (t # ts)) (EvReleased timeout l') =
     (if release_ok d timeout l l' then Some (Finished None) else None)"
| "pstep us d s (Applied t0 sh l req (t # ts)) (EvReleased timeout l') =
     (if release_ok d timeout l l' then Some (Finished (Some (sh, req))) else None)"
| "pstep us d s _ _ = None"

fun protocol :: "(UUID \<Rightarrow> string) \<Rightarrow> Direct \<Rightarrow> Shard \<Rightarrow> event list \<Rightarrow> phase option" where
  "protocol us d s [] = Some (Idle [])"
| "protocol us d s (e # log) = (case protocol us d s log of None \<Rightarrow> None | Some ph \<Rightarrow> pstep us d s ph e)"

lemma run_call: "run_state (call f) (w, log) = (fst (f w), (snd (f w), log))"
  by (simp add: call_def split: prod.split)

lemma run_emit: "run_state (emit e) (w, log) = ((), (w, e # log))"
  by (simp add: emit_def)

lemma run_now: "run_state (now p) (w, log) = (fst (p_Now p w), (snd (p_Now p w), EvNow (fst (p_Now p w)) # log))"
  by (simp add: now_def run_call run_emit)

lemma run_await:
  "run_state (await p) (w, log) = (fst (p_Response p w), (snd (p_Response p w), EvAwaited # log))"
  by (simp add: await_def run_call run_emit)

lemma run_failed: "run_state (failed e) s = ((zero_Result, Some e), s)"
  by (simp add: failed_def)

lemma run_stop:
  "run_state (stop p e) (w, log) = ((zero_Result, Some e), (snd (p_Response p w), EvAwaited # log))"
  by (simp add: stop_def run_await run_failed)

lemmas run_simps = run_call run_emit run_now run_await run_failed run_stop

lemma reown_takeover: "reown shard r = takeover (x_Owner (sh_Execution shard)) (x_LeaseFence (sh_Execution shard)) r"
  by (simp add: reown_def takeover_def)

lemma reown_payload:
  assumes "SameImmutablePayload (applyRequest us result) (applyRequest us committed)" "r_Shard result = shard"
  shows "r_Shard (reown shard committed) = shard"
    and "SameImmutablePayload (applyRequest us result) (applyRequest us (reown shard committed))"
proof -
  have "r_Shard (ar_Result (immutable_part (applyRequest us result)))
      = r_Shard (ar_Result (immutable_part (applyRequest us committed)))"
    using assms by (simp add: SameImmutablePayload_def split: if_splits)
  with assms(2) have "unschedule (r_Shard committed) = unschedule shard"
    by (simp add: immutable_part_def applyRequest_def)
  then show "r_Shard (reown shard committed) = shard"
    by (cases shard, cases "sh_Execution shard", cases "r_Shard committed", cases "sh_Execution (r_Shard committed)")
      (simp add: unschedule_def reown_def)
  show "SameImmutablePayload (applyRequest us result) (applyRequest us (reown shard committed))"
    using assms(1) SameImmutablePayload_takeover equivp_transp [OF SameImmutablePayload_equivp]
    unfolding reown_takeover by metis
qed

text \<open>What a call of \<open>apply_result\<close> does to the log and returns.\<close>

definition committed_as :: "(UUID \<Rightarrow> string) \<Rightarrow> Shard \<Rightarrow> ApplyRequest \<Rightarrow> Result \<Rightarrow> bool" where
  "committed_as us shard request committed \<longleftrightarrow> r_Shard committed = shard
     \<and> SameImmutablePayload request (applyRequest us committed)"

lemma apply_result_log:
  assumes "run_state (apply_result us p timeout shard result) (w, log) = (r, (w', log'))"
  shows "(log' = log \<and> snd r \<noteq> None)
    \<or> (\<exists>req. log' = EvApply timeout req # log \<and> r_Shard (ar_Result req) = shard
       \<and> ApplyRequest_Validate us req = None \<and> (snd r \<noteq> None \<or> committed_as us shard req (fst r)))"
proof -
  have sh: "r_Shard (ar_Result (applyRequest us result)) = r_Shard result" by (simp add: applyRequest_def)
  show ?thesis
    using assms unfolding apply_result_def Let_def
    by (auto simp: run_simps committed_as_def reown_payload sh split: option.splits if_splits prod.splits)
qed

text \<open>
  The branches of the loop, from the phase they start in. A run that is over (\<open>run_over\<close>) has
  received the executor's response, has read no clock since or a releasable one, and reports
  success only after a commit that the deadline and the lease outlived.
\<close>

definition run_over :: "(UUID \<Rightarrow> string) \<Rightarrow> Direct \<Rightarrow> Shard \<Rightarrow> gotime \<Rightarrow> Shard \<Rightarrow> Lease \<Rightarrow> Result \<times> check \<Rightarrow> event list \<Rightarrow> bool" where
  "run_over us d s t0 sh l r log \<longleftrightarrow>
     (\<exists>ts. protocol us d s log = Some (Responded t0 sh l ts) \<and> snd r \<noteq> None)
   \<or> (\<exists>req ts. protocol us d s log = Some (Applied t0 sh l req ts) \<and> (snd r \<noteq> None \<or>
        committed_as us sh req (fst r) \<and> (\<exists>t5 t4. ts = [t5, t4] \<and> Before t4 (deadline_of s t0)
          \<and> Before t5 (l_ExpiresAt l))))"

lemma stop_over:
  assumes "protocol us d s log = Some (Running t0 sh l ts)" "run_state (stop p e) (w, log) = (r, (w', log'))"
  shows "run_over us d s t0 sh l r log'"
  using assms by (auto simp: run_stop run_over_def)

lemma on_response_over:
  assumes "protocol us d s log = Some (Running t0 sh l ts)"
    and "run_state (on_response us p sh (deadline_of s t0) l) (w, log) = (r, (w', log'))"
  shows "run_over us d s t0 sh l r log'"
  using assms unfolding on_response_def Let_def
  by (auto simp: run_simps run_over_def split: option.splits if_splits prod.splits dest!: apply_result_log)

definition owns :: "Lease \<Rightarrow> Shard \<Rightarrow> bool" where
  "owns l sh \<longleftrightarrow> l_Country l = x_Country (sh_Execution sh) \<and> l_BuildID l = x_BuildID (sh_Execution sh)
     \<and> l_Owner l = x_Owner (sh_Execution sh) \<and> l_Fence l = x_LeaseFence (sh_Execution sh)"

lemma validateLeaseIdentity_owns:
  "validateLeaseIdentity l (sh_Execution sh) t = None \<Longrightarrow> owns l sh \<and> Before t (l_ExpiresAt l)"
  by (simp add: validateLeaseIdentity_def validateLeaseOwner_def owns_def Before_def After_def)

lemma owns_same_grant: "owns l sh \<Longrightarrow> owns l' sh \<Longrightarrow> same_grant l l'"
  by (simp add: owns_def same_grant_def)

lemma validateLeaseOwner_owns:
  "validateLeaseOwner l (sh_Execution s) t = None \<Longrightarrow> owns l (fence_shard s (l_Fence l))"
  by (simp add: validateLeaseOwner_def owns_def fence_shard_def)

lemma on_renew_phase:
  assumes "protocol us d s log = Some (Running t0 sh l [])" "owns l sh"
    and "run_state (on_renew p d sh (deadline_of s t0) l) (w, log) = (r, (w', log'))"
  shows "case r of Inl r' \<Rightarrow> run_over us d s t0 sh l r' log'
    | Inr l' \<Rightarrow> protocol us d s log' = Some (Running t0 sh l' []) \<and> owns l' sh"
  using assms unfolding on_renew_def Let_def
  by (auto simp: run_simps run_over_def split: option.splits if_splits prod.splits
      dest!: validateLeaseIdentity_owns intro: owns_same_grant)

lemma direct_loop_phase:
  assumes "run_state (direct_loop n us p d sh (deadline_of s t0) l) (w, log) = (Some (r, l'), (w', log'))"
    and "protocol us d s log = Some (Running t0 sh l [])" "owns l sh"
  shows "run_over us d s t0 sh l' r log'"
  using assms
proof (induction n arbitrary: l w log)
  case (Suc n)
  obtain c w1 where c: "p_Select p w = (c, w1)" by (cases "p_Select p w")
  show ?case
  proof (cases c)
    case SelRenew
    obtain x w2 log2 where x: "run_state (on_renew p d sh (deadline_of s t0) l) (w1, log) = (x, (w2, log2))"
      by (cases "run_state (on_renew p d sh (deadline_of s t0) l) (w1, log)") auto
    note ph = on_renew_phase [OF Suc.prems(2,3) x]
    show ?thesis
    proof (cases x)
      case (Inl r')
      with Suc.prems(1) c SelRenew x ph show ?thesis by (simp add: run_call)
    next
      case (Inr l2)
      with ph have "protocol us d s log2 = Some (Running t0 sh l2 [])" "owns l2 sh" by simp_all
      moreover have "run_state (direct_loop n us p d sh (deadline_of s t0) l2) (w2, log2) = (Some (r, l'), (w', log'))"
        using Suc.prems(1) c SelRenew x Inr by (simp add: run_call)
      ultimately show ?thesis by (rule Suc.IH [rotated])
    qed
  qed (use Suc.prems c in \<open>auto simp: run_call split: prod.splits dest: stop_over on_response_over\<close>)
qed simp

definition releasable :: "(UUID \<Rightarrow> string) \<Rightarrow> Direct \<Rightarrow> Shard \<Rightarrow> Lease \<Rightarrow> Result \<times> check \<Rightarrow> event list \<Rightarrow> bool" where
  "releasable us d s l r log \<longleftrightarrow>
     (\<exists>t0 ts. protocol us d s log = Some (Holding t0 l ts) \<and> snd r \<noteq> None)
   \<or> (\<exists>t0 sh. run_over us d s t0 sh l r log)"

text \<open>The outcomes of \<open>Execute\<close>: refused before the lease, or released after it.\<close>

definition executed :: "(UUID \<Rightarrow> string) \<Rightarrow> Direct \<Rightarrow> Shard \<Rightarrow> Result \<times> check \<Rightarrow> event list \<Rightarrow> bool" where
  "executed us d s r log \<longleftrightarrow>
     (\<exists>ts. protocol us d s log = Some (Idle ts) \<and> snd r \<noteq> None)
   \<or> (\<exists>c. protocol us d s log = Some (Finished c) \<and> (snd r \<noteq> None
        \<or> (\<exists>sh req. c = Some (sh, req) \<and> committed_as us sh req (fst r))))"

lemma release_executed:
  assumes "releasable us d s l r log" "0 < d_renewInterval d"
    and "run_state (release p d l r) (w, log) = (r', (w', log'))"
  shows "executed us d s r' log'"
proof -
  have ok: "release_ok d (if 0 < x \<and> x < d_renewInterval d then x else d_renewInterval d) l l" for x
    using assms(2) by (simp add: release_ok_def)
  show ?thesis
    using assms(1,3) ok unfolding release_def releasable_def run_over_def executed_def Let_def
    by (auto simp: run_simps split: option.splits)
qed

lemma Execute_executed:
  assumes "run_state (Execute fuel us p d s) (w, []) = (Some r, (w', log))" "0 < d_renewInterval d"
  shows "executed us d s r log"
proof (cases "x_LeaseFence (sh_Execution s) \<noteq> 0 \<or> validateUnfencedShard s \<noteq> None \<or> fst (p_CallerErr p w) \<noteq> None")
  case True
  with assms(1) show ?thesis
    by (auto simp: Execute_def executed_def run_simps split: if_splits option.splits)
next
  case False
  obtain w1 where w1: "p_CallerErr p w = (None, w1)" using False by (metis prod.collapse)
  obtain t0 w2 where t0: "p_Now p w1 = (t0, w2)" by (cases "p_Now p w1")
  obtain l e w3 where acq: "p_Acquire p (x_Country (sh_Execution s)) (x_BuildID (sh_Execution s)) (x_Owner (sh_Execution s))
      (min_time (deadline_of s t0) (TimeAdd t0 (d_leaseDuration d))) w2 = ((l, e), w3)" by (metis prod.collapse)
  show ?thesis
  proof (cases e)
    case (Some e')
    with assms(1) False w1 t0 acq show ?thesis
      by (auto simp: Execute_def executed_def run_simps deadline_of_def Let_def)
  next
    case None
    obtain t1 w4 where t1: "p_Now p w3 = (t1, w4)" by (cases "p_Now p w3")
    show ?thesis
    proof (cases "validateLeaseOwner l (sh_Execution s) t1")
      case (Some e')
      have "run_state (release p d l (zero_Result, Some (Wrapf ''%w: %w'' [] [ErrLeaseIdentity, e'])))
          (w4, [EvNow t1, EvAcquired l, EvNow t0]) = (r, (w', log))"
        using assms(1) False w1 t0 acq None t1 Some
        by (auto simp: Execute_def run_simps deadline_of_def Let_def split: prod.splits)
      then show ?thesis by (rule release_executed [rotated 2]) (use assms(2) in \<open>simp_all add: releasable_def\<close>)
    next
      case owner: None
      obtain t2 w5 where t2: "p_Now p w4 = (t2, w5)" by (cases "p_Now p w4")
      show ?thesis
      proof (cases "Before t2 (deadline_of s t0)")
        case late: False
        have "run_state (release p d l (zero_Result, Some DeadlineExceeded))
            (w5, [EvNow t2, EvNow t1, EvAcquired l, EvNow t0]) = (r, (w', log))"
          using assms(1) False w1 t0 acq None t1 owner t2 late
          by (auto simp: Execute_def run_simps deadline_of_def Let_def split: prod.splits)
        then show ?thesis by (rule release_executed [rotated 2]) (use assms(2) in \<open>simp_all add: releasable_def\<close>)
      next
        case True
        let ?sh = "fence_shard s (l_Fence l)" and ?log = "[EvStarted (fence_shard s (l_Fence l)), EvNow t2, EvNow t1, EvAcquired l, EvNow t0]"
        define w6 where "w6 = snd (p_AfterDeadline p (TimeSub (deadline_of s t0) t2)
          (snd (p_AfterRenew p (nextRenewal d t2 (l_ExpiresAt l)) (snd (p_Start p ?sh w5)))))"
        obtain x w7 log7 where x: "run_state (direct_loop fuel us p d ?sh (deadline_of s t0) l) (w6, ?log) = (x, (w7, log7))"
          by (metis prod.collapse)
        have fin: "(case x of None \<Rightarrow> (None, (w7, log7)) | Some (r, l') \<Rightarrow>
            (case run_state (release p d l' r) (w7, log7) of (r', s') \<Rightarrow> (Some r', s'))) = (Some r, (w', log))"
          using assms(1) False w1 t0 acq None t1 owner t2 True x
          by (auto simp: Execute_def run_simps deadline_of_def Let_def w6_def split: prod.splits option.splits)
        then obtain r0 l' where x': "x = Some (r0, l')" and
          rel: "run_state (release p d l' r0) (w7, log7) = (r, (w', log))"
          by (auto split: option.splits prod.splits)
        have "run_over us d s t0 ?sh l' r0 log7"
          by (rule direct_loop_phase [OF x [unfolded x']])
            (use True owner in \<open>simp_all add: validateLeaseOwner_owns\<close>)
        then show ?thesis using release_executed [OF _ assms(2) rel] unfolding releasable_def by blast
      qed
    qed
  qed
qed

text \<open>
  C1 (refinement): for every clock, scheduler, executor, store, cancellation and interleaving,
  a finished \<open>Direct.Execute\<close> of a configured runner is a run of the protocol: refused before any
  lease, or ended by releasing the lease it last held, within the renewal interval; results reach
  the store only under a lease whose owner, fence and expiry were checked, after the executor
  returned and both deadline and lease were found alive, as a valid request for exactly the
  fenced shard; leases are only renewed while alive and for the same grant. It reports success
  only with a committed result of the same immutable payload as that one request.
\<close>

theorem direct_refines_protocol:
  assumes "NewDirect False False False leaseDuration renewInterval = Inr d"
    and "run_state (Execute fuel us p d s) (w, []) = (Some (committed, err), (w', log))"
  shows "(\<exists>ts. protocol us d s log = Some (Idle ts) \<and> err \<noteq> None)
    \<or> (\<exists>c. protocol us d s log = Some (Finished c)
        \<and> (err \<noteq> None \<or> (\<exists>req. c = Some (r_Shard committed, req)
             \<and> SameImmutablePayload req (applyRequest us committed))))"
proof -
  have "0 < d_renewInterval d" using assms(1) by (auto simp: NewDirect_def split: if_splits)
  from Execute_executed [OF assms(2) this] show ?thesis
    unfolding executed_def committed_as_def by fastforce
qed

section \<open>Consequences of the protocol\<close>

definition is_acquire :: "event \<Rightarrow> bool" where
  "is_acquire e \<longleftrightarrow> (case e of EvAcquired _ \<Rightarrow> True | _ \<Rightarrow> False)"
definition is_release :: "event \<Rightarrow> bool" where
  "is_release e \<longleftrightarrow> (case e of EvReleased _ _ \<Rightarrow> True | _ \<Rightarrow> False)"
definition is_start :: "event \<Rightarrow> bool" where
  "is_start e \<longleftrightarrow> (case e of EvStarted _ \<Rightarrow> True | _ \<Rightarrow> False)"
definition is_await :: "event \<Rightarrow> bool" where
  "is_await e \<longleftrightarrow> (case e of EvAwaited \<Rightarrow> True | _ \<Rightarrow> False)"
definition is_apply :: "event \<Rightarrow> bool" where
  "is_apply e \<longleftrightarrow> (case e of EvApply _ _ \<Rightarrow> True | _ \<Rightarrow> False)"

definition tally :: "(event \<Rightarrow> bool) \<Rightarrow> event list \<Rightarrow> nat" where
  "tally P log = length (filter P log)"

lemma tally_simps [simp]: "tally P [] = 0" "tally P (e # log) = (if P e then Suc (tally P log) else tally P log)"
  by (simp_all add: tally_def)

text \<open>What each phase has seen, by induction over the run.\<close>

fun phase_tally :: "phase \<Rightarrow> event list \<Rightarrow> bool" where
  "phase_tally (Idle ts) log = (tally is_acquire log = 0 \<and> tally is_start log = 0 \<and> tally is_await log = 0
     \<and> tally is_apply log = 0 \<and> tally is_release log = 0)"
| "phase_tally (Holding t0 l ts) log = (tally is_acquire log = 1 \<and> tally is_start log = 0
     \<and> tally is_await log = 0 \<and> tally is_apply log = 0 \<and> tally is_release log = 0)"
| "phase_tally (Running t0 sh l ts) log = (tally is_acquire log = 1 \<and> tally is_start log = 1
     \<and> tally is_await log = 0 \<and> tally is_apply log = 0 \<and> tally is_release log = 0)"
| "phase_tally (Responded t0 sh l ts) log = (tally is_acquire log = 1 \<and> tally is_start log = 1
     \<and> tally is_await log = 1 \<and> tally is_apply log = 0 \<and> tally is_release log = 0)"
| "phase_tally (Applied t0 sh l req ts) log = (tally is_acquire log = 1 \<and> tally is_start log = 1
     \<and> tally is_await log = 1 \<and> tally is_apply log = 1 \<and> tally is_release log = 0)"
| "phase_tally (Finished c) log = (tally is_acquire log = 1 \<and> tally is_await log = tally is_start log
     \<and> tally is_release log = 1 \<and> tally is_apply log = (if c = None then 0 else 1))"

fun_cases pstep_Some: "pstep us d s ph e = Some ph'"

lemma protocol_tally: "protocol us d s log = Some ph \<Longrightarrow> phase_tally ph log"
proof (induction log arbitrary: ph)
  case (Cons e log)
  then obtain ph0 where ph0: "protocol us d s log = Some ph0" "pstep us d s ph0 e = Some ph"
    by (auto split: option.splits)
  from Cons.IH [OF ph0(1)] ph0(2) show ?case
    by (elim pstep_Some)
      (auto simp: is_acquire_def is_release_def is_start_def is_await_def is_apply_def split: if_splits)
qed simp

text \<open>
  C16 (safety): in every finished \<open>Direct.Execute\<close>, the lease is released exactly as often as it was
  acquired (once, or never when it was refused), the executor's goroutine has ended whenever it
  was started, and the store is asked to commit at most once, exactly once when \<open>Execute\<close> reports
  success.
\<close>

theorem direct_releases_and_awaits:
  assumes "NewDirect False False False leaseDuration renewInterval = Inr d"
    and "run_state (Execute fuel us p d s) (w, []) = (Some (committed, err), (w', log))"
  shows "tally is_release log = tally is_acquire log \<and> tally is_acquire log \<le> 1
    \<and> tally is_await log = tally is_start log \<and> tally is_apply log \<le> 1
    \<and> (err \<noteq> None \<or> tally is_apply log = 1 \<and> tally is_release log = 1)"
proof -
  have "0 < d_renewInterval d" using assms(1) by (auto simp: NewDirect_def split: if_splits)
  from Execute_executed [OF assms(2) this] show ?thesis
    unfolding executed_def by (auto dest!: protocol_tally split: if_splits)
qed

lemma protocol_suffix: "protocol us d s (post @ log) = Some ph \<Longrightarrow> \<exists>ph0. protocol us d s log = Some ph0"
  by (induction post arbitrary: ph) (auto split: option.splits)

lemma apply_event_elim:
  assumes "pstep us d s ph (EvApply timeout req) = Some ph'"
  obtains t0 sh l t1 t2 t3 where "ph = Responded t0 sh l [t3, t2, t1]" "ph' = Applied t0 sh l req []"
    "Before t1 (deadline_of s t0)" "Before t2 (l_ExpiresAt l)"
    "timeout = TimeSub (min_time (deadline_of s t0) (l_ExpiresAt l)) t3" "r_Shard (ar_Result req) = sh"
    "ApplyRequest_Validate us req = None"
  using assms by (auto elim!: pstep_Some split: if_splits)

text \<open>The lease held when an event happens, the newest one acquired or adopted before.\<close>

fun held :: "event list \<Rightarrow> Lease option" where
  "held [] = None"
| "held (EvAcquired l # log) = Some l"
| "held (EvRenewed l # log) = Some l"
| "held (_ # log) = held log"

definition nows :: "event list \<Rightarrow> gotime list" where
  "nows log = concat (map (\<lambda>e. case e of EvNow t \<Rightarrow> [t] | _ \<Rightarrow> []) log)"

text \<open>What the lease of each phase is to the log and to the shard.\<close>

fun phase_lease :: "Shard \<Rightarrow> phase \<Rightarrow> event list \<Rightarrow> bool" where
  "phase_lease s (Idle ts) log = (held log = None \<and> nows log = ts)"
| "phase_lease s (Holding t0 l ts) log = (held log = Some l \<and> nows log = ts @ [t0])"
| "phase_lease s (Running t0 sh l ts) log = (held log = Some l \<and> last (nows log) = t0 \<and> nows log \<noteq> []
     \<and> sh = fence_shard s (l_Fence l) \<and> owns l sh)"
| "phase_lease s (Responded t0 sh l ts) log = (held log = Some l \<and> last (nows log) = t0 \<and> nows log \<noteq> []
     \<and> sh = fence_shard s (l_Fence l) \<and> owns l sh \<and> take (length ts) (nows log) = ts)"
| "phase_lease s (Applied t0 sh l req ts) log = True"
| "phase_lease s (Finished c) log = True"

lemma renewed_lease:
  "same_grant l l' \<Longrightarrow> owns l sh \<Longrightarrow> owns l' sh"
  "same_grant l l' \<Longrightarrow> fence_shard s (l_Fence l) = fence_shard s (l_Fence l')"
  by (simp_all add: same_grant_def owns_def)

lemma protocol_lease: "protocol us d s log = Some ph \<Longrightarrow> phase_lease s ph log"
proof (induction log arbitrary: ph)
  case (Cons e log)
  then obtain ph0 where ph0: "protocol us d s log = Some ph0" "pstep us d s ph0 e = Some ph"
    by (auto split: option.splits)
  from Cons.IH [OF ph0(1)] ph0(2) show ?case
    by (elim pstep_Some)
      (auto simp: nows_def intro: renewed_lease dest: validateLeaseOwner_owns split: if_splits)
qed (simp add: nows_def)

text \<open>
  C9 (safety): whenever \<open>Execute\<close> asks the store to commit, the newest lease it acquired or
  renewed names the shard's country, build and owner and the request carries that lease's fence
  in exactly the fenced shard; the executor has returned; of the last three clock readings the
  first was before the deadline and the second before the lease's expiry; the timeout of the
  commit's context ends, from the third, at the earlier of the two; and the request is valid.
\<close>

theorem commit_under_live_lease:
  assumes "NewDirect False False False leaseDuration renewInterval = Inr d"
    and "run_state (Execute fuel us p d s) (w, []) = (Some r, (w', post @ EvApply timeout req # pre))"
  shows "\<exists>l t1 t2 t3 rest. held pre = Some l \<and> nows pre = t3 # t2 # t1 # rest
    \<and> owns l (r_Shard (ar_Result req)) \<and> r_Shard (ar_Result req) = fence_shard s (l_Fence l)
    \<and> Before t1 (TimeAdd (last (nows pre)) (b_MaxElapsed (sh_Budget s))) \<and> Before t2 (l_ExpiresAt l)
    \<and> timeout = TimeSub (min_time (TimeAdd (last (nows pre)) (b_MaxElapsed (sh_Budget s))) (l_ExpiresAt l)) t3
    \<and> tally is_start pre = 1 \<and> tally is_await pre = 1 \<and> ApplyRequest_Validate us req = None"
proof -
  have "0 < d_renewInterval d" using assms(1) by (auto simp: NewDirect_def split: if_splits)
  from Execute_executed [OF assms(2) this] obtain ph where "protocol us d s (post @ EvApply timeout req # pre) = Some ph"
    unfolding executed_def by blast
  then obtain ph1 where "protocol us d s (EvApply timeout req # pre) = Some ph1" by (blast dest: protocol_suffix)
  then obtain ph0 where ph0: "protocol us d s pre = Some ph0" "pstep us d s ph0 (EvApply timeout req) = Some ph1"
    by (auto split: option.splits)
  from ph0(2) obtain t0 sh l t1 t2 t3 where st: "ph0 = Responded t0 sh l [t3, t2, t1]"
    "Before t1 (deadline_of s t0)" "Before t2 (l_ExpiresAt l)"
    "timeout = TimeSub (min_time (deadline_of s t0) (l_ExpiresAt l)) t3" "r_Shard (ar_Result req) = sh"
    "ApplyRequest_Validate us req = None" by (rule apply_event_elim)
  have lease: "held pre = Some l" "last (nows pre) = t0" "sh = fence_shard s (l_Fence l)" "owns l sh"
    "take (length [t3, t2, t1]) (nows pre) = [t3, t2, t1]"
    using protocol_lease [OF ph0(1)] unfolding st(1) phase_lease.simps by blast+
  obtain rest where "nows pre = t3 # t2 # t1 # rest"
    using append_take_drop_id [of "length [t3, t2, t1]" "nows pre"] unfolding lease(5) by (metis append_Cons append_Nil)
  then show ?thesis
    using st lease protocol_tally [OF ph0(1)] unfolding deadline_of_def
    by (intro exI [of _ l] exI [of _ t1] exI [of _ t2] exI [of _ t3] exI [of _ rest]) simp
qed

section \<open>Execute returns\<close>

text \<open>
  What a clock promises: readings and timers run on one time \<open>tm\<close> that no call turns back, and
  the renewal timer (due at \<open>due\<close>) does not fire before its duration has passed.
\<close>

definition timed :: "'w ports \<Rightarrow> ('w \<Rightarrow> int) \<Rightarrow> ('w \<Rightarrow> int) \<Rightarrow> bool" where
  "timed p tm due \<longleftrightarrow>
     (\<forall>w. instant (fst (p_Now p w)) = tm w \<and> tm w \<le> tm (snd (p_Now p w)))
   \<and> (\<forall>c b x t w. tm w \<le> tm (snd (p_Acquire p c b x t w)))
   \<and> (\<forall>n l t w. tm w \<le> tm (snd (p_Renew p n l t w)))
   \<and> (\<forall>w. tm w \<le> tm (snd (p_RunErr p w)))
   \<and> (\<forall>x w. tm w \<le> tm (snd (p_Start p x w)))
   \<and> (\<forall>n w. tm w + n \<le> due (snd (p_AfterRenew p n w)))
   \<and> (\<forall>n w. due (snd (p_AfterDeadline p n w)) = due w)
   \<and> (\<forall>w. fst (p_Select p w) = SelRenew \<longrightarrow> due w \<le> tm (snd (p_Select p w)))"

lemma nextRenewal_pos: "0 < d_renewInterval d \<Longrightarrow> 1 \<le> nextRenewal d t x"
  by (auto simp: nextRenewal_def Let_def)

lemma on_renew_timed:
  assumes "timed p tm due" "0 < d_renewInterval d" "a \<le> tm w"
    and "run_state (on_renew p d sh deadlineAt l) (w, log) = (Inr l', (w', log'))"
  shows "\<exists>b. a \<le> b \<and> b + 1 \<le> due w' \<and> a < instant deadlineAt"
proof -
  note mono = assms(1) [unfolded timed_def]
  define w1 where "w1 = snd (p_Now p w)"
  define w2 where "w2 = snd (p_RunErr p w1)"
  define w3 where "w3 = snd (p_Renew p (TimeSub (l_ExpiresAt l) (fst (p_Now p w))) l
    (min_time deadlineAt (TimeAdd (fst (p_Now p w)) (d_leaseDuration d))) w2)"
  have t: "tm w \<le> tm w1" "tm w1 \<le> tm w2" "tm w2 \<le> tm w3"
    using mono unfolding w1_def w2_def w3_def by blast+
  have t3: "tm w3 \<le> tm (snd (p_Now p w3))" using mono by blast
  have b: "Before (fst (p_Now p w)) deadlineAt"
    and w': "w' = snd (p_AfterRenew p (nextRenewal d (fst (p_Now p w3)) (l_ExpiresAt l')) (snd (p_Now p w3)))"
    using assms(4) unfolding on_renew_def Let_def w1_def w2_def w3_def
    by (auto simp: run_simps split: option.splits if_splits prod.splits)
  have "tm w < instant deadlineAt" using b mono by (simp add: Before_def)
  moreover have "tm (snd (p_Now p w3)) + nextRenewal d (fst (p_Now p w3)) (l_ExpiresAt l') \<le> due w'"
    using mono unfolding w' by blast
  ultimately show ?thesis
    using t t3 assms(3) nextRenewal_pos [OF assms(2), of "fst (p_Now p w3)" "l_ExpiresAt l'"]
    by (intro exI [of _ "tm w"]) linarith
qed

lemma direct_loop_returns:
  assumes "timed p tm due" "0 < d_renewInterval d" "a + 1 \<le> due w" "nat (instant deadlineAt - a) < n"
  shows "\<exists>r s'. run_state (direct_loop n us p d sh deadlineAt l) (w, log) = (Some r, s')"
  using assms(3,4)
proof (induction n arbitrary: a l w log)
  case (Suc n)
  obtain c w1 where c: "p_Select p w = (c, w1)" by (cases "p_Select p w")
  show ?case
  proof (cases "c = SelRenew")
    case True
    then have fired: "due w \<le> tm w1" using assms(1) c unfolding timed_def by (metis fst_conv snd_conv)
    obtain x w2 log2 where x: "run_state (on_renew p d sh deadlineAt l) (w1, log) = (x, (w2, log2))"
      by (metis prod.collapse)
    show ?thesis
    proof (cases x)
      case (Inl r)
      with True c x show ?thesis by (simp add: run_call)
    next
      case (Inr l')
      have "a + 1 \<le> tm w1" using fired Suc.prems(1) by linarith
      from on_renew_timed [OF assms(1,2) this x [unfolded Inr]] obtain b
        where b: "a + 1 \<le> b" "b + 1 \<le> due w2" "a + 1 < instant deadlineAt" by blast
      then have "nat (instant deadlineAt - b) < n" using Suc.prems(2) by linarith
      from Suc.IH [OF b(2) this] True c x Inr show ?thesis by (simp add: run_call)
    qed
  next
    case False
    with c show ?thesis by (cases c) (auto simp: run_call split: prod.splits)
  qed
qed simp

text \<open>
  C27 (termination): if the clock promises what clocks do, \<open>Execute\<close> returns: each turn of the
  select loop that renews the lease costs at least a nanosecond of the budget, so a budget of
  \<open>MaxElapsed\<close> nanoseconds takes at most \<open>MaxElapsed + 1\<close> turns, whatever the scheduler grants.
\<close>

theorem direct_returns:
  assumes "timed p tm due" and "NewDirect False False False leaseDuration renewInterval = Inr d"
    and "nat (b_MaxElapsed (sh_Budget s)) < fuel"
  shows "\<exists>r s'. run_state (Execute fuel us p d s) (w, log) = (Some r, s')"
proof (cases "x_LeaseFence (sh_Execution s) \<noteq> 0 \<or> validateUnfencedShard s \<noteq> None \<or> fst (p_CallerErr p w) \<noteq> None")
  case True
  then show ?thesis
    by (cases "x_LeaseFence (sh_Execution s) = 0"; cases "validateUnfencedShard s")
      (auto simp: Execute_def run_simps)
next
  case False
  obtain w1 where w1: "p_CallerErr p w = (None, w1)" using False by (metis prod.collapse)
  obtain t0 w2 where t0: "p_Now p w1 = (t0, w2)" by (cases "p_Now p w1")
  obtain l e w3 where acq: "p_Acquire p (x_Country (sh_Execution s)) (x_BuildID (sh_Execution s)) (x_Owner (sh_Execution s))
      (min_time (TimeAdd t0 (b_MaxElapsed (sh_Budget s))) (TimeAdd t0 (d_leaseDuration d))) w2 = ((l, e), w3)"
    by (metis prod.collapse)
  obtain t1 w4 where t1: "p_Now p w3 = (t1, w4)" by (cases "p_Now p w3")
  obtain t2 w5 where t2: "p_Now p w4 = (t2, w5)" by (cases "p_Now p w4")
  let ?dl = "TimeAdd t0 (b_MaxElapsed (sh_Budget s))" and ?sh = "fence_shard s (l_Fence l)"
  show ?thesis
  proof (cases "e = None \<and> validateLeaseOwner l (sh_Execution s) t1 = None \<and> Before t2 ?dl")
    case early: False
    then show ?thesis using False w1 t0 acq t1 t2
      by (cases e; cases "validateLeaseOwner l (sh_Execution s) t1")
        (auto simp: Execute_def run_simps Let_def split: prod.splits)
  next
    case True
    define w6 where "w6 = snd (p_Start p ?sh w5)"
    define w7 where "w7 = snd (p_AfterRenew p (nextRenewal d t2 (l_ExpiresAt l)) w6)"
    define w8 where "w8 = snd (p_AfterDeadline p (TimeSub ?dl t2) w7)"
    note mono = assms(1) [unfolded timed_def]
    have pos: "0 < d_renewInterval d" using assms(2) by (auto simp: NewDirect_def split: if_splits)
    have "instant t0 = tm w1" "instant t2 = tm w4" "tm w1 \<le> tm w2" "tm w2 \<le> tm w3" "tm w3 \<le> tm w4" "tm w4 \<le> tm w5"
      using mono t0 acq t1 t2 by (metis fst_conv snd_conv)+
    moreover have "tm w5 \<le> tm w6" "tm w6 + nextRenewal d t2 (l_ExpiresAt l) \<le> due w7" "due w8 = due w7"
      using mono unfolding w6_def w7_def w8_def by blast+
    ultimately have armed: "instant t2 + 1 \<le> due w8" "instant t0 \<le> instant t2"
      using nextRenewal_pos [OF pos, of t2 "l_ExpiresAt l"] by linarith+
    then have "nat (instant ?dl - instant t2) < fuel" using assms(3) by simp
    from direct_loop_returns [OF assms(1) pos armed(1) this] obtain r s' where
      "run_state (direct_loop fuel us p d ?sh ?dl l) (w8, [EvStarted ?sh, EvNow t2, EvNow t1, EvAcquired l, EvNow t0] @ log) = (Some r, s')"
      by blast
    then show ?thesis using False True w1 t0 acq t1 t2
      by (auto simp: Execute_def run_simps Let_def w6_def w7_def w8_def split: prod.splits)
  qed
qed

section \<open>Concrete runs\<close>

text \<open>
  Ports over a world of the current time and the renewal timer's due time, whose \<open>select\<close> always
  takes the given branch (a renewal when its timer is due), whose lease always renews and whose
  store commits what it gets.
\<close>

definition sample_time :: "int \<Rightarrow> gotime" where
  "sample_time t = \<lparr>instant = t, repr = 0\<rparr>"

definition sample_ports :: "branch \<Rightarrow> (int \<times> int) ports" where
  "sample_ports sel = \<lparr>p_Now = (\<lambda>w. (sample_time (fst w), w)), p_CallerErr = (\<lambda>w. (None, w)),
     p_RunErr = (\<lambda>w. (None, w)), p_ApplyErr = (\<lambda>_ w. (None, w)),
     p_AfterRenew = (\<lambda>n w. ((), (fst w, fst w + n))), p_AfterDeadline = (\<lambda>_ w. ((), w)),
     p_Select = (\<lambda>w. (sel, (if sel = SelRenew then max (fst w) (snd w) else fst w, snd w))),
     p_Acquire = (\<lambda>c b x t w. ((\<lparr>l_Country = c, l_BuildID = b, l_Owner = x, l_Fence = 1, l_ExpiresAt = t\<rparr>, None), w)),
     p_Renew = (\<lambda>_ l t w. ((l\<lparr>l_ExpiresAt := t\<rparr>, None), w)), p_Release = (\<lambda>_ _ w. (None, w)),
     p_Start = (\<lambda>_ w. ((), w)), p_Response = (\<lambda>w. ((sample_result, None), w)),
     p_Apply = (\<lambda>req w. ((ar_Result req, None), w))\<rparr>"

definition sample_direct :: Direct where
  "sample_direct = \<lparr>d_leaseDuration = 30, d_renewInterval = 10\<rparr>"

lemma sample_direct_new: "NewDirect False False False 30 10 = Inr sample_direct"
  by (simp add: NewDirect_def sample_direct_def)

definition sample_lease :: Lease where
  "sample_lease = \<lparr>l_Country = ''vn'', l_BuildID = 2, l_Owner = ''a'', l_Fence = 1, l_ExpiresAt = sample_time 35\<rparr>"

definition sample_request :: ApplyRequest where
  "sample_request = applyRequest sample_uuid_text sample_result"

definition sample_log :: "event list" where
  "sample_log = [EvNow (sample_time 5), EvNow (sample_time 5), EvNow (sample_time 5), EvAwaited,
     EvStarted (sample_shard ''a'' 1), EvNow (sample_time 5), EvNow (sample_time 5), EvAcquired sample_lease,
     EvNow (sample_time 5)]"

lemma sample_request_ok: "ApplyRequest_Validate sample_uuid_text (applyRequest sample_uuid_text sample_result) = None"
  using sample_result_ok by (simp add: ApplyRequest_Validate_None applyRequest_def)

lemma sample_ports_simps:
  "p_Now (sample_ports sel) w = (sample_time (fst w), w)" "p_CallerErr (sample_ports sel) w = (None, w)"
  "p_RunErr (sample_ports sel) w = (None, w)" "p_ApplyErr (sample_ports sel) n w = (None, w)"
  "p_AfterRenew (sample_ports sel) n w = ((), (fst w, fst w + n))" "p_AfterDeadline (sample_ports sel) n w = ((), w)"
  "p_Select (sample_ports sel) w = (sel, (if sel = SelRenew then max (fst w) (snd w) else fst w, snd w))"
  "p_Acquire (sample_ports sel) c b x t w =
     ((\<lparr>l_Country = c, l_BuildID = b, l_Owner = x, l_Fence = 1, l_ExpiresAt = t\<rparr>, None), w)"
  "p_Release (sample_ports sel) n l w = (None, w)" "p_Start (sample_ports sel) sh w = ((), w)"
  "p_Response (sample_ports sel) w = ((sample_result, None), w)"
  "p_Apply (sample_ports sel) req w = ((ar_Result req, None), w)"
  "p_Renew (sample_ports sel) n l t w = ((l\<lparr>l_ExpiresAt := t\<rparr>, None), w)"
  by (simp_all add: sample_ports_def)

lemma sample_time_simps:
  "TimeAdd (sample_time t) n = sample_time (t + n)" "instant (sample_time t) = t"
  "min_time (sample_time a) (sample_time b) = sample_time (min a b)"
  by (auto simp: sample_time_def TimeAdd_def min_time_def Before_def)

lemma sample_run:
  "run_state (Execute 61 sample_uuid_text (sample_ports SelResponse) sample_direct (sample_shard ''a'' 0)) ((5, 0), [])
   = (Some (sample_result, None), ((5, 15), [EvReleased 10 sample_lease, EvNow (sample_time 5), EvNow (sample_time 5),
       EvNow (sample_time 5)] @ EvApply 30 sample_request # sample_log))"
proof -
  have sh: "r_Shard sample_result = sample_shard ''a'' 1" by (simp add: sample_result_def)
  have fence: "fence_shard (sample_shard ''a'' 0) 1 = sample_shard ''a'' 1"
    by (simp add: fence_shard_def sample_shard_def)
  have lease: "validateLeaseOwner sample_lease (sh_Execution (sample_shard ''a'' 0)) (sample_time 5) = None"
    by (simp add: validateLeaseOwner_def Lease_Validate_def sample_lease_def sample_shard_def IsZero_def After_def sample_time_def)
  have unfenced: "validateUnfencedShard (sample_shard ''a'' 0) = None"
    by (simp add: validateUnfencedShard_def validateIdentity_def sample_shard_def Stage_Valid_def sample_budget_def)
  have req: "ApplyRequest_Validate sample_uuid_text (applyRequest sample_uuid_text sample_result) = None"
    using sample_result_ok by (simp add: ApplyRequest_Validate_None applyRequest_def)
  have complete: "r_Complete sample_result" by (simp add: sample_result_def)
  have again: "ar_Result (applyRequest sample_uuid_text sample_result) = sample_result" by (simp add: applyRequest_def)
  have re: "reown (sample_shard ''a'' 1) sample_result = sample_result"
    by (simp add: reown_def sample_result_def sample_shard_def)
  have applied: "run_state (apply_result sample_uuid_text (sample_ports SelResponse) 30 (sample_shard ''a'' 1) sample_result) ((5, 15), log)
      = ((sample_result, None), ((5, 15), EvApply 30 sample_request # log))" for log
    by (simp add: apply_result_def run_simps sample_ports_def sh sample_result_ok complete req again Let_def
        SameImmutablePayload_refl re sample_request_def)
  have resp: "run_state (on_response sample_uuid_text (sample_ports SelResponse) (sample_shard ''a'' 1) (sample_time 65) sample_lease) ((5, 15), log)
      = ((sample_result, None), ((5, 15), EvNow (sample_time 5) # EvNow (sample_time 5) # EvApply 30 sample_request
          # EvNow (sample_time 5) # EvNow (sample_time 5) # EvNow (sample_time 5) # EvAwaited # log))" for log
    using applied
    by (simp add: on_response_def run_simps sample_ports_def Before_def sample_time_def sample_lease_def Let_def
        min_time_def TimeSub_def max_int64_def min_int64_def)
  have fields: "x_Country (sh_Execution (sample_shard ''a'' 0)) = ''vn''" "x_BuildID (sh_Execution (sample_shard ''a'' 0)) = 2"
    "x_Owner (sh_Execution (sample_shard ''a'' 0)) = ''a''" "x_LeaseFence (sh_Execution (sample_shard ''a'' 0)) = 0"
    "b_MaxElapsed (sh_Budget (sample_shard ''a'' 0)) = 60" "d_leaseDuration sample_direct = 30"
    "d_renewInterval sample_direct = 10" "l_ExpiresAt sample_lease = sample_time 35" "l_Fence sample_lease = 1"
    by (simp_all add: sample_shard_def sample_budget_def sample_direct_def sample_lease_def)
  have lease_eq: "\<lparr>l_Country = ''vn'', l_BuildID = 2, l_Owner = ''a'', l_Fence = 1, l_ExpiresAt = sample_time 35\<rparr> = sample_lease"
    by (simp add: sample_lease_def)
  have loop: "run_state (direct_loop 61 sample_uuid_text (sample_ports SelResponse) sample_direct (sample_shard ''a'' 1)
      (sample_time 65) sample_lease) ((5, 15), log)
    = (Some ((sample_result, None), sample_lease), ((5, 15), EvNow (sample_time 5) # EvNow (sample_time 5)
        # EvApply 30 sample_request # EvNow (sample_time 5) # EvNow (sample_time 5) # EvNow (sample_time 5) # EvAwaited # log))" for log
    using direct_loop.simps(2) [of 60 sample_uuid_text "sample_ports SelResponse" sample_direct]
    by (simp add: resp run_simps sample_ports_simps)
  show ?thesis
    by (simp add: Execute_def unfenced fence loop run_simps Let_def sample_ports_simps sample_time_simps fields
        lease_eq lease Before_def release_def nextRenewal_def TimeSub_def max_int64_def min_int64_def sample_log_def)
qed

theorem direct_refines_protocol_witness:
  "\<exists>c. protocol sample_uuid_text sample_direct (sample_shard ''a'' 0)
     ([EvReleased 10 sample_lease, EvNow (sample_time 5), EvNow (sample_time 5), EvNow (sample_time 5)]
        @ EvApply 30 sample_request # sample_log) = Some (Finished c)"
  using direct_refines_protocol [OF sample_direct_new sample_run] by blast

theorem direct_releases_and_awaits_witness:
  "tally is_apply (EvReleased 10 sample_lease # replicate 3 (EvNow (sample_time 5)) @ EvApply 30 sample_request # sample_log) = 1"
  using direct_releases_and_awaits [OF sample_direct_new sample_run]
  by (simp add: eval_nat_numeral)

theorem commit_under_live_lease_witness:
  "owns sample_lease (r_Shard (ar_Result sample_request))"
  using commit_under_live_lease [OF sample_direct_new sample_run] by (auto simp: sample_log_def)

lemma sample_ports_timed: "timed (sample_ports SelRenew) fst snd"
  by (auto simp: timed_def sample_ports_simps sample_time_simps)

theorem direct_returns_witness:
  "\<exists>r s'. run_state (Execute 61 sample_uuid_text (sample_ports SelRenew) sample_direct (sample_shard ''a'' 0)) ((5, 0), [])
     = (Some r, s')"
  by (rule direct_returns [OF sample_ports_timed sample_direct_new]) (simp add: sample_shard_def sample_budget_def)

end
