(* ===== verification/Run_Page.thy ===== *)
theory Run_Page
  imports Go_Prelude "HOL-Library.Multiset"
begin

text \<open>
  \<open>processPage\<close> of \<open>internal/corpus/run/batch.go\<close>: a sender and a fixed number of workers over an
  unbuffered channel, as a step relation whose steps are the code's atomic actions (a rendezvous on
  the channel, a check of \<open>ctx.Err()\<close>, a critical section under the mutex), in any interleaving.
  \<open>process\<close> is the environment: an item ends with any error or none. The context may be cancelled
  at any point. \<open>pg_done\<close> is a ghost: the outcomes in the order the mutex admitted them.
\<close>

datatype worker =
    Ranging                   \<comment> \<open>at \<open>for id := range jobs\<close>\<close>
  | Received int              \<comment> \<open>before the check of \<open>ctx.Err()\<close>\<close>
  | Processing int            \<comment> \<open>inside \<open>process(ctx, id)\<close>, up to the critical section\<close>
  | Gone                      \<comment> \<open>\<open>wg.Done()\<close>\<close>

datatype sender =
    Checking                  \<comment> \<open>at the head of the send loop\<close>
  | Selecting                 \<comment> \<open>at the \<open>select\<close>, offering the head of \<open>pg_todo\<close>\<close>
  | Closed                    \<comment> \<open>after \<open>close(jobs)\<close>\<close>

record page =
  pg_todo :: "int list"
  pg_sender :: sender
  pg_workers :: "worker list"
  pg_cancelled :: bool
  pg_Attempted :: int
  pg_Succeeded :: int
  pg_Failed :: int
  pg_firstErr :: check
  pg_done :: "(int \<times> check) list"

definition page_start :: "int list \<Rightarrow> int \<Rightarrow> page" where
  "page_start ids concurrency = \<lparr>pg_todo = ids, pg_sender = Checking,
     pg_workers = replicate (nat (min concurrency (int (length ids)))) Ranging, pg_cancelled = False,
     pg_Attempted = 0, pg_Succeeded = 0, pg_Failed = 0, pg_firstErr = None, pg_done = []\<rparr>"

text \<open>The critical section.\<close>

definition record_outcome :: "int \<Rightarrow> check \<Rightarrow> page \<Rightarrow> page" where
  "record_outcome i itemErr s = (case itemErr of
     Some e \<Rightarrow> s\<lparr>pg_Attempted := pg_Attempted s + 1, pg_Failed := pg_Failed s + 1,
       pg_firstErr := (if pg_firstErr s = None then Some (Wrapf ''item %d: %w'' [FInt i] [e]) else pg_firstErr s),
       pg_done := pg_done s @ [(i, itemErr)]\<rparr>
   | None \<Rightarrow> s\<lparr>pg_Attempted := pg_Attempted s + 1, pg_Succeeded := pg_Succeeded s + 1,
       pg_done := pg_done s @ [(i, itemErr)]\<rparr>)"

definition set_worker :: "nat \<Rightarrow> worker \<Rightarrow> page \<Rightarrow> page" where
  "set_worker k x s = s\<lparr>pg_workers := (pg_workers s)[k := x]\<rparr>"

inductive page_step :: "page \<Rightarrow> page \<Rightarrow> bool" where
  cancel: "\<not> pg_cancelled s \<Longrightarrow> page_step s (s\<lparr>pg_cancelled := True\<rparr>)"
| send_end: "pg_sender s = Checking \<Longrightarrow> pg_todo s = [] \<Longrightarrow> page_step s (s\<lparr>pg_sender := Closed\<rparr>)"
| send_break: "pg_sender s = Checking \<Longrightarrow> pg_todo s \<noteq> [] \<Longrightarrow> pg_cancelled s \<Longrightarrow> page_step s (s\<lparr>pg_sender := Closed\<rparr>)"
| send_check: "pg_sender s = Checking \<Longrightarrow> pg_todo s \<noteq> [] \<Longrightarrow> \<not> pg_cancelled s \<Longrightarrow> page_step s (s\<lparr>pg_sender := Selecting\<rparr>)"
| send_done: "pg_sender s = Selecting \<Longrightarrow> pg_cancelled s \<Longrightarrow> page_step s (s\<lparr>pg_sender := Closed\<rparr>)"
| rendezvous: "pg_sender s = Selecting \<Longrightarrow> pg_todo s = i # rest \<Longrightarrow> k < length (pg_workers s) \<Longrightarrow>
    pg_workers s ! k = Ranging \<Longrightarrow>
    page_step s (set_worker k (Received i) (s\<lparr>pg_sender := Checking, pg_todo := rest\<rparr>))"
| range_end: "pg_sender s = Closed \<Longrightarrow> k < length (pg_workers s) \<Longrightarrow> pg_workers s ! k = Ranging \<Longrightarrow>
    page_step s (set_worker k Gone s)"
| work_return: "k < length (pg_workers s) \<Longrightarrow> pg_workers s ! k = Received i \<Longrightarrow> pg_cancelled s \<Longrightarrow>
    page_step s (set_worker k Gone s)"
| work_begin: "k < length (pg_workers s) \<Longrightarrow> pg_workers s ! k = Received i \<Longrightarrow> \<not> pg_cancelled s \<Longrightarrow>
    page_step s (set_worker k (Processing i) s)"
| work_end: "k < length (pg_workers s) \<Longrightarrow> pg_workers s ! k = Processing i \<Longrightarrow>
    page_step s (set_worker k Ranging (record_outcome i itemErr s))"

definition page_final :: "page \<Rightarrow> bool" where
  "page_final s \<longleftrightarrow> pg_sender s = Closed \<and> list_all (\<lambda>x. x = Gone) (pg_workers s)"

text \<open>What it returns after \<open>wg.Wait()\<close>, the context's error being \<open>ctxErr\<close>.\<close>

definition page_error :: "page \<Rightarrow> gerr \<Rightarrow> check" where
  "page_error s ctxErr = (if pg_cancelled s \<and> pg_firstErr s = None then Some ctxErr else pg_firstErr s)"

section \<open>Invariants of every interleaving\<close>

fun in_hand :: "worker \<Rightarrow> int list" where
  "in_hand (Received i) = [i]"
| "in_hand (Processing i) = [i]"
| "in_hand _ = []"

definition hands :: "page \<Rightarrow> int list" where
  "hands s = concat (map in_hand (pg_workers s))"

text \<open>
  Where the items are: done, in a worker's hands, not sent, or lost to a worker that found the
  context cancelled.
\<close>

definition page_items :: "int list \<Rightarrow> page \<Rightarrow> bool" where
  "page_items ids s \<longleftrightarrow> (\<exists>lost.
     mset ids = mset (map fst (pg_done s)) + mset (hands s) + mset (pg_todo s) + lost
     \<and> (pg_cancelled s \<or> lost = {#}))"

definition failures :: "(int \<times> check) list \<Rightarrow> (int \<times> check) list" where
  "failures xs = filter (\<lambda>x. snd x \<noteq> None) xs"

definition page_counts :: "page \<Rightarrow> bool" where
  "page_counts s \<longleftrightarrow> pg_Attempted s = int (length (pg_done s))
     \<and> pg_Failed s = int (length (failures (pg_done s)))
     \<and> pg_Succeeded s = int (length (pg_done s)) - int (length (failures (pg_done s)))
     \<and> pg_firstErr s = (case failures (pg_done s) of [] \<Rightarrow> None
        | x # _ \<Rightarrow> Some (Wrapf ''item %d: %w'' [FInt (fst x)] [the (snd x)]))"

definition page_control :: "nat \<Rightarrow> page \<Rightarrow> bool" where
  "page_control workers s \<longleftrightarrow> length (pg_workers s) = workers
     \<and> (pg_sender s = Selecting \<longrightarrow> pg_todo s \<noteq> [])
     \<and> (\<not> pg_cancelled s \<and> pg_sender s = Closed \<longrightarrow> pg_todo s = [])
     \<and> (\<not> pg_cancelled s \<and> pg_sender s \<noteq> Closed \<longrightarrow> Gone \<notin> set (pg_workers s))"

lemma set_worker_simps [simp]:
  "pg_todo (set_worker k x s) = pg_todo s" "pg_sender (set_worker k x s) = pg_sender s"
  "pg_cancelled (set_worker k x s) = pg_cancelled s" "pg_done (set_worker k x s) = pg_done s"
  "pg_Attempted (set_worker k x s) = pg_Attempted s" "pg_Succeeded (set_worker k x s) = pg_Succeeded s"
  "pg_Failed (set_worker k x s) = pg_Failed s" "pg_firstErr (set_worker k x s) = pg_firstErr s"
  "pg_workers (set_worker k x s) = (pg_workers s)[k := x]"
  by (simp_all add: set_worker_def)

lemma record_outcome_simps [simp]:
  "pg_todo (record_outcome i e s) = pg_todo s" "pg_sender (record_outcome i e s) = pg_sender s"
  "pg_cancelled (record_outcome i e s) = pg_cancelled s" "pg_workers (record_outcome i e s) = pg_workers s"
  "pg_done (record_outcome i e s) = pg_done s @ [(i, e)]"
  by (simp_all add: record_outcome_def split: option.split)

lemma hands_cong: "pg_workers s = pg_workers s' \<Longrightarrow> hands s = hands s'"
  by (simp add: hands_def)

lemma hands_set_worker:
  assumes "k < length (pg_workers s)"
  shows "mset (hands (set_worker k x s)) + mset (in_hand (pg_workers s ! k)) = mset (hands s) + mset (in_hand x)"
proof -
  obtain us vs y where ws: "pg_workers s = us @ y # vs" and k: "k = length us"
    using id_take_nth_drop [OF assms] assms by (metis length_take min.absorb4)
  then show ?thesis by (simp add: hands_def)
qed

lemma page_items_step:
  assumes "page_step s s'" "page_items ids s"
  shows "page_items ids s'"
proof -
  from assms(2) obtain lost where lost:
    "mset ids = mset (map fst (pg_done s)) + mset (hands s) + mset (pg_todo s) + lost" "pg_cancelled s \<or> lost = {#}"
    by (auto simp: page_items_def)
  from assms(1) show ?thesis
  proof cases
    case (rendezvous i rest k)
    have "hands (s\<lparr>pg_sender := Checking, pg_todo := rest\<rparr>) = hands s" by (rule hands_cong) simp
    with hands_set_worker [of k "s\<lparr>pg_sender := Checking, pg_todo := rest\<rparr>" "Received i"] rendezvous lost show ?thesis
      by (auto simp: page_items_def intro!: exI [of _ lost])
  next
    case (range_end k)
    with hands_set_worker [of k s Gone] lost show ?thesis
      by (auto simp: page_items_def intro!: exI [of _ lost])
  next
    case (work_return k i)
    with hands_set_worker [of k s Gone] lost show ?thesis
      by (auto simp: page_items_def intro!: exI [of _ "add_mset i lost"])
  next
    case (work_begin k i)
    with hands_set_worker [of k s "Processing i"] lost show ?thesis
      by (auto simp: page_items_def intro!: exI [of _ lost])
  next
    case (work_end k i e)
    have "hands (record_outcome i e s) = hands s" by (rule hands_cong) simp
    with hands_set_worker [of k "record_outcome i e s" Ranging] work_end lost show ?thesis
      by (auto simp: page_items_def intro!: exI [of _ lost])
  qed (use lost in \<open>auto simp: page_items_def hands_def\<close>)
qed

lemma failures_snoc [simp]: "failures (xs @ [x]) = failures xs @ (if snd x = None then [] else [x])"
  by (simp add: failures_def)

lemma page_counts_step: "page_step s s' \<Longrightarrow> page_counts s \<Longrightarrow> page_counts s'"
  by (induction rule: page_step.induct)
    (auto simp: page_counts_def record_outcome_def split: option.splits list.splits)

lemma page_control_step: "page_step s s' \<Longrightarrow> page_control n s \<Longrightarrow> page_control n s'"
  by (induction rule: page_step.induct)
    (auto simp: page_control_def set_update_distinct dest!: set_update_subset_insert [THEN subsetD] nth_mem)

abbreviation page_steps :: "page \<Rightarrow> page \<Rightarrow> bool" where
  "page_steps \<equiv> page_step\<^sup>*\<^sup>*"

lemma page_invariants:
  assumes "page_steps (page_start ids concurrency) s"
  shows "page_items ids s" "page_counts s" "page_control (nat (min concurrency (int (length ids)))) s"
proof -
  have start: "page_items ids (page_start ids concurrency)" "page_counts (page_start ids concurrency)"
    "page_control (nat (min concurrency (int (length ids)))) (page_start ids concurrency)"
    by (auto simp: page_items_def page_counts_def page_control_def page_start_def hands_def failures_def)
  have "page_items ids s \<and> page_counts s \<and> page_control (nat (min concurrency (int (length ids)))) s"
    using assms by induction (use start page_items_step page_counts_step page_control_step in blast)+
  then show "page_items ids s" "page_counts s" "page_control (nat (min concurrency (int (length ids)))) s"
    by blast+
qed

lemma final_hands: "page_final s \<Longrightarrow> hands s = []"
  by (auto simp: page_final_def hands_def list_all_iff)

lemma failures_le: "length (failures xs) \<le> length xs"
  by (simp add: failures_def)

lemma page_outcome:
  assumes "page_steps (page_start ids concurrency) s" and "page_final s"
  shows "mset (map fst (pg_done s)) \<subseteq># mset ids
    \<and> pg_Attempted s = int (length (pg_done s)) \<and> pg_Succeeded s + pg_Failed s = pg_Attempted s
    \<and> pg_Failed s = int (length (failures (pg_done s)))
    \<and> (page_error s ctxErr \<noteq> None
       \<or> mset (map fst (pg_done s)) = mset ids \<and> pg_Succeeded s = int (length ids) \<and> pg_Failed s = 0)"
proof -
  note inv = page_invariants [OF assms(1)]
  from inv(1) final_hands [OF assms(2)] inv(3) assms(2) obtain lost where lost:
    "mset ids = mset (map fst (pg_done s)) + mset (pg_todo s) + lost" "pg_cancelled s \<or> lost = {#} \<and> pg_todo s = []"
    by (auto simp: page_items_def page_control_def page_final_def)
  have "mset (map fst (pg_done s)) = mset ids \<and> pg_Succeeded s = int (length ids) \<and> pg_Failed s = 0"
    if ok: "page_error s ctxErr = None"
  proof -
    from ok inv(2) have none: "\<not> pg_cancelled s" "failures (pg_done s) = []"
      by (auto simp: page_error_def page_counts_def split: if_splits list.splits)
    with lost have all: "mset (map fst (pg_done s)) = mset ids" by simp
    then have "length (pg_done s) = length ids" by (metis length_map size_mset)
    with all none inv(2) show ?thesis by (simp add: page_counts_def)
  qed
  with inv(2) lost show ?thesis by (auto simp: page_counts_def)
qed

text \<open>
  C14 (safety): whatever the interleaving of sender, workers and cancellation, when \<open>processPage\<close>
  returns each listed item was processed at most once, every processed one was counted, as
  succeeded or failed; and a nil error means that every listed item was processed and succeeded:
  no item is skipped silently.
\<close>

theorem page_accounts:
  assumes "page_steps (page_start ids concurrency) s" and "page_final s"
  shows "mset (map fst (pg_done s)) \<subseteq># mset ids
    \<and> pg_Attempted s = int (length (pg_done s)) \<and> pg_Succeeded s + pg_Failed s = pg_Attempted s
    \<and> pg_Failed s = int (length (failures (pg_done s)))
    \<and> (page_error s ctxErr \<noteq> None
       \<or> mset (map fst (pg_done s)) = mset ids \<and> pg_Succeeded s = int (length ids) \<and> pg_Failed s = 0)"
  using assms by (rule page_outcome)

text \<open>At most \<open>concurrency\<close> items are being processed at any time.\<close>

lemma page_concurrency:
  assumes "page_steps (page_start ids concurrency) s" "0 < concurrency"
  shows "int (length (filter (\<lambda>x. \<exists>i. x = Processing i) (pg_workers s))) \<le> concurrency"
proof -
  have "int (length (pg_workers s)) \<le> concurrency"
    using page_invariants(3) [OF assms(1)] assms(2) by (simp add: page_control_def)
  then show ?thesis by (meson length_filter_le of_nat_le_iff order.trans)
qed

section \<open>It ends\<close>

fun worker_weight :: "worker \<Rightarrow> nat" where
  "worker_weight (Received i) = 3"
| "worker_weight (Processing i) = 2"
| "worker_weight Ranging = 1"
| "worker_weight Gone = 0"

fun sender_weight :: "sender \<Rightarrow> nat" where
  "sender_weight Checking = 2"
| "sender_weight Selecting = 1"
| "sender_weight Closed = 0"

definition page_weight :: "page \<Rightarrow> nat" where
  "page_weight s = 4 * length (pg_todo s) + sender_weight (pg_sender s)
     + sum_list (map worker_weight (pg_workers s)) + (if pg_cancelled s then 0 else 1)"

lemma sum_list_update_worker:
  assumes "k < length ws"
  shows "sum_list (map worker_weight (ws[k := x])) + worker_weight (ws ! k) = sum_list (map worker_weight ws) + worker_weight x"
proof -
  obtain us vs y where ws: "ws = us @ y # vs" and k: "k = length us"
    using id_take_nth_drop [OF assms] assms by (metis length_take min.absorb4)
  then show ?thesis by simp
qed

lemma page_step_weight:
  assumes "page_step s s'"
  shows "page_weight s' < page_weight s"
proof -
  note upd = sum_list_update_worker [of _ "pg_workers s"]
  from assms show ?thesis
  proof cases
    case (rendezvous i rest k)
    with upd [of k "Received i"] show ?thesis by (simp add: page_weight_def)
  next
    case (range_end k)
    with upd [of k Gone] show ?thesis by (simp add: page_weight_def)
  next
    case (work_return k i)
    with upd [of k Gone] show ?thesis by (simp add: page_weight_def)
  next
    case (work_begin k i)
    with upd [of k "Processing i"] show ?thesis by (simp add: page_weight_def)
  next
    case (work_end k i e)
    with upd [of k Ranging] show ?thesis by (simp add: page_weight_def)
  qed (simp_all add: page_weight_def)
qed

lemma page_run_bounded: "(page_step ^^ n) s s' \<Longrightarrow> n + page_weight s' \<le> page_weight s"
  by (induction n arbitrary: s') (auto dest!: page_step_weight, fastforce)

lemma page_worker_step:
  assumes "k < length (pg_workers s)" "pg_workers s ! k = x" "x = Received i \<or> x = Processing i"
  shows "\<exists>s'. page_step s s' \<and> pg_cancelled s' = pg_cancelled s"
  using assms by (metis page_step.work_begin page_step.work_end page_step.work_return
      record_outcome_simps(3) set_worker_simps(3))

lemma page_progress:
  assumes "page_steps (page_start ids concurrency) s" "0 < concurrency" "\<not> page_final s"
  shows "\<exists>s'. page_step s s' \<and> pg_cancelled s' = pg_cancelled s"
proof -
  note inv = page_invariants [OF assms(1)]
  show ?thesis
  proof (cases "pg_sender s")
    case Checking
    then show ?thesis
      using send_end [OF Checking] send_break [OF Checking] send_check [OF Checking]
      by (cases "pg_todo s = []"; cases "pg_cancelled s") force+
  next
    case Selecting
    show ?thesis
    proof (cases "pg_cancelled s")
      case True
      then show ?thesis using send_done [OF Selecting True] by force
    next
      case False
      then have w: "Gone \<notin> set (pg_workers s)" "pg_todo s \<noteq> []"
        "length (pg_workers s) = nat (min concurrency (int (length ids)))"
        using inv(3) Selecting by (auto simp: page_control_def)
      then obtain i rest where todo: "pg_todo s = i # rest" by (cases "pg_todo s") auto
      then have "ids \<noteq> []" using inv(1) by (auto simp: page_items_def)
      with w assms(2) have k: "0 < length (pg_workers s)" by simp
      show ?thesis
      proof (cases "pg_workers s ! 0")
        case Ranging
        from rendezvous [OF Selecting todo k Ranging] show ?thesis by force
      qed (use k w page_worker_step [OF k refl] in \<open>force simp: in_set_conv_nth\<close>)+
    qed
  next
    case Closed
    with assms(3) obtain k where k: "k < length (pg_workers s)" "pg_workers s ! k \<noteq> Gone"
      by (auto simp: page_final_def list_all_length)
    show ?thesis
    proof (cases "pg_workers s ! k")
      case Ranging
      from range_end [OF Closed k(1) Ranging] show ?thesis by force
    qed (use k page_worker_step [OF k(1) refl] in force)+
  qed
qed

text \<open>
  C26 (termination): \<open>processPage\<close> can not deadlock and can not run on: until it is over some
  goroutine can always take a step without the context being cancelled, and no interleaving takes
  more than \<open>5 * length ids + 3\<close> steps.
\<close>

theorem page_ends:
  assumes "(page_step ^^ n) (page_start ids concurrency) s" and "0 < concurrency"
  shows "n \<le> 5 * length ids + 3
    \<and> (page_final s \<or> (\<exists>s'. page_step s s' \<and> pg_cancelled s' = pg_cancelled s))"
proof
  have "page_weight (page_start ids concurrency) \<le> 5 * length ids + 3"
    by (simp add: page_weight_def page_start_def sum_list_replicate)
  with page_run_bounded [OF assms(1)] show "n \<le> 5 * length ids + 3" by linarith
  have "page_steps (page_start ids concurrency) s" using assms(1) by (rule relpowp_imp_rtranclp)
  from page_progress [OF this assms(2)]
  show "page_final s \<or> (\<exists>s'. page_step s s' \<and> pg_cancelled s' = pg_cancelled s)" by blast
qed

section \<open>A concrete run\<close>

definition sample_page :: "int list \<Rightarrow> sender \<Rightarrow> worker \<Rightarrow> int \<Rightarrow> (int \<times> check) list \<Rightarrow> page" where
  "sample_page todo snder w n done' = \<lparr>pg_todo = todo, pg_sender = snder, pg_workers = [w], pg_cancelled = False,
     pg_Attempted = n, pg_Succeeded = n, pg_Failed = 0, pg_firstErr = None, pg_done = done'\<rparr>"

lemma sample_page_run: "page_steps (page_start [7] 4) (sample_page [] Closed Gone 1 [(7, None)])"
proof -
  let ?p = sample_page
  have start: "page_start [7] 4 = ?p [7] Checking Ranging 0 []"
    by (simp add: page_start_def sample_page_def)
  have "page_step (?p [7] Checking Ranging 0 []) (?p [7] Selecting Ranging 0 [])"
    using send_check [of "?p [7] Checking Ranging 0 []"] by (simp add: sample_page_def)
  moreover have "page_step (?p [7] Selecting Ranging 0 []) (?p [] Checking (Received 7) 0 [])"
    using rendezvous [of "?p [7] Selecting Ranging 0 []" 7 "[]" 0] by (simp add: sample_page_def set_worker_def)
  moreover have "page_step (?p [] Checking (Received 7) 0 []) (?p [] Closed (Received 7) 0 [])"
    using send_end [of "?p [] Checking (Received 7) 0 []"] by (simp add: sample_page_def)
  moreover have "page_step (?p [] Closed (Received 7) 0 []) (?p [] Closed (Processing 7) 0 [])"
    using work_begin [of 0 "?p [] Closed (Received 7) 0 []" 7] by (simp add: sample_page_def set_worker_def)
  moreover have "page_step (?p [] Closed (Processing 7) 0 []) (?p [] Closed Ranging 1 [(7, None)])"
    using work_end [of 0 "?p [] Closed (Processing 7) 0 []" 7 None]
    by (simp add: sample_page_def set_worker_def record_outcome_def)
  moreover have "page_step (?p [] Closed Ranging 1 [(7, None)]) (?p [] Closed Gone 1 [(7, None)])"
    using range_end [of "?p [] Closed Ranging 1 [(7, None)]" 0] by (simp add: sample_page_def set_worker_def)
  ultimately show ?thesis unfolding start
    by (meson converse_rtranclp_into_rtranclp rtranclp.rtrancl_refl)
qed

theorem page_accounts_witness:
  "pg_Succeeded (sample_page [] Closed Gone 1 [(7, None)]) = int (length [7::int])"
proof -
  have "page_final (sample_page [] Closed Gone 1 [(7, None)])" by (simp add: page_final_def sample_page_def)
  from page_accounts [OF sample_page_run this, of "Sentinel ''cancelled''"]
  show ?thesis by (simp add: page_error_def sample_page_def)
qed

theorem page_ends_witness: "\<exists>s'. page_step (page_start [7, 8] 2) s'"
  using page_ends [of 0 "[7, 8]" 2 "page_start [7, 8] 2"] by (auto simp: page_final_def page_start_def)

text \<open>A run cancelled before anything was sent.\<close>

definition idle_page :: "int list \<Rightarrow> sender \<Rightarrow> worker list \<Rightarrow> bool \<Rightarrow> page" where
  "idle_page todo snder ws c = \<lparr>pg_todo = todo, pg_sender = snder, pg_workers = ws, pg_cancelled = c,
     pg_Attempted = 0, pg_Succeeded = 0, pg_Failed = 0, pg_firstErr = None, pg_done = []\<rparr>"

lemma idle_workers_go:
  "page_steps (idle_page todo Closed (replicate j Gone @ replicate m Ranging) c)
     (idle_page todo Closed (replicate (j + m) Gone) c)"
proof (induction m arbitrary: j)
  case (Suc m)
  have "(replicate j Gone @ replicate (Suc m) Ranging)[j := Gone] = replicate (Suc j) Gone @ replicate m Ranging"
    by (simp add: list_update_append replicate_app_Cons_same)
  then have "page_step (idle_page todo Closed (replicate j Gone @ replicate (Suc m) Ranging) c)
      (idle_page todo Closed (replicate (Suc j) Gone @ replicate m Ranging) c)"
    using range_end [of "idle_page todo Closed (replicate j Gone @ replicate (Suc m) Ranging) c" j]
    by (simp add: idle_page_def set_worker_def nth_append)
  from converse_rtranclp_into_rtranclp [of page_step, OF this Suc.IH [of "Suc j"]] show ?case by simp
qed simp

lemma cancelled_page_run:
  "page_steps (page_start ids c) (idle_page ids Closed (replicate (nat (min c (int (length ids)))) Gone) True)"
proof -
  let ?ws = "replicate (nat (min c (int (length ids)))) Ranging"
  have "page_step (page_start ids c) (idle_page ids Checking ?ws True)"
    using cancel [of "page_start ids c"] by (simp add: page_start_def idle_page_def)
  moreover have "page_step (idle_page ids Checking ?ws True) (idle_page ids Closed ?ws True)"
    using send_end [of "idle_page ids Checking ?ws True"] send_break [of "idle_page ids Checking ?ws True"]
    by (cases "ids = []") (simp_all add: idle_page_def)
  moreover have "page_steps (idle_page ids Closed ?ws True)
      (idle_page ids Closed (replicate (nat (min c (int (length ids)))) Gone) True)"
    using idle_workers_go [of ids 0 "nat (min c (int (length ids)))" True] by simp
  ultimately show ?thesis by (meson converse_rtranclp_into_rtranclp)
qed

text \<open>An executable outcome of \<open>processPage\<close>: the two runs above.\<close>

definition sample_process :: "int list \<Rightarrow> int \<Rightarrow> (int \<times> int \<times> int) \<times> check" where
  "sample_process ids c = (if ids = [7] \<and> 1 \<le> c then ((1, 1, 0), None) else ((0, 0, 0), Some (Sentinel ''cancelled'')))"

lemma sample_process_runs:
  "\<exists>s e. page_steps (page_start ids c) s \<and> page_final s
     \<and> sample_process ids c = ((pg_Attempted s, pg_Succeeded s, pg_Failed s), page_error s e)"
proof (cases "ids = [7] \<and> 1 \<le> c")
  case True
  then have "page_start ids c = page_start [7] 4" by (simp add: page_start_def)
  with True sample_page_run show ?thesis
    by (intro exI [of _ "sample_page [] Closed Gone 1 [(7, None)]"])
      (simp add: page_final_def sample_process_def sample_page_def page_error_def)
next
  case False
  with cancelled_page_run [of ids c] show ?thesis
    by (intro exI [of _ "idle_page ids Closed (replicate (nat (min c (int (length ids)))) Gone) True"]
        exI [of _ "Sentinel ''cancelled''"])
      (auto simp: page_final_def sample_process_def idle_page_def page_error_def list_all_iff)
qed

end
