(* ===== verification/Run_Batch.thy ===== *)
theory Run_Batch
  imports Run_Types Run_Page
begin

text \<open>
  \<open>RunKeysetBatch\<close> of \<open>internal/corpus/run/batch.go\<close>: one bounded page of keyset-listed items,
  admitted against the declared byte and page budgets and processed by \<open>processPage\<close>
  (\<open>Run_Page\<close>). \<open>list\<close> and the outcome of \<open>processPage\<close> are arguments, as are the two readings of
  \<open>ctx.Err()\<close> after it. An \<open>int\<close> has 64 bits.
\<close>

section \<open>The batch\<close>

record BatchResult =
  bres_Attempted :: int
  bres_Succeeded :: int
  bres_Failed :: int
  bres_Rejected :: int
  bres_NextCursor :: int
  bres_Complete :: bool

definition zero_BatchResult :: BatchResult where
  "zero_BatchResult = \<lparr>bres_Attempted = 0, bres_Succeeded = 0, bres_Failed = 0, bres_Rejected = 0,
     bres_NextCursor = 0, bres_Complete = False\<rparr>"

definition BatchResult_Add :: "BatchResult \<Rightarrow> BatchResult \<Rightarrow> BatchResult" where
  "BatchResult_Add r other = \<lparr>bres_Attempted = bres_Attempted r + bres_Attempted other,
     bres_Succeeded = bres_Succeeded r + bres_Succeeded other, bres_Failed = bres_Failed r + bres_Failed other,
     bres_Rejected = bres_Rejected r + bres_Rejected other, bres_NextCursor = bres_NextCursor other,
     bres_Complete = bres_Complete other\<rparr>"

record BatchError =
  be_Stage :: string
  be_Result :: BatchResult
  be_Cause :: gerr

record BatchConfig =
  bc_Stage :: string
  bc_AfterID :: int
  bc_Limit :: int
  bc_Budget :: Budget

record BatchItem =
  bi_ID :: int
  bi_InputBytes :: int
  bi_Pages :: int

text \<open>The variables of the admission loop.\<close>

record admission =
  ad_total :: BatchResult
  ad_previousID :: int
  ad_declaredBytes :: int
  ad_declaredPages :: int
  ad_ids :: "int list"
  ad_Err :: check

definition reject :: "BatchItem \<Rightarrow> gerr \<Rightarrow> admission \<Rightarrow> admission" where
  "reject item e a = a\<lparr>ad_total := (ad_total a)\<lparr>bres_Rejected := bres_Rejected (ad_total a) + 1, bres_NextCursor := bi_ID item\<rparr>,
     ad_Err := Some e, ad_previousID := bi_ID item\<rparr>"

definition admit :: "BatchItem \<Rightarrow> admission \<Rightarrow> admission" where
  "admit item a = a\<lparr>ad_declaredBytes := ad_declaredBytes a + bi_InputBytes item,
     ad_declaredPages := ad_declaredPages a + bi_Pages item, ad_ids := ad_ids a @ [bi_ID item],
     ad_previousID := bi_ID item\<rparr>"

text \<open>\<open>Inl\<close>: the return for a cursor that does not advance; \<open>Inr\<close>: the variables after the loop.\<close>

fun admit_loop :: "Budget \<Rightarrow> admission \<Rightarrow> BatchItem list \<Rightarrow> BatchResult \<times> gerr + admission" where
  "admit_loop b a [] = Inr a"
| "admit_loop b a (item # items) =
    (if bi_ID item \<le> ad_previousID a
     then Inl (ad_total a, Errorf ''non-advancing cursor: after=%d next=%d'' [FInt (ad_previousID a), FInt (bi_ID item)])
     else if bi_InputBytes item \<le> 0 \<or> bi_Pages item \<le> 0
     then admit_loop b (reject item
       (Errorf ''item %d has nonpositive declared bytes or pages'' [FInt (bi_ID item)]) a) items
     else if bi_InputBytes item > b_MaxInputBytes b \<or> bi_Pages item > b_MaxPages b
     then admit_loop b (reject item
       (Errorf ''item %d exceeds its declared byte or page budget'' [FInt (bi_ID item)]) a) items
     else if bi_InputBytes item > b_MaxInputBytes b - ad_declaredBytes a
         \<or> bi_Pages item > b_MaxPages b - ad_declaredPages a
     then Inr (a\<lparr>ad_total := (ad_total a)\<lparr>bres_Complete := False\<rparr>\<rparr>)
     else admit_loop b (admit item a) items)"

text \<open>From \<open>processPage\<close> on.\<close>

definition finish_batch :: "BatchConfig \<Rightarrow> admission \<Rightarrow> (int \<times> int \<times> int) \<times> check \<Rightarrow> check \<Rightarrow> check \<Rightarrow> BatchResult \<times> BatchError option" where
  "finish_batch cfg a page ctxErr1 ctxErr2 =
    (case page of ((attempted, succeeded, failed'), firstErr) \<Rightarrow>
     let total = (ad_total a)\<lparr>bres_NextCursor := max (bres_NextCursor (ad_total a)) (last (ad_ids a)),
           bres_Attempted := attempted, bres_Succeeded := succeeded, bres_Failed := failed'\<rparr>;
         total = (if ctxErr1 \<noteq> None then total\<lparr>bres_NextCursor := bc_AfterID cfg, bres_Complete := False\<rparr> else total);
         fail = (\<lambda>e. (total, Some \<lparr>be_Stage = bc_Stage cfg, be_Result = total, be_Cause = e\<rparr>))
     in case firstErr of Some e \<Rightarrow> fail e | None \<Rightarrow>
        case ad_Err a of Some e \<Rightarrow> fail e | None \<Rightarrow>
        case ctxErr2 of Some e \<Rightarrow> fail e | None \<Rightarrow> (total, None))"

definition RunKeysetBatch :: "BatchConfig \<Rightarrow> (int \<Rightarrow> int \<Rightarrow> gerr + BatchItem list)
    \<Rightarrow> (int list \<Rightarrow> int \<Rightarrow> (int \<times> int \<times> int) \<times> check) \<Rightarrow> check \<Rightarrow> check \<Rightarrow> BatchResult \<times> BatchError option" where
  "RunKeysetBatch cfg0 list processPage ctxErr1 ctxErr2 =
    (let cfg = (if bc_Stage cfg0 = [] then cfg0\<lparr>bc_Stage := ''batch''\<rparr> else cfg0);
         b = bc_Budget cfg; total = zero_BatchResult;
         fail = (\<lambda>r e. (r, Some \<lparr>be_Stage = bc_Stage cfg, be_Result = r, be_Cause = e\<rparr>)) in
     case Budget_Validate b of Some e \<Rightarrow> fail total (Wrapf ''budget: %w'' [] [e]) | None \<Rightarrow>
     let itemLimit = (if bc_Limit cfg > 0 \<and> bc_Limit cfg < b_MaxItems b then bc_Limit cfg else b_MaxItems b) in
     if itemLimit = max_int64 then fail total (Errorf ''max items must be less than %d'' [FInt max_int64])
     else case list (bc_AfterID cfg) (itemLimit + 1) of
       Inl e \<Rightarrow> fail total (Wrapf ''list after %d: %w'' [FInt (bc_AfterID cfg)] [e])
     | Inr items \<Rightarrow>
     if items = [] then (total\<lparr>bres_Complete := True\<rparr>, None)
     else
       let total = total\<lparr>bres_Complete := int (length items) \<le> itemLimit\<rparr>;
           items' = take (nat itemLimit) items in
       case admit_loop b \<lparr>ad_total = total, ad_previousID = bc_AfterID cfg, ad_declaredBytes = 0,
           ad_declaredPages = 0, ad_ids = [], ad_Err = None\<rparr> items' of
         Inl (r, e) \<Rightarrow> fail r e
       | Inr a \<Rightarrow>
           if ad_ids a = [] then (case ad_Err a of
             Some e \<Rightarrow> fail (ad_total a) e
           | None \<Rightarrow> fail (ad_total a) (Errorf ''item %d exceeds the remaining declared byte or page budget''
               [FInt (bi_ID (hd items'))]))
           else finish_batch cfg a (processPage (ad_ids a) (b_MaxConcurrent b)) ctxErr1 ctxErr2)"

section \<open>The admission loop\<close>

text \<open>
  What the loop maintains about the items it has consumed: those admitted (in the list of IDs,
  within the budgets) and those rejected (counted) are all of them, in their order.
\<close>

definition admissible :: "Budget \<Rightarrow> BatchItem \<Rightarrow> bool" where
  "admissible b i \<longleftrightarrow> 0 < bi_InputBytes i \<and> 0 < bi_Pages i \<and> bi_InputBytes i \<le> b_MaxInputBytes b \<and> bi_Pages i \<le> b_MaxPages b"

definition adm_inv :: "Budget \<Rightarrow> int \<Rightarrow> int \<Rightarrow> BatchItem list \<Rightarrow> admission \<Rightarrow> bool" where
  "adm_inv b after start seen a \<longleftrightarrow>
     ad_ids a = map bi_ID (filter (admissible b) seen)
   \<and> ad_declaredBytes a = sum_list (map bi_InputBytes (filter (admissible b) seen))
   \<and> ad_declaredPages a = sum_list (map bi_Pages (filter (admissible b) seen))
   \<and> ad_declaredBytes a \<le> b_MaxInputBytes b \<and> ad_declaredPages a \<le> b_MaxPages b
   \<and> bres_Rejected (ad_total a) = int (length (filter (\<lambda>i. \<not> admissible b i) seen))
   \<and> bres_NextCursor (ad_total a) = (let rs = filter (\<lambda>i. \<not> admissible b i) seen in if rs = [] then start else bi_ID (last rs))
   \<and> ad_previousID a = (if seen = [] then after else bi_ID (last seen))
   \<and> sorted_wrt (<) (after # map bi_ID seen)
   \<and> (ad_Err a = None \<longleftrightarrow> list_all (admissible b) seen)"

lemma sorted_wrt_le_last: "sorted_wrt (<) (xs :: int list) \<Longrightarrow> x \<in> set xs \<Longrightarrow> x \<le> last xs"
proof (induction xs)
  case (Cons y xs)
  then show ?case
    by (cases "xs = []") (auto dest: bspec [OF _ last_in_set, of xs] intro: less_imp_le)
qed simp

lemma sorted_wrt_last_snoc:
  fixes xs :: "int list"
  assumes "sorted_wrt (<) xs" "last xs < y"
  shows "sorted_wrt (<) (xs @ [y])"
  using assms sorted_wrt_le_last [OF assms(1)] by (fastforce simp: sorted_wrt_append)

lemma sorted_after_snoc:
  assumes "sorted_wrt (<) (after # map bi_ID seen)" "(if seen = [] then after else bi_ID (last seen)) < bi_ID i"
  shows "sorted_wrt (<) (after # map bi_ID (seen @ [i]))"
proof -
  have "last (after # map bi_ID seen) < bi_ID i" using assms(2) by (auto simp: last_map split: if_splits)
  from sorted_wrt_last_snoc [OF assms(1) this] show ?thesis by simp
qed

lemma reject_inv:
  assumes "adm_inv b after start seen a" "\<not> bi_ID i \<le> ad_previousID a" "\<not> admissible b i"
  shows "adm_inv b after start (seen @ [i]) (reject i e a)"
  using assms sorted_after_snoc [of after seen i] by (simp add: adm_inv_def reject_def Let_def)

lemma admit_inv:
  assumes "adm_inv b after start seen a" "\<not> bi_ID i \<le> ad_previousID a" "admissible b i"
    "bi_InputBytes i \<le> b_MaxInputBytes b - ad_declaredBytes a" "bi_Pages i \<le> b_MaxPages b - ad_declaredPages a"
  shows "adm_inv b after start (seen @ [i]) (admit i a)"
  using assms sorted_after_snoc [of after seen i] by (simp add: adm_inv_def admit_def Let_def)

lemma admit_loop_inv:
  assumes "admit_loop b a items = Inr a'" "adm_inv b after start seen a"
  shows "\<exists>took rest. items = took @ rest \<and> adm_inv b after start (seen @ took) a'
    \<and> bres_Complete (ad_total a') = (if rest = [] then bres_Complete (ad_total a) else False)
    \<and> (rest = [] \<or> (let i = hd rest in admissible b i \<and> ad_previousID a' < bi_ID i
         \<and> (bi_InputBytes i > b_MaxInputBytes b - ad_declaredBytes a' \<or> bi_Pages i > b_MaxPages b - ad_declaredPages a')))"
  using assms
proof (induction items arbitrary: a seen)
  case Nil
  then show ?case by simp
next
  case (Cons i items)
  have adv: "\<not> bi_ID i \<le> ad_previousID a" using Cons.prems(1) by (auto split: if_splits)
  consider (reject) e where "\<not> admissible b i" "admit_loop b (reject i e a) items = Inr a'"
    | (stop) "admissible b i" "a' = a\<lparr>ad_total := (ad_total a)\<lparr>bres_Complete := False\<rparr>\<rparr>"
        "bi_InputBytes i > b_MaxInputBytes b - ad_declaredBytes a \<or> bi_Pages i > b_MaxPages b - ad_declaredPages a"
    | (admit) "admissible b i" "bi_InputBytes i \<le> b_MaxInputBytes b - ad_declaredBytes a"
        "bi_Pages i \<le> b_MaxPages b - ad_declaredPages a" "admit_loop b (admit i a) items = Inr a'"
    using Cons.prems(1) by (auto simp: admissible_def split: if_splits)
  then show ?case
  proof cases
    case reject
    from Cons.IH [OF reject(2) reject_inv [OF Cons.prems(2) adv reject(1)]] obtain took rest
      where "items = took @ rest" "adm_inv b after start ((seen @ [i]) @ took) a'"
        "bres_Complete (ad_total a') = (if rest = [] then bres_Complete (ad_total (reject i e a)) else False)"
        "rest = [] \<or> (let i = hd rest in admissible b i \<and> ad_previousID a' < bi_ID i
         \<and> (bi_InputBytes i > b_MaxInputBytes b - ad_declaredBytes a' \<or> bi_Pages i > b_MaxPages b - ad_declaredPages a'))"
      by blast
    then show ?thesis by (intro exI [of _ "i # took"] exI [of _ rest]) (simp add: reject_def)
  next
    case stop
    with Cons.prems(2) adv show ?thesis
      by (intro exI [of _ "[]"] exI [of _ "i # items"]) (simp add: adm_inv_def Let_def)
  next
    case admit
    from Cons.IH [OF admit(4) admit_inv [OF Cons.prems(2) adv admit(1-3)]] obtain took rest
      where "items = took @ rest" "adm_inv b after start ((seen @ [i]) @ took) a'"
        "bres_Complete (ad_total a') = (if rest = [] then bres_Complete (ad_total (admit i a)) else False)"
        "rest = [] \<or> (let i = hd rest in admissible b i \<and> ad_previousID a' < bi_ID i
         \<and> (bi_InputBytes i > b_MaxInputBytes b - ad_declaredBytes a' \<or> bi_Pages i > b_MaxPages b - ad_declaredPages a'))"
      by blast
    then show ?thesis by (intro exI [of _ "i # took"] exI [of _ rest]) (simp add: admit_def)
  qed
qed

section \<open>What a batch returns\<close>

definition item_limit :: "BatchConfig \<Rightarrow> int" where
  "item_limit cfg = (if bc_Limit cfg > 0 \<and> bc_Limit cfg < b_MaxItems (bc_Budget cfg) then bc_Limit cfg
     else b_MaxItems (bc_Budget cfg))"

definition start_admission :: "BatchConfig \<Rightarrow> BatchItem list \<Rightarrow> admission" where
  "start_admission cfg items = \<lparr>ad_total = zero_BatchResult\<lparr>bres_Complete := int (length items) \<le> item_limit cfg\<rparr>,
     ad_previousID = bc_AfterID cfg, ad_declaredBytes = 0, ad_declaredPages = 0, ad_ids = [], ad_Err = None\<rparr>"

lemma start_admission_inv:
  "Budget_Validate (bc_Budget cfg) = None \<Longrightarrow> adm_inv (bc_Budget cfg) (bc_AfterID cfg) 0 [] (start_admission cfg items)"
  by (simp add: adm_inv_def start_admission_def zero_BatchResult_def)

text \<open>With a listing in ascending order above \<open>AfterID\<close> the loop does not fail on the cursor.\<close>

lemma admit_loop_ascending:
  "sorted_wrt (<) (ad_previousID a # map bi_ID items) \<Longrightarrow> \<exists>a'. admit_loop b a items = Inr a'"
  by (induction items arbitrary: a) (auto simp: reject_def admit_def)

lemma sorted_take_ascending:
  fixes after :: int
  shows "sorted_wrt (<) (after # map bi_ID items) \<Longrightarrow> sorted_wrt (<) (after # map bi_ID (take n items))"
  using sorted_wrt_take [of "(<)" "map bi_ID items" n] by (auto simp: take_map dest: in_set_takeD)

text \<open>The cases of a batch whose listing is ascending and not empty.\<close>

lemma batch_cases:
  assumes "Budget_Validate (bc_Budget cfg) = None" "item_limit cfg \<noteq> max_int64"
    and "list (bc_AfterID cfg) (item_limit cfg + 1) = Inr items" "items \<noteq> []"
    and "sorted_wrt (<) (bc_AfterID cfg # map bi_ID items)"
  obtains took rest a where
    "items = took @ rest" "adm_inv (bc_Budget cfg) (bc_AfterID cfg) 0 took a"
    "int (length took) \<le> item_limit cfg"
    "bres_Complete (ad_total a) \<longleftrightarrow> rest = []"
    "\<exists>cfg'. bc_AfterID cfg' = bc_AfterID cfg \<and> RunKeysetBatch cfg list processPage ctxErr1 ctxErr2
       = (if ad_ids a = [] then (ad_total a, Some \<lparr>be_Stage = bc_Stage cfg', be_Result = ad_total a,
            be_Cause = (case ad_Err a of Some e \<Rightarrow> e | None \<Rightarrow>
              Errorf ''item %d exceeds the remaining declared byte or page budget'' [FInt (bi_ID (hd items))])\<rparr>)
          else finish_batch cfg' a (processPage (ad_ids a) (b_MaxConcurrent (bc_Budget cfg))) ctxErr1 ctxErr2)"
proof -
  let ?n = "nat (item_limit cfg)"
  have pos: "0 < item_limit cfg" using assms(1) by (auto simp: item_limit_def)
  have "sorted_wrt (<) (bc_AfterID cfg # map bi_ID (take ?n items))" using assms(5) by (rule sorted_take_ascending)
  with admit_loop_ascending [of "start_admission cfg items" "take ?n items" "bc_Budget cfg"] obtain a where
    a: "admit_loop (bc_Budget cfg) (start_admission cfg items) (take ?n items) = Inr a"
    by (auto simp: start_admission_def)
  from admit_loop_inv [OF a start_admission_inv [OF assms(1)]] obtain took rest where
    "take ?n items = took @ rest" "adm_inv (bc_Budget cfg) (bc_AfterID cfg) 0 ([] @ took) a"
      "bres_Complete (ad_total a) = (if rest = [] then bres_Complete (ad_total (start_admission cfg items)) else False)"
    by blast
  then have t: "take ?n items = took @ rest" "adm_inv (bc_Budget cfg) (bc_AfterID cfg) 0 took a"
      "bres_Complete (ad_total a) = (if rest = [] then int (length items) \<le> item_limit cfg else False)"
    by (simp_all add: start_admission_def)
  have hd: "hd (take ?n items) = hd items" using pos assms(4) by (simp add: hd_take)
  have "items = took @ (rest @ drop ?n items)" using t(1) append_take_drop_id [of ?n items] by simp
  moreover have "int (length took) \<le> item_limit cfg"
    using arg_cong [OF t(1), of length] pos by simp
  moreover have "bres_Complete (ad_total a) \<longleftrightarrow> rest @ drop ?n items = []"
    using t(3) pos by auto
  moreover have "\<exists>cfg'. bc_AfterID cfg' = bc_AfterID cfg \<and> RunKeysetBatch cfg list processPage ctxErr1 ctxErr2
       = (if ad_ids a = [] then (ad_total a, Some \<lparr>be_Stage = bc_Stage cfg', be_Result = ad_total a,
            be_Cause = (case ad_Err a of Some e \<Rightarrow> e | None \<Rightarrow>
              Errorf ''item %d exceeds the remaining declared byte or page budget'' [FInt (bi_ID (hd items))])\<rparr>)
          else finish_batch cfg' a (processPage (ad_ids a) (b_MaxConcurrent (bc_Budget cfg))) ctxErr1 ctxErr2)"
  proof (intro exI conjI)
    let ?cfg = "if bc_Stage cfg = [] then cfg\<lparr>bc_Stage := ''batch''\<rparr> else cfg"
    have same: "bc_Budget ?cfg = bc_Budget cfg" "bc_AfterID ?cfg = bc_AfterID cfg" "bc_Limit ?cfg = bc_Limit cfg" by simp_all
    show "bc_AfterID ?cfg = bc_AfterID cfg" by simp
    have start: "\<lparr>ad_total = zero_BatchResult\<lparr>bres_Complete := int (length items) \<le> item_limit cfg\<rparr>,
        ad_previousID = bc_AfterID cfg, ad_declaredBytes = 0, ad_declaredPages = 0, ad_ids = [], ad_Err = None\<rparr>
      = start_admission cfg items" by (simp add: start_admission_def)
    show "RunKeysetBatch cfg list processPage ctxErr1 ctxErr2
       = (if ad_ids a = [] then (ad_total a, Some \<lparr>be_Stage = bc_Stage ?cfg, be_Result = ad_total a,
            be_Cause = (case ad_Err a of Some e \<Rightarrow> e | None \<Rightarrow>
              Errorf ''item %d exceeds the remaining declared byte or page budget'' [FInt (bi_ID (hd items))])\<rparr>)
          else finish_batch ?cfg a (processPage (ad_ids a) (b_MaxConcurrent (bc_Budget cfg))) ctxErr1 ctxErr2)"
      unfolding RunKeysetBatch_def Let_def same
      unfolding item_limit_def [symmetric] start
      by (simp only: assms(1-4) start a hd option.case sum.case if_False) (simp split: option.split)
  qed
  ultimately show ?thesis using that t(2) by blast
qed




text \<open>
  C25 (functional): what success means, with \<open>processPage\<close> as in \<open>Run_Page\<close> under any
  interleaving: the batch took a prefix of the listing, of at most the item limit and within both
  declared budgets, rejected nothing, processed every one of these items successfully, returns
  the last one's ID as cursor, and claims completeness iff nothing listed is left.
\<close>

theorem batch_success:
  assumes "Budget_Validate (bc_Budget cfg) = None" and "item_limit cfg \<noteq> max_int64"
    and "list (bc_AfterID cfg) (item_limit cfg + 1) = Inr items" and "items \<noteq> []"
    and "sorted_wrt (<) (bc_AfterID cfg # map bi_ID items)" and "0 \<le> bc_AfterID cfg"
    and "\<And>ids c. \<exists>s e. page_steps (page_start ids c) s \<and> page_final s
           \<and> processPage ids c = ((pg_Attempted s, pg_Succeeded s, pg_Failed s), page_error s e)"
    and "ctxErr1 = None \<or> ctxErr2 \<noteq> None"
    and "RunKeysetBatch cfg list processPage ctxErr1 ctxErr2 = (res, None)"
  shows "\<exists>took rest. items = took @ rest \<and> took \<noteq> [] \<and> int (length took) \<le> item_limit cfg
    \<and> sum_list (map bi_InputBytes took) \<le> b_MaxInputBytes (bc_Budget cfg)
    \<and> sum_list (map bi_Pages took) \<le> b_MaxPages (bc_Budget cfg)
    \<and> res = \<lparr>bres_Attempted = int (length took), bres_Succeeded = int (length took), bres_Failed = 0,
        bres_Rejected = 0, bres_NextCursor = bi_ID (last took), bres_Complete = (rest = [])\<rparr>"
proof (rule batch_cases [where list = list and processPage = processPage and ?ctxErr1.0 = ctxErr1 and ?ctxErr2.0 = ctxErr2,
      OF assms(1-5)])
  fix took rest a
  assume t: "items = took @ rest" and inv: "adm_inv (bc_Budget cfg) (bc_AfterID cfg) 0 took a"
    and len: "int (length took) \<le> item_limit cfg" and comp: "bres_Complete (ad_total a) \<longleftrightarrow> rest = []"
    and "\<exists>cfg'. bc_AfterID cfg' = bc_AfterID cfg \<and> RunKeysetBatch cfg list processPage ctxErr1 ctxErr2
     = (if ad_ids a = [] then (ad_total a, Some \<lparr>be_Stage = bc_Stage cfg', be_Result = ad_total a,
          be_Cause = (case ad_Err a of Some e \<Rightarrow> e | None \<Rightarrow>
            Errorf ''item %d exceeds the remaining declared byte or page budget'' [FInt (bi_ID (hd items))])\<rparr>)
        else finish_batch cfg' a (processPage (ad_ids a) (b_MaxConcurrent (bc_Budget cfg))) ctxErr1 ctxErr2)"
  then obtain cfg' where ne: "ad_ids a \<noteq> []" and
    run: "finish_batch cfg' a (processPage (ad_ids a) (b_MaxConcurrent (bc_Budget cfg))) ctxErr1 ctxErr2 = (res, None)"
    unfolding assms(9) by (auto split: if_splits)
  obtain s e where s: "page_steps (page_start (ad_ids a) (b_MaxConcurrent (bc_Budget cfg))) s" "page_final s"
    "processPage (ad_ids a) (b_MaxConcurrent (bc_Budget cfg)) = ((pg_Attempted s, pg_Succeeded s, pg_Failed s), page_error s e)"
    using assms(7) by blast
  have ok: "page_error s e = None" "ad_Err a = None" "ctxErr1 = None"
    and res: "res = (ad_total a)\<lparr>bres_NextCursor := max (bres_NextCursor (ad_total a)) (last (ad_ids a)),
      bres_Attempted := pg_Attempted s, bres_Succeeded := pg_Succeeded s, bres_Failed := pg_Failed s\<rparr>"
    using run s(3) assms(8) by (auto simp: finish_batch_def Let_def split: option.splits if_splits)
  have all: "filter (admissible (bc_Budget cfg)) took = took" "filter (\<lambda>i. \<not> admissible (bc_Budget cfg) i) took = []"
    using inv ok(2) by (auto simp: adm_inv_def list_all_iff filter_id_conv filter_empty_conv)
  then have ids: "ad_ids a = map bi_ID took" using inv by (simp add: adm_inv_def)
  have page: "pg_Succeeded s = int (length took)" "pg_Failed s = 0" "pg_Attempted s = int (length took)"
    using page_outcome [OF s(1,2), of e] ok(1) ids by auto
  have "last took \<in> set items" using t ne ids by simp
  then have "0 < bi_ID (last took)" using assms(5,6) by fastforce
  then have "res = \<lparr>bres_Attempted = int (length took), bres_Succeeded = int (length took), bres_Failed = 0,
        bres_Rejected = 0, bres_NextCursor = bi_ID (last took), bres_Complete = (rest = [])\<rparr>"
    using inv all ids ne comp page unfolding res by (simp add: adm_inv_def last_map)
  with t ids ne len inv all show ?thesis by (intro exI [of _ took] exI [of _ rest]) (simp add: adm_inv_def)
qed

text \<open>
  The last error of the admission loop is unreachable: when no item is admitted, some
  item was rejected, so \<open>RunKeysetBatch\<close> never reports an item exceeding the remaining budget.
\<close>

theorem remaining_budget_unreachable:
  assumes "Budget_Validate (bc_Budget cfg) = None"
    and "admit_loop (bc_Budget cfg) (start_admission cfg items) (item # rest) = Inr a" and "ad_ids a = []"
  shows "\<exists>e. ad_Err a = Some e \<and> 0 < bres_Rejected (ad_total a)"
proof -
  from admit_loop_inv [OF assms(2) start_admission_inv [OF assms(1)]] obtain took rest' where
    t: "item # rest = took @ rest'" and inv: "adm_inv (bc_Budget cfg) (bc_AfterID cfg) 0 ([] @ took) a"
    and stop: "rest' = [] \<or> (let i = hd rest' in admissible (bc_Budget cfg) i \<and> ad_previousID a < bi_ID i
         \<and> (bi_InputBytes i > b_MaxInputBytes (bc_Budget cfg) - ad_declaredBytes a
            \<or> bi_Pages i > b_MaxPages (bc_Budget cfg) - ad_declaredPages a))" by blast
  have none: "filter (admissible (bc_Budget cfg)) took = []" using inv assms(3) by (simp add: adm_inv_def)
  then have zero: "ad_declaredBytes a = 0" "ad_declaredPages a = 0" using inv by (simp_all add: adm_inv_def)
  have "took \<noteq> []"
  proof
    assume "took = []"
    with t stop zero show False by (auto simp: admissible_def Let_def)
  qed
  then obtain i where i: "i \<in> set took" "\<not> admissible (bc_Budget cfg) i" using none by (cases took) (auto split: if_splits)
  then have "filter (\<lambda>i. \<not> admissible (bc_Budget cfg) i) took \<noteq> []" by (auto simp: filter_empty_conv)
  with inv i show ?thesis by (auto simp: adm_inv_def list_all_iff)
qed

section \<open>A concrete batch\<close>

definition sample_config :: BatchConfig where
  "sample_config = \<lparr>bc_Stage = ''fetch'', bc_AfterID = 3, bc_Limit = 1, bc_Budget = sample_budget\<rparr>"

definition sample_item :: "int \<Rightarrow> int \<Rightarrow> BatchItem" where
  "sample_item i n = \<lparr>bi_ID = i, bi_InputBytes = n, bi_Pages = 1\<rparr>"

definition sample_list :: "int \<Rightarrow> int \<Rightarrow> gerr + BatchItem list" where
  "sample_list after limit = Inr (take (nat limit) [sample_item 7 500, sample_item 9 400])"

lemma sample_batch:
  "Budget_Validate (bc_Budget sample_config) = None" "item_limit sample_config \<noteq> max_int64"
  "sample_list (bc_AfterID sample_config) (item_limit sample_config + 1) = Inr [sample_item 7 500, sample_item 9 400]"
  "sorted_wrt (<) (bc_AfterID sample_config # map bi_ID [sample_item 7 500, sample_item 9 400])"
  "0 \<le> bc_AfterID sample_config"
  by (simp_all add: sample_config_def sample_budget_def item_limit_def max_int64_def sample_list_def sample_item_def
      numeral_2_eq_2)

lemma sample_batch_run:
  "RunKeysetBatch sample_config sample_list sample_process None None
   = (\<lparr>bres_Attempted = 1, bres_Succeeded = 1, bres_Failed = 0, bres_Rejected = 0, bres_NextCursor = 7,
       bres_Complete = False\<rparr>, None)"
proof -
  have b: "Budget_Validate sample_budget = None" "b_MaxItems sample_budget = 10" "b_MaxInputBytes sample_budget = 1000"
    "b_MaxPages sample_budget = 100" "b_MaxConcurrent sample_budget = 2" by (simp_all add: sample_budget_def)
  show ?thesis
    by (simp add: RunKeysetBatch_def sample_config_def b sample_list_def sample_item_def
        max_int64_def zero_BatchResult_def admit_def finish_batch_def sample_process_def Let_def numeral_2_eq_2
        del: Budget_Validate_None)
qed


theorem batch_success_witness:
  "\<exists>took rest. [sample_item 7 500, sample_item 9 400] = took @ rest \<and> bi_ID (last took) = 7 \<and> rest \<noteq> []"
proof -
  have "None = (None :: check) \<or> None \<noteq> (None :: check)" by simp
  from batch_success [where list = sample_list, OF sample_batch(1-3) _ sample_batch(4,5) sample_process_runs this sample_batch_run]
  obtain took rest where "[sample_item 7 500, sample_item 9 400] = took @ rest" "7 = bi_ID (last took)" "False = (rest = [])"
    by auto
  then show ?thesis by (metis (no_types))
qed

theorem remaining_budget_unreachable_witness:
  "\<exists>e. ad_Err (reject (sample_item 7 5000) (Errorf ''item %d exceeds its declared byte or page budget'' [FInt 7])
     (start_admission sample_config [sample_item 7 5000])) = Some e"
proof -
  have "admit_loop (bc_Budget sample_config) (start_admission sample_config [sample_item 7 5000]) [sample_item 7 5000]
    = Inr (reject (sample_item 7 5000) (Errorf ''item %d exceeds its declared byte or page budget'' [FInt 7])
       (start_admission sample_config [sample_item 7 5000]))"
    by (simp add: start_admission_def sample_config_def sample_budget_def sample_item_def)
  from remaining_budget_unreachable [OF sample_batch(1) this] show ?thesis
    by (simp add: reject_def start_admission_def)
qed

end
