(* ===== verification/Quality_Thresholds.thy ===== *)
theory Quality_Thresholds
  imports Go_Sha256
begin

text \<open>
  \<open>internal/corpus/quality/thresholds.go\<close>: policy thresholds as bounded rationals on \<open>uint64\<close>, and
  their comparison with a measured ratio through 128-bit products. The lemmas show that nothing
  wraps, so that the comparison is the exact one on rationals, and that accepted thresholds have
  one spelling.
\<close>

section \<open>The code\<close>

record threshold =
  th_qualification :: bool
  th_minimum :: bool
  th_numerator :: u64
  th_denominator :: u64

text \<open>The loop over the digits after \<open>0.\<close>: numerator and denominator, or \<open>None\<close> for a non-digit.\<close>

fun digit_loop :: "u64 \<Rightarrow> u64 \<Rightarrow> nat list \<Rightarrow> (u64 \<times> u64) option" where
  "digit_loop n d [] = Some (n, d)"
| "digit_loop n d (r # rs) =
    (if r < 48 \<or> r > 57 then None else digit_loop (n * 10 + word_of_nat (r - 48)) (d * 10) rs)"

definition parseThreshold :: "string \<Rightarrow> threshold option" where
  "parseThreshold s =
    (if s = ''qualification-required''
     then Some \<lparr>th_qualification = True, th_minimum = False, th_numerator = 0, th_denominator = 0\<rparr>
     else if length s < 5 \<or> length s > 12 \<or> (take 4 s \<noteq> ''min:'' \<and> take 4 s \<noteq> ''max:'') then None
     else
       let t = \<lparr>th_qualification = False, th_minimum = (take 4 s = ''min:''), th_numerator = 0, th_denominator = 1\<rparr>;
           d = drop 4 s in
       if d = ''0'' \<or> d = ''1'' then Some (t\<lparr>th_numerator := word_of_nat (byte_of (d ! 0) - 48)\<rparr>)
       else if length d < 3 \<or> length d > 8 \<or> take 2 d \<noteq> ''0.'' \<or> d ! (length d - 1) = CHR ''0'' then None
       else case digit_loop 0 1 (runes (drop 2 d)) of
         None \<Rightarrow> None
       | Some (n, m) \<Rightarrow> Some (t\<lparr>th_numerator := n, th_denominator := m\<rparr>))"

text \<open>\<open>bits.Mul64\<close>: high and low word of the 128-bit product.\<close>

definition Mul64 :: "u64 \<Rightarrow> u64 \<Rightarrow> u64 \<times> u64" where
  "Mul64 x y = (word_of_nat (unat x * unat y div 2 ^ 64), x * y)"

definition passes :: "threshold \<Rightarrow> int \<Rightarrow> int \<Rightarrow> bool" where
  "passes t n d =
    (if th_qualification t \<or> n < 0 \<or> d \<le> 0 \<or> n > d then False
     else
       let (lh, ll) = Mul64 (word_of_int n) (th_denominator t);
           (rh, rl) = Mul64 (word_of_int d) (th_numerator t) in
       if th_minimum t then lh > rh \<or> (lh = rh \<and> ll \<ge> rl)
       else lh < rh \<or> (lh = rh \<and> ll \<le> rl))"

section \<open>The comparison is exact\<close>

definition wide :: "u64 \<times> u64 \<Rightarrow> nat" where
  "wide p = unat (fst p) * 2 ^ 64 + unat (snd p)"

lemma unat_u64_less: "unat (x :: u64) < 2 ^ 64"
  by (rule order_less_le_trans [OF unsigned_less]) simp

lemma wide_Mul64: "wide (Mul64 x y) = unat x * unat y"
proof -
  have "unat x * unat y < 2 ^ 64 * 2 ^ 64"
    using unat_u64_less [of x] unat_u64_less [of y] by (intro mult_strict_mono) auto
  then have "unat x * unat y div 2 ^ 64 < 2 ^ 64" by (simp add: less_mult_imp_div_less)
  then have "unat (word_of_nat (unat x * unat y div 2 ^ 64) :: u64) = unat x * unat y div 2 ^ 64"
    by (simp add: unat_of_nat)
  moreover have "unat (x * y) = unat x * unat y mod 2 ^ 64"
    by (simp add: unat_word_ariths)
  ultimately show ?thesis by (simp add: wide_def Mul64_def)
qed

lemma wide_less:
  "wide (a, b) < wide (c, d) \<longleftrightarrow> a < c \<or> a = c \<and> b < d"
  "wide (a, b) \<le> wide (c, d) \<longleftrightarrow> a < c \<or> a = c \<and> b \<le> d"
proof -
  have lt: "unat b < 2 ^ 64" "unat d < 2 ^ 64" using unat_u64_less by blast+
  consider "unat a < unat c" | "unat a = unat c" | "unat c < unat a" by linarith
  then have "(wide (a, b) < wide (c, d) \<longleftrightarrow> a < c \<or> a = c \<and> b < d)
    \<and> (wide (a, b) \<le> wide (c, d) \<longleftrightarrow> a < c \<or> a = c \<and> b \<le> d)"
  proof cases
    case 1
    then have "(unat a + 1) * 2 ^ 64 \<le> unat c * 2 ^ 64" by (intro mult_right_mono) auto
    with lt have "wide (a, b) < wide (c, d)" by (simp add: wide_def)
    with 1 show ?thesis by (auto simp: word_less_nat_alt)
  next
    case 2
    then show ?thesis by (auto simp: wide_def word_less_nat_alt word_le_nat_alt word_unat_eq_iff)
  next
    case 3
    then have "(unat c + 1) * 2 ^ 64 \<le> unat a * 2 ^ 64" by (intro mult_right_mono) auto
    with lt have "wide (c, d) < wide (a, b)" by (simp add: wide_def)
    with 3 show ?thesis by (auto simp: word_less_nat_alt)
  qed
  then show "wide (a, b) < wide (c, d) \<longleftrightarrow> a < c \<or> a = c \<and> b < d"
    "wide (a, b) \<le> wide (c, d) \<longleftrightarrow> a < c \<or> a = c \<and> b \<le> d" by blast+
qed

lemma passes_wide:
  assumes "in_int64 n" "in_int64 d"
  shows "passes t n d \<longleftrightarrow> \<not> th_qualification t \<and> 0 \<le> n \<and> 0 < d \<and> n \<le> d
    \<and> (if th_minimum t then d * uint (th_numerator t) \<le> n * uint (th_denominator t)
       else n * uint (th_denominator t) \<le> d * uint (th_numerator t))"
proof (cases "th_qualification t \<or> n < 0 \<or> d \<le> 0 \<or> n > d")
  case False
  then have u: "uint (word_of_int n :: u64) = n" "uint (word_of_int d :: u64) = d"
    using assms by (simp_all add: in_int64_def min_int64_def max_int64_def uint_word_of_int)
  let ?l = "Mul64 (word_of_int n) (th_denominator t)" and ?r = "Mul64 (word_of_int d) (th_numerator t)"
  have l: "int (wide ?l) = n * uint (th_denominator t)" and r: "int (wide ?r) = d * uint (th_numerator t)"
    by (simp_all add: wide_Mul64 u)
  have "passes t n d \<longleftrightarrow> (if th_minimum t then wide ?r \<le> wide ?l else wide ?l \<le> wide ?r)"
    using False by (cases ?l, cases ?r) (auto simp: passes_def wide_less)
  also have "\<dots> \<longleftrightarrow> (if th_minimum t then int (wide ?r) \<le> int (wide ?l) else int (wide ?l) \<le> int (wide ?r))"
    by simp
  finally show ?thesis unfolding l r using False by auto
qed (auto simp: passes_def)

text \<open>The value of the digits, and the loop on them: at most six digits wrap nothing.\<close>

definition digits_value :: "nat list \<Rightarrow> nat \<Rightarrow> nat" where
  "digits_value rs a = foldl (\<lambda>n r. n * 10 + (r - 48)) a rs"

definition digit_rune :: "nat \<Rightarrow> bool" where
  "digit_rune r \<longleftrightarrow> 48 \<le> r \<and> r \<le> 57"

lemma digits_value_simps [simp]:
  "digits_value [] a = a" "digits_value (r # rs) a = digits_value rs (a * 10 + (r - 48))"
  by (simp_all add: digits_value_def)

lemma digits_value_snoc: "digits_value (rs @ [r]) a = digits_value rs a * 10 + (r - 48)"
  by (simp add: digits_value_def)

lemma digit_loop_value:
  "digit_loop (word_of_nat n) (word_of_nat d) rs =
     (if list_all digit_rune rs
      then Some (word_of_nat (digits_value rs n), word_of_nat (d * 10 ^ length rs)) else None)"
proof (induction rs arbitrary: n d)
  case (Cons r rs)
  have step: "word_of_nat n * 10 + word_of_nat (r - 48) = (word_of_nat (n * 10 + (r - 48)) :: u64)"
    "word_of_nat d * 10 = (word_of_nat (d * 10) :: u64)"
    by (simp_all only: of_nat_add of_nat_mult of_nat_numeral)
  show ?case
  proof (cases "digit_rune r")
    case True
    then have "digit_loop (word_of_nat n) (word_of_nat d) (r # rs)
        = digit_loop (word_of_nat (n * 10 + (r - 48))) (word_of_nat (d * 10)) rs"
      unfolding digit_loop.simps step by (simp only: digit_rune_def not_less [symmetric]) auto
    with True Cons.IH [of "n * 10 + (r - 48)" "d * 10"] show ?thesis
      by (simp only: list.pred_inject(2) digits_value_simps length_Cons power_Suc mult.assoc) simp
  qed (auto simp: digit_rune_def)
qed simp

lemma digits_value_bound:
  "list_all digit_rune rs \<Longrightarrow> digits_value rs a < (a + 1) * 10 ^ length rs"
proof (induction rs arbitrary: a)
  case (Cons r rs)
  then have "digits_value rs (a * 10 + (r - 48)) < (a * 10 + (r - 48) + 1) * 10 ^ length rs" by simp
  also have "\<dots> \<le> ((a + 1) * 10) * 10 ^ length rs"
    using Cons.prems by (intro mult_right_mono) (auto simp: digit_rune_def)
  finally show ?case by (simp add: algebra_simps)
qed simp

lemma digits_value_inj:
  "length rs = length qs \<Longrightarrow> list_all digit_rune rs \<Longrightarrow> list_all digit_rune qs
   \<Longrightarrow> digits_value rs a = digits_value qs b \<Longrightarrow> rs = qs \<and> a = b"
proof (induction rs qs arbitrary: a b rule: rev_induct2)
  case (4 r rs q qs)
  have "digits_value rs a * 10 + (r - 48) = digits_value qs b * 10 + (q - 48)"
    using "4.prems"(4) by (simp add: digits_value_snoc)
  moreover have d: "r - 48 < 10" "q - 48 < 10" "48 \<le> r" "48 \<le> q" using "4.prems" by (auto simp: digit_rune_def)
  moreover have "(x * 10 + y) div 10 = x \<and> (x * 10 + y) mod 10 = y" if "y < 10" for x y :: nat using that by simp
  ultimately have "digits_value rs a = digits_value qs b" "r - 48 = q - 48" by metis+
  with d have "digits_value rs a = digits_value qs b" "r = q" by linarith+
  with "4.IH" "4.prems" show ?case by auto
qed auto

section \<open>What is parsed\<close>

text \<open>The decimals \<open>0\<close>, \<open>1\<close> and \<open>0.ddd\<close> with their numerator and denominator.\<close>

definition decimal :: "string \<Rightarrow> nat \<Rightarrow> nat \<Rightarrow> bool" where
  "decimal d n m \<longleftrightarrow> d = ''0'' \<and> n = 0 \<and> m = 1 \<or> d = ''1'' \<and> n = 1 \<and> m = 1
     \<or> (\<exists>ds. d = ''0.'' @ ds \<and> ds \<noteq> [] \<and> length ds \<le> 6 \<and> last ds \<noteq> CHR ''0'' \<and> list_all digit_rune (map byte_of ds)
          \<and> n = digits_value (map byte_of ds) 0 \<and> m = 10 ^ length ds)"

lemma digit_loop_ascii:
  assumes "digit_loop 0 1 (runes ds) = Some p"
  shows "list_all digit_rune (map byte_of ds)"
    and "p = (word_of_nat (digits_value (map byte_of ds) 0), word_of_nat (10 ^ length ds))"
proof -
  have all: "list_all digit_rune (runes ds)"
    "p = (word_of_nat (digits_value (runes ds) 0), word_of_nat (10 ^ length (runes ds)))"
    using assms digit_loop_value [of 0 1 "runes ds"] by (auto split: if_splits)
  have "(\<forall>r \<in> set (runes ds). digit_rune r) \<longleftrightarrow> (\<forall>c \<in> set ds. digit_rune (byte_of c))"
    by (rule runes_ascii) (simp add: digit_rune_def)
  with all(1) show ascii: "list_all digit_rune (map byte_of ds)" by (auto simp: list_all_iff)
  then have "runes ds = map byte_of ds" by (intro runes_all_ascii) (force simp: list_all_iff digit_rune_def)
  with all(2) show "p = (word_of_nat (digits_value (map byte_of ds) 0), word_of_nat (10 ^ length ds))" by simp
qed

lemma decimal_bounds: "decimal d n m \<Longrightarrow> n \<le> m \<and> m \<le> 10 ^ 6 \<and> 0 < m"
proof -
  have p: "(10::nat) ^ k \<le> 10 ^ 6" if "k \<le> 6" for k using that by (intro power_increasing) auto
  show "decimal d n m \<Longrightarrow> n \<le> m \<and> m \<le> 10 ^ 6 \<and> 0 < m"
    using digits_value_bound [of "map byte_of ds" 0 for ds] p
    by (auto simp: decimal_def intro: less_imp_le)
qed

lemma unat_small: "n \<le> 10 ^ 6 \<Longrightarrow> unat (word_of_nat n :: u64) = n"
  by (simp add: unat_of_nat)

lemma parseThreshold_Some:
  assumes "parseThreshold s = Some t"
  shows "s = ''qualification-required'' \<and> th_qualification t
    \<or> \<not> th_qualification t \<and> (\<exists>d. s = (if th_minimum t then ''min:'' else ''max:'') @ d
        \<and> decimal d (unat (th_numerator t)) (unat (th_denominator t)))"
proof (cases "s = ''qualification-required''")
  case True
  with assms show ?thesis by (auto simp: parseThreshold_def)
next
  case False
  define d where "d = drop 4 s"
  have s: "s = take 4 s @ d" by (simp add: d_def)
  from assms False have dir: "take 4 s = ''min:'' \<or> take 4 s = ''max:''" and len: "length s \<le> 12"
    by (auto simp: parseThreshold_def split: if_splits)
  consider (small) "d = ''0'' \<or> d = ''1''"
      "t = \<lparr>th_qualification = False, th_minimum = (take 4 s = ''min:''),
        th_numerator = word_of_nat (byte_of (d ! 0) - 48), th_denominator = 1\<rparr>"
    | (point) n m where "\<not> length d < 3" "\<not> length d > 8" "take 2 d = ''0.''" "d ! (length d - 1) \<noteq> CHR ''0''"
      "digit_loop 0 1 (runes (drop 2 d)) = Some (n, m)"
      "t = \<lparr>th_qualification = False, th_minimum = (take 4 s = ''min:''), th_numerator = n, th_denominator = m\<rparr>"
    using assms False dir unfolding parseThreshold_def Let_def d_def [symmetric]
    by (auto split: if_splits option.splits)
  then have parts: "\<not> th_qualification t \<and> take 4 s = (if th_minimum t then ''min:'' else ''max:'')
      \<and> decimal d (unat (th_numerator t)) (unat (th_denominator t))"
  proof cases
    case small
    then show ?thesis using dir by (auto simp: decimal_def byte_of_def)
  next
    case (point n m)
    define ds where "ds = drop 2 d"
    have d: "d = ''0.'' @ ds" using point(3) append_take_drop_id [of 2 d] unfolding ds_def by metis
    have ne: "ds \<noteq> []" "length ds \<le> 6" using point(1,2) by (auto simp: ds_def)
    have "last ds \<noteq> CHR ''0''" using point(4) ne d by (simp add: last_conv_nth nth_append)
    moreover note loop = digit_loop_ascii [OF point(5) [folded ds_def]]
    ultimately have dec: "decimal d (digits_value (map byte_of ds) 0) (10 ^ length ds)"
      using d ne by (auto simp: decimal_def)
    have b: "10 ^ length ds \<le> (10 ^ 6 :: nat)" "digits_value (map byte_of ds) 0 \<le> 10 ^ 6"
      using decimal_bounds [OF dec] by (blast intro: order_trans)+
    from loop(2) have nm: "n = word_of_nat (digits_value (map byte_of ds) 0)" "m = word_of_nat (10 ^ length ds)"
      by blast+
    have "unat n = digits_value (map byte_of ds) 0" "unat m = 10 ^ length ds"
      unfolding nm using unat_small [OF b(2)] unat_small [OF b(1)] by blast+
    with dec point(6) dir show ?thesis by auto
  qed
  then have "take 4 s @ d = (if th_minimum t then ''min:'' else ''max:'') @ d" by (simp only: simp_thms)
  with s have "s = (if th_minimum t then ''min:'' else ''max:'') @ d" by (rule trans)
  with parts show ?thesis by blast
qed

text \<open>
  C19 (equivalence): \<open>threshold.passes\<close>, which multiplies on 64-bit words into 128 bits, decides the
  exact comparison of the ratio \<open>n / d\<close> with the threshold's rational, for all \<open>int64\<close> values of
  \<open>n\<close> and \<open>d\<close> and all \<open>uint64\<close> numerators and denominators: nothing wraps and nothing is rounded.
\<close>

theorem passes_exact:
  assumes "in_int64 n" and "in_int64 d"
  shows "passes t n d \<longleftrightarrow> \<not> th_qualification t \<and> 0 \<le> n \<and> 0 < d \<and> n \<le> d
    \<and> (if th_minimum t then d * uint (th_numerator t) \<le> n * uint (th_denominator t)
       else n * uint (th_denominator t) \<le> d * uint (th_numerator t))"
  using assms by (rule passes_wide)

theorem passes_exact_witness:
  "passes \<lparr>th_qualification = False, th_minimum = True, th_numerator = 9, th_denominator = 10\<rparr> 9223372036854775807 9223372036854775807
   \<and> \<not> passes \<lparr>th_qualification = False, th_minimum = True, th_numerator = 9, th_denominator = 10\<rparr> 8 9"
  using passes_exact [of 9223372036854775807 9223372036854775807
      "\<lparr>th_qualification = False, th_minimum = True, th_numerator = 9, th_denominator = 10\<rparr>"]
    passes_exact [of 8 9 "\<lparr>th_qualification = False, th_minimum = True, th_numerator = 9, th_denominator = 10\<rparr>"]
  by (simp add: in_int64_def min_int64_def max_int64_def)

lemma last_digit:
  assumes "ds \<noteq> []" "last ds \<noteq> CHR ''0''" "list_all digit_rune (map byte_of ds)"
  shows "digits_value (map byte_of ds) 0 mod 10 \<noteq> 0"
proof -
  obtain us c where ds: "ds = us @ [c]" using assms(1) by (cases ds rule: rev_cases) auto
  have "byte_of c \<noteq> byte_of CHR ''0''" using assms(2) ds by simp
  then have "byte_of c \<noteq> 48" by (simp add: byte_of_def)
  moreover have "48 \<le> byte_of c" "byte_of c \<le> 57" using assms(3) ds by (auto simp: digit_rune_def)
  ultimately have y: "0 < byte_of c - 48" "byte_of c - 48 < 10" by linarith+
  have "(x * 10 + y) mod 10 = y" if "y < 10" for x y :: nat using that by simp
  from this [OF y(2)] y(1) show ?thesis by (simp only: ds digits_value_snoc map_append list.map)
qed

lemma power10_factor:
  fixes n m :: nat
  assumes "n * 10 ^ k = m * 10 ^ j" "j < k"
  shows "m mod 10 = 0"
proof -
  have "10 ^ k = (10::nat) ^ j * 10 * 10 ^ (k - j - 1)"
    using assms(2) by (metis Suc_diff_Suc add_diff_inverse_nat diff_Suc_1 less_imp_le_nat mult.assoc not_less power_Suc power_add diff_diff_left plus_1_eq_Suc add.commute)
  with assms(1) have "(n * 10 ^ (k - j - 1) * 10) * 10 ^ j = m * 10 ^ j" by (simp add: ac_simps)
  then have "n * 10 ^ (k - j - 1) * 10 = m" by simp
  then show ?thesis by (metis mod_mult_self2_is_0)
qed

lemma decimal_inj:
  assumes "decimal d n m" "decimal d' n' m'" "n * m' = n' * m"
  shows "d = d'"
proof -
  let ?v = "\<lambda>ds. digits_value (map byte_of ds) 0"
  let ?ok = "\<lambda>ds. ds \<noteq> [] \<and> last ds \<noteq> CHR ''0'' \<and> list_all digit_rune (map byte_of ds)"
  have lt: "?v ds < 10 ^ length ds" if "?ok ds" for ds
    using digits_value_bound [of "map byte_of ds" 0] that by simp
  have nz: "?v ds \<noteq> 0" if "?ok ds" for ds using last_digit that by (metis mod_0)
  have same: "ds = es" if "?ok ds" "?ok es" "?v ds * 10 ^ length es = ?v es * 10 ^ length ds" for ds es
  proof -
    have "length ds = length es"
      using power10_factor [of "?v ds" "length es" "?v es" "length ds"]
        power10_factor [of "?v es" "length ds" "?v ds" "length es"] last_digit that
      by (metis linorder_neqE_nat)
    with that have "map byte_of ds = map byte_of es"
      using digits_value_inj [of "map byte_of ds" "map byte_of es" 0 0] by simp
    then show ?thesis by (rule map_injective) (simp add: inj_on_def)
  qed
  have whole: False if "?ok ds" "a * 10 ^ length ds = ?v ds * 1" "a = 0 \<or> a = 1" for a ds
    using that(2,3) lt [OF that(1)] nz [OF that(1)] by auto
  show ?thesis
    using assms(1,2) unfolding decimal_def
  proof (elim disjE exE conjE, goal_cases)
    case (3 es)
    then show ?case using whole [of es 0] assms(3) by simp
  next
    case (5 ds)
    then show ?case using whole [of ds 0] assms(3) by simp
  next
    case (7 ds)
    then show ?case using whole [of ds 1] assms(3) by simp
  next
    case (8 es)
    then show ?case using whole [of es 1] assms(3) by simp
  next
    case (9 ds es)
    then show ?case using same [of ds es] assms(3) by simp
  qed (use assms(3) in simp_all)
qed

text \<open>
  C36 (roundtrip): accepted thresholds have one spelling: two accepted texts of the same direction
  and the same rational value are the same text. An accepted decimal threshold is between 0 and 1
  with a denominator of at most a million.
\<close>

theorem threshold_canonical:
  assumes "parseThreshold s = Some t" and "parseThreshold s' = Some t'"
    and "th_qualification t = th_qualification t'" and "th_minimum t = th_minimum t'"
    and "uint (th_numerator t) * uint (th_denominator t') = uint (th_numerator t') * uint (th_denominator t)"
  shows "s = s' \<and> (th_qualification t \<or> uint (th_numerator t) \<le> uint (th_denominator t) \<and> uint (th_denominator t) \<le> 1000000)"
proof (cases "th_qualification t")
  case True
  with assms(1-3) parseThreshold_Some show ?thesis by blast
next
  case False
  then obtain d d' where s: "s = (if th_minimum t then ''min:'' else ''max:'') @ d"
      "s' = (if th_minimum t' then ''min:'' else ''max:'') @ d'"
    and dec: "decimal d (unat (th_numerator t)) (unat (th_denominator t))"
      "decimal d' (unat (th_numerator t')) (unat (th_denominator t'))"
    using parseThreshold_Some [OF assms(1)] parseThreshold_Some [OF assms(2)] assms(3) by blast
  have "int (unat (th_numerator t) * unat (th_denominator t')) = int (unat (th_numerator t') * unat (th_denominator t))"
    using assms(5) by simp
  then have "unat (th_numerator t) * unat (th_denominator t') = unat (th_numerator t') * unat (th_denominator t)"
    by (simp only: of_nat_eq_iff)
  from decimal_inj [OF dec this] s assms(4) have "s = s'" by simp
  moreover have "int (unat (th_numerator t)) \<le> int (unat (th_denominator t))" "int (unat (th_denominator t)) \<le> int (10 ^ 6)"
    using decimal_bounds [OF dec(1)] by (simp_all only: of_nat_le_iff)
  ultimately show ?thesis by simp
qed

theorem threshold_canonical_witness:
  "\<exists>t. parseThreshold ''min:0.95'' = Some t \<and> uint (th_numerator t) \<le> uint (th_denominator t)"
proof -
  have r: "runes ''95'' = [57, 53]" by (simp add: runes_all_ascii byte_of_def)
  have p: "parseThreshold ''min:0.95'' = Some \<lparr>th_qualification = False, th_minimum = True, th_numerator = 95, th_denominator = 100\<rparr>"
    by (simp add: parseThreshold_def r)
  from threshold_canonical [OF p p refl refl refl] p show ?thesis by simp
qed

end
