(* ===== verification/Radix_Pass.thy ===== *)
theory Radix_Pass
  imports Main "HOL-Library.Multiset"
begin

text \<open>
  Least-significant-digit radix sorting: what one pass promises (\<open>stable_pass\<close>: it sorts stably
  by its digit) and what a sequence of passes then gives; and a counting pass on an array of
  positions, as the quality gate writes it, with the lemma that it keeps that promise.
\<close>

section \<open>The interface\<close>

lemma sorted_wrt_lex:
  fixes f :: "'a \<Rightarrow> nat" and g :: "'a \<Rightarrow> nat"
  assumes "sorted (map f zs)" "\<And>c. sorted (map g (filter (\<lambda>x. f x = c) zs))"
  shows "sorted_wrt (\<lambda>x y. f x < f y \<or> f x = f y \<and> g x \<le> g y) zs"
  using assms
proof (induction zs)
  case (Cons z zs)
  have "g z \<le> g y" if "y \<in> set zs" "f y = f z" for y
    using Cons.prems(2) [of "f z"] that by simp
  moreover have "sorted (map g (filter (\<lambda>x. f x = c) zs))" for c
    using Cons.prems(2) [of c] by (auto split: if_splits)
  ultimately show ?case using Cons by force
qed simp

text \<open>Sorting stably by \<open>f\<close> what is sorted by \<open>g\<close> sorts by both, \<open>f\<close> first.\<close>

lemma sort_key_after:
  fixes f g :: "'a \<Rightarrow> nat"
  assumes "sorted (map g xs)" "\<And>x. g x < b"
  shows "sorted (map (\<lambda>x. f x * b + g x) (sort_key f xs))"
proof -
  have "sorted (map g (filter (\<lambda>x. f x = c) xs))" for c using assms(1) by (rule sorted_filter)
  then have "sorted (map g (filter (\<lambda>x. f x = c) (sort_key f xs)))" for c
    by (metis sort_key_stable)
  with sorted_sort_key [of f xs] have lex: "sorted_wrt (\<lambda>x y. f x < f y \<or> f x = f y \<and> g x \<le> g y) (sort_key f xs)"
    by (intro sorted_wrt_lex)
  have "f x * b + g x \<le> f y * b + g y" if "f x < f y \<or> f x = f y \<and> g x \<le> g y" for x y
  proof (cases "f x < f y")
    case True
    then have "(f x + 1) * b \<le> f y * b" by (intro mult_right_mono) auto
    with assms(2) [of x] show ?thesis by simp
  qed (use that in simp)
  then show ?thesis
    unfolding sorted_map by (rule sorted_wrt_mono_rel [rotated, OF lex])
qed

lemma sort_key_twice:
  fixes f g :: "'a \<Rightarrow> nat"
  assumes "\<And>x. g x < b"
  shows "sort_key f (sort_key g xs) = sort_key (\<lambda>x. f x * b + g x) xs"
proof (rule properties_for_sort_key [symmetric])
  show "mset (sort_key f (sort_key g xs)) = mset xs" by simp
  show "sorted (map (\<lambda>x. f x * b + g x) (sort_key f (sort_key g xs)))"
    by (rule sort_key_after [OF sorted_sort_key assms])
next
  fix k
  have split: "f k * b + g k = f x * b + g x \<longleftrightarrow> f k = f x \<and> g k = g x" for x
  proof
    assume eq: "f k * b + g k = f x * b + g x"
    have "0 < b" using assms [of k] by simp
    have "(f y * b + g y) div b = f y" "(f y * b + g y) mod b = g y" for y using assms [of y] by simp_all
    with eq show "f k = f x \<and> g k = g x" by metis
  qed simp
  have fs: "filter (\<lambda>x. f k * b + g k = f x * b + g x) ys = filter (\<lambda>x. f x = f k) (filter (\<lambda>x. g x = g k) ys)" for ys
    unfolding split by (rule trans [OF filter_cong [OF refl] filter_filter [symmetric]]) auto
  have swap: "filter (\<lambda>x. f x = f k) (filter (\<lambda>x. g x = g k) ys) = filter (\<lambda>x. g x = g k) (filter (\<lambda>x. f x = f k) ys)" for ys
    by (simp add: conj_commute)
  show "filter (\<lambda>x. f k * b + g k = f x * b + g x) (sort_key f (sort_key g xs))
      = filter (\<lambda>x. f k * b + g k = f x * b + g x) xs"
    unfolding fs by (metis swap sort_key_stable)
qed

locale stable_pass =
  fixes pass :: "nat \<Rightarrow> 'a list \<Rightarrow> 'a list"
    and key :: "'a \<Rightarrow> nat"
    and base :: nat
  assumes base_pos: "0 < base"
    and pass_sorts: "pass k xs = sort_key (\<lambda>x. key x div base ^ k mod base) xs"
begin

lemma passes_sort: "foldl (\<lambda>ys k. pass k ys) xs [0..<n] = sort_key (\<lambda>x. key x mod base ^ n) xs"
proof (induction n)
  case 0
  have "sort_key (\<lambda>x. 0 :: nat) xs = xs"
    by (rule properties_for_sort_key) (auto simp: map_replicate_const)
  then show ?case by simp
next
  case (Suc n)
  have "sort_key (\<lambda>x. key x div base ^ n mod base) (sort_key (\<lambda>x. key x mod base ^ n) xs)
      = sort_key (\<lambda>x. (key x div base ^ n mod base) * base ^ n + key x mod base ^ n) xs"
    using base_pos by (intro sort_key_twice) simp
  moreover have "(key x div base ^ n mod base) * base ^ n + key x mod base ^ n = key x mod base ^ Suc n" for x
    by (metis add.commute mod_mult2_eq mult.commute power_Suc2)
  ultimately show ?case using Suc by (simp add: pass_sorts)
qed

text \<open>Enough passes for the keys sort them, stably.\<close>

lemma passes_sort_all:
  assumes "\<And>x. key x < base ^ n"
  shows "foldl (\<lambda>ys k. pass k ys) xs [0..<n] = sort_key key xs"
  using assms passes_sort [of xs n] by simp

end

section \<open>A counting pass on arrays\<close>

text \<open>Counting, turning counts into offsets, and moving each element to its bucket's next position.\<close>

definition count_buckets :: "('a \<Rightarrow> nat) \<Rightarrow> 'a list \<Rightarrow> nat list \<Rightarrow> nat list" where
  "count_buckets bucket xs positions = foldl (\<lambda>ps x. ps[bucket x := ps ! bucket x + 1]) positions xs"

fun offsets :: "nat \<Rightarrow> nat list \<Rightarrow> nat list" where
  "offsets offset [] = []"
| "offsets offset (n # counts) = offset # offsets (offset + n) counts"

fun scatter :: "('a \<Rightarrow> nat) \<Rightarrow> nat list \<Rightarrow> 'a list \<Rightarrow> 'a list \<Rightarrow> 'a list" where
  "scatter bucket positions scratch [] = scratch"
| "scatter bucket positions scratch (x # xs) =
     scatter bucket (positions[bucket x := positions ! bucket x + 1]) (scratch[positions ! bucket x := x]) xs"

definition counting_pass :: "nat \<Rightarrow> ('a \<Rightarrow> nat) \<Rightarrow> 'a list \<Rightarrow> 'a list \<Rightarrow> 'a list" where
  "counting_pass n bucket scratch xs =
     scatter bucket (offsets 0 (count_buckets bucket xs (replicate n 0))) scratch xs"

definition members :: "('a \<Rightarrow> nat) \<Rightarrow> 'a list \<Rightarrow> nat \<Rightarrow> 'a list" where
  "members bucket xs b = filter (\<lambda>x. bucket x = b) xs"

lemma count_buckets_nth:
  "\<forall>x \<in> set xs. bucket x < length ps \<Longrightarrow> length (count_buckets bucket xs ps) = length ps
   \<and> (\<forall>b < length ps. count_buckets bucket xs ps ! b = ps ! b + length (members bucket xs b))"
  by (induction xs arbitrary: ps) (auto simp: count_buckets_def members_def nth_list_update)

lemma length_offsets [simp]: "length (offsets o' cs) = length cs"
  by (induction o' cs rule: offsets.induct) auto

lemma offsets_nth: "b < length cs \<Longrightarrow> offsets o' cs ! b = o' + sum_list (take b cs)"
  by (induction o' cs arbitrary: b rule: offsets.induct) (auto simp: nth_Cons' take_Cons')

text \<open>Where bucket \<open>b\<close> starts.\<close>

definition start_of :: "('a \<Rightarrow> nat) \<Rightarrow> 'a list \<Rightarrow> nat \<Rightarrow> nat" where
  "start_of bucket xs b = (\<Sum>c < b. length (members bucket xs c))"

lemma offsets_start:
  assumes "\<forall>x \<in> set xs. bucket x < n" "b < n"
  shows "offsets 0 (count_buckets bucket xs (replicate n 0)) ! b = start_of bucket xs b"
proof -
  let ?cs = "count_buckets bucket xs (replicate n 0)"
  have cs: "length ?cs = n" "\<And>c. c < n \<Longrightarrow> ?cs ! c = length (members bucket xs c)"
    using count_buckets_nth [of xs bucket "replicate n 0"] assms(1) by auto
  have "sum_list (take b ?cs) = (\<Sum>c < b. ?cs ! c)"
    using assms(2) cs(1) by (simp add: sum_list_sum_nth atLeast0LessThan)
  also have "\<dots> = start_of bucket xs b" unfolding start_of_def using assms(2) cs(2) by (intro sum.cong) auto
  finally show ?thesis using assms(2) cs(1) by (simp add: offsets_nth)
qed

lemma start_of_next: "b < c \<Longrightarrow> start_of bucket xs b + length (members bucket xs b) \<le> start_of bucket xs c"
proof -
  assume "b < c"
  then have "{..b} \<subseteq> {..<c}" by auto
  then have "(\<Sum>d \<le> b. length (members bucket xs d)) \<le> (\<Sum>d < c. length (members bucket xs d))"
    by (intro sum_mono2) auto
  then show ?thesis by (simp add: start_of_def lessThan_Suc_atMost [symmetric] add.commute)
qed

definition by_bucket :: "('a \<Rightarrow> nat) \<Rightarrow> nat \<Rightarrow> 'a list \<Rightarrow> 'a list" where
  "by_bucket bucket n xs = concat (map (members bucket xs) [0..<n])"

lemma length_by_bucket: "length (by_bucket bucket n xs) = start_of bucket xs n"
  by (simp add: by_bucket_def length_concat comp_def start_of_def sum_list_distinct_conv_sum_set atLeast0LessThan
      flip: sum_list_sum_nth)

lemma by_bucket_nth:
  "b < n \<Longrightarrow> i < length (members bucket xs b) \<Longrightarrow> by_bucket bucket n xs ! (start_of bucket xs b + i) = members bucket xs b ! i"
proof (induction n)
  case (Suc n)
  have eq: "by_bucket bucket (Suc n) xs = by_bucket bucket n xs @ members bucket xs n"
    by (simp add: by_bucket_def)
  show ?case
  proof (cases "b < n")
    case True
    have "start_of bucket xs b + i < length (by_bucket bucket n xs)"
      using start_of_next [OF True, of bucket xs] Suc.prems(2) by (simp add: length_by_bucket)
    with Suc True show ?thesis by (simp add: eq nth_append)
  next
    case False
    then have "b = n" using Suc.prems(1) by simp
    then show ?thesis by (simp add: eq nth_append length_by_bucket)
  qed
qed simp

lemma mset_by_bucket: "\<forall>x \<in> set xs. bucket x < n \<Longrightarrow> mset (by_bucket bucket n xs) = mset xs"
proof (induction xs)
  case Nil
  then show ?case by (simp add: by_bucket_def members_def)
next
  case (Cons x xs)
  have "mset (concat (map (members bucket (x # xs)) [0..<m])) = mset (concat (map (members bucket xs) [0..<m]))
      + (if bucket x < m then {#x#} else {#})" for m
    by (induction m) (auto simp: members_def)
  with Cons show ?case by (simp add: by_bucket_def)
qed

lemma by_bucket_sorts: "\<forall>x \<in> set xs. bucket x < n \<Longrightarrow> by_bucket bucket n xs = sort_key bucket xs"
proof (rule properties_for_sort_key [symmetric])
  assume b: "\<forall>x \<in> set xs. bucket x < n"
  then show "mset (by_bucket bucket n xs) = mset xs" by (rule mset_by_bucket)
  have "filter (\<lambda>x. bucket x = c) (concat (map (members bucket xs) [0..<m])) = (if c < m then members bucket xs c else [])" for c m
    by (induction m) (auto simp: members_def filter_empty_conv less_Suc_eq)
  then show "filter (\<lambda>x. bucket k = bucket x) (by_bucket bucket n xs) = filter (\<lambda>x. bucket k = bucket x) xs"
    if "k \<in> set (by_bucket bucket n xs)" for k
    using that b by (auto simp: by_bucket_def members_def eq_commute [of "bucket k"])
  have "sorted (map bucket (concat (map (members bucket xs) [0..<m])))" for m
    by (induction m) (auto simp: members_def sorted_append map_replicate_const [symmetric] intro: sorted_map_same)
  then show "sorted (map bucket (by_bucket bucket n xs))" by (simp add: by_bucket_def)
qed

text \<open>What is in place when the elements \<open>done\<close> have been moved.\<close>

definition scattered :: "('a \<Rightarrow> nat) \<Rightarrow> nat \<Rightarrow> 'a list \<Rightarrow> 'a list \<Rightarrow> nat list \<Rightarrow> 'a list \<Rightarrow> bool" where
  "scattered bucket n xs done' ps scratch \<longleftrightarrow> length ps = n \<and> length scratch = length xs
     \<and> (\<forall>b < n. ps ! b = start_of bucket xs b + length (members bucket done' b)
          \<and> (\<forall>i < length (members bucket done' b). scratch ! (start_of bucket xs b + i) = members bucket xs b ! i))"

lemma scattered_step:
  assumes "\<forall>x \<in> set xs. bucket x < n" "scattered bucket n xs done' ps scratch" "xs = done' @ x # rest"
  shows "scattered bucket n xs (done' @ [x]) (ps[bucket x := ps ! bucket x + 1]) (scratch[ps ! bucket x := x])"
proof -
  let ?b = "bucket x" and ?m = "members bucket"
  have b: "?b < n" using assms(1,3) by simp
  have pos: "ps ! ?b = start_of bucket xs ?b + length (?m done' ?b)" using assms(2) b by (simp add: scattered_def)
  have mem: "?m xs ?b = ?m done' ?b @ x # ?m rest ?b" using assms(3) by (simp add: members_def)
  have le: "length (?m done' c) \<le> length (?m xs c)" for c using assms(3) by (simp add: members_def)
  have "start_of bucket xs ?b + length (?m xs ?b) \<le> start_of bucket xs n" using b by (rule start_of_next)
  moreover have "start_of bucket xs n = length xs"
    using mset_by_bucket [OF assms(1)] by (metis length_by_bucket size_mset)
  ultimately have inside: "ps ! ?b < length xs" using pos mem by simp
  have apart: "start_of bucket xs c + i \<noteq> ps ! ?b" if "c < n" "i < length (?m done' c)" for c i
  proof (cases rule: linorder_cases [of c ?b])
    case less
    then show ?thesis using start_of_next [OF less, of bucket xs] that(2) le [of c] pos by linarith
  next
    case greater
    then show ?thesis using start_of_next [OF greater, of bucket xs] pos mem by simp
  qed (use that pos in simp)
  show ?thesis
    unfolding scattered_def
  proof (intro conjI allI impI)
    show "length (ps[?b := ps ! ?b + 1]) = n" "length (scratch[ps ! ?b := x]) = length xs"
      using assms(2) by (simp_all add: scattered_def)
    fix c
    assume c: "c < n"
    show "ps[?b := ps ! ?b + 1] ! c = start_of bucket xs c + length (?m (done' @ [x]) c)"
      using assms(2) b c by (auto simp: scattered_def nth_list_update members_def)
    fix i
    assume i: "i < length (?m (done' @ [x]) c)"
    show "scratch[ps ! ?b := x] ! (start_of bucket xs c + i) = ?m xs c ! i"
    proof (cases "c = ?b \<and> i = length (?m done' ?b)")
      case True
      then show ?thesis using inside pos mem assms(2) by (simp add: scattered_def nth_append)
    next
      case False
      then have "i < length (?m done' c)" using i by (auto simp: members_def split: if_splits)
      with apart [OF c this] assms(2) c show ?thesis by (simp add: scattered_def nth_list_update_neq)
    qed
  qed
qed

lemma scatter_scattered:
  assumes "\<forall>x \<in> set xs. bucket x < n" "scattered bucket n xs done' ps scratch" "xs = done' @ rest"
  shows "\<exists>ps'. scattered bucket n xs xs ps' (scatter bucket ps scratch rest)"
  using assms(2,3)
proof (induction rest arbitrary: done' ps scratch)
  case (Cons x rest)
  from Cons.IH [OF scattered_step [OF assms(1) Cons.prems]] Cons.prems(2) show ?case by simp
qed auto

lemma split_position:
  "j < start_of bucket xs n \<Longrightarrow> \<exists>b i. b < n \<and> i < length (members bucket xs b) \<and> j = start_of bucket xs b + i"
proof (induction n)
  case (Suc n)
  show ?case
  proof (cases "j < start_of bucket xs n")
    case False
    with Suc.prems have "j - start_of bucket xs n < length (members bucket xs n)" "j = start_of bucket xs n + (j - start_of bucket xs n)"
      by (simp_all add: start_of_def)
    then show ?thesis by blast
  qed (use Suc in \<open>auto simp: less_Suc_eq\<close>)
qed (simp add: start_of_def)

text \<open>The counting pass sorts stably by bucket, whatever was in the scratch array.\<close>

lemma counting_pass_sorts:
  assumes "\<forall>x \<in> set xs. bucket x < n" "length scratch = length xs"
  shows "counting_pass n bucket scratch xs = sort_key bucket xs"
proof -
  let ?ps = "offsets 0 (count_buckets bucket xs (replicate n 0))"
  have "scattered bucket n xs [] ?ps scratch"
    using assms offsets_start [OF assms(1)] count_buckets_nth [of xs bucket "replicate n 0"]
    by (simp add: scattered_def members_def)
  from scatter_scattered [OF assms(1) this] obtain ps' where
    sc: "scattered bucket n xs xs ps' (counting_pass n bucket scratch xs)"
    by (auto simp: counting_pass_def)
  have len: "start_of bucket xs n = length xs"
    using mset_by_bucket [OF assms(1)] by (metis length_by_bucket size_mset)
  have "counting_pass n bucket scratch xs = by_bucket bucket n xs"
  proof (rule nth_equalityI)
    show "length (counting_pass n bucket scratch xs) = length (by_bucket bucket n xs)"
      using sc len by (simp add: scattered_def length_by_bucket)
    fix j
    assume "j < length (counting_pass n bucket scratch xs)"
    then have "j < start_of bucket xs n" using sc len by (simp add: scattered_def)
    from split_position [OF this] obtain b i where "b < n" "i < length (members bucket xs b)" "j = start_of bucket xs b + i"
      by blast
    with sc show "counting_pass n bucket scratch xs ! j = by_bucket bucket n xs ! j"
      by (simp add: scattered_def by_bucket_nth)
  qed
  with by_bucket_sorts [OF assms(1)] show ?thesis by simp
qed

end
