(* ===== verification/Quality_Ranges.thy ===== *)
theory Quality_Ranges
  imports Model_Blocks Go_Sha256 Radix_Pass
begin

text \<open>
  \<open>rangesCovered\<close> of \<open>internal/corpus/quality/gate.go\<close>: eight radix passes over the bytes of the
  start offsets and one sweep, and the proof that together they decide whether every queried
  range lies inside one source range.
\<close>

section \<open>The code\<close>

record rangeEvent =
  re_range :: ByteRange
  re_query :: bool

text \<open>\<open>(uint64(start) >> shift) & 255\<close>.\<close>

definition start_byte :: "nat \<Rightarrow> rangeEvent \<Rightarrow> nat" where
  "start_byte shift e = unat (and (drop_bit shift (word_of_int (br_Start (re_range e)) :: u64)) 255)"

text \<open>One turn of the loop over \<open>shift\<close>; the buffers are swapped after it, so the scratch of a
  pass is the events of the one before (and its contents are overwritten).\<close>

definition radix_turn :: "rangeEvent list \<times> rangeEvent list \<Rightarrow> nat \<Rightarrow> rangeEvent list \<times> rangeEvent list" where
  "radix_turn buffers shift = (case buffers of (events, scratch) \<Rightarrow>
     (counting_pass 256 (start_byte shift) scratch events, events))"

fun sweep :: "int \<Rightarrow> rangeEvent list \<Rightarrow> bool" where
  "sweep e [] = True"
| "sweep e (x # xs) =
    (if re_query x then (if br_End (re_range x) > e then False else sweep e xs)
     else sweep (max e (br_End (re_range x))) xs)"

definition zero_event :: rangeEvent where
  "zero_event = \<lparr>re_range = \<lparr>br_Start = 0, br_End = 0\<rparr>, re_query = False\<rparr>"

definition rangesCovered :: "ByteRange list \<Rightarrow> ByteRange list \<Rightarrow> bool" where
  "rangesCovered sources queries =
    (if int (length sources) > max_int64 - int (length queries) then False
     else
       let events = map (\<lambda>r. \<lparr>re_range = r, re_query = False\<rparr>) sources
             @ map (\<lambda>r. \<lparr>re_range = r, re_query = True\<rparr>) queries;
           scratch = replicate (length events) zero_event
       in sweep 0 (fst (foldl radix_turn (events, scratch) [0, 8, 16, 24, 32, 40, 48, 56])))"

section \<open>The passes sort by start\<close>

definition start_key :: "rangeEvent \<Rightarrow> nat" where
  "start_key e = unat (word_of_int (br_Start (re_range e)) :: u64)"

lemma start_byte_digit: "start_byte (8 * k) e = start_key e div 256 ^ k mod 256"
proof -
  have "(255 :: u64) = mask 8" by (simp add: mask_eq_exp_minus_1)
  then have "start_byte (8 * k) e = unat (take_bit 8 (drop_bit (8 * k) (word_of_int (br_Start (re_range e)) :: u64)))"
    by (simp add: start_byte_def take_bit_eq_mask)
  also have "\<dots> = take_bit 8 (drop_bit (8 * k) (start_key e))"
  proof -
    have "unat w < 2 ^ LENGTH(64)" for w :: u64 by (rule unsigned_less)
    then have "take_bit LENGTH(64) (unat w) = unat w" for w :: u64 by (rule take_bit_nat_eq_self)
    then show ?thesis unfolding start_key_def unsigned_take_bit_eq unsigned_drop_bit_eq by simp
  qed
  also have "\<dots> = start_key e div 2 ^ (8 * k) mod 2 ^ 8"
    by (simp only: drop_bit_eq_div take_bit_eq_mod)
  finally show ?thesis by (simp add: power_mult)
qed

lemma start_byte_less: "start_byte (8 * k) e < 256"
  by (simp add: start_byte_digit)

text \<open>A turn on buffers of one length is a stable pass by one byte of the start.\<close>

definition radix_pass :: "nat \<Rightarrow> rangeEvent list \<Rightarrow> rangeEvent list" where
  "radix_pass k events = counting_pass 256 (start_byte (8 * k)) (replicate (length events) zero_event) events"

interpretation start_radix: stable_pass radix_pass start_key 256
proof
  fix k and xs :: "rangeEvent list"
  show "radix_pass k xs = sort_key (\<lambda>x. start_key x div 256 ^ k mod 256) xs"
    unfolding radix_pass_def start_byte_digit [symmetric]
    by (rule counting_pass_sorts) (simp_all add: start_byte_less)
qed simp

lemma radix_turn_pass:
  assumes "length events = length scratch"
  shows "radix_turn (events, scratch) (8 * k) = (radix_pass k events, events)"
proof -
  have "counting_pass 256 (start_byte (8 * k)) scratch events = sort_key (start_byte (8 * k)) events"
    using assms by (intro counting_pass_sorts) (simp_all add: start_byte_less)
  moreover have "radix_pass k events = sort_key (start_byte (8 * k)) events"
    unfolding radix_pass_def by (rule counting_pass_sorts) (simp_all add: start_byte_less)
  ultimately show ?thesis by (simp add: radix_turn_def)
qed

lemma length_radix_pass [simp]: "length (radix_pass k events) = length events"
  by (simp add: start_radix.pass_sorts)

lemma radix_turns:
  "length events = length scratch \<Longrightarrow>
     fst (foldl radix_turn (events, scratch) (map (\<lambda>k. 8 * k) ks)) = foldl (\<lambda>ys k. radix_pass k ys) events ks"
  by (induction ks arbitrary: events scratch) (simp_all add: radix_turn_pass)

lemma radix_sorts:
  assumes "length events = length scratch"
  shows "fst (foldl radix_turn (events, scratch) [0, 8, 16, 24, 32, 40, 48, 56]) = sort_key start_key events"
proof -
  have "[0, 8, 16, 24, 32, 40, 48, 56] = map (\<lambda>k. 8 * k) [0..<8]" by (simp add: upt_rec)
  moreover have "start_key x < 256 ^ 8" for x
    unfolding start_key_def by (rule order_less_le_trans [OF unsigned_less]) simp
  ultimately show ?thesis
    using radix_turns [OF assms] start_radix.passes_sort_all by metis
qed

section \<open>The sweep\<close>

text \<open>Sources before queries of the same start.\<close>

definition flag :: "rangeEvent \<Rightarrow> nat" where
  "flag e = (if re_query e then 1 else 0)"

lemma sweep_covered:
  "sorted (map (\<lambda>x. start_key x * 2 + flag x) xs) \<Longrightarrow>
   sweep e xs \<longleftrightarrow> (\<forall>q \<in> set xs. re_query q \<longrightarrow> br_End (re_range q) \<le> e
     \<or> (\<exists>s \<in> set xs. \<not> re_query s \<and> start_key s \<le> start_key q \<and> br_End (re_range q) \<le> br_End (re_range s)))"
proof (induction xs arbitrary: e)
  case (Cons x xs)
  have le: "start_key x * 2 + flag x \<le> start_key y * 2 + flag y" if "y \<in> set xs" for y using Cons.prems that by simp
  show ?case
  proof (cases "re_query x")
    case True
    have "\<not> start_key s \<le> start_key x" if "s \<in> set xs" "\<not> re_query s" for s
      using le [OF that(1)] True that(2) by (simp add: flag_def)
    with True Cons show ?thesis by (auto simp: flag_def)
  next
    case False
    have "start_key x \<le> start_key q" if "q \<in> set xs" "re_query q" for q
      using le [OF that(1)] False that(2) by (simp add: flag_def)
    with False Cons show ?thesis by (auto simp: max_def)
  qed
qed simp

definition valid_range :: "ByteRange \<Rightarrow> bool" where
  "valid_range r \<longleftrightarrow> ByteRange_Validate r = None \<and> in_int64 (br_Start r)"

lemma start_key_valid: "valid_range (re_range e) \<Longrightarrow> int (start_key e) = br_Start (re_range e)"
  by (auto simp: valid_range_def ByteRange_Validate_def start_key_def in_int64_def max_int64_def min_int64_def uint_word_of_int)

definition inside :: "ByteRange \<Rightarrow> ByteRange \<Rightarrow> bool" where
  "inside q s \<longleftrightarrow> br_Start s \<le> br_Start q \<and> br_End q \<le> br_End s"

text \<open>
  C20 (equivalence): for valid ranges, the radix sort and sweep of \<open>rangesCovered\<close> accept exactly
  when every queried range lies inside a single source range: two adjacent sources never cover a
  range neither contains, and the order of the slices does not matter.
\<close>

theorem ranges_covered:
  assumes "list_all valid_range sources" and "list_all valid_range queries"
    and "int (length sources) + int (length queries) \<le> max_int64"
  shows "rangesCovered sources queries \<longleftrightarrow> list_all (\<lambda>q. list_ex (inside q) sources) queries"
proof -
  let ?ss = "map (\<lambda>r. \<lparr>re_range = r, re_query = False\<rparr>) sources"
  let ?qs = "map (\<lambda>r. \<lparr>re_range = r, re_query = True\<rparr>) queries"
  let ?xs = "sort_key start_key (?ss @ ?qs)"
  have flags: "sorted (map flag (?ss @ ?qs))"
    by (auto simp: flag_def sorted_append comp_def map_replicate_const)
  have sorted: "sorted (map (\<lambda>x. start_key x * 2 + flag x) ?xs)"
    by (rule sort_key_after [OF flags]) (simp add: flag_def)
  have covered: "rangesCovered sources queries \<longleftrightarrow> sweep 0 ?xs"
    using assms(3) unfolding rangesCovered_def Let_def by (subst radix_sorts) simp_all
  have nonneg: "0 < br_End q" if "q \<in> set queries" for q
    using assms(2) that by (auto simp: list_all_iff valid_range_def ByteRange_Validate_def)
  have key: "start_key \<lparr>re_range = s, re_query = False\<rparr> \<le> start_key \<lparr>re_range = q, re_query = True\<rparr>
      \<longleftrightarrow> br_Start s \<le> br_Start q" if "s \<in> set sources" "q \<in> set queries" for s q
  proof -
    have "int (start_key \<lparr>re_range = s, re_query = False\<rparr>) = br_Start s" "int (start_key \<lparr>re_range = q, re_query = True\<rparr>) = br_Start q"
      using assms(1,2) that by (simp_all add: start_key_valid list_all_iff)
    then show ?thesis by linarith
  qed
  have "sweep 0 ?xs \<longleftrightarrow> (\<forall>q \<in> set queries. br_End q \<le> 0
      \<or> (\<exists>s \<in> set sources. start_key \<lparr>re_range = s, re_query = False\<rparr> \<le> start_key \<lparr>re_range = q, re_query = True\<rparr>
           \<and> br_End q \<le> br_End s))"
    unfolding sweep_covered [OF sorted] by (simp add: ball_Un bex_Un)
  also have "\<dots> \<longleftrightarrow> (\<forall>q \<in> set queries. \<exists>s \<in> set sources. inside q s)"
    using nonneg key unfolding inside_def by (metis not_le)
  finally show ?thesis by (simp add: covered list_all_iff list_ex_iff)
qed

theorem ranges_covered_witness:
  "rangesCovered [\<lparr>br_Start = 5, br_End = 9\<rparr>, \<lparr>br_Start = 0, br_End = 5\<rparr>] [\<lparr>br_Start = 6, br_End = 9\<rparr>]
   \<and> \<not> rangesCovered [\<lparr>br_Start = 5, br_End = 9\<rparr>, \<lparr>br_Start = 0, br_End = 5\<rparr>] [\<lparr>br_Start = 4, br_End = 6\<rparr>]"
  using ranges_covered [of "[\<lparr>br_Start = 5, br_End = 9\<rparr>, \<lparr>br_Start = 0, br_End = 5\<rparr>]" "[\<lparr>br_Start = 6, br_End = 9\<rparr>]"]
    ranges_covered [of "[\<lparr>br_Start = 5, br_End = 9\<rparr>, \<lparr>br_Start = 0, br_End = 5\<rparr>]" "[\<lparr>br_Start = 4, br_End = 6\<rparr>]"]
  by (simp add: valid_range_def ByteRange_Validate_def in_int64_def max_int64_def min_int64_def inside_def)

end
