(* ===== verification/Quality_Budget.thy ===== *)
theory Quality_Budget
  imports Model_Parts Go_Reflect
begin

text \<open>
  \<open>resultBudget\<close> of \<open>internal/corpus/quality/report.go\<close>: the rows and JSON bytes a report may
  take, reserved by walking the values before any of them is copied or encoded, and the proof
  that the walk charges exactly the length of the encoding.
\<close>

section \<open>The code\<close>

record Limits =
  gl_MaxBlobs :: int
  gl_MaxRows :: int
  gl_MaxJSONBytes :: int
  gl_MaxObjectBytes :: int
  gl_MaxElapsedMS :: int

record resultBudget =
  rb_rows :: int
  rb_bytes :: int
  rb_records :: int
  rb_metricSeen :: bool
  rb_findingSeen :: bool

definition newResultBudget :: "Limits \<Rightarrow> resultBudget" where
  "newResultBudget l = \<lparr>rb_rows = gl_MaxRows l, rb_bytes = gl_MaxJSONBytes l, rb_records = min (gl_MaxRows l) 1000,
     rb_metricSeen = False, rb_findingSeen = False\<rparr>"

text \<open>
  The methods return false or the budget they leave; the code gives up on the budget at the
  first false.
\<close>

definition budget_take :: "int \<Rightarrow> resultBudget \<Rightarrow> resultBudget option" where
  "budget_take n b = (if n > rb_bytes b then None else Some (b\<lparr>rb_bytes := rb_bytes b - n\<rparr>))"

definition quoted_width :: "nat \<Rightarrow> int" where
  "quoted_width r =
    (if r = 34 \<or> r = 92 \<or> r = 8 \<or> r = 12 \<or> r = 10 \<or> r = 13 \<or> r = 9 then 2
     else if r < 32 \<or> r = 60 \<or> r = 62 \<or> r = 38 \<or> r = 8232 \<or> r = 8233 then 6
     else RuneLen r)"

fun quoted_loop :: "nat list \<Rightarrow> resultBudget \<Rightarrow> resultBudget option" where
  "quoted_loop [] b = Some b"
| "quoted_loop (r # rs) b = (case budget_take (quoted_width r) b of None \<Rightarrow> None | Some b' \<Rightarrow> quoted_loop rs b')"

definition quoted :: "string \<Rightarrow> resultBudget \<Rightarrow> resultBudget option" where
  "quoted s b =
    (if int (length s) > rb_bytes b then None
     else case budget_take 2 b of None \<Rightarrow> None | Some b' \<Rightarrow>
       if \<not> ValidString s then None else quoted_loop (runes s) b')"

text \<open>\<open>walk\<close>, with its loops over fields and elements (the flag: the first one has no comma).\<close>

fun walk_value :: "rval \<Rightarrow> resultBudget \<Rightarrow> resultBudget option"
  and walk_fields :: "bool \<Rightarrow> (string \<times> rval) list \<Rightarrow> resultBudget \<Rightarrow> resultBudget option"
  and walk_elems :: "bool \<Rightarrow> rval list \<Rightarrow> resultBudget \<Rightarrow> resultBudget option" where
  "walk_value RNil b = budget_take 4 b"
| "walk_value (RPtr v) b = walk_value v b"
| "walk_value (RStruct fs) b = (case budget_take 2 b of None \<Rightarrow> None | Some b' \<Rightarrow> walk_fields True fs b')"
| "walk_value (RSlice None) b = None"
| "walk_value (RSlice (Some vs)) b =
    (if int (length vs) > rb_rows b then None
     else case budget_take 2 b of None \<Rightarrow> None
       | Some b' \<Rightarrow> walk_elems True vs (b'\<lparr>rb_rows := rb_rows b' - int (length vs)\<rparr>))"
| "walk_value (RString s) b = quoted s b"
| "walk_value (RBool x) b = (if x then budget_take 4 b else budget_take 5 b)"
| "walk_value (RInt i) b = budget_take (int (length (FormatInt i))) b"
| "walk_fields first [] b = Some b"
| "walk_fields first ((name, v) # fs) b =
    (case (if first then Some b else budget_take 1 b) of None \<Rightarrow> None
     | Some b1 \<Rightarrow> case quoted name b1 of None \<Rightarrow> None
     | Some b2 \<Rightarrow> case budget_take 1 b2 of None \<Rightarrow> None
     | Some b3 \<Rightarrow> case walk_value v b3 of None \<Rightarrow> None
     | Some b4 \<Rightarrow> walk_fields False fs b4)"
| "walk_elems first [] b = Some b"
| "walk_elems first (v # vs) b =
    (case (if first then Some b else budget_take 1 b) of None \<Rightarrow> None
     | Some b1 \<Rightarrow> case walk_value v b1 of None \<Rightarrow> None
     | Some b2 \<Rightarrow> walk_elems False vs b2)"

section \<open>The reported values\<close>

definition asset_rval :: "AssetRef \<Rightarrow> rval" where
  "asset_rval a = RStruct [(''Path'', RString (as_Path a)), (''SHA256'', RString (as_SHA256 a)),
     (''ByteSize'', RInt (as_ByteSize a))]"

definition pointer :: "('a \<Rightarrow> rval) \<Rightarrow> 'a option \<Rightarrow> rval" where
  "pointer f p = (case p of None \<Rightarrow> RNil | Some x \<Rightarrow> RPtr (f x))"

definition span_rval :: "Span \<Rightarrow> rval" where
  "span_rval s = RStruct [(''ArtifactHash'', RString (sp_ArtifactHash s)), (''BlockID'', RString (sp_BlockID s)),
     (''Space'', RString (sp_Space s)),
     (''Range'', pointer (\<lambda>r. RStruct [(''Start'', RInt (br_Start r)), (''End'', RInt (br_End r))]) (sp_Range s)),
     (''Page'', pointer RInt (sp_Page s)), (''Object'', RString (sp_Object s)), (''Member'', RString (sp_Member s)),
     (''TokenOrdinal'', pointer RInt (sp_TokenOrdinal s)), (''ReasonCode'', RString (sp_ReasonCode s))]"

text \<open>The slices of metrics and findings are not nil where they are walked.\<close>

definition metric_rval :: "QualityMetric \<Rightarrow> rval" where
  "metric_rval m = RStruct [(''Kind'', RString (qm_Kind m)), (''State'', RString (qm_State m)),
     (''Numerator'', RInt (qm_Numerator m)), (''Denominator'', RInt (qm_Denominator m)),
     (''Threshold'', RString (qm_Threshold m)), (''Mandatory'', RBool (qm_Mandatory m)), (''Passed'', RBool (qm_Passed m)),
     (''ReasonCode'', RString (qm_ReasonCode m)), (''Evidence'', RSlice (Some (map asset_rval (qm_Evidence m)))),
     (''Exclusions'', RSlice (Some (map span_rval (qm_Exclusions m))))]"

definition finding_rval :: "Finding \<Rightarrow> rval" where
  "finding_rval f = RStruct [(''ReasonCode'', RString (fnd_ReasonCode f)), (''Severity'', RString (fnd_Severity f)),
     (''Scope'', RString (fnd_Scope f)), (''ScopeKey'', RString (fnd_ScopeKey f)),
     (''Spans'', RSlice (Some (map span_rval (fnd_Spans f)))), (''Evidence'', RSlice (Some (map asset_rval (fnd_Evidence f))))]"

definition newEvaluationBudget :: "Limits \<Rightarrow> resultBudget option" where
  "newEvaluationBudget l = walk_value (RStruct [(''Metrics'', RSlice (Some [])), (''Findings'', RSlice (Some [])),
     (''Outcome'', RString QualityQuarantined)]) (newResultBudget l)"

text \<open>\<open>reserve\<close> of a metric and of a finding, which differ in the flag they read and set.\<close>

definition reserve_record :: "(resultBudget \<Rightarrow> bool) \<Rightarrow> (resultBudget \<Rightarrow> resultBudget) \<Rightarrow> rval \<Rightarrow> resultBudget \<Rightarrow> resultBudget option" where
  "reserve_record seen set_seen v b =
    (if rb_records b = 0 \<or> rb_rows b = 0 then None
     else let b1 = b\<lparr>rb_records := rb_records b - 1, rb_rows := rb_rows b - 1\<rparr> in
       case (if seen b1 then budget_take 1 b1 else Some b1) of None \<Rightarrow> None
       | Some b2 \<Rightarrow> walk_value v (set_seen b2))"

definition reserve_metric :: "QualityMetric \<Rightarrow> resultBudget \<Rightarrow> resultBudget option" where
  "reserve_metric m = reserve_record rb_metricSeen (\<lambda>b. b\<lparr>rb_metricSeen := True\<rparr>) (metric_rval m)"

definition reserve_finding :: "Finding \<Rightarrow> resultBudget \<Rightarrow> resultBudget option" where
  "reserve_finding f = reserve_record rb_findingSeen (\<lambda>b. b\<lparr>rb_findingSeen := True\<rparr>) (finding_rval f)"

definition reserveExclusions :: "Finding \<Rightarrow> ExcludedRange list \<Rightarrow> resultBudget \<Rightarrow> resultBudget option" where
  "reserveExclusions f exclusions b =
    (case reserve_finding f b of None \<Rightarrow> None
     | Some b1 \<Rightarrow> if int (length exclusions) > rb_rows b1 then None
         else walk_elems True (map (\<lambda>e. span_rval (exr_Span e)) exclusions)
           (b1\<lparr>rb_rows := rb_rows b1 - int (length exclusions)\<rparr>))"

section \<open>The walk charges the encoding\<close>

interpretation json_bytes: frozen_budget rb_bytes budget_take
  by unfold_locales (auto simp: budget_take_def split: if_splits)

text \<open>Array entries of a value, and whether \<open>walk\<close> can accept it at all.\<close>

fun row_count :: "rval \<Rightarrow> int" where
  "row_count (RPtr v) = row_count v"
| "row_count (RStruct fs) = (\<Sum>(n, v)\<leftarrow>fs. row_count v)"
| "row_count (RSlice (Some vs)) = int (length vs) + (\<Sum>v\<leftarrow>vs. row_count v)"
| "row_count _ = 0"

fun encodable :: "rval \<Rightarrow> bool" where
  "encodable (RPtr v) = encodable v"
| "encodable (RStruct fs) = list_all (\<lambda>(n, v). ValidString n \<and> encodable v) fs"
| "encodable (RSlice None) = False"
| "encodable (RSlice (Some vs)) = list_all encodable vs"
| "encodable (RString s) = ValidString s"
| "encodable _ = True"

definition json_length :: "rval \<Rightarrow> int" where
  "json_length v = int (length (json_value v))"

lemma quoted_loop_spend: "quoted_loop rs b = spend_all budget_take (map quoted_width rs) b"
  by (induction rs b rule: quoted_loop.induct) (auto split: option.splits)

text \<open>The encoded length of a well-formed string is what \<open>quoted\<close> takes for its runes.\<close>

lemma length_json_escape:
  "quoted_width r = (case json_escape r of Some e \<Rightarrow> int (length e) | None \<Rightarrow> RuneLen r)"
  by (simp add: quoted_width_def json_escape_def hex4_def)

lemma json_body_length:
  "valid_utf8 bs \<Longrightarrow> int (length (json_body bs)) = (\<Sum>(i, r)\<leftarrow>runes_from k bs. quoted_width r)
     \<and> int (length bs) \<le> int (length (json_body bs)) \<and> (\<forall>(i, r) \<in> set (runes_from k bs). 0 \<le> quoted_width r)"
proof (induction bs arbitrary: k rule: valid_utf8.induct)
  case (2 b bs)
  obtain r w where rw: "decode_rune (b # bs) = (r, w)" by force
  from "2.prems" rw have ok: "\<not> (r = rune_error \<and> w = 1)" "valid_utf8 (drop (w - 1) bs)" by simp_all
  note width = decode_rune_width [OF rw ok(1)]
  let ?part = "case json_escape r of Some e \<Rightarrow> e | None \<Rightarrow> take w (b # bs)"
  have part: "int (length ?part) = quoted_width r"
    using width by (auto simp: length_json_escape split: option.split)
  have wide: "int w \<le> quoted_width r"
    using width by (auto simp: quoted_width_def RuneLen_def split: if_splits)
  have body: "json_body (b # bs) = ?part @ json_body (drop (w - 1) bs)"
    unfolding json_body.simps rw Let_def prod.case if_not_P [OF ok(1)] ..
  have rs: "runes_from k (b # bs) = (k, r) # runes_from (k + max 1 w) (drop (w - 1) bs)" using rw by simp
  from "2.IH" [OF rw [symmetric] refl ok(2), of "k + max 1 w"] show ?case
    unfolding body rs using part wide width by auto
qed simp

lemma json_string_length:
  assumes "ValidString s"
  shows "int (length (json_string s)) = 2 + (\<Sum>r\<leftarrow>runes s. quoted_width r)"
    and "int (length s) + 2 \<le> int (length (json_string s))" and "\<forall>r \<in> set (runes s). 0 \<le> quoted_width r"
proof -
  have v: "valid_utf8 (map byte_of s)" using assms by (simp add: ValidString_def)
  note json_body_length [OF v, of 0]
  then show "int (length (json_string s)) = 2 + (\<Sum>r\<leftarrow>runes s. quoted_width r)"
    "int (length s) + 2 \<le> int (length (json_string s))" "\<forall>r \<in> set (runes s). 0 \<le> quoted_width r"
    by (auto simp: json_string_def runes_def range_runes_def comp_def case_prod_beta')
qed

text \<open>
  \<open>takes f i n P\<close>: from a nonnegative budget \<open>f\<close> succeeds iff \<open>P\<close> holds and the budget covers
  \<open>i\<close> rows and \<open>n\<close> bytes, and then leaves exactly what remains.
\<close>

definition takes :: "(resultBudget \<Rightarrow> resultBudget option) \<Rightarrow> int \<Rightarrow> int \<Rightarrow> bool \<Rightarrow> bool" where
  "takes f i n P \<longleftrightarrow> 0 \<le> i \<and> 0 \<le> n \<and>
     (\<forall>b. 0 \<le> rb_rows b \<and> 0 \<le> rb_bytes b \<longrightarrow>
        f b = (if P \<and> i \<le> rb_rows b \<and> n \<le> rb_bytes b
               then Some (b\<lparr>rb_rows := rb_rows b - i, rb_bytes := rb_bytes b - n\<rparr>) else None))"

lemma takes_cong: "takes f i n P \<Longrightarrow> i = i' \<Longrightarrow> n = n' \<Longrightarrow> P = P' \<Longrightarrow> (\<And>b. f b = g b) \<Longrightarrow> takes g i' n' P'"
  by (simp add: takes_def)

lemma takes_bytes: "0 \<le> n \<Longrightarrow> takes (budget_take n) 0 n True"
  by (auto simp: takes_def budget_take_def)

lemma takes_done: "takes Some 0 0 True"
  by (simp add: takes_def)

lemma takes_never: "0 \<le> i \<Longrightarrow> 0 \<le> n \<Longrightarrow> takes (\<lambda>b. None) i n False"
  by (simp add: takes_def)

lemma takes_seq:
  assumes f: "takes f i n P" and g: "takes g j m Q"
  shows "takes (\<lambda>b. case f b of None \<Rightarrow> None | Some b' \<Rightarrow> g b') (i + j) (n + m) (P \<and> Q)"
  unfolding takes_def
proof (intro conjI allI impI)
  show "0 \<le> i + j" "0 \<le> n + m" using assms by (auto simp: takes_def)
  fix b :: resultBudget
  assume b: "0 \<le> rb_rows b \<and> 0 \<le> rb_bytes b"
  have pos: "0 \<le> j" "0 \<le> m" using g by (auto simp: takes_def)
  show "(case f b of None \<Rightarrow> None | Some b' \<Rightarrow> g b') =
      (if (P \<and> Q) \<and> i + j \<le> rb_rows b \<and> n + m \<le> rb_bytes b
       then Some (b\<lparr>rb_rows := rb_rows b - (i + j), rb_bytes := rb_bytes b - (n + m)\<rparr>) else None)"
  proof (cases "P \<and> i \<le> rb_rows b \<and> n \<le> rb_bytes b")
    case True
    let ?b = "b\<lparr>rb_rows := rb_rows b - i, rb_bytes := rb_bytes b - n\<rparr>"
    from f b True have "f b = Some ?b" by (simp add: takes_def)
    moreover from g True have "g ?b = (if Q \<and> j \<le> rb_rows ?b \<and> m \<le> rb_bytes ?b
        then Some (?b\<lparr>rb_rows := rb_rows ?b - j, rb_bytes := rb_bytes ?b - m\<rparr>) else None)"
      by (simp add: takes_def)
    ultimately show ?thesis using True by (auto simp: diff_diff_eq)
  next
    case False
    with f b have "f b = None" by (simp add: takes_def)
    with False pos show ?thesis by auto
  qed
qed

lemma takes_spend:
  assumes "\<forall>n \<in> set ns. 0 \<le> n"
  shows "takes (spend_all budget_take ns) 0 (sum_list ns) True"
  using assms
proof (induction ns)
  case (Cons n ns)
  have "takes (budget_take n) 0 n True" using Cons.prems by (intro takes_bytes) simp
  moreover have "takes (spend_all budget_take ns) 0 (sum_list ns) True" using Cons by simp
  ultimately show ?case by (rule takes_cong [OF takes_seq]) simp_all
qed (simp add: takes_def)

lemma takes_quoted: "takes (quoted s) 0 (int (length (json_string s))) (ValidString s)"
proof (cases "ValidString s")
  case True
  note len = json_string_length [OF True]
  have "takes (\<lambda>b. case budget_take 2 b of None \<Rightarrow> None | Some b' \<Rightarrow> quoted_loop (runes s) b')
      (0 + 0) (2 + (\<Sum>r\<leftarrow>runes s. quoted_width r)) (True \<and> True)"
    unfolding quoted_loop_spend using len(3) by (intro takes_seq takes_bytes takes_spend) auto
  then have *: "0 \<le> rb_rows b \<and> 0 \<le> rb_bytes b \<Longrightarrow>
     (case budget_take 2 b of None \<Rightarrow> None | Some b' \<Rightarrow> quoted_loop (runes s) b') =
     (if int (length (json_string s)) \<le> rb_bytes b
      then Some (b\<lparr>rb_bytes := rb_bytes b - int (length (json_string s))\<rparr>) else None)" for b
    unfolding takes_def len(1) by simp
  have "quoted s b = (if int (length s) > rb_bytes b then None
      else (case budget_take 2 b of None \<Rightarrow> None | Some b' \<Rightarrow> quoted_loop (runes s) b'))" for b
    using True by (simp add: quoted_def cong: option.case_cong)
  then show ?thesis unfolding takes_def using True len(2) by (simp add: *)
next
  case False
  then show ?thesis by (auto simp: takes_def quoted_def split: option.split)
qed


section \<open>Structs and slices\<close>

definition separator :: "bool \<Rightarrow> resultBudget \<Rightarrow> resultBudget option" where
  "separator first b = (if first then Some b else budget_take 1 b)"

lemma takes_separator: "takes (separator first) 0 (if first then 0 else 1) True"
  by (cases first) (auto simp: takes_def separator_def budget_take_def)

definition fields_length :: "bool \<Rightarrow> (string \<times> rval) list \<Rightarrow> int" where
  "fields_length first fs =
    (\<Sum>(n, v)\<leftarrow>fs. int (length (json_string n)) + 1 + json_length v) + int (length fs) - (if first \<and> fs \<noteq> [] then 1 else 0)"

definition elems_length :: "bool \<Rightarrow> rval list \<Rightarrow> int" where
  "elems_length first vs = (\<Sum>v\<leftarrow>vs. json_length v) + int (length vs) - (if first \<and> vs \<noteq> [] then 1 else 0)"

lemma json_length_struct: "json_length (RStruct fs) = 2 + fields_length True fs"
proof -
  have "int (\<Sum>x\<leftarrow>fs. case x of (n, v) \<Rightarrow> length (json_string n) + (1 + length (json_value v)))
      = (\<Sum>(n, v)\<leftarrow>fs. int (length (json_string n)) + 1 + json_length v)"
    by (induction fs) (auto simp: json_length_def)
  then show ?thesis
    by (simp add: json_length_def fields_length_def length_commas comp_def case_prod_beta' int_ops(6) Suc_leI)
qed

lemma json_length_slice: "json_length (RSlice (Some vs)) = 2 + elems_length True vs"
proof -
  have "int (\<Sum>v\<leftarrow>vs. length (json_value v)) = (\<Sum>v\<leftarrow>vs. json_length v)"
    by (induction vs) (auto simp: json_length_def)
  then show ?thesis
    by (simp add: json_length_def elems_length_def length_commas comp_def int_ops(6) Suc_leI)
qed

lemma takes_rows_then:
  assumes "takes f i n P" and "0 \<le> k"
  shows "takes (\<lambda>b. if k > rb_rows b then None
     else case budget_take 2 b of None \<Rightarrow> None | Some b' \<Rightarrow> f (b'\<lparr>rb_rows := rb_rows b' - k\<rparr>)) (k + i) (2 + n) P"
  using assms by (auto simp: takes_def budget_take_def diff_diff_eq)

lemma takes_fields:
  assumes "\<And>n v. (n, v) \<in> set fs \<Longrightarrow> takes (walk_value v) (row_count v) (json_length v) (encodable v)"
  shows "takes (walk_fields first fs) (\<Sum>(n, v)\<leftarrow>fs. row_count v) (fields_length first fs)
     (list_all (\<lambda>(n, v). ValidString n \<and> encodable v) fs)"
  using assms
proof (induction fs arbitrary: first)
  case Nil
  then show ?case by (simp add: takes_def fields_length_def)
next
  case (Cons f fs)
  obtain n v where f: "f = (n, v)" by force
  have v: "takes (walk_value v) (row_count v) (json_length v) (encodable v)"
    using Cons.prems [of n v] f by simp
  have fs: "takes (walk_fields False fs) (\<Sum>(n, v)\<leftarrow>fs. row_count v) (fields_length False fs)
     (list_all (\<lambda>(n, v). ValidString n \<and> encodable v) fs)"
  proof (rule Cons.IH)
    fix m w
    assume "(m, w) \<in> set fs"
    then show "takes (walk_value w) (row_count w) (json_length w) (encodable w)"
      by (intro Cons.prems [of m]) simp
  qed
  note all = takes_seq [OF takes_separator [of first] takes_seq [OF takes_quoted [of n]
      takes_seq [OF takes_bytes [of 1] takes_seq [OF v fs]]]]
  show ?case
    by (rule takes_cong [OF all]) (auto simp: f fields_length_def separator_def split: option.split)
qed

lemma takes_elems:
  assumes "\<And>v. v \<in> set vs \<Longrightarrow> takes (walk_value v) (row_count v) (json_length v) (encodable v)"
  shows "takes (walk_elems first vs) (\<Sum>v\<leftarrow>vs. row_count v) (elems_length first vs) (list_all encodable vs)"
  using assms
proof (induction vs arbitrary: first)
  case Nil
  then show ?case by (simp add: takes_def elems_length_def)
next
  case (Cons v vs)
  have v: "takes (walk_value v) (row_count v) (json_length v) (encodable v)"
    using Cons.prems by simp
  have vs: "takes (walk_elems False vs) (\<Sum>v\<leftarrow>vs. row_count v) (elems_length False vs) (list_all encodable vs)"
    using Cons.prems by (intro Cons.IH) simp
  show ?case
    by (rule takes_cong [OF takes_seq [OF takes_separator [of first] takes_seq [OF v vs]]])
      (auto simp: elems_length_def separator_def split: option.split)
qed

lemma row_count_nonneg: "0 \<le> row_count v"
  by (induction v rule: row_count.induct) (auto intro!: add_nonneg_nonneg sum_list_nonneg)

lemma takes_walk: "takes (walk_value v) (row_count v) (json_length v) (encodable v)"
proof (induction v)
  case RNil
  then show ?case by (auto simp: takes_def json_length_def budget_take_def)
next
  case (RPtr v)
  then show ?case by (auto simp: takes_def json_length_def)
next
  case (RStruct fs)
  have "takes (walk_fields True fs) (\<Sum>(n, v)\<leftarrow>fs. row_count v) (fields_length True fs)
     (list_all (\<lambda>(n, v). ValidString n \<and> encodable v) fs)"
    using RStruct by (intro takes_fields) (force intro: snds.intros)
  from takes_seq [OF takes_bytes [of 2] this] show ?case
    by (rule takes_cong) (simp_all add: json_length_struct)
next
  case (RSlice vs)
  show ?case
  proof (cases vs)
    case None
    then show ?thesis by (simp add: takes_def json_length_def)
  next
    case (Some vs')
    have "takes (walk_elems True vs') (\<Sum>v\<leftarrow>vs'. row_count v) (elems_length True vs') (list_all encodable vs')"
      using RSlice Some by (intro takes_elems) simp
    then show ?thesis
      by (rule takes_cong [OF takes_rows_then [where k = "int (length vs')"]]) (simp_all add: json_length_slice Some)
  qed
next
  case (RString s)
  show ?case by (rule takes_cong [OF takes_quoted [of s]]) (simp_all add: json_length_def)
next
  case (RBool x)
  then show ?case by (auto simp: takes_def json_length_def budget_take_def)
next
  case (RInt i)
  show ?case by (rule takes_cong [OF takes_bytes [of "int (length (FormatInt i))"]]) (simp_all add: json_length_def)
qed

text \<open>
  C17 (bounds): \<open>walk\<close> accepts a value iff its array entries fit the rows left, its JSON
  encoding fits the bytes left and it is encodable at all (no nil slice, all strings well-formed
  UTF-8), and then charges exactly that: the estimate is the length of the encoding, without
  encoding anything.
\<close>

theorem walk_charges_encoding:
  assumes "0 \<le> rb_rows b" and "0 \<le> rb_bytes b"
  shows "walk_value v b =
    (if encodable v \<and> row_count v \<le> rb_rows b \<and> int (length (json_value v)) \<le> rb_bytes b
     then Some (b\<lparr>rb_rows := rb_rows b - row_count v, rb_bytes := rb_bytes b - int (length (json_value v))\<rparr>)
     else None)"
  using takes_walk [of v] assms by (simp add: takes_def json_length_def)

definition sample_limits :: Limits where
  "sample_limits = \<lparr>gl_MaxBlobs = 8, gl_MaxRows = 20, gl_MaxJSONBytes = 4096, gl_MaxObjectBytes = 4096, gl_MaxElapsedMS = 1000\<rparr>"

theorem walk_charges_encoding_witness:
  "walk_value (RStruct [(''A'', RSlice (Some [RInt 10, RInt (-2)])), (''B'', RString ''xy'')]) (newResultBudget sample_limits)
     = Some ((newResultBudget sample_limits)\<lparr>rb_rows := 18, rb_bytes := 4074\<rparr>)"
proof -
  let ?v = "RStruct [(''A'', RSlice (Some [RInt 10, RInt (-2)])), (''B'', RString ''xy'')]"
  have "int (length (json_value ?v)) = 22"
    by (simp add: json_string_plain plain_byte_def json_escape_def byte_of_def FormatInt_def nat_digits.simps)
  moreover have "encodable ?v" by (simp add: ValidString_def byte_of_def decode_rune.simps rune_error_def)
  ultimately show ?thesis
    using walk_charges_encoding [of "newResultBudget sample_limits" ?v]
    by (simp add: newResultBudget_def sample_limits_def)
qed

end
