(* ===== verification/Run_Scopes.thy ===== *)
theory Run_Scopes
  imports Model_Keys Run_Types
begin

text \<open>
  \<open>internal/corpus/run/scopes.go\<close>: tagged execution scopes, their lease resources and the identity
  of scheduled workflows, with the timestamp suffix the scheduler appends to workflow IDs.
\<close>

section \<open>Subjects and scopes\<close>

record IntakeSubject =
  isb_Kind :: string
  isb_DocumentVersion :: string
  isb_SourceWindow :: string
  isb_ReprocessSelection :: string

definition LeaseKey :: "IntakeSubject \<Rightarrow> string" where
  "LeaseKey s =
    (if isb_Kind s = SubjectDocumentVersion then isb_DocumentVersion s
     else if isb_Kind s = SubjectSourceWindow then isb_SourceWindow s
     else if isb_Kind s = SubjectReprocessSelection then isb_ReprocessSelection s
     else [])"

definition IntakeSubject_Validate :: "IntakeSubject \<Rightarrow> check" where
  "IntakeSubject_Validate s = firsterr [
     fails (isb_Kind s \<noteq> SubjectDocumentVersion \<and> isb_Kind s \<noteq> SubjectSourceWindow
         \<and> isb_Kind s \<noteq> SubjectReprocessSelection) (Errorf ''unknown intake subject'' []),
     fails ((isb_Kind s = SubjectDocumentVersion) \<noteq> (isb_DocumentVersion s \<noteq> [])
         \<or> (isb_Kind s = SubjectSourceWindow) \<noteq> (isb_SourceWindow s \<noteq> [])
         \<or> (isb_Kind s = SubjectReprocessSelection) \<noteq> (isb_ReprocessSelection s \<noteq> []))
       (Errorf ''intake subject requires exactly its typed key'' []),
     wrap ''subject key: %w'' (ValidateKey (LeaseKey s))]"

record ExecutionScope =
  es_Kind :: string
  es_Subject :: IntakeSubject
  es_BatchCollection :: string
  es_BuildID :: UUID
  es_CountryControl :: string

definition zero_subject :: IntakeSubject where
  "zero_subject = \<lparr>isb_Kind = [], isb_DocumentVersion = [], isb_SourceWindow = [], isb_ReprocessSelection = []\<rparr>"

definition scope_key :: "(UUID \<Rightarrow> string) \<Rightarrow> ExecutionScope \<Rightarrow> string" where
  "scope_key us s =
    (if es_Kind s = ScopeIntake then LeaseKey (es_Subject s)
     else if es_Kind s = ScopeBatch then es_BatchCollection s
     else if es_Kind s = ScopeControl then es_CountryControl s
     else if es_Kind s = ScopeBuild then us (es_BuildID s)
     else [])"

definition ExecutionScope_Validate :: "(UUID \<Rightarrow> string) \<Rightarrow> ExecutionScope \<Rightarrow> check" where
  "ExecutionScope_Validate us s = firsterr [
     fails (\<not> ScopeKind_Valid (es_Kind s)) (Errorf ''unknown execution scope %q'' [FStr (es_Kind s)]),
     fails ((es_Kind s = ScopeIntake) \<noteq> (es_Subject s \<noteq> zero_subject)
         \<or> (es_Kind s = ScopeBatch) \<noteq> (es_BatchCollection s \<noteq> [])
         \<or> (es_Kind s = ScopeBuild) \<noteq> (es_BuildID s \<noteq> uuid_Nil)
         \<or> (es_Kind s = ScopeControl) \<noteq> (es_CountryControl s \<noteq> []))
       (Errorf ''execution scope requires exactly its typed key'' []),
     (if es_Kind s = ScopeIntake then wrap ''intake subject: %w'' (IntakeSubject_Validate (es_Subject s)) else None),
     wrap ''scope key: %w'' (ValidateKey (scope_key us s))]"

section \<open>Scheduler timestamps\<close>

text \<open>
  What \<open>time.Parse(time.RFC3339, stamp)\<close> followed by the comparison of \<open>t.UTC().Format(time.RFC3339)\<close>
  with \<open>stamp\<close> accepts of a string of 20 bytes: the text of a date of the proleptic Gregorian
  calendar and a time of day in UTC.
\<close>

definition digit_at :: "string \<Rightarrow> nat \<Rightarrow> bool" where
  "digit_at s i \<longleftrightarrow> between CHR ''0'' CHR ''9'' (byte_of (s ! i))"

definition two_digits :: "string \<Rightarrow> nat \<Rightarrow> nat" where
  "two_digits s i = (byte_of (s ! i) - 48) * 10 + (byte_of (s ! Suc i) - 48)"

definition leap_year :: "nat \<Rightarrow> bool" where
  "leap_year y \<longleftrightarrow> y mod 4 = 0 \<and> (y mod 100 \<noteq> 0 \<or> y mod 400 = 0)"

definition days_in :: "nat \<Rightarrow> nat \<Rightarrow> nat" where
  "days_in m y = (if m = 2 then (if leap_year y then 29 else 28) else if m \<in> set [4, 6, 9, 11] then 30 else 31)"

definition utc_seconds_stamp :: "string \<Rightarrow> bool" where
  "utc_seconds_stamp s \<longleftrightarrow> length s = 20
     \<and> list_all (digit_at s) [0, 1, 2, 3, 5, 6, 8, 9, 11, 12, 14, 15, 17, 18]
     \<and> s ! 4 = CHR ''-'' \<and> s ! 7 = CHR ''-'' \<and> s ! 10 = CHR ''T'' \<and> s ! 13 = CHR '':'' \<and> s ! 16 = CHR '':''
     \<and> s ! 19 = CHR ''Z''
     \<and> (let year = two_digits s 0 * 100 + two_digits s 2; month = two_digits s 5; day = two_digits s 8 in
         1 \<le> month \<and> month \<le> 12 \<and> 1 \<le> day \<and> day \<le> days_in month year)
     \<and> two_digits s 11 < 24 \<and> two_digits s 14 < 60 \<and> two_digits s 17 < 60"

section \<open>Workflow identities\<close>

text \<open>Namespace and number of segments of a workflow kind; \<open>None\<close>: unknown kind.\<close>

definition workflow_layout :: "string \<Rightarrow> string list \<Rightarrow> (string \<times> nat) option" where
  "workflow_layout kind parts =
    (if kind = SourceSync then Some (''source-sync'', if length parts = 5 \<and> parts ! 3 = ''manual'' then 5 else 4)
     else if kind = DocumentIngest then Some (''document-ingest'', 4)
     else if kind = OcrBatch then Some (''ocr-batch'', 3)
     else if kind = EmbedBatch then Some (''embed-batch'', 3)
     else if kind = CorpusBuild then Some (''corpus-build'', 3)
     else if kind = Promote then Some (''promote'', 4)
     else if kind = Reprocess then Some (''reprocess'', 3)
     else if kind = ControlReconcile then Some (''corpus-control'', 2)
     else None)"

text \<open>The last segment without its timestamp; the slices are in range after the length check.\<close>

definition strip_stamp :: "string \<Rightarrow> gerr + string" where
  "strip_stamp segment =
    (if \<not> ContainsAny segment ''T:Z'' then Inr segment
     else if length segment < 22 \<or> segment ! (length segment - 21) \<noteq> CHR ''-''
       then Inl (Errorf ''invalid scheduler timestamp suffix'' [])
     else if \<not> utc_seconds_stamp (drop (length segment - 20) segment)
       then Inl (Errorf ''scheduler timestamp requires RFC 3339 UTC seconds'' [])
     else Inr (take (length segment - 21) segment))"

definition segment_keys :: "string \<Rightarrow> string list \<Rightarrow> check" where
  "segment_keys country parts = firsterr [
     fails (parts ! 1 \<noteq> country) (Errorf ''workflow country must match execution country'' []),
     each_idx (\<lambda>i part. map_option (\<lambda>e. Wrapf ''segment %d: %w'' [FInt i] [e]) (ValidateKey part)) parts]"

definition validateWorkflowID :: "string \<Rightarrow> string \<Rightarrow> string \<Rightarrow> check" where
  "validateWorkflowID i kind country =
    (if length i > 512 then Some (Errorf ''workflow ID exceeds bound'' [])
     else let parts = Split CHR ''/'' i in
     case workflow_layout kind parts of
       None \<Rightarrow> Some (Errorf ''unknown workflow kind'' [])
     | Some (namespace, n) \<Rightarrow>
         if length parts \<noteq> n \<or> parts ! 0 \<noteq> namespace
         then Some (Errorf ''workflow ID must match kind namespace and layout'' [])
         else if kind = ControlReconcile \<or> (kind = SourceSync \<and> n = 4)
         then (case strip_stamp (parts ! (n - 1)) of Inl e \<Rightarrow> Some e
               | Inr segment \<Rightarrow> segment_keys country (parts[n - 1 := segment]))
         else segment_keys country parts)"

record ScopedExecution =
  se_Country :: string
  se_WorkflowID :: string
  se_WorkflowKind :: string
  se_AttemptKey :: string
  se_AttemptFence :: int
  se_AdmissionEpoch :: int
  se_Owner :: string
  se_Scope :: ExecutionScope

text \<open>\<open>expected[e.WorkflowKind]\<close>; a missing key reads as the empty string.\<close>

definition expected_subject :: "string \<Rightarrow> string" where
  "expected_subject k =
    (if k = SourceSync then SubjectSourceWindow
     else if k = DocumentIngest then SubjectDocumentVersion
     else if k = Reprocess then SubjectReprocessSelection
     else [])"

definition ScopedExecution_Validate :: "(UUID \<Rightarrow> string) \<Rightarrow> ScopedExecution \<Rightarrow> check" where
  "ScopedExecution_Validate us e = firsterr [
     fails (se_Country e = [] \<or> se_WorkflowID e = [] \<or> se_WorkflowKind e = [] \<or> se_AttemptKey e = [] \<or> se_Owner e = [])
       (Errorf ''country, workflow identity, attempt key and owner are required'' []),
     fails (se_AttemptFence e \<le> 0 \<or> se_AdmissionEpoch e \<le> 0)
       (Errorf ''attempt fence and admission epoch must be positive'' []),
     range_map ValidateKey [(''country'', se_Country e), (''attempt key'', se_AttemptKey e), (''owner'', se_Owner e)],
     wrap ''workflow ID: %w'' (validateWorkflowID (se_WorkflowID e) (se_WorkflowKind e) (se_Country e)),
     fails (\<not> Permits (se_WorkflowKind e) (es_Kind (se_Scope e)))
       (Errorf ''workflow kind does not permit execution scope'' []),
     wrap ''scope: %w'' (ExecutionScope_Validate us (se_Scope e)),
     fails (es_Kind (se_Scope e) = ScopeIntake
         \<and> isb_Kind (es_Subject (se_Scope e)) \<noteq> expected_subject (se_WorkflowKind e))
       (Errorf ''workflow kind does not permit intake subject'' []),
     fails (es_Kind (se_Scope e) = ScopeControl \<and> es_CountryControl (se_Scope e) \<noteq> se_Country e)
       (Errorf ''control key must match country'' [])]"

section \<open>Resources\<close>

text \<open>What a tagged scope stands for: one of six kinds of leased resource.\<close>

datatype resource =
    DocumentResource string | WindowResource string | SelectionResource string
  | CollectionResource string | BuildResource UUID | ControlResource string

fun subject_of :: "resource \<Rightarrow> IntakeSubject" where
  "subject_of (DocumentResource k) = zero_subject\<lparr>isb_Kind := SubjectDocumentVersion, isb_DocumentVersion := k\<rparr>"
| "subject_of (WindowResource k) = zero_subject\<lparr>isb_Kind := SubjectSourceWindow, isb_SourceWindow := k\<rparr>"
| "subject_of (SelectionResource k) = zero_subject\<lparr>isb_Kind := SubjectReprocessSelection, isb_ReprocessSelection := k\<rparr>"
| "subject_of _ = zero_subject"

definition empty_scope :: "string \<Rightarrow> IntakeSubject \<Rightarrow> ExecutionScope" where
  "empty_scope kind s = \<lparr>es_Kind = kind, es_Subject = s, es_BatchCollection = [], es_BuildID = uuid_Nil, es_CountryControl = []\<rparr>"

fun scope_of :: "resource \<Rightarrow> ExecutionScope" where
  "scope_of (CollectionResource k) = (empty_scope ScopeBatch zero_subject)\<lparr>es_BatchCollection := k\<rparr>"
| "scope_of (BuildResource u) = (empty_scope ScopeBuild zero_subject)\<lparr>es_BuildID := u\<rparr>"
| "scope_of (ControlResource k) = (empty_scope ScopeControl zero_subject)\<lparr>es_CountryControl := k\<rparr>"
| "scope_of r = empty_scope ScopeIntake (subject_of r)"

fun resource_key :: "(UUID \<Rightarrow> string) \<Rightarrow> resource \<Rightarrow> string" where
  "resource_key us (BuildResource u) = us u"
| "resource_key us (DocumentResource k) = k"
| "resource_key us (WindowResource k) = k"
| "resource_key us (SelectionResource k) = k"
| "resource_key us (CollectionResource k) = k"
| "resource_key us (ControlResource k) = k"

definition resource_ok :: "(UUID \<Rightarrow> string) \<Rightarrow> resource \<Rightarrow> bool" where
  "resource_ok us r \<longleftrightarrow> ledger_key (resource_key us r) \<and> r \<noteq> BuildResource uuid_Nil"

text \<open>The one resource kind each workflow kind leases; a control workflow only its own country.\<close>

fun leases :: "string \<Rightarrow> string \<Rightarrow> resource \<Rightarrow> bool" where
  "leases kind country (DocumentResource k) = (kind = DocumentIngest)"
| "leases kind country (WindowResource k) = (kind = SourceSync)"
| "leases kind country (SelectionResource k) = (kind = Reprocess)"
| "leases kind country (CollectionResource k) = (kind = OcrBatch \<or> kind = EmbedBatch)"
| "leases kind country (BuildResource u) = (kind = CorpusBuild)"
| "leases kind country (ControlResource k) = ((kind = Promote \<or> kind = ControlReconcile) \<and> k = country)"

lemma ledger_key_not_Nil [simp]: "\<not> ledger_key []"
  by (simp add: ledger_key_def)

lemma IntakeSubject_sound:
  assumes "IntakeSubject_Validate s = None"
  obtains k where "ledger_key k" and "s = subject_of (DocumentResource k)"
  | k where "ledger_key k" and "s = subject_of (WindowResource k)"
  | k where "ledger_key k" and "s = subject_of (SelectionResource k)"
proof -
  from assms have v:
    "isb_Kind s = SubjectDocumentVersion \<or> isb_Kind s = SubjectSourceWindow \<or> isb_Kind s = SubjectReprocessSelection"
    "(isb_Kind s = SubjectDocumentVersion) = (isb_DocumentVersion s \<noteq> [])"
    "(isb_Kind s = SubjectSourceWindow) = (isb_SourceWindow s \<noteq> [])"
    "(isb_Kind s = SubjectReprocessSelection) = (isb_ReprocessSelection s \<noteq> [])"
    "ledger_key (LeaseKey s)"
    unfolding IntakeSubject_Validate_def by (simp_all only: firsterr_None list.set ball_simps fails_None wrap_None
        ValidateKey_None de_Morgan_disj de_Morgan_conj not_not simp_thms) blast+
  from v(1) show thesis
  proof (elim disjE)
    assume k: "isb_Kind s = SubjectDocumentVersion"
    have "s = subject_of (DocumentResource (isb_DocumentVersion s))"
      by (rule IntakeSubject.equality) (use v k in \<open>simp_all add: zero_subject_def\<close>)
    moreover have "ledger_key (isb_DocumentVersion s)" using v(5) k by (simp add: LeaseKey_def)
    ultimately show thesis using that(1) by blast
  next
    assume k: "isb_Kind s = SubjectSourceWindow"
    have "s = subject_of (WindowResource (isb_SourceWindow s))"
      by (rule IntakeSubject.equality) (use v k in \<open>simp_all add: zero_subject_def\<close>)
    moreover have "ledger_key (isb_SourceWindow s)" using v(5) k by (simp add: LeaseKey_def)
    ultimately show thesis using that(2) by blast
  next
    assume k: "isb_Kind s = SubjectReprocessSelection"
    have "s = subject_of (SelectionResource (isb_ReprocessSelection s))"
      by (rule IntakeSubject.equality) (use v k in \<open>simp_all add: zero_subject_def\<close>)
    moreover have "ledger_key (isb_ReprocessSelection s)" using v(5) k by (simp add: LeaseKey_def)
    ultimately show thesis using that(3) by blast
  qed
qed

lemma ExecutionScope_sound:
  assumes v: "ExecutionScope_Validate us s = None"
  shows "\<exists>r. s = scope_of r \<and> resource_ok us r"
proof -
  from v have keys:
    "(es_Kind s = ScopeIntake) = (es_Subject s \<noteq> zero_subject)"
    "(es_Kind s = ScopeBatch) = (es_BatchCollection s \<noteq> [])"
    "(es_Kind s = ScopeBuild) = (es_BuildID s \<noteq> uuid_Nil)"
    "(es_Kind s = ScopeControl) = (es_CountryControl s \<noteq> [])"
    unfolding ExecutionScope_Validate_def by (simp_all only: firsterr_None list.set ball_simps fails_None
        de_Morgan_disj not_not simp_thms)
  from v have key: "ledger_key (scope_key us s)" by (simp add: ExecutionScope_Validate_def)
  have "ScopeKind_Valid (es_Kind s)" using v by (simp add: ExecutionScope_Validate_def)
  then consider "es_Kind s = ScopeIntake" | "es_Kind s = ScopeBatch" | "es_Kind s = ScopeBuild" | "es_Kind s = ScopeControl"
    unfolding ScopeKind_Valid_def by blast
  then show ?thesis
  proof cases
    case 1
    have "IntakeSubject_Validate (es_Subject s) = None" using v 1 by (simp add: ExecutionScope_Validate_def)
    moreover have "s = empty_scope ScopeIntake (es_Subject s)"
      by (rule ExecutionScope.equality) (use keys 1 in \<open>simp_all add: empty_scope_def\<close>)
    ultimately show ?thesis
      by (cases rule: IntakeSubject_sound) (metis resource_key.simps(2-4) resource_ok_def
          resource.distinct(7,15,21) scope_of.simps(4-6))+
  next
    case 2
    have "s = scope_of (CollectionResource (es_BatchCollection s))"
      by (rule ExecutionScope.equality) (use keys 2 in \<open>simp_all add: empty_scope_def\<close>)
    moreover have "resource_ok us (CollectionResource (es_BatchCollection s))"
      using key 2 by (simp add: scope_key_def resource_ok_def)
    ultimately show ?thesis by blast
  next
    case 3
    have "s = scope_of (BuildResource (es_BuildID s))"
      by (rule ExecutionScope.equality) (use keys 3 in \<open>simp_all add: empty_scope_def\<close>)
    moreover have "resource_ok us (BuildResource (es_BuildID s))"
      using key keys 3 by (simp add: scope_key_def resource_ok_def)
    ultimately show ?thesis by blast
  next
    case 4
    have "s = scope_of (ControlResource (es_CountryControl s))"
      by (rule ExecutionScope.equality) (use keys 4 in \<open>simp_all add: empty_scope_def\<close>)
    moreover have "resource_ok us (ControlResource (es_CountryControl s))"
      using key 4 by (simp add: scope_key_def resource_ok_def)
    ultimately show ?thesis by blast
  qed
qed

lemma ExecutionScope_complete:
  assumes "resource_ok us r"
  shows "ExecutionScope_Validate us (scope_of r) = None"
  using assms
  by (cases r) (auto simp: ExecutionScope_Validate_def IntakeSubject_Validate_def ScopeKind_Valid_def LeaseKey_def
      scope_key_def empty_scope_def zero_subject_def resource_ok_def)

lemma ExecutionScope_None:
  "ExecutionScope_Validate us s = None \<longleftrightarrow> (\<exists>r. s = scope_of r \<and> resource_ok us r)"
  by (metis ExecutionScope_sound ExecutionScope_complete)

lemma scope_of_inject: "scope_of r = scope_of r' \<longleftrightarrow> r = r'"
  by (cases r; cases r') (auto simp: empty_scope_def zero_subject_def)


section \<open>Properties\<close>

text \<open>
  C33 (type): an \<open>ExecutionScope\<close> that passes its validator is exactly one of six kinds of leased
  resource with a well-formed key (a document version, a source window, a reprocessing selection,
  a batch collection, a build or a country): the tag and the fields agree, every other field has
  its zero value, and two resources never share a scope value.
\<close>

theorem scope_is_one_resource:
  "ExecutionScope_Validate us s = None \<longleftrightarrow> (\<exists>!r. s = scope_of r \<and> resource_ok us r)"
  by (metis ExecutionScope_sound ExecutionScope_complete scope_of_inject)

lemma permitted_resource:
  "Permits k (es_Kind (scope_of r))
     \<and> \<not> (es_Kind (scope_of r) = ScopeIntake \<and> isb_Kind (es_Subject (scope_of r)) \<noteq> expected_subject k)
     \<and> \<not> (es_Kind (scope_of r) = ScopeControl \<and> es_CountryControl (scope_of r) \<noteq> c) \<longleftrightarrow> leases k c r"
  by (cases r) (auto simp: empty_scope_def Permits_def expected_subject_def)

lemma image_transfer: "(\<And>r. Q (f r) = L r) \<Longrightarrow> ((\<exists>r. s = f r \<and> P r) \<and> Q s) = (\<exists>r. s = f r \<and> P r \<and> L r)"
  by auto

lemma permitted_scope:
  "ExecutionScope_Validate us s = None \<and> Permits k (es_Kind s)
     \<and> \<not> (es_Kind s = ScopeIntake \<and> isb_Kind (es_Subject s) \<noteq> expected_subject k)
     \<and> \<not> (es_Kind s = ScopeControl \<and> es_CountryControl s \<noteq> c)
   \<longleftrightarrow> (\<exists>r. s = scope_of r \<and> resource_ok us r \<and> leases k c r)"
  unfolding ExecutionScope_None by (rule image_transfer) (rule permitted_resource)

lemma nonempty_implied:
  "(k1 \<Longrightarrow> c) \<Longrightarrow> (w \<Longrightarrow> a \<and> b) \<Longrightarrow> (k2 \<Longrightarrow> d) \<Longrightarrow> (k3 \<Longrightarrow> f) \<Longrightarrow>
   ((c \<and> a \<and> b \<and> d \<and> f) \<and> (p \<and> q) \<and> (k1 \<and> k2 \<and> k3 \<and> True) \<and> w \<and> \<not> \<not> x \<and> y \<and> s \<and> t \<and> True)
     = (k1 \<and> k2 \<and> k3 \<and> p \<and> q \<and> w \<and> y \<and> x \<and> s \<and> t)"
  by blast

lemma ScopedExecution_None:
  "ScopedExecution_Validate us e = None \<longleftrightarrow>
     ledger_key (se_Country e) \<and> ledger_key (se_AttemptKey e) \<and> ledger_key (se_Owner e)
     \<and> 0 < se_AttemptFence e \<and> 0 < se_AdmissionEpoch e
     \<and> validateWorkflowID (se_WorkflowID e) (se_WorkflowKind e) (se_Country e) = None
     \<and> (\<exists>r. se_Scope e = scope_of r \<and> resource_ok us r \<and> leases (se_WorkflowKind e) (se_Country e) r)"
proof -
  have workflow: "validateWorkflowID i k c = None \<Longrightarrow> i \<noteq> [] \<and> k \<noteq> []" for i k c
    by (auto simp: validateWorkflowID_def workflow_layout_def Let_def split: if_splits)
  have key: "ledger_key x \<Longrightarrow> x \<noteq> []" for x by (simp add: ledger_key_def)
  have "ScopedExecution_Validate us e = None \<longleftrightarrow>
     ledger_key (se_Country e) \<and> ledger_key (se_AttemptKey e) \<and> ledger_key (se_Owner e)
     \<and> 0 < se_AttemptFence e \<and> 0 < se_AdmissionEpoch e
     \<and> validateWorkflowID (se_WorkflowID e) (se_WorkflowKind e) (se_Country e) = None
     \<and> ExecutionScope_Validate us (se_Scope e) = None
     \<and> Permits (se_WorkflowKind e) (es_Kind (se_Scope e))
     \<and> \<not> (es_Kind (se_Scope e) = ScopeIntake \<and> isb_Kind (es_Subject (se_Scope e)) \<noteq> expected_subject (se_WorkflowKind e))
     \<and> \<not> (es_Kind (se_Scope e) = ScopeControl \<and> es_CountryControl (se_Scope e) \<noteq> se_Country e)"
    unfolding ScopedExecution_Validate_def firsterr_None list.set ball_simps(5) ball_simps(7) fails_None wrap_None
      range_map_None snd_conv ValidateKey_None not_le de_Morgan_disj
    by (rule nonempty_implied) (fact key workflow)+
  then show ?thesis unfolding permitted_scope .
qed

text \<open>
  C32 (functional): an execution passes \<open>ScopedExecution.Validate\<close> iff its keys, fence, epoch and
  workflow ID are well formed and its scope is a resource of the one kind its workflow kind
  leases: a source window for a sync, a document version for an ingest, a selection for a
  reprocessing, a collection for OCR and embedding batches, a build for a corpus build, and its
  own country for promotion and reconciliation. No workflow can hold another kind's lease.
\<close>

theorem execution_leases_its_resource:
  "ScopedExecution_Validate us e = None \<longleftrightarrow>
     ledger_key (se_Country e) \<and> ledger_key (se_AttemptKey e) \<and> ledger_key (se_Owner e)
     \<and> 0 < se_AttemptFence e \<and> 0 < se_AdmissionEpoch e
     \<and> validateWorkflowID (se_WorkflowID e) (se_WorkflowKind e) (se_Country e) = None
     \<and> (\<exists>r. se_Scope e = scope_of r \<and> resource_ok us r \<and> leases (se_WorkflowKind e) (se_Country e) r)"
  by (rule ScopedExecution_None)

lemma layout_kind:
  "workflow_layout k ps = Some (ns, n) \<Longrightarrow> workflow_layout k' ps' = Some (ns, n') \<Longrightarrow> k = k'"
  by (auto simp: workflow_layout_def split: if_splits)

lemma layout_exists: "workflow_layout k ps = Some (ns, n) \<Longrightarrow> 2 \<le> n \<and> WorkflowKind_Valid k"
  by (auto simp: workflow_layout_def WorkflowKind_Valid_def Permits_def split: if_splits)

lemma segment_keys_None:
  "segment_keys c ps = None \<longleftrightarrow> ps ! 1 = c \<and> (\<forall>p \<in> set ps. ledger_key p)"
  by (auto simp: segment_keys_def all_set_conv_all_nth)

text \<open>The segments after the timestamp, if any, is taken off.\<close>

lemma workflow_segments:
  assumes "validateWorkflowID i k c = None"
  obtains ns n ps where "workflow_layout k (Split CHR ''/'' i) = Some (ns, n)" and "length ps = n"
    and "Split CHR ''/'' i ! 0 = ns" and "length (Split CHR ''/'' i) = n" and "length i \<le> 512"
    and "segment_keys c ps = None"
    and "(if k = ControlReconcile \<or> (k = SourceSync \<and> n = 4)
          then \<exists>t. strip_stamp (Split CHR ''/'' i ! (n - 1)) = Inr t \<and> ps = (Split CHR ''/'' i)[n - 1 := t]
          else ps = Split CHR ''/'' i)"
proof -
  let ?parts = "Split CHR ''/'' i"
  from assms obtain ns n where l: "workflow_layout k ?parts = Some (ns, n)" "length i \<le> 512"
    "length ?parts = n" "?parts ! 0 = ns"
    by (auto simp: validateWorkflowID_def Let_def split: if_splits option.splits)
  show thesis
  proof (cases "k = ControlReconcile \<or> (k = SourceSync \<and> n = 4)")
    case True
    with assms l obtain t where "strip_stamp (?parts ! (n - 1)) = Inr t" "segment_keys c (?parts[n - 1 := t]) = None"
      by (auto simp: validateWorkflowID_def Let_def split: sum.splits)
    with True l show thesis by (intro that [of ns n "?parts[n - 1 := t]"]) auto
  next
    case False
    with assms l show thesis
      by (intro that [of ns n ?parts]) (auto simp: validateWorkflowID_def Let_def split: if_splits)
  qed
qed

text \<open>
  C35 (functional): a workflow ID belongs to one workflow kind and one country: an ID that is
  accepted for two of each is accepted for the same. The scheduler's timestamp suffix does not
  blur this.
\<close>

theorem workflow_id_kind_and_country:
  assumes "validateWorkflowID i k c = None" and "validateWorkflowID i k' c' = None"
  shows "k = k' \<and> c = c' \<and> WorkflowKind_Valid k \<and> ledger_key c"
proof -
  from assms(1) obtain ns n ps where a: "workflow_layout k (Split CHR ''/'' i) = Some (ns, n)" "length ps = n"
    "Split CHR ''/'' i ! 0 = ns" "segment_keys c ps = None"
    "if k = ControlReconcile \<or> (k = SourceSync \<and> n = 4)
     then \<exists>t. strip_stamp (Split CHR ''/'' i ! (n - 1)) = Inr t \<and> ps = (Split CHR ''/'' i)[n - 1 := t]
     else ps = Split CHR ''/'' i"
    by (rule workflow_segments) blast
  from assms(2) obtain ns' n' ps' where b: "workflow_layout k' (Split CHR ''/'' i) = Some (ns', n')" "length ps' = n'"
    "Split CHR ''/'' i ! 0 = ns'" "segment_keys c' ps' = None"
    "if k' = ControlReconcile \<or> (k' = SourceSync \<and> n' = 4)
     then \<exists>t. strip_stamp (Split CHR ''/'' i ! (n' - 1)) = Inr t \<and> ps' = (Split CHR ''/'' i)[n' - 1 := t]
     else ps' = Split CHR ''/'' i"
    by (rule workflow_segments) blast
  have k: "k = k'" using layout_kind [OF a(1), of k' _ n'] b(1) a(3) b(3) by simp
  then have "n = n'" using a(1) b(1) by simp
  with k a(5) b(5) have "ps = ps'" by (auto split: if_splits)
  moreover have "1 < length ps" using layout_exists [OF a(1)] a(2) by simp
  ultimately show ?thesis
    using k a(4) b(4) layout_exists [OF a(1)] by (auto simp: segment_keys_None)
qed

theorem workflow_id_kind_and_country_witness:
  "validateWorkflowID ''corpus-control/vn-2024-02-29T23:59:59Z'' ControlReconcile ''vn'' = None
   \<and> WorkflowKind_Valid ControlReconcile"
proof -
  have "validateWorkflowID ''corpus-control/vn-2024-02-29T23:59:59Z'' ControlReconcile ''vn'' = None"
    by (simp add: validateWorkflowID_def workflow_layout_def strip_stamp_def ContainsAny_def utc_seconds_stamp_def
        digit_at_def two_digits_def between_def byte_of_def days_in_def leap_year_def segment_keys_None ledger_key_def
        key_char_def lower_alnum_def lower_letter_def Let_def)
  from this workflow_id_kind_and_country [OF this this] show ?thesis by blast
qed

end
