(* ===== verification/Run_Intake.thy ===== *)
theory Run_Intake
  imports Run_Scopes Run_Apply
begin

text \<open>
  \<open>internal/corpus/run/intake.go\<close>: intake work and its idempotency key, apply requests with their
  decision and comparison bindings, receipts, replays and the two transport envelopes.
\<close>

section \<open>Intake work\<close>

record IntakeWork =
  iw_Execution :: ScopedExecution
  iw_Stage :: string
  iw_Substep :: string
  iw_Shard :: string
  iw_InputDigest :: Digest
  iw_RecipeDigest :: Digest
  iw_BudgetDigest :: Digest
  iw_Budget :: Budget
  iw_DecisionRevision :: int

definition IntakeWork_Validate :: "(UUID \<Rightarrow> string) \<Rightarrow> IntakeWork \<Rightarrow> check" where
  "IntakeWork_Validate us w = firsterr [
     wrap ''execution: %w'' (ScopedExecution_Validate us (iw_Execution w)),
     fails (es_Kind (se_Scope (iw_Execution w)) = ScopeBuild) (Errorf ''intake work cannot use build scope'' []),
     fails (\<not> Stage_Valid (iw_Stage w) \<or> iw_Substep w = [] \<or> iw_Shard w = [] \<or> iw_DecisionRevision w < 0)
       (Errorf ''valid stage, substep, shard and nonnegative decision revision are required'' []),
     range_map Digest_Validate [(''input digest'', iw_InputDigest w), (''recipe digest'', iw_RecipeDigest w),
       (''budget digest'', iw_BudgetDigest w)],
     wrap ''budget: %w'' (Budget_Validate (iw_Budget w))]"

definition intake_payload :: "(UUID \<Rightarrow> string) \<Rightarrow> IntakeWork \<Rightarrow> string" where
  "intake_payload us w =
    (let e = iw_Execution w; s = se_Scope e; b = iw_Budget w
     in canonical_payload
         [''corpus-intake-result-v1'', se_Country e, se_WorkflowID e, se_WorkflowKind e, se_AttemptKey e,
          es_Kind s, isb_Kind (es_Subject s), LeaseKey (es_Subject s), es_BatchCollection s, us (es_BuildID s),
          es_CountryControl s, iw_Stage w, iw_Substep w, iw_Shard w, iw_InputDigest w, iw_RecipeDigest w,
          iw_BudgetDigest w]
         [se_AdmissionEpoch e, iw_DecisionRevision w, b_MaxItems b, b_MaxInputBytes b, b_MaxPages b,
          b_MaxElapsed b, b_MaxConcurrent b])"

definition IntakeIdempotencyKey :: "(UUID \<Rightarrow> string) \<Rightarrow> IntakeWork \<Rightarrow> string" where
  "IntakeIdempotencyKey us w = ''sha256:'' @ EncodeToString (sha256 (intake_payload us w))"

section \<open>Bindings and requests\<close>

record DecisionBinding =
  db_DecisionKey :: string
  db_ActorKey :: string
  db_Action :: string
  db_ExpiresAt :: gotime
  db_AttemptFence :: int
  db_AdmissionEpoch :: int
  db_DecisionRevision :: int
  db_Scope :: ExecutionScope
  db_RevisionKey :: string
  db_CandidateDigest :: Digest
  db_ReportHash :: Digest
  db_OriginalHash :: Digest
  db_OutputDigest :: Digest
  db_ScopeManifest :: Digest

record ComparisonBinding =
  cb_PriorRevisionKey :: string
  cb_PriorCandidateDigest :: Digest
  cb_ComparisonHash :: Digest
  cb_RequiresAdjudication :: bool
  cb_Adjudication :: "DecisionBinding option"

record IntakeApplyRequest =
  ia_Work :: IntakeWork
  ia_IdempotencyKey :: string
  ia_Outputs :: "AssetRef slice"
  ia_OutputDigest :: Digest
  ia_Outcome :: string
  ia_Counts :: Counts
  ia_Cursor :: string
  ia_NextEligible :: "gotime option"
  ia_Acceptance :: string
  ia_RevisionKey :: string
  ia_CandidateDigest :: Digest
  ia_QualityReportHash :: Digest
  ia_OriginalHash :: Digest
  ia_Decision :: "DecisionBinding option"
  ia_Comparison :: "ComparisonBinding option"
  ia_GapAcceptanceRef :: string
  ia_Complete :: bool

abbreviation "ia_Execution r \<equiv> iw_Execution (ia_Work r)"

definition binds_attempt :: "DecisionBinding \<Rightarrow> IntakeApplyRequest \<Rightarrow> bool" where
  "binds_attempt d r \<longleftrightarrow> db_AttemptFence d = se_AttemptFence (ia_Execution r)
     \<and> db_AdmissionEpoch d = se_AdmissionEpoch (ia_Execution r)
     \<and> db_DecisionRevision d = iw_DecisionRevision (ia_Work r)
     \<and> db_Scope d = se_Scope (ia_Execution r) \<and> db_RevisionKey d = ia_RevisionKey r
     \<and> db_CandidateDigest d = ia_CandidateDigest r \<and> db_ReportHash d = ia_QualityReportHash r
     \<and> db_OriginalHash d = ia_OriginalHash r \<and> db_OutputDigest d = ia_OutputDigest r"

definition DecisionBinding_Validate :: "(UUID \<Rightarrow> string) \<Rightarrow> DecisionBinding \<Rightarrow> IntakeApplyRequest \<Rightarrow> check" where
  "DecisionBinding_Validate us d r = firsterr [
     wrap ''revision key: %w'' (ValidateRevisionKey (db_RevisionKey d) (se_Country (ia_Execution r))),
     range_map ValidateKey [(''decision key'', db_DecisionKey d), (''actor key'', db_ActorKey d)],
     fails (\<not> DecisionKind_Valid (db_Action d) \<or> IsZero (db_ExpiresAt d) \<or> db_DecisionRevision d \<le> 0)
       (Errorf ''decision requires action, expiry and positive revision'' []),
     wrap ''decision execution scope: %w'' (ExecutionScope_Validate us (db_Scope d)),
     each (\<lambda>(name, digest). map_option (\<lambda>e. Wrapf ''decision %s: %w'' [FStr name] [e]) (Digest_Validate digest))
       [(''scope manifest'', db_ScopeManifest d), (''candidate digest'', db_CandidateDigest d),
        (''report hash'', db_ReportHash d), (''original hash'', db_OriginalHash d), (''output digest'', db_OutputDigest d)],
     fails (\<not> binds_attempt d r) (Errorf ''decision does not bind exact attempt, scope and hashes'' [])]"

definition ComparisonBinding_Validate :: "(UUID \<Rightarrow> string) \<Rightarrow> ComparisonBinding \<Rightarrow> IntakeApplyRequest \<Rightarrow> check" where
  "ComparisonBinding_Validate us c r = firsterr [
     wrap ''prior revision: %w'' (ValidateRevisionKey (cb_PriorRevisionKey c) (se_Country (ia_Execution r))),
     range_map Digest_Validate [(''prior candidate'', cb_PriorCandidateDigest c), (''comparison hash'', cb_ComparisonHash c)],
     fails (cb_RequiresAdjudication c \<and> cb_Adjudication c = None)
       (Errorf ''critical changes require owner adjudication'' []),
     (case cb_Adjudication c of None \<Rightarrow> None
      | Some d \<Rightarrow> wrap ''adjudication: %w'' (DecisionBinding_Validate us d r))]"

text \<open>The provenance of an acceptance, and its absence.\<close>

definition acceptance_provenance :: "IntakeApplyRequest \<Rightarrow> check" where
  "acceptance_provenance r =
    (if ia_Acceptance r \<noteq> [] then firsterr [
       wrap ''ledger key: %w'' (ValidateRevisionKey (ia_RevisionKey r) (se_Country (ia_Execution r))),
       range_map Digest_Validate [(''candidate digest'', ia_CandidateDigest r),
         (''quality report hash'', ia_QualityReportHash r), (''original hash'', ia_OriginalHash r)]]
     else fails (ia_RevisionKey r \<noteq> [] \<or> ia_CandidateDigest r \<noteq> [] \<or> ia_QualityReportHash r \<noteq> []
         \<or> ia_OriginalHash r \<noteq> [] \<or> ia_Decision r \<noteq> None \<or> ia_Comparison r \<noteq> None)
       (Errorf ''revision provenance requires acceptance state'' []))"

text \<open>
  \<open>r.Decision.Action\<close> is read after a conjunct on the acceptance state only: with no decision it
  is a nil dereference.
\<close>

definition unauthorised :: "IntakeApplyRequest \<Rightarrow> check" where
  "unauthorised r =
    (let e = Errorf ''decision action does not authorize acceptance state'' [];
         action = (\<lambda>want. case ia_Decision r of None \<Rightarrow> Some (Panic ''nil dereference'')
           | Some d \<Rightarrow> fails (db_Action d \<noteq> want) e)
     in if ia_Acceptance r = AcceptedWithGaps then action DecisionAcceptGaps
        else if ia_Acceptance r = Excluded then action DecisionExclude else None)"

fun intake_outputs :: "string list \<Rightarrow> AssetRef list \<Rightarrow> check" where
  "intake_outputs seen [] = None"
| "intake_outputs seen (a # as) = firsterr [
     wrap ''output: %w'' (AssetRef_Validate a),
     fails (as_Path a \<in> set seen) (Errorf ''duplicate output reference'' []),
     intake_outputs (as_Path a # seen) as]"

definition IntakeApplyRequest_Validate :: "(UUID \<Rightarrow> string) \<Rightarrow> IntakeApplyRequest \<Rightarrow> check" where
  "IntakeApplyRequest_Validate us r = (let c = ia_Counts r in firsterr [
     wrap ''work: %w'' (IntakeWork_Validate us (ia_Work r)),
     fails (ia_IdempotencyKey r \<noteq> IntakeIdempotencyKey us (ia_Work r))
       (Errorf ''idempotency key does not match immutable work'' []),
     wrap ''output digest: %w'' (Digest_Validate (ia_OutputDigest r)),
     fails (\<not> IntakeOutcome_Valid (ia_Outcome r) \<or> (ia_Acceptance r \<noteq> [] \<and> \<not> AcceptanceState_Valid (ia_Acceptance r)))
       (Errorf ''unknown outcome or acceptance state'' []),
     acceptance_provenance r,
     (case ia_Decision r of None \<Rightarrow> None | Some d \<Rightarrow> wrap ''decision: %w'' (DecisionBinding_Validate us d r)),
     fails ((ia_Acceptance r = AcceptedWithGaps \<or> ia_Acceptance r = Excluded \<or> ia_GapAcceptanceRef r \<noteq> []
         \<or> iw_DecisionRevision (ia_Work r) > 0) \<and> ia_Decision r = None)
       (Errorf ''decision authority and binding are required'' []),
     fails (ia_GapAcceptanceRef r \<noteq> [] \<and> (case ia_Decision r of None \<Rightarrow> True
         | Some d \<Rightarrow> ia_GapAcceptanceRef r \<noteq> db_DecisionKey d))
       (Errorf ''gap acceptance must name the bound decision'' []),
     unauthorised r,
     (case ia_Comparison r of None \<Rightarrow> None | Some x \<Rightarrow> wrap ''comparison: %w'' (ComparisonBinding_Validate us x r)),
     wrap ''counts: %w'' (Counts_Validate c),
     fails (c_Expected c > b_MaxItems (iw_Budget (ia_Work r))) (Errorf ''expected items exceed budget'' []),
     fails ((c_PendingRetry c > 0) \<noteq> (ia_NextEligible r \<noteq> None) \<or> (c_AcceptedGaps c > 0) \<noteq> (ia_GapAcceptanceRef r \<noteq> []))
       (Errorf ''retry time and gap acceptance must match counts'' []),
     fails (ia_Complete r \<and> (c_Processed c \<noteq> c_Expected c \<or> c_PendingRetry c \<noteq> 0 \<or> c_Rejected c \<noteq> 0
         \<or> c_Failed c \<noteq> 0 \<or> c_TerminalGap c \<noteq> c_AcceptedGaps c))
       (Errorf ''complete result must close all input with success or accepted gaps'' []),
     intake_outputs [] (elems (ia_Outputs r))])"

record IntakeReceipt =
  irc_ExecutionID :: string
  irc_ResultID :: string
  irc_RunReceipt :: string
  irc_Result :: IntakeApplyRequest

definition IntakeReceipt_Validate :: "(UUID \<Rightarrow> string) \<Rightarrow> IntakeReceipt \<Rightarrow> check" where
  "IntakeReceipt_Validate us r = firsterr [
     fails (irc_ExecutionID r = [] \<or> irc_ResultID r = []) (Errorf ''execution and result receipt keys are required'' []),
     wrap ''result: %w'' (IntakeApplyRequest_Validate us (irc_Result r))]"

section \<open>Replay\<close>

definition unowned_work :: "IntakeWork \<Rightarrow> IntakeWork" where
  "unowned_work w = w\<lparr>iw_Execution := (iw_Execution w)\<lparr>se_Owner := [], se_AttemptFence := 0\<rparr>\<rparr>"

definition intake_immutable :: "IntakeApplyRequest \<Rightarrow> IntakeApplyRequest" where
  "intake_immutable r = r\<lparr>ia_NextEligible := None, ia_Work := unowned_work (ia_Work r)\<rparr>"

definition SameImmutableIntakePayload :: "IntakeApplyRequest \<Rightarrow> IntakeApplyRequest \<Rightarrow> bool" where
  "SameImmutableIntakePayload l r =
    (if \<not> equalOptionalTime (ia_NextEligible l) (ia_NextEligible r) then False
     else intake_immutable l = intake_immutable r)"

abbreviation (input) "ErrPayloadConflict \<equiv> Sentinel ''immutable intake payload conflict''"
abbreviation (input) "ErrStaleGrant \<equiv> Sentinel ''stale intake grant''"

definition ValidateIntakeReplay :: "(UUID \<Rightarrow> string) \<Rightarrow> IntakeApplyRequest \<Rightarrow> IntakeApplyRequest \<Rightarrow> bool \<Rightarrow> check" where
  "ValidateIntakeReplay us stored proposed currentGrant = firsterr [
     fails (\<not> currentGrant) ErrStaleGrant,
     fails (\<not> SameImmutableIntakePayload stored proposed) ErrPayloadConflict,
     wrap ''replayed request: %w'' (IntakeApplyRequest_Validate us proposed)]"


section \<open>Envelopes\<close>

definition IntakeWorkEnvelope_Validate :: "Envelope \<Rightarrow> check" where
  "IntakeWorkEnvelope_Validate e =
     wrap ''execution envelope: %w'' (ValidateEnvelope (env_Key e) ''execution'' (env_Manifest e))"

definition IntakeWorkEnvelope_MarshalJSON :: "Envelope \<Rightarrow> gerr + nat list" where
  "IntakeWorkEnvelope_MarshalJSON e =
     serialize ''serialize execution envelope: %w'' (MarshalEnvelope (env_Key e) ''execution'' (env_Manifest e))"

definition IntakeReceiptEnvelope_Validate :: "Envelope \<Rightarrow> check" where
  "IntakeReceiptEnvelope_Validate e =
     wrap ''result envelope: %w'' (ValidateEnvelope (env_Key e) ''result'' (env_Manifest e))"

definition IntakeReceiptEnvelope_MarshalJSON :: "Envelope \<Rightarrow> gerr + nat list" where
  "IntakeReceiptEnvelope_MarshalJSON e =
     serialize ''serialize result envelope: %w'' (MarshalEnvelope (env_Key e) ''result'' (env_Manifest e))"


section \<open>What the key identifies\<close>

lemma unowned_work_eq:
  "unowned_work v = unowned_work w \<longleftrightarrow>
     (let e = iw_Execution v; f = iw_Execution w in
      se_Country e = se_Country f \<and> se_WorkflowID e = se_WorkflowID f \<and> se_WorkflowKind e = se_WorkflowKind f
      \<and> se_AttemptKey e = se_AttemptKey f \<and> se_AdmissionEpoch e = se_AdmissionEpoch f \<and> se_Scope e = se_Scope f)
     \<and> iw_Stage v = iw_Stage w \<and> iw_Substep v = iw_Substep w \<and> iw_Shard v = iw_Shard w
     \<and> iw_InputDigest v = iw_InputDigest w \<and> iw_RecipeDigest v = iw_RecipeDigest w
     \<and> iw_BudgetDigest v = iw_BudgetDigest w \<and> iw_Budget v = iw_Budget w
     \<and> iw_DecisionRevision v = iw_DecisionRevision w"
proof -
  obtain e st su sh i r b bu d where v: "v = \<lparr>iw_Execution = e, iw_Stage = st, iw_Substep = su, iw_Shard = sh,
    iw_InputDigest = i, iw_RecipeDigest = r, iw_BudgetDigest = b, iw_Budget = bu, iw_DecisionRevision = d\<rparr>"
    by (cases v) blast
  obtain e' st' su' sh' i' r' b' bu' d' where w: "w = \<lparr>iw_Execution = e', iw_Stage = st', iw_Substep = su', iw_Shard = sh',
    iw_InputDigest = i', iw_RecipeDigest = r', iw_BudgetDigest = b', iw_Budget = bu', iw_DecisionRevision = d'\<rparr>"
    by (cases w) blast
  have "e\<lparr>se_Owner := [], se_AttemptFence := 0\<rparr> = e'\<lparr>se_Owner := [], se_AttemptFence := 0\<rparr> \<longleftrightarrow>
      se_Country e = se_Country e' \<and> se_WorkflowID e = se_WorkflowID e' \<and> se_WorkflowKind e = se_WorkflowKind e'
      \<and> se_AttemptKey e = se_AttemptKey e' \<and> se_AdmissionEpoch e = se_AdmissionEpoch e' \<and> se_Scope e = se_Scope e'"
    by (cases e, cases e') simp
  then show ?thesis unfolding v w by (simp add: unowned_work_def Let_def)
qed

lemma scope_fields_inject:
  assumes "es_Kind (scope_of r) = es_Kind (scope_of r')"
    and "isb_Kind (es_Subject (scope_of r)) = isb_Kind (es_Subject (scope_of r'))"
    and "LeaseKey (es_Subject (scope_of r)) = LeaseKey (es_Subject (scope_of r'))"
    and "es_BatchCollection (scope_of r) = es_BatchCollection (scope_of r')"
    and "es_BuildID (scope_of r) = es_BuildID (scope_of r')"
    and "es_CountryControl (scope_of r) = es_CountryControl (scope_of r')"
  shows "r = r'"
  using assms by (cases r; cases r') (simp_all add: empty_scope_def zero_subject_def LeaseKey_def)

lemma scope_of_fields:
  "scope_of r = scope_of r' \<longleftrightarrow> es_Kind (scope_of r) = es_Kind (scope_of r')
     \<and> isb_Kind (es_Subject (scope_of r)) = isb_Kind (es_Subject (scope_of r'))
     \<and> LeaseKey (es_Subject (scope_of r)) = LeaseKey (es_Subject (scope_of r'))
     \<and> es_BatchCollection (scope_of r) = es_BatchCollection (scope_of r')
     \<and> es_BuildID (scope_of r) = es_BuildID (scope_of r')
     \<and> es_CountryControl (scope_of r) = es_CountryControl (scope_of r')" (is "?L = ?R")
proof
  assume ?R
  then have "r = r'" by (elim conjE) (rule scope_fields_inject)
  then show ?L by (rule arg_cong)
qed (simp only: simp_thms)

definition budget_ints :: "Budget \<Rightarrow> int list" where
  "budget_ints b = [b_MaxItems b, b_MaxInputBytes b, b_MaxPages b, b_MaxElapsed b, b_MaxConcurrent b]"

lemma budget_ints_inject: "budget_ints b = budget_ints b' \<longleftrightarrow> b = b'"
  by (cases b; cases b') (simp add: budget_ints_def)

text \<open>The values fit their Go types; the strings a valid work bounds need no mention.\<close>

definition go_work :: "(UUID \<Rightarrow> string) \<Rightarrow> IntakeWork \<Rightarrow> bool" where
  "go_work us w \<longleftrightarrow> list_all go_string [iw_Substep w, iw_Shard w, us (es_BuildID (se_Scope (iw_Execution w)))]
     \<and> list_all in_int64 ([se_AdmissionEpoch (iw_Execution w), iw_DecisionRevision w] @ budget_ints (iw_Budget w))"

lemma ledger_key_go: "ledger_key k \<Longrightarrow> go_string k"
  by (simp add: ledger_key_def go_string_short)

lemma digest_go: "digest_ok d \<Longrightarrow> go_string d"
  by (simp add: digest_ok_def go_string_short)

lemma scope_strings_go:
  assumes "resource_ok us r"
  shows "list_all go_string [es_Kind (scope_of r), isb_Kind (es_Subject (scope_of r)), LeaseKey (es_Subject (scope_of r)),
    es_BatchCollection (scope_of r), es_CountryControl (scope_of r)]"
  using assms
  by (cases r) (auto simp: empty_scope_def zero_subject_def LeaseKey_def resource_ok_def ledger_key_go go_string_short)

lemma workflow_go:
  assumes "validateWorkflowID i k c = None"
  shows "go_string i" "go_string k"
proof -
  from assms have "length i \<le> 512" by (auto simp: validateWorkflowID_def split: if_splits)
  then show "go_string i" by (rule go_string_short)
  from assms obtain ns n where "workflow_layout k (Split CHR ''/'' i) = Some (ns, n)"
    by (auto simp: validateWorkflowID_def Let_def split: if_splits option.splits)
  then have "length k \<le> 512" by (auto simp: workflow_layout_def split: if_splits)
  then show "go_string k" by (rule go_string_short)
qed

lemma Stage_go: "Stage_Valid s \<Longrightarrow> go_string s"
  by (auto simp: Stage_Valid_def go_string_short)

lemma IntakeWork_execution:
  assumes "IntakeWork_Validate us w = None"
  obtains r where "se_Scope (iw_Execution w) = scope_of r" "resource_ok us r"
    "leases (se_WorkflowKind (iw_Execution w)) (se_Country (iw_Execution w)) r"
    "ScopedExecution_Validate us (iw_Execution w) = None"
proof -
  have "ScopedExecution_Validate us (iw_Execution w) = None" using assms by (simp add: IntakeWork_Validate_def)
  then show thesis using that by (auto simp: ScopedExecution_None)
qed

definition intake_strings :: "(UUID \<Rightarrow> string) \<Rightarrow> IntakeWork \<Rightarrow> string list" where
  "intake_strings us w =
    (let e = iw_Execution w; s = se_Scope e in
         [''corpus-intake-result-v1'', se_Country e, se_WorkflowID e, se_WorkflowKind e, se_AttemptKey e,
          es_Kind s, isb_Kind (es_Subject s), LeaseKey (es_Subject s), es_BatchCollection s, us (es_BuildID s),
          es_CountryControl s, iw_Stage w, iw_Substep w, iw_Shard w, iw_InputDigest w, iw_RecipeDigest w,
          iw_BudgetDigest w])"

lemma intake_payload_strings:
  "intake_payload us w = canonical_payload (intake_strings us w)
     ([se_AdmissionEpoch (iw_Execution w), iw_DecisionRevision w] @ budget_ints (iw_Budget w))"
  by (simp add: intake_payload_def intake_strings_def budget_ints_def Let_def)

lemma intake_strings_go:
  assumes "IntakeWork_Validate us w = None" "go_work us w"
  shows "list_all go_string (intake_strings us w)"
proof -
  from assms(1) obtain r where r: "se_Scope (iw_Execution w) = scope_of r" "resource_ok us r"
    "ScopedExecution_Validate us (iw_Execution w) = None" by (rule IntakeWork_execution)
  from r(3) have e: "ledger_key (se_Country (iw_Execution w))" "ledger_key (se_AttemptKey (iw_Execution w))"
    "validateWorkflowID (se_WorkflowID (iw_Execution w)) (se_WorkflowKind (iw_Execution w)) (se_Country (iw_Execution w)) = None"
    by (simp_all add: ScopedExecution_None)
  have "Stage_Valid (iw_Stage w)" "digest_ok (iw_InputDigest w)" "digest_ok (iw_RecipeDigest w)" "digest_ok (iw_BudgetDigest w)"
    using assms(1) by (simp_all add: IntakeWork_Validate_def)
  then show ?thesis
    using assms(2) r(1) scope_strings_go [OF r(2)] e(1,2) workflow_go [OF e(3)]
    by (simp add: intake_strings_def go_work_def Let_def ledger_key_go digest_go Stage_go go_string_short)
qed

lemma intake_strings_work:
  assumes "inj us" "IntakeWork_Validate us v = None" "IntakeWork_Validate us w = None"
  shows "intake_strings us v = intake_strings us w
      \<and> [se_AdmissionEpoch (iw_Execution v), iw_DecisionRevision v] @ budget_ints (iw_Budget v)
        = [se_AdmissionEpoch (iw_Execution w), iw_DecisionRevision w] @ budget_ints (iw_Budget w)
    \<longleftrightarrow> unowned_work v = unowned_work w"
proof -
  from assms(2) obtain r where r: "se_Scope (iw_Execution v) = scope_of r" by (rule IntakeWork_execution)
  from assms(3) obtain r' where r': "se_Scope (iw_Execution w) = scope_of r'" by (rule IntakeWork_execution)
  have us: "us a = us b \<longleftrightarrow> a = b" for a b using assms(1) by (simp add: inj_eq)
  show ?thesis
    unfolding unowned_work_eq Let_def intake_strings_def r r' scope_of_fields append.simps list.inject us
      budget_ints_inject
    by (simp only: refl simp_thms conj_ac)
qed

lemma intake_payload_work:
  assumes "inj us" "IntakeWork_Validate us v = None" "IntakeWork_Validate us w = None" "go_work us v" "go_work us w"
  shows "intake_payload us v = intake_payload us w \<longleftrightarrow> unowned_work v = unowned_work w"
  unfolding intake_payload_strings intake_strings_work [OF assms(1-3), symmetric]
  by (rule canonical_payload_inj)
    (use assms intake_strings_go in \<open>simp_all add: intake_strings_def budget_ints_def Let_def go_work_def\<close>)

text \<open>
  C30 (roundtrip): two valid intake works get the same idempotency key iff they are the same work
  up to owner and attempt fence (country, workflow, attempt, epoch, scope, stage, substep, shard,
  the three digests, decision revision and budget), or their encodings are a SHA-256 collision.
  That the key holds of a scope only its tag, its subject's tag and lease key and the other three
  keys loses nothing, as validation makes the other fields zero.
\<close>

theorem intake_key_identifies_work:
  assumes "inj us" and "IntakeWork_Validate us v = None" and "IntakeWork_Validate us w = None"
    and "go_work us v" and "go_work us w"
  shows "IntakeIdempotencyKey us v = IntakeIdempotencyKey us w \<longleftrightarrow> unowned_work v = unowned_work w
    \<or> (intake_payload us v \<noteq> intake_payload us w \<and> sha256 (intake_payload us v) = sha256 (intake_payload us w))"
proof -
  have "IntakeIdempotencyKey us v = IntakeIdempotencyKey us w \<longleftrightarrow> sha256 (intake_payload us v) = sha256 (intake_payload us w)"
    by (auto simp: IntakeIdempotencyKey_def dest: EncodeToString_inj)
  with intake_payload_work [OF assms] show ?thesis by metis
qed


definition sample_work :: "string \<Rightarrow> int \<Rightarrow> IntakeWork" where
  "sample_work owner fence = \<lparr>iw_Execution = \<lparr>se_Country = ''vn'', se_WorkflowID = ''document-ingest/vn/doc-1/a1'',
       se_WorkflowKind = DocumentIngest, se_AttemptKey = ''a1'', se_AttemptFence = fence, se_AdmissionEpoch = 3,
       se_Owner = owner, se_Scope = scope_of (DocumentResource ''doc-1'')\<rparr>,
     iw_Stage = Fetch, iw_Substep = ''s'', iw_Shard = ''0'', iw_InputDigest = sample_digest,
     iw_RecipeDigest = sample_digest, iw_BudgetDigest = sample_digest, iw_Budget = sample_budget,
     iw_DecisionRevision = 0\<rparr>"

lemma sample_keys: "ledger_key ''vn''" "ledger_key ''doc-1''" "ledger_key ''a1''" "ledger_key ''document-ingest''"
  by (simp_all add: ledger_key_def key_char_def lower_alnum_def lower_letter_def between_def byte_of_def)

lemma sample_work_ok:
  assumes "ledger_key owner" and "0 < fence"
  shows "IntakeWork_Validate us (sample_work owner fence) = None"
proof -
  have "Split CHR ''/'' ''document-ingest/vn/doc-1/a1'' = [''document-ingest'', ''vn'', ''doc-1'', ''a1'']" by simp
  then have "validateWorkflowID ''document-ingest/vn/doc-1/a1'' DocumentIngest ''vn'' = None"
    by (simp add: validateWorkflowID_def workflow_layout_def segment_keys_None sample_keys)
  moreover have "resource_ok us (DocumentResource ''doc-1'')" by (simp add: resource_ok_def sample_keys)
  ultimately have "ScopedExecution_Validate us (iw_Execution (sample_work owner fence)) = None"
    unfolding ScopedExecution_None
    by (intro conjI exI [of _ "DocumentResource ''doc-1''"]) (use assms in \<open>simp_all add: sample_work_def sample_keys\<close>)
  then show ?thesis
    by (simp add: IntakeWork_Validate_def) (simp add: sample_work_def Stage_Valid_def sample_budget_def empty_scope_def)
qed

lemma sample_work_go: "go_work sample_uuid_text (sample_work owner fence)"
  by (simp add: go_work_def sample_work_def budget_ints_def sample_budget_def go_string_def empty_scope_def
      in_int64_def min_int64_def max_int64_def)

theorem intake_key_identifies_work_witness:
  "IntakeIdempotencyKey sample_uuid_text (sample_work ''a1'' 1) = IntakeIdempotencyKey sample_uuid_text (sample_work ''vn'' 2)"
proof -
  have "unowned_work (sample_work ''a1'' 1) = unowned_work (sample_work ''vn'' 2)"
    by (simp add: unowned_work_def sample_work_def)
  then show ?thesis
    using intake_key_identifies_work [OF sample_uuid_text_inj sample_work_ok sample_work_ok sample_work_go sample_work_go,
        of "''a1''" 1 "''vn''" 2] sample_keys by simp
qed

section \<open>Replays and authority\<close>

lemma SameImmutableIntake_parts:
  assumes "SameImmutableIntakePayload l r"
  shows "ia_Decision l = ia_Decision r" "ia_Comparison l = ia_Comparison r"
proof -
  have "intake_immutable l = intake_immutable r"
    using assms by (simp add: SameImmutableIntakePayload_def split: if_splits)
  then have "ia_Decision (intake_immutable l) = ia_Decision (intake_immutable r)"
    "ia_Comparison (intake_immutable l) = ia_Comparison (intake_immutable r)" by simp_all
  then show "ia_Decision l = ia_Decision r" "ia_Comparison l = ia_Comparison r"
    by (simp_all add: intake_immutable_def)
qed

text \<open>The decisions a request carries: its own and its comparison's adjudication.\<close>

definition carries :: "IntakeApplyRequest \<Rightarrow> DecisionBinding \<Rightarrow> bool" where
  "carries r d \<longleftrightarrow> ia_Decision r = Some d \<or> (\<exists>c. ia_Comparison r = Some c \<and> cb_Adjudication c = Some d)"

lemma carried_decision_bound:
  assumes "IntakeApplyRequest_Validate us r = None" and "carries r d"
  shows "DecisionBinding_Validate us d r = None"
proof -
  have parts: "(case ia_Decision r of None \<Rightarrow> None | Some d \<Rightarrow> wrap ''decision: %w'' (DecisionBinding_Validate us d r)) = None"
    "(case ia_Comparison r of None \<Rightarrow> None | Some x \<Rightarrow> wrap ''comparison: %w'' (ComparisonBinding_Validate us x r)) = None"
    using assms(1) by (simp_all add: IntakeApplyRequest_Validate_def Let_def)
  from assms(2) show ?thesis
  proof (unfold carries_def, elim disjE exE conjE)
    assume "ia_Decision r = Some d" with parts(1) show ?thesis by simp
  next
    fix c
    assume c: "ia_Comparison r = Some c" "cb_Adjudication c = Some d"
    with parts(2) have "ComparisonBinding_Validate us c r = None" by simp
    with c(2) show ?thesis by (simp add: ComparisonBinding_Validate_def)
  qed
qed

lemma DecisionBinding_binds: "DecisionBinding_Validate us d r = None \<Longrightarrow> binds_attempt d r"
  by (simp add: DecisionBinding_Validate_def)

definition intake_takeover :: "string \<Rightarrow> int \<Rightarrow> IntakeApplyRequest \<Rightarrow> IntakeApplyRequest" where
  "intake_takeover owner fence r = r\<lparr>ia_Work := (ia_Work r)\<lparr>iw_Execution := (ia_Execution r)
     \<lparr>se_Owner := owner, se_AttemptFence := fence\<rparr>\<rparr>\<rparr>"

lemma takeover_work:
  assumes "IntakeWork_Validate us w = None" "ledger_key owner" "0 < fence"
  shows "IntakeWork_Validate us (w\<lparr>iw_Execution := (iw_Execution w)\<lparr>se_Owner := owner, se_AttemptFence := fence\<rparr>\<rparr>) = None"
  using assms by (simp add: IntakeWork_Validate_def ScopedExecution_None)

lemma valid_work: "IntakeApplyRequest_Validate us r = None \<Longrightarrow> IntakeWork_Validate us (ia_Work r) = None"
  by (simp add: IntakeApplyRequest_Validate_def Let_def)

lemma takeover_decision:
  assumes "DecisionBinding_Validate us d r = None" "fence = se_AttemptFence (ia_Execution r)"
  shows "DecisionBinding_Validate us d (intake_takeover owner fence r) = None"
  using assms by (auto simp: DecisionBinding_Validate_def binds_attempt_def intake_takeover_def)

lemma takeover_valid:
  assumes r: "IntakeApplyRequest_Validate us r = None" and o': "ledger_key owner" "0 < fence"
    and f: "fence = se_AttemptFence (ia_Execution r) \<or> (\<forall>d. \<not> carries r d)"
  shows "IntakeApplyRequest_Validate us (intake_takeover owner fence r) = None"
proof -
  let ?p = "intake_takeover owner fence r"
  have same: "ia_IdempotencyKey ?p = ia_IdempotencyKey r" "ia_Outputs ?p = ia_Outputs r" "ia_OutputDigest ?p = ia_OutputDigest r"
    "ia_Outcome ?p = ia_Outcome r" "ia_Counts ?p = ia_Counts r" "ia_NextEligible ?p = ia_NextEligible r"
    "ia_Acceptance ?p = ia_Acceptance r" "ia_RevisionKey ?p = ia_RevisionKey r" "ia_CandidateDigest ?p = ia_CandidateDigest r"
    "ia_QualityReportHash ?p = ia_QualityReportHash r" "ia_OriginalHash ?p = ia_OriginalHash r"
    "ia_Decision ?p = ia_Decision r" "ia_Comparison ?p = ia_Comparison r" "ia_GapAcceptanceRef ?p = ia_GapAcceptanceRef r"
    "ia_Complete ?p = ia_Complete r" "se_Country (ia_Execution ?p) = se_Country (ia_Execution r)"
    "iw_DecisionRevision (ia_Work ?p) = iw_DecisionRevision (ia_Work r)" "iw_Budget (ia_Work ?p) = iw_Budget (ia_Work r)"
    "IntakeIdempotencyKey us (ia_Work ?p) = IntakeIdempotencyKey us (ia_Work r)"
    by (simp_all add: intake_takeover_def IntakeIdempotencyKey_def intake_payload_def Let_def)
  have w: "IntakeWork_Validate us (ia_Work ?p) = None"
    using takeover_work [OF valid_work [OF r] o'] by (simp add: intake_takeover_def)
  have d: "DecisionBinding_Validate us d ?p = None" if "carries r d" for d
    using f that by (auto intro: takeover_decision [OF carried_decision_bound [OF r that]])
  have dec: "(case ia_Decision r of None \<Rightarrow> None | Some d \<Rightarrow> wrap ''decision: %w'' (DecisionBinding_Validate us d ?p)) = None"
    using d by (auto simp: carries_def split: option.split)
  have "ComparisonBinding_Validate us c ?p = None" if "ia_Comparison r = Some c" for c
  proof -
    have "ComparisonBinding_Validate us c r = None" using r that by (simp add: IntakeApplyRequest_Validate_def Let_def)
    then show ?thesis using d that by (auto simp: ComparisonBinding_Validate_def same carries_def split: option.splits)
  qed
  then have cmp: "(case ia_Comparison r of None \<Rightarrow> None | Some x \<Rightarrow> wrap ''comparison: %w'' (ComparisonBinding_Validate us x ?p)) = None"
    by (auto split: option.split)
  have rest: "acceptance_provenance ?p = acceptance_provenance r" "unauthorised ?p = unauthorised r"
    unfolding acceptance_provenance_def unauthorised_def same by (rule refl)+
  note entries = IntakeApplyRequest_Validate_def Let_def firsterr_None list.set ball_simps(5) ball_simps(7) wrap_None
  show ?thesis
    unfolding entries same rest using w dec cmp r [unfolded entries]
    by (elim conjE, intro conjI) assumption+
qed

text \<open>
  C34 (error): after a valid request was stored, another owner and fence can replay it (some
  proposal under them passes \<open>ValidateIntakeReplay\<close>) iff the fence is the stored one or the
  request carries no decision and no adjudication. A decision binds the attempt fence and is
  itself part of the compared payload, so a decided request can not be replayed by a takeover.
\<close>

theorem replay_after_takeover:
  assumes "IntakeApplyRequest_Validate us r = None" and "ledger_key owner" and "0 < fence"
  shows "(\<exists>p. se_Owner (ia_Execution p) = owner \<and> se_AttemptFence (ia_Execution p) = fence
      \<and> ValidateIntakeReplay us r p True = None)
    \<longleftrightarrow> fence = se_AttemptFence (ia_Execution r) \<or> (\<forall>d. \<not> carries r d)"
proof
  assume "\<exists>p. se_Owner (ia_Execution p) = owner \<and> se_AttemptFence (ia_Execution p) = fence
      \<and> ValidateIntakeReplay us r p True = None"
  then obtain p where p: "se_AttemptFence (ia_Execution p) = fence" "SameImmutableIntakePayload r p"
    "IntakeApplyRequest_Validate us p = None" by (auto simp: ValidateIntakeReplay_def)
  show "fence = se_AttemptFence (ia_Execution r) \<or> (\<forall>d. \<not> carries r d)"
  proof (rule disjCI, rule ccontr)
    assume "\<not> (\<forall>d. \<not> carries r d)" "fence \<noteq> se_AttemptFence (ia_Execution r)"
    then obtain d where d: "carries r d" by blast
    then have "carries p d" using SameImmutableIntake_parts [OF p(2)] by (simp add: carries_def)
    with p(3) have "binds_attempt d p" using carried_decision_bound DecisionBinding_binds by blast
    moreover have "binds_attempt d r" using assms(1) d carried_decision_bound DecisionBinding_binds by blast
    ultimately show False using p(1) \<open>fence \<noteq> _\<close> by (simp add: binds_attempt_def)
  qed
next
  assume f: "fence = se_AttemptFence (ia_Execution r) \<or> (\<forall>d. \<not> carries r d)"
  let ?p = "intake_takeover owner fence r"
  have "SameImmutableIntakePayload r ?p"
    by (simp add: SameImmutableIntakePayload_def intake_immutable_def intake_takeover_def unowned_work_def
        equalOptionalTime_def TimeEqual_def split: option.split)
  then have "ValidateIntakeReplay us r ?p True = None"
    using takeover_valid [OF assms f] by (simp add: ValidateIntakeReplay_def)
  then show "\<exists>p. se_Owner (ia_Execution p) = owner \<and> se_AttemptFence (ia_Execution p) = fence
      \<and> ValidateIntakeReplay us r p True = None"
    by (intro exI [of _ ?p]) (simp add: intake_takeover_def)
qed


text \<open>A valid request: undecided, or accepted with named gaps by a decision under its fence.\<close>

definition sample_counts :: "int \<Rightarrow> Counts" where
  "sample_counts gaps = \<lparr>c_Expected = 2 + gaps, c_Processed = 2 + gaps, c_Succeeded = 2, c_PendingRetry = 0,
     c_TerminalGap = gaps, c_AcceptedGaps = gaps, c_Rejected = 0, c_Failed = 0\<rparr>"

definition sample_revision :: string where
  "sample_revision = ''vn:doc:00000000-0000-0000-0000-000000000000:rev:'' @ sample_digest"

lemma sample_revision_ok: "ValidateRevisionKey sample_revision ''vn'' = None"
proof -
  let ?u = "''00000000-0000-0000-0000-000000000000''"
  have uuid: "uuid_text ?u"
  proof -
    let ?Q = "\<lambda>i. if i = 8 \<or> i = 13 \<or> i = 18 \<or> i = 23 then ?u ! i = CHR ''-'' else hex_char (?u ! i)"
    have "list_all ?Q [0..<36]" by code_simp
    then show ?thesis unfolding uuid_text_def by (simp only: list_all_iff set_upt atLeastLessThan_iff) simp
  qed
  have "sample_revision = join CHR '':'' [''vn'', ''doc'', ?u, ''rev'', sample_digest]"
    by (simp add: sample_revision_def)
  moreover have "CHR '':'' \<notin> set sample_digest" by (simp add: sample_digest_def)
  ultimately have "Split CHR '':'' sample_revision = [''vn'', ''doc'', ?u, ''rev'', sample_digest]"
    using Split_join [of "[''vn'', ''doc'', ?u, ''rev'', sample_digest]" "CHR '':''"] by simp
  moreover have "length sample_revision = 112" by (simp add: sample_revision_def sample_digest_def)
  ultimately show ?thesis
    using uuid by (simp add: ValidateRevisionKey_def lower_letter_def between_def byte_of_def)
qed

definition sample_decision :: DecisionBinding where
  "sample_decision = \<lparr>db_DecisionKey = ''d1'', db_ActorKey = ''owner'', db_Action = DecisionAcceptGaps,
     db_ExpiresAt = \<lparr>instant = 100, repr = 0\<rparr>, db_AttemptFence = 1, db_AdmissionEpoch = 3, db_DecisionRevision = 1,
     db_Scope = scope_of (DocumentResource ''doc-1''), db_RevisionKey = sample_revision,
     db_CandidateDigest = sample_digest, db_ReportHash = sample_digest, db_OriginalHash = sample_digest,
     db_OutputDigest = sample_digest, db_ScopeManifest = sample_digest\<rparr>"

definition sample_intake :: IntakeApplyRequest where
  "sample_intake = (let w = (sample_work ''a1'' 1)\<lparr>iw_DecisionRevision := 1\<rparr> in
    \<lparr>ia_Work = w, ia_IdempotencyKey = IntakeIdempotencyKey sample_uuid_text w, ia_Outputs = None,
     ia_OutputDigest = sample_digest, ia_Outcome = OutcomeSucceeded, ia_Counts = sample_counts 1, ia_Cursor = [],
     ia_NextEligible = None, ia_Acceptance = AcceptedWithGaps, ia_RevisionKey = sample_revision,
     ia_CandidateDigest = sample_digest, ia_QualityReportHash = sample_digest, ia_OriginalHash = sample_digest,
     ia_Decision = Some sample_decision, ia_Comparison = None, ia_GapAcceptanceRef = ''d1'', ia_Complete = True\<rparr>)"

lemma sample_intake_ok: "IntakeApplyRequest_Validate sample_uuid_text sample_intake = None"
proof -
  let ?w = "(sample_work ''a1'' 1)\<lparr>iw_DecisionRevision := 1\<rparr>"
  have w: "IntakeWork_Validate us ?w = None" for us
    using sample_work_ok [of "''a1''" 1 us] by (simp add: sample_keys IntakeWork_Validate_def)
  have keys: "ledger_key ''d1''" "ledger_key ''owner''"
    by (simp_all add: ledger_key_def key_char_def lower_alnum_def lower_letter_def between_def byte_of_def)
  have scope: "ExecutionScope_Validate us (scope_of (DocumentResource ''doc-1'')) = None" for us
    by (rule ExecutionScope_complete) (simp add: resource_ok_def sample_keys)
  have "iw_Execution ?w = iw_Execution (sample_work ''a1'' 1)" by simp
  then have exec: "ia_Execution sample_intake = iw_Execution (sample_work ''a1'' 1)"
    by (simp add: sample_intake_def Let_def)
  have "DecisionBinding_Validate sample_uuid_text sample_decision sample_intake = None"
    using keys sample_revision_ok scope
    by (simp add: DecisionBinding_Validate_def exec binds_attempt_def)
      (simp add: sample_decision_def sample_work_def sample_intake_def DecisionKind_Valid_def IsZero_def Let_def)
  then show ?thesis
    using w sample_revision_ok
    by (simp add: IntakeApplyRequest_Validate_def acceptance_provenance_def unauthorised_def Let_def exec)
      (simp add: sample_intake_def sample_decision_def sample_work_def sample_counts_def counts_accounting
        IntakeOutcome_Valid_def AcceptanceState_Valid_def sample_budget_def Let_def)
qed

theorem replay_after_takeover_witness:
  "\<not> (\<exists>p. se_Owner (ia_Execution p) = ''owner'' \<and> se_AttemptFence (ia_Execution p) = 2
      \<and> ValidateIntakeReplay sample_uuid_text sample_intake p True = None)"
proof -
  have "ledger_key ''owner''"
    by (simp add: ledger_key_def key_char_def lower_alnum_def lower_letter_def between_def byte_of_def)
  moreover have "carries sample_intake sample_decision" by (simp add: carries_def sample_intake_def Let_def)
  moreover have "se_AttemptFence (ia_Execution sample_intake) = 1" by (simp add: sample_intake_def sample_work_def Let_def)
  ultimately show ?thesis
    using replay_after_takeover [OF sample_intake_ok, of "''owner''" 2] by auto
qed



end
