(* ===== verification/Run_Admission.thy ===== *)
theory Run_Admission
  imports Run_Intake
begin

text \<open>
  \<open>internal/corpus/run/admission.go\<close>: the requests of document admission (limits, reservation,
  changes, closing, scanning, resolution). The admission transactions themselves are an interface
  there; their implementation is SQL.
\<close>

abbreviation (input) "ErrInvalidAdmission \<equiv> Sentinel ''invalid document admission''"

definition invalid_admission :: "string \<Rightarrow> gerr" where
  "invalid_admission f = Wrapf f [] [ErrInvalidAdmission]"

record DocumentAdmissionLimits =
  dal_Processing :: int
  dal_Open :: int
  dal_ReceiptJSONBytes :: int
  dal_QuarantineExpiry :: int

definition DefaultDocumentAdmissionLimits :: DocumentAdmissionLimits where
  "DefaultDocumentAdmissionLimits = \<lparr>dal_Processing = 32, dal_Open = 256, dal_ReceiptJSONBytes = 65536,
     dal_QuarantineExpiry = 7 * 24 * 3600000000000\<rparr>"

definition DocumentAdmissionLimits_Validate :: "DocumentAdmissionLimits \<Rightarrow> check" where
  "DocumentAdmissionLimits_Validate l =
     fails (dal_Processing l < 1 \<or> dal_Open l < dal_Processing l \<or> dal_ReceiptJSONBytes l < 1
         \<or> dal_QuarantineExpiry l \<le> 0 \<or> dal_QuarantineExpiry l mod 1000 \<noteq> 0)
       (invalid_admission ''limits or quarantine expiry: %w'')"

definition admissionActor :: "(UUID \<Rightarrow> string) \<Rightarrow> IntakeWork \<Rightarrow> check" where
  "admissionActor us w = map_option (\<lambda>e. Wrapf ''admission work: %w: %w'' [] [ErrInvalidAdmission, e]) (IntakeWork_Validate us w)"



definition admissionSlotKey :: "string \<Rightarrow> bool" where
  "admissionSlotKey s \<longleftrightarrow> length s = 37 \<and> HasPrefix s ''slot-'' \<and> (\<forall>c \<in> set (runes (drop 5 s)). lower_hex c)"



record AdmissionChange =
  ach_Actor :: IntakeWork
  ach_SlotKey :: string
  ach_ExpectedRevision :: int

definition AdmissionChange_Validate :: "(UUID \<Rightarrow> string) \<Rightarrow> AdmissionChange \<Rightarrow> check" where
  "AdmissionChange_Validate us r = firsterr [
     admissionActor us (ach_Actor r),
     fails (ach_ExpectedRevision r < 1 \<or> \<not> admissionSlotKey (ach_SlotKey r)) (invalid_admission ''slot or revision: %w'')]"

record AdmissionConfigureRequest =
  acr_Actor :: IntakeWork
  acr_ExpectedRevision :: int
  acr_Limits :: DocumentAdmissionLimits

definition AdmissionConfigureRequest_Validate :: "(UUID \<Rightarrow> string) \<Rightarrow> AdmissionConfigureRequest \<Rightarrow> check" where
  "AdmissionConfigureRequest_Validate us r = firsterr [
     admissionActor us (acr_Actor r),
     fails (se_WorkflowKind (iw_Execution (acr_Actor r)) \<noteq> ControlReconcile \<or> acr_ExpectedRevision r < 0)
       (invalid_admission ''configuration actor or revision: %w''),
     DocumentAdmissionLimits_Validate (acr_Limits r)]"

record AdmissionCloseRequest =
  acl_Change :: AdmissionChange
  acl_Reason :: string
  acl_CauseReceipt :: string

definition AdmissionCloseRequest_Validate :: "(UUID \<Rightarrow> string) \<Rightarrow> AdmissionCloseRequest \<Rightarrow> check" where
  "AdmissionCloseRequest_Validate us r = firsterr [
     AdmissionChange_Validate us (acl_Change r),
     fails (\<not> (if acl_Reason r = AdmissionCancelled \<or> acl_Reason r = AdmissionAbandoned then acl_CauseReceipt r = []
         else if acl_Reason r = AdmissionExpired \<or> acl_Reason r = AdmissionTerminalGap
         then ValidateEnvelopeKey (acl_CauseReceipt r) ''result'' = None
         else False))
       (invalid_admission ''close cause: %w'')]"

record AdmissionScan =
  asc_Actor :: IntakeWork
  asc_AfterUpdatedAt :: gotime
  asc_AfterID :: int
  asc_Limit :: int

definition Nanosecond :: "gotime \<Rightarrow> int" where
  "Nanosecond t = instant t mod 1000000000"

definition AdmissionScan_Validate :: "(UUID \<Rightarrow> string) \<Rightarrow> AdmissionScan \<Rightarrow> check" where
  "AdmissionScan_Validate us r = firsterr [
     admissionActor us (asc_Actor r),
     fails (se_WorkflowKind (iw_Execution (asc_Actor r)) \<noteq> ControlReconcile \<or> asc_Limit r < 1 \<or> asc_Limit r > 1000
         \<or> asc_Limit r > b_MaxItems (iw_Budget (asc_Actor r)) \<or> asc_AfterID r < 0
         \<or> (asc_AfterID r = 0) \<noteq> IsZero (asc_AfterUpdatedAt r) \<or> Nanosecond (asc_AfterUpdatedAt r) mod 1000 \<noteq> 0)
       (invalid_admission ''scan actor, bound or cursor: %w'')]"



record AdmissionReceipt =
  arc_Key :: string
  arc_SlotKey :: string
  arc_Revision :: int
  arc_State :: string

record AdmissionResult =
  ars_Receipt :: "AdmissionReceipt option"
  ars_Refusal :: string
  ars_LimitsRevision :: int
  ars_Processing :: int
  ars_Open :: int

section \<open>Document identities\<close>

lemma admissionActor_None [simp]: "admissionActor us w = None \<longleftrightarrow> IntakeWork_Validate us w = None"
  by (simp add: admissionActor_def)









end
