(* ===== verification/Formats_Tree.thy ===== *)
theory Formats_Tree
  imports Quality_Budget Frozen_Budget Go_Sha256
begin

text \<open>
  \<open>validateTrees\<close>, \<open>rootBounds\<close> and \<open>Codec.Encode\<close> of
  \<open>internal/corpus/quality/formats/codec.go\<close>, with the limits of \<open>policy.go\<close>: what
  \<open>reflect\<close> shows of a value of the formats (\<open>gval\<close>), the walk that charges rows, string
  bytes and referenced objects, and the walk that bounds the root with its dependencies.
\<close>

section \<open>Values under reflection\<close>

text \<open>
  \<open>GDigest\<close>, \<open>GAsset\<close> and \<open>GSpan\<close> are the values the walk's type switch takes whole (it
  then walks the fields of the last two as of any struct); every field is exported, so
  \<open>CanInterface\<close> holds everywhere.
\<close>

datatype gval =
    GNil
  | GPtr gval
  | GStruct "(string \<times> gval) list"
  | GAsset AssetRef
  | GSpan Span
  | GSlice "gval list option"
  | GString string
  | GDigest Digest
  | GBool bool
  | GInt int

fun erase :: "gval \<Rightarrow> rval" where
  "erase GNil = RNil"
| "erase (GPtr v) = RPtr (erase v)"
| "erase (GStruct fs) = RStruct (map (\<lambda>(n, v). (n, erase v)) fs)"
| "erase (GAsset a) = asset_rval a"
| "erase (GSpan s) = span_rval s"
| "erase (GSlice None) = RSlice None"
| "erase (GSlice (Some vs)) = RSlice (Some (map erase vs))"
| "erase (GString s) = RString s"
| "erase (GDigest d) = RString d"
| "erase (GBool b) = RBool b"
| "erase (GInt i) = RInt i"

definition gpointer :: "('a \<Rightarrow> gval) \<Rightarrow> 'a option \<Rightarrow> gval" where
  "gpointer f p = (case p of None \<Rightarrow> GNil | Some x \<Rightarrow> GPtr (f x))"

definition gslice :: "('a \<Rightarrow> gval) \<Rightarrow> 'a slice \<Rightarrow> gval" where
  "gslice f s = GSlice (map_option (map f) s)"

section \<open>Limits (policy.go)\<close>

definition DefaultLimits :: Limits where
  "DefaultLimits = \<lparr>gl_MaxBlobs = 1024, gl_MaxRows = 10000, gl_MaxJSONBytes = 4194304,
     gl_MaxObjectBytes = 67108864, gl_MaxElapsedMS = 60000\<rparr>"

definition Limits_Validate :: "Limits \<Rightarrow> check" where
  "Limits_Validate l = fails (gl_MaxBlobs l \<le> 0 \<or> gl_MaxBlobs l > 1024 \<or> gl_MaxRows l \<le> 0
       \<or> gl_MaxJSONBytes l \<le> 0 \<or> gl_MaxObjectBytes l \<le> 0 \<or> gl_MaxElapsedMS l \<le> 0)
     (Errorf ''acceptance limits must be positive; max_blobs must not exceed 1024'' [])"

section \<open>validateTrees\<close>

record tree_state =
  ts_rows :: int
  ts_strings :: int
  ts_assets :: "(Digest \<times> int) list"
  ts_paths :: "(string \<times> Digest) list"
  ts_total :: int

definition known_size :: "Limits \<Rightarrow> AssetRef \<Rightarrow> tree_state step" where
  "known_size l a s = (case map_of (ts_assets s) (as_SHA256 a) of
     Some n \<Rightarrow> if n \<noteq> as_ByteSize a then Inl (Errorf ''conflicting sizes for hash'' []) else Inr s
   | None \<Rightarrow>
       if int (length (ts_assets s)) \<ge> gl_MaxBlobs l \<or> as_ByteSize a > gl_MaxObjectBytes l - ts_total s
       then Inl (Errorf ''asset set exceeds blob or object byte bound'' [])
       else Inr (s\<lparr>ts_assets := (as_SHA256 a, as_ByteSize a) # ts_assets s, ts_total := ts_total s + as_ByteSize a\<rparr>))"

definition asset_step :: "Limits \<Rightarrow> AssetRef \<Rightarrow> tree_state step" where
  "asset_step l a s = (case AssetRef_Validate a of Some e \<Rightarrow> Inl e | None \<Rightarrow>
     if (case map_of (ts_paths s) (as_Path a) of None \<Rightarrow> False | Some old \<Rightarrow> old \<noteq> as_SHA256 a)
     then Inl (Errorf ''conflicting hashes for logical path'' [])
     else known_size l a (s\<lparr>ts_paths := (as_Path a, as_SHA256 a) # ts_paths s\<rparr>))"

definition row_step :: "int \<Rightarrow> tree_state step" where
  "row_step n s = (if n > ts_rows s then Inl (Errorf ''null array or collection exceeds row bound'' [])
     else Inr (s\<lparr>ts_rows := ts_rows s - n\<rparr>))"

definition string_step :: "string \<Rightarrow> tree_state step" where
  "string_step x s =
    (if int (length x) > ts_strings s then Inl (Errorf ''decoded strings exceed JSON byte bound'' [])
     else if \<not> ValidString x then Inl (Errorf ''invalid UTF-8 string'' [])
     else Inr (s\<lparr>ts_strings := ts_strings s - int (length x)\<rparr>))"

fun tree_walk :: "Limits \<Rightarrow> bool \<Rightarrow> gval \<Rightarrow> tree_state step" where
  "tree_walk l nullable GNil = steps []"
| "tree_walk l nullable (GPtr v) = tree_walk l nullable v"
| "tree_walk l nullable (GDigest d) = check_step (Digest_Validate d)"
| "tree_walk l nullable (GAsset a) = steps [asset_step l a, string_step (as_Path a), check_step (Digest_Validate (as_SHA256 a))]"
| "tree_walk l nullable (GSpan x) = steps [check_step (Span_Validate x), check_step (Digest_Validate (sp_ArtifactHash x)),
     string_step (sp_BlockID x), string_step (sp_Space x), string_step (sp_Object x), string_step (sp_Member x),
     string_step (sp_ReasonCode x)]"
| "tree_walk l nullable (GStruct fs) = steps (map (\<lambda>(n, v). tree_walk l nullable v) fs)"
| "tree_walk l nullable (GSlice None) =
    (if nullable then row_step 0 else check_step (Some (Errorf ''null array or collection exceeds row bound'' [])))"
| "tree_walk l nullable (GSlice (Some vs)) = steps (row_step (int (length vs)) # map (tree_walk l nullable) vs)"
| "tree_walk l nullable (GString x) = string_step x"
| "tree_walk l nullable (GBool b) = steps []"
| "tree_walk l nullable (GInt i) = steps []"

definition tree_start :: "Limits \<Rightarrow> tree_state" where
  "tree_start l = \<lparr>ts_rows = gl_MaxRows l, ts_strings = gl_MaxJSONBytes l, ts_assets = [], ts_paths = [], ts_total = 0\<rparr>"

definition validateTrees :: "Limits \<Rightarrow> bool \<Rightarrow> gval list \<Rightarrow> check" where
  "validateTrees l nullable values =
     outcome (steps (map (\<lambda>v s. tree_walk l nullable v (s\<lparr>ts_paths := []\<rparr>)) values) (tree_start l))"

definition validateTree :: "gval \<Rightarrow> Limits \<Rightarrow> check" where
  "validateTree v l = validateTrees l False [v]"

section \<open>rootBounds\<close>

definition Hash :: "nat list \<Rightarrow> Digest" where
  "Hash bytes = EncodeToString (sha256 (map char_of_byte bytes))"

definition ReportSentinel :: AssetRef where
  "ReportSentinel = \<lparr>as_Path = ''reports/self'', as_SHA256 = replicate 64 CHR ''0'', as_ByteSize = 0\<rparr>"

record root_state =
  rs_assets :: "(Digest \<times> int) list"
  rs_total :: int

definition root_asset :: "Limits \<Rightarrow> Digest \<Rightarrow> AssetRef \<Rightarrow> root_state step" where
  "root_asset l root a s =
    (if a = ReportSentinel then Inr s
     else if as_SHA256 a = root then Inl (Errorf ''root cannot reference itself'' [])
     else if map_of (rs_assets s) (as_SHA256 a) = None
     then (if int (length (rs_assets s)) \<ge> gl_MaxBlobs l \<or> as_ByteSize a > gl_MaxObjectBytes l - rs_total s
           then Inl (Errorf ''root and dependencies exceed blob or byte bound'' [])
           else Inr (s\<lparr>rs_assets := (as_SHA256 a, as_ByteSize a) # rs_assets s, rs_total := rs_total s + as_ByteSize a\<rparr>))
     else Inr s)"

fun root_walk :: "Limits \<Rightarrow> Digest \<Rightarrow> gval \<Rightarrow> root_state step" where
  "root_walk l root (GPtr v) = root_walk l root v"
| "root_walk l root (GAsset a) = root_asset l root a"
| "root_walk l root (GStruct fs) = steps (map (\<lambda>(n, v). root_walk l root v) fs)"
| "root_walk l root (GSlice (Some vs)) = steps (map (root_walk l root) vs)"
| "root_walk l root _ = steps []"

definition rootBounds :: "gval \<Rightarrow> nat list \<Rightarrow> Limits \<Rightarrow> check" where
  "rootBounds v bytes l =
    (let root = Hash bytes; total = int (length bytes) in
     if total > gl_MaxObjectBytes l then Some (Errorf ''root exceeds object byte bound'' [])
     else outcome (root_walk l root v \<lparr>rs_assets = [(root, total)], rs_total = total\<rparr>))"

section \<open>Encode\<close>

text \<open>
  A codec of a format: its limits, its validator, the reflection of its type, and the JSON it
  marshals to (the reflection's unless the codec brings its own).
\<close>

record 'a Codec =
  cd_limits :: Limits
  cd_validate :: "'a \<Rightarrow> check"
  cd_reflect :: "'a \<Rightarrow> gval"
  cd_marshal :: "('a \<Rightarrow> nat list) option"

definition codec_bytes :: "'a Codec \<Rightarrow> 'a \<Rightarrow> nat list" where
  "codec_bytes c v = (case cd_marshal c of None \<Rightarrow> json_value (erase (cd_reflect c v)) | Some f \<Rightarrow> f v)"

definition Encode :: "'a Codec \<Rightarrow> 'a \<Rightarrow> gerr + nat list \<times> Digest" where
  "Encode c v =
    (case firsterr [
       Limits_Validate (cd_limits c),
       validateTree (cd_reflect c v) (cd_limits c),
       cd_validate c v,
       fails (int (length (codec_bytes c v)) > gl_MaxJSONBytes (cd_limits c)) (Errorf ''format exceeds JSON byte bound'' []),
       rootBounds (cd_reflect c v) (codec_bytes c v) (cd_limits c)] of
     Some e \<Rightarrow> Inl e
   | None \<Rightarrow> Inr (codec_bytes c v, Hash (codec_bytes c v)))"

end
