(* ===== verification/Formats_Closure.thy ===== *)
theory Formats_Closure
  imports Formats_Tree
begin

text \<open>
  What an encoded format has shown of itself: the walks of \<open>codec.go\<close> accept exactly the values
  whose rows, strings and referenced objects stay within the limits, whatever the order in which
  the objects are met.
\<close>

section \<open>A walk as a sequence of steps\<close>

lemma steps_append: "steps (fs @ gs) s = (case steps fs s of Inl e \<Rightarrow> Inl e | Inr s' \<Rightarrow> steps gs s')"
  by (induction fs arbitrary: s) (auto split: sum.splits)

lemma steps_concat: "steps (concat fss) s = steps (map steps fss) s"
  by (induction fss arbitrary: s) (auto simp: steps_append split: sum.splits)

lemma steps_nested:
  assumes "\<And>x. x \<in> set xs \<Longrightarrow> f x = steps (g x)"
  shows "steps (map f xs) = steps (concat (map g xs))"
proof -
  have "map f xs = map steps (map g xs)" using assms by simp
  then show ?thesis by (intro ext) (simp only: steps_concat)
qed

lemma steps_single: "steps [f] = f"
  by (rule ext) (simp split: sum.split)

datatype leaf = LCheck check | LAsset AssetRef | LString string | LRows int

fun leaf_step :: "Limits \<Rightarrow> leaf \<Rightarrow> tree_state step" where
  "leaf_step l (LCheck c) = check_step c"
| "leaf_step l (LAsset a) = asset_step l a"
| "leaf_step l (LString x) = string_step x"
| "leaf_step l (LRows n) = row_step n"

fun leaves :: "bool \<Rightarrow> gval \<Rightarrow> leaf list" where
  "leaves nullable GNil = []"
| "leaves nullable (GPtr v) = leaves nullable v"
| "leaves nullable (GDigest d) = [LCheck (Digest_Validate d)]"
| "leaves nullable (GAsset a) = [LAsset a, LString (as_Path a), LCheck (Digest_Validate (as_SHA256 a))]"
| "leaves nullable (GSpan x) = [LCheck (Span_Validate x), LCheck (Digest_Validate (sp_ArtifactHash x)),
     LString (sp_BlockID x), LString (sp_Space x), LString (sp_Object x), LString (sp_Member x), LString (sp_ReasonCode x)]"
| "leaves nullable (GStruct fs) = concat (map (\<lambda>(n, v). leaves nullable v) fs)"
| "leaves nullable (GSlice None) =
    [if nullable then LRows 0 else LCheck (Some (Errorf ''null array or collection exceeds row bound'' []))]"
| "leaves nullable (GSlice (Some vs)) = LRows (int (length vs)) # concat (map (leaves nullable) vs)"
| "leaves nullable (GString x) = [LString x]"
| "leaves nullable (GBool b) = []"
| "leaves nullable (GInt i) = []"

lemma tree_walk_leaves: "tree_walk l nullable v = steps (map (leaf_step l) (leaves nullable v))"
proof (induction nullable v rule: leaves.induct)
  case (6 nullable fs)
  have "steps (map (\<lambda>p. tree_walk l nullable (snd p)) fs) =
      steps (concat (map (\<lambda>p. map (leaf_step l) (leaves nullable (snd p))) fs))"
    using "6.IH" by (intro steps_nested) auto
  then show ?case by (simp add: map_concat comp_def case_prod_unfold)
next
  case (8 nullable vs)
  have "steps (map (tree_walk l nullable) vs) = steps (concat (map (\<lambda>v. map (leaf_step l) (leaves nullable v)) vs))"
    using "8.IH" by (intro steps_nested) auto
  then show ?case by (intro ext) (simp add: map_concat comp_def split: sum.split)
qed (auto simp: steps_single simp del: steps.simps(2))

section \<open>What a value refers to\<close>

fun leaf_ok :: "leaf \<Rightarrow> bool" where
  "leaf_ok (LCheck c) = (c = None)"
| "leaf_ok (LAsset a) = (AssetRef_Validate a = None)"
| "leaf_ok (LString x) = ValidString x"
| "leaf_ok (LRows n) = True"

fun leaf_rows :: "leaf \<Rightarrow> int" where
  "leaf_rows (LRows n) = n"
| "leaf_rows _ = 0"

fun leaf_bytes :: "leaf \<Rightarrow> int" where
  "leaf_bytes (LString x) = int (length x)"
| "leaf_bytes _ = 0"

definition object_of :: "AssetRef \<Rightarrow> Digest \<times> int" where
  "object_of a = (as_SHA256 a, as_ByteSize a)"

definition path_of :: "AssetRef \<Rightarrow> string \<times> Digest" where
  "path_of a = (as_Path a, as_SHA256 a)"

fun leaf_assets :: "leaf \<Rightarrow> AssetRef list" where
  "leaf_assets (LAsset a) = [a]"
| "leaf_assets _ = []"

definition assets_of :: "leaf list \<Rightarrow> AssetRef set" where
  "assets_of xs = set (concat (map leaf_assets xs))"

lemma assets_of_simps [simp]:
  "assets_of [] = {}" "assets_of (x # xs) = set (leaf_assets x) \<union> assets_of xs"
  "assets_of (xs @ ys) = assets_of xs \<union> assets_of ys"
  by (auto simp: assets_of_def)

lemma finite_assets_of [simp]: "finite (assets_of xs)"
  by (simp add: assets_of_def)

text \<open>The objects of a closure: one size per hash, and their number and total within the limits.\<close>

definition closure_fits :: "Limits \<Rightarrow> (Digest \<times> int) set \<Rightarrow> bool" where
  "closure_fits l R \<longleftrightarrow> single_valued R \<and> int (card R) \<le> gl_MaxBlobs l \<and> (\<Sum>(h, n)\<in>R. n) \<le> gl_MaxObjectBytes l"

definition table_ok :: "Limits \<Rightarrow> (Digest \<times> int) list \<Rightarrow> int \<Rightarrow> bool" where
  "table_ok l assets t \<longleftrightarrow> distinct (map fst assets) \<and> t = (\<Sum>(h, n)\<in>set assets. n)
     \<and> (\<forall>(h, n) \<in> set assets. 0 \<le> n) \<and> int (length assets) \<le> gl_MaxBlobs l \<and> t \<le> gl_MaxObjectBytes l"

lemma table_card: "distinct (map fst assets) \<Longrightarrow> card (set assets) = length assets"
  by (metis distinct_card distinct_map)

lemma table_fits: "table_ok l assets t \<Longrightarrow> closure_fits l (set assets)"
  by (auto simp: table_ok_def closure_fits_def table_card single_valued_def dest: eq_key_imp_eq_value)

lemma table_known: "distinct (map fst assets) \<Longrightarrow> map_of assets h = Some n \<longleftrightarrow> (h, n) \<in> set assets"
  by (rule map_of_eq_Some_iff)

lemma table_new:
  assumes "table_ok l assets t" "map_of assets h = None" "0 \<le> n"
    "int (length assets) < gl_MaxBlobs l" "n \<le> gl_MaxObjectBytes l - t"
  shows "table_ok l ((h, n) # assets) (t + n)"
proof -
  have "(h, n) \<notin> set assets" using assms(2) by (auto simp: map_of_eq_None_iff image_iff)
  with assms show ?thesis by (auto simp: table_ok_def map_of_eq_None_iff image_iff)
qed

lemma closure_fits_mono:
  assumes "closure_fits l R" "S \<subseteq> R" "finite R" "\<forall>(k, m) \<in> R. 0 \<le> m"
  shows "closure_fits l S"
proof -
  have "card S \<le> card R" using assms(2,3) by (rule card_mono [rotated])
  moreover have "(\<Sum>(k, m)\<in>S. m) \<le> (\<Sum>(k, m)\<in>R. m)" using assms(2-4) by (intro sum_mono2) auto
  moreover have "single_valued S" using assms(1,2) by (auto simp: closure_fits_def intro: single_valued_subset)
  ultimately show ?thesis using assms(1) by (simp add: closure_fits_def)
qed

lemma table_refused:
  assumes "table_ok l assets t" "map_of assets h = None"
    "int (length assets) \<ge> gl_MaxBlobs l \<or> n > gl_MaxObjectBytes l - t"
    "insert (h, n) (set assets) \<subseteq> R" "finite R" "\<forall>(k, m) \<in> R. 0 \<le> m"
  shows "\<not> closure_fits l R"
proof
  assume "closure_fits l R"
  have new: "(h, n) \<notin> set assets" using assms(2) by (auto simp: map_of_eq_None_iff image_iff)
  have "card (insert (h, n) (set assets)) \<le> card R" using assms(4,5) by (rule card_mono [rotated])
  then have "int (length assets) + 1 \<le> int (card R)"
    using new assms(1) by (simp add: table_ok_def table_card)
  moreover have "(\<Sum>(k, m)\<in>insert (h, n) (set assets). m) \<le> (\<Sum>(k, m)\<in>R. m)"
    using assms(4-6) by (intro sum_mono2) auto
  then have "t + n \<le> (\<Sum>(k, m)\<in>R. m)" using new assms(1) by (simp add: table_ok_def)
  ultimately show False using \<open>closure_fits l R\<close> assms(3) by (auto simp: closure_fits_def)
qed

section \<open>The walk of validateTrees\<close>

definition walk_good :: "Limits \<Rightarrow> tree_state \<Rightarrow> bool" where
  "walk_good l s \<longleftrightarrow> table_ok l (ts_assets s) (ts_total s) \<and> single_valued (set (ts_paths s))
     \<and> 0 \<le> ts_rows s \<and> 0 \<le> ts_strings s"

definition walk_fits :: "Limits \<Rightarrow> tree_state \<Rightarrow> leaf list \<Rightarrow> bool" where
  "walk_fits l s xs \<longleftrightarrow> list_all leaf_ok xs \<and> (\<Sum>x\<leftarrow>xs. leaf_rows x) \<le> ts_rows s
     \<and> (\<Sum>x\<leftarrow>xs. leaf_bytes x) \<le> ts_strings s
     \<and> single_valued (set (ts_paths s) \<union> path_of ` assets_of xs)
     \<and> closure_fits l (set (ts_assets s) \<union> object_of ` assets_of xs)"

definition walk_after :: "tree_state \<Rightarrow> leaf list \<Rightarrow> tree_state \<Rightarrow> bool" where
  "walk_after s xs s' \<longleftrightarrow> ts_rows s' = ts_rows s - (\<Sum>x\<leftarrow>xs. leaf_rows x)
     \<and> ts_strings s' = ts_strings s - (\<Sum>x\<leftarrow>xs. leaf_bytes x)
     \<and> set (ts_paths s') = set (ts_paths s) \<union> path_of ` assets_of xs
     \<and> set (ts_assets s') = set (ts_assets s) \<union> object_of ` assets_of xs"

definition rows_nonneg :: "leaf list \<Rightarrow> bool" where
  "rows_nonneg xs \<longleftrightarrow> (\<forall>x \<in> set xs. 0 \<le> leaf_rows x)"

lemma leaves_nonneg: "rows_nonneg (leaves nullable v)"
  by (induction nullable v rule: leaves.induct) (auto simp: rows_nonneg_def)

lemma leaf_sums_nonneg:
  assumes "rows_nonneg xs"
  shows "0 \<le> (\<Sum>x\<leftarrow>xs. leaf_rows x)" "0 \<le> (\<Sum>x\<leftarrow>xs. leaf_bytes x)"
proof -
  show "0 \<le> (\<Sum>x\<leftarrow>xs. leaf_rows x)" using assms by (intro sum_list_nonneg) (auto simp: rows_nonneg_def)
  have "0 \<le> leaf_bytes x" for x by (cases x) auto
  then show "0 \<le> (\<Sum>x\<leftarrow>xs. leaf_bytes x)" by (intro sum_list_nonneg) auto
qed

lemma asset_size_nonneg: "AssetRef_Validate a = None \<Longrightarrow> 0 \<le> as_ByteSize a"
  by (simp add: AssetRef_Validate_def)

lemma leaf_assets_ok: "list_all leaf_ok xs \<Longrightarrow> a \<in> assets_of xs \<Longrightarrow> AssetRef_Validate a = None"
  by (induction xs) (auto elim!: leaf_ok.elims)

lemma path_known: "single_valued (set ps) \<Longrightarrow> map_of ps p = Some h \<longleftrightarrow> (p, h) \<in> set ps"
  by (induction ps) (auto simp: single_valued_def split: if_splits)

text \<open>One asset: refused iff nothing that contains it fits.\<close>

lemma asset_step_refused:
  assumes "walk_good l s" "asset_step l a s = Inl e" "list_all leaf_ok xs" "AssetRef_Validate a = None"
  shows "\<not> walk_fits l s (LAsset a # xs)"
proof
  assume f: "walk_fits l s (LAsset a # xs)"
  let ?R = "set (ts_assets s) \<union> object_of ` assets_of (LAsset a # xs)"
  have t: "table_ok l (ts_assets s) (ts_total s)" and p: "single_valued (set (ts_paths s))"
    using assms(1) by (simp_all add: walk_good_def)
  have sv: "single_valued ?R" "closure_fits l ?R"
    "single_valued (set (ts_paths s) \<union> path_of ` assets_of (LAsset a # xs))"
    using f by (simp_all add: walk_fits_def closure_fits_def)
  have paths: "h = as_SHA256 a" if "map_of (ts_paths s) (as_Path a) = Some h" for h
  proof (rule single_valuedD [OF sv(3)])
    show "(as_Path a, h) \<in> set (ts_paths s) \<union> path_of ` assets_of (LAsset a # xs)"
      using that by (simp add: path_known [OF p])
    show "(as_Path a, as_SHA256 a) \<in> set (ts_paths s) \<union> path_of ` assets_of (LAsset a # xs)"
      by (simp add: path_of_def)
  qed
  have nonneg: "\<forall>(k, m) \<in> ?R. 0 \<le> m"
    using t assms(4) asset_size_nonneg leaf_assets_ok [OF assms(3)] by (auto simp: table_ok_def object_of_def)
  show False
  proof (cases "map_of (ts_assets s) (as_SHA256 a)")
    case (Some n)
    then have "(as_SHA256 a, n) \<in> ?R" "(as_SHA256 a, as_ByteSize a) \<in> ?R"
      using t by (simp_all add: table_ok_def object_of_def)
    then have "n = as_ByteSize a" by (rule single_valuedD [OF sv(1)])
    then show False using Some paths assms(2,4)
      by (auto simp: asset_step_def known_size_def split: if_splits option.splits)
  next
    case None
    then have "int (length (ts_assets s)) \<ge> gl_MaxBlobs l \<or> as_ByteSize a > gl_MaxObjectBytes l - ts_total s"
      using paths assms(2,4) by (auto simp: asset_step_def known_size_def split: if_splits option.splits)
    from table_refused [OF t None this, of ?R] nonneg sv(2) show False by (auto simp: object_of_def)
  qed
qed

lemma asset_step_granted:
  assumes "walk_good l s" "asset_step l a s = Inr s'"
  shows "walk_good l s' \<and> AssetRef_Validate a = None \<and> ts_rows s' = ts_rows s \<and> ts_strings s' = ts_strings s
    \<and> set (ts_paths s') = insert (path_of a) (set (ts_paths s))
    \<and> set (ts_assets s') = insert (object_of a) (set (ts_assets s))"
proof -
  have t: "table_ok l (ts_assets s) (ts_total s)" and p: "single_valued (set (ts_paths s))"
    using assms(1) by (simp_all add: walk_good_def)
  let ?s = "s\<lparr>ts_paths := (as_Path a, as_SHA256 a) # ts_paths s\<rparr>"
  have v: "AssetRef_Validate a = None" and k: "known_size l a ?s = Inr s'"
    and old: "\<And>h. map_of (ts_paths s) (as_Path a) = Some h \<Longrightarrow> h = as_SHA256 a"
    using assms(2) by (auto simp: asset_step_def split: if_splits option.splits)
  have "single_valued (insert (path_of a) (set (ts_paths s)))"
    using old p unfolding path_known [OF p] by (auto simp: single_valued_def path_of_def)
  moreover have "table_ok l (ts_assets s') (ts_total s') \<and> set (ts_assets s') = insert (object_of a) (set (ts_assets s))
      \<and> ts_paths s' = ts_paths ?s \<and> ts_rows s' = ts_rows s \<and> ts_strings s' = ts_strings s"
  proof (cases "map_of (ts_assets s) (as_SHA256 a)")
    case None
    then have "s' = ?s\<lparr>ts_assets := (as_SHA256 a, as_ByteSize a) # ts_assets s, ts_total := ts_total s + as_ByteSize a\<rparr>"
      and "int (length (ts_assets s)) < gl_MaxBlobs l" "as_ByteSize a \<le> gl_MaxObjectBytes l - ts_total s"
      using k by (auto simp: known_size_def split: if_splits)
    with table_new [OF t None] asset_size_nonneg [OF v] show ?thesis by (simp add: object_of_def)
  next
    case (Some n)
    then have "s' = ?s" "n = as_ByteSize a" using k by (auto simp: known_size_def split: if_splits)
    with Some t show ?thesis by (auto simp: object_of_def table_ok_def)
  qed
  ultimately show ?thesis using v assms(1) by (auto simp: walk_good_def path_of_def)
qed

lemma walk_leaves:
  assumes "walk_good l s" "rows_nonneg xs"
  shows "(if walk_fits l s xs then \<exists>s'. steps (map (leaf_step l) xs) s = Inr s' \<and> walk_good l s' \<and> walk_after s xs s'
     else \<exists>e. steps (map (leaf_step l) xs) s = Inl e)"
  using assms
proof (induction xs arbitrary: s)
  case Nil
  then show ?case
    by (auto simp: walk_fits_def walk_good_def walk_after_def table_fits)
next
  case (Cons x xs)
  have nn: "rows_nonneg xs" "0 \<le> leaf_rows x" using Cons.prems(2) by (auto simp: rows_nonneg_def)
  note sums = leaf_sums_nonneg [OF nn(1)]
  show ?case
  proof (cases "leaf_step l x s")
    case (Inl e)
    have "\<not> walk_fits l s (x # xs)"
    proof (cases x)
      case (LAsset a)
      with Inl Cons.prems(1) asset_step_refused [of l s a e xs] show ?thesis
        by (auto simp: walk_fits_def)
    qed (use Inl sums in \<open>auto simp: walk_fits_def check_step_def string_step_def row_step_def split: option.splits if_splits\<close>)
    with Inl show ?thesis by simp
  next
    case (Inr s')
    have "walk_good l s' \<and> (walk_fits l s (x # xs) \<longleftrightarrow> walk_fits l s' xs)
        \<and> (\<forall>s''. walk_after s' xs s'' \<longrightarrow> walk_after s (x # xs) s'')"
    proof (cases x)
      case (LAsset a)
      with Inr asset_step_granted [OF Cons.prems(1), of a s'] show ?thesis
        by (simp add: walk_fits_def walk_after_def)
    qed (use Inr Cons.prems(1) in \<open>auto simp: walk_fits_def walk_good_def walk_after_def check_step_def
        string_step_def row_step_def split: option.splits if_splits\<close>)
    with Cons.IH [of s'] nn(1) Inr show ?thesis by (cases "walk_fits l s' xs") auto
  qed
qed

text \<open>\<open>validateTrees\<close>, for one value and for several.\<close>

definition references :: "bool \<Rightarrow> gval \<Rightarrow> AssetRef set" where
  "references nullable v = assets_of (leaves nullable v)"

definition tree_rows :: "bool \<Rightarrow> gval \<Rightarrow> int" where
  "tree_rows nullable v = (\<Sum>x\<leftarrow>leaves nullable v. leaf_rows x)"

definition tree_bytes :: "bool \<Rightarrow> gval \<Rightarrow> int" where
  "tree_bytes nullable v = (\<Sum>x\<leftarrow>leaves nullable v. leaf_bytes x)"

definition tree_ok :: "bool \<Rightarrow> gval \<Rightarrow> bool" where
  "tree_ok nullable v \<longleftrightarrow> list_all leaf_ok (leaves nullable v) \<and> single_valued (path_of ` references nullable v)"

lemma tree_start_good: "Limits_Validate l = None \<Longrightarrow> walk_good l (tree_start l)"
  by (simp add: walk_good_def tree_start_def table_ok_def Limits_Validate_def)

lemma tree_sums_nonneg: "0 \<le> tree_rows nullable v" "0 \<le> tree_bytes nullable v"
  using leaf_sums_nonneg [OF leaves_nonneg] by (simp_all add: tree_rows_def tree_bytes_def)

lemma tree_steps:
  assumes "walk_good l s"
  shows "(if (\<forall>v \<in> set vs. tree_ok nullable v) \<and> (\<Sum>v\<leftarrow>vs. tree_rows nullable v) \<le> ts_rows s
        \<and> (\<Sum>v\<leftarrow>vs. tree_bytes nullable v) \<le> ts_strings s
        \<and> closure_fits l (set (ts_assets s) \<union> object_of ` (\<Union>v \<in> set vs. references nullable v))
      then \<exists>s'. steps (map (\<lambda>v s. tree_walk l nullable v (s\<lparr>ts_paths := []\<rparr>)) vs) s = Inr s'
      else \<exists>e. steps (map (\<lambda>v s. tree_walk l nullable v (s\<lparr>ts_paths := []\<rparr>)) vs) s = Inl e)"
  using assms
proof (induction vs arbitrary: s)
  case Nil
  then show ?case by (auto simp: walk_good_def table_fits)
next
  case (Cons v vs)
  have g: "walk_good l (s\<lparr>ts_paths := []\<rparr>)" using Cons.prems by (simp add: walk_good_def)
  have sums: "0 \<le> (\<Sum>v\<leftarrow>vs. tree_rows nullable v)" "0 \<le> (\<Sum>v\<leftarrow>vs. tree_bytes nullable v)"
    by (intro sum_list_nonneg, auto simp: tree_sums_nonneg)+
  let ?R = "set (ts_assets s) \<union> object_of ` (\<Union>v \<in> set (v # vs). references nullable v)"
  let ?S = "set (ts_assets s) \<union> object_of ` references nullable v"
  note W = walk_leaves [OF g leaves_nonneg, of nullable v]
  show ?case
  proof (cases "walk_fits l (s\<lparr>ts_paths := []\<rparr>) (leaves nullable v)")
    case True
    with W obtain s' where s': "tree_walk l nullable v (s\<lparr>ts_paths := []\<rparr>) = Inr s'" "walk_good l s'"
      "walk_after (s\<lparr>ts_paths := []\<rparr>) (leaves nullable v) s'" by (auto simp: tree_walk_leaves)
    have "tree_ok nullable v" using True by (simp add: walk_fits_def tree_ok_def references_def)
    with s' Cons.IH [OF s'(2)] show ?thesis
      by (simp add: walk_after_def tree_rows_def tree_bytes_def references_def image_Un Un_assoc algebra_simps)
  next
    case False
    with W obtain e where "tree_walk l nullable v (s\<lparr>ts_paths := []\<rparr>) = Inl e" by (auto simp: tree_walk_leaves)
    moreover have "closure_fits l ?S" if "closure_fits l ?R" "tree_ok nullable v" "\<forall>v \<in> set vs. tree_ok nullable v"
    proof (rule closure_fits_mono [OF that(1)])
      show "\<forall>(k, m) \<in> ?R. 0 \<le> m"
        using that Cons.prems asset_size_nonneg leaf_assets_ok
        by (auto simp: walk_good_def table_ok_def object_of_def tree_ok_def references_def)
    qed (auto simp: references_def)
    ultimately show ?thesis using False sums
      by (auto simp: walk_fits_def tree_ok_def tree_rows_def tree_bytes_def references_def)
  qed
qed

lemma validateTrees_None:
  assumes "Limits_Validate l = None"
  shows "validateTrees l nullable vs = None \<longleftrightarrow> (\<forall>v \<in> set vs. tree_ok nullable v)
    \<and> (\<Sum>v\<leftarrow>vs. tree_rows nullable v) \<le> gl_MaxRows l \<and> (\<Sum>v\<leftarrow>vs. tree_bytes nullable v) \<le> gl_MaxJSONBytes l
    \<and> closure_fits l (object_of ` (\<Union>v \<in> set vs. references nullable v))"
  using tree_steps [OF tree_start_good [OF assms], of vs nullable]
  by (auto simp: validateTrees_def tree_start_def split: if_splits)

section \<open>The walk of rootBounds\<close>

fun root_refs :: "gval \<Rightarrow> AssetRef list" where
  "root_refs (GPtr v) = root_refs v"
| "root_refs (GAsset a) = [a]"
| "root_refs (GStruct fs) = concat (map (\<lambda>(n, v). root_refs v) fs)"
| "root_refs (GSlice (Some vs)) = concat (map root_refs vs)"
| "root_refs _ = []"

lemma root_walk_refs: "root_walk l root v = steps (map (root_asset l root) (root_refs v))"
proof (induction l root v rule: root_walk.induct)
  case (3 l root fs)
  have "steps (map (\<lambda>p. root_walk l root (snd p)) fs) =
      steps (concat (map (\<lambda>p. map (root_asset l root) (root_refs (snd p))) fs))"
    using "3.IH" by (intro steps_nested) auto
  then show ?case by (simp add: map_concat comp_def case_prod_unfold)
next
  case (4 l root vs)
  have "steps (map (root_walk l root) vs) = steps (concat (map (\<lambda>v. map (root_asset l root) (root_refs v)) vs))"
    using "4.IH" by (intro steps_nested) auto
  then show ?case by (simp add: map_concat comp_def)
qed (auto simp: steps_single simp del: steps.simps(2))

lemma assets_of_concat: "assets_of (concat xss) = (\<Union>xs \<in> set xss. assets_of xs)"
  by (induction xss) auto

lemma set_root_refs: "set (root_refs v) = references nullable v"
  by (induction nullable v rule: leaves.induct) (auto simp: references_def assets_of_concat)

definition dependencies :: "AssetRef set \<Rightarrow> (Digest \<times> int) set" where
  "dependencies A = object_of ` (A - {ReportSentinel})"

lemma dependencies_simps [simp]:
  "dependencies {} = {}"
  "dependencies (insert a A) = (if a = ReportSentinel then dependencies A else insert (object_of a) (dependencies A))"
  by (auto simp: dependencies_def)

lemma root_asset_cases:
  "root_asset l root ReportSentinel s = Inr s"
  "a \<noteq> ReportSentinel \<Longrightarrow> as_SHA256 a = root \<Longrightarrow> root_asset l root a s = Inl (Errorf ''root cannot reference itself'' [])"
  "a \<noteq> ReportSentinel \<Longrightarrow> as_SHA256 a \<noteq> root \<Longrightarrow> map_of (rs_assets s) (as_SHA256 a) = Some n \<Longrightarrow> root_asset l root a s = Inr s"
  by (simp_all add: root_asset_def)

lemma root_steps:
  assumes "table_ok l (rs_assets s) (rs_total s)" "\<forall>a \<in> set as. 0 \<le> as_ByteSize a"
    "root \<notin> fst ` dependencies (set as) \<Longrightarrow> single_valued (set (rs_assets s) \<union> dependencies (set as))"
  shows "(if root \<notin> fst ` dependencies (set as) \<and> closure_fits l (set (rs_assets s) \<union> dependencies (set as))
      then \<exists>s'. steps (map (root_asset l root) as) s = Inr s'
      else \<exists>e. steps (map (root_asset l root) as) s = Inl e)"
  using assms
proof (induction as arbitrary: s)
  case Nil
  then show ?case by (auto simp: table_fits)
next
  case (Cons a as)
  consider "a = ReportSentinel" | "a \<noteq> ReportSentinel" "as_SHA256 a = root"
    | "a \<noteq> ReportSentinel \<and> as_SHA256 a \<noteq> root" by blast
  then show ?case
  proof cases
    case 1
    with Cons.IH [OF Cons.prems(1)] Cons.prems(2,3) show ?thesis by (simp add: root_asset_cases)
  next
    case 2
    then show ?thesis by (simp add: root_asset_cases object_of_def)
  next
    case False: 3
    let ?R = "insert (object_of a) (set (rs_assets s) \<union> dependencies (set as))"
    have R: "set (rs_assets s) \<union> dependencies (set (a # as)) = ?R" using False by simp
    have sv: "single_valued ?R" if "root \<notin> fst ` dependencies (set as)"
      using that Cons.prems(3) False by (auto simp: object_of_def)
    have nonneg: "\<forall>(k, m) \<in> ?R. 0 \<le> m"
      using Cons.prems(1,2) by (auto simp: table_ok_def dependencies_def object_of_def)
    have fin: "finite ?R" by (simp add: dependencies_def)
    show ?thesis
    proof (cases "map_of (rs_assets s) (as_SHA256 a)")
      case (Some n)
      then have known: "(as_SHA256 a, n) \<in> set (rs_assets s)" using Cons.prems(1) by (simp add: table_ok_def)
      have same: "?R = set (rs_assets s) \<union> dependencies (set as)" if "root \<notin> fst ` dependencies (set as)"
        using known single_valuedD [OF sv [OF that], of "as_SHA256 a" n "as_ByteSize a"] by (auto simp: object_of_def)
      have "single_valued (set (rs_assets s) \<union> dependencies (set as))" if "root \<notin> fst ` dependencies (set as)"
        using sv [OF that] same [OF that] by simp
      from Cons.IH [OF Cons.prems(1) _ this] Cons.prems(2) same Some False show ?thesis
        unfolding R by (cases "root \<in> fst ` dependencies (set as)") (auto simp add: root_asset_cases object_of_def)
    next
      case None
      show ?thesis
      proof (cases "int (length (rs_assets s)) \<ge> gl_MaxBlobs l \<or> as_ByteSize a > gl_MaxObjectBytes l - rs_total s")
        case True
        have "\<not> closure_fits l ?R"
          by (rule table_refused [OF Cons.prems(1) None True _ fin nonneg]) (auto simp: object_of_def)
        moreover have "\<exists>e. root_asset l root a s = Inl e" using None True False by (simp add: root_asset_def)
        ultimately show ?thesis unfolding R by auto
      next
        case fits: False
        let ?s = "s\<lparr>rs_assets := (as_SHA256 a, as_ByteSize a) # rs_assets s, rs_total := rs_total s + as_ByteSize a\<rparr>"
        have "table_ok l (rs_assets ?s) (rs_total ?s)"
          using table_new [OF Cons.prems(1) None] fits Cons.prems(2) by simp
        moreover have "root_asset l root a s = Inr ?s" using None fits False by (simp add: root_asset_def)
        moreover have "insert (as_SHA256 a, as_ByteSize a) (set (rs_assets s) \<union> dependencies (set as)) = ?R"
          by (simp add: object_of_def)
        moreover have "root \<notin> fst ` dependencies (set (a # as)) \<longleftrightarrow> root \<notin> fst ` dependencies (set as)"
          using False by (auto simp: object_of_def)
        ultimately show ?thesis using Cons.IH [of ?s] Cons.prems(2) sv unfolding R by simp
      qed
    qed
  qed
qed

lemma single_valued_fresh:
  assumes "single_valued D" "h \<notin> fst ` D"
  shows "single_valued (insert (h, n) D)"
proof (rule single_valuedI)
  fix x y z
  assume "(x, y) \<in> insert (h, n) D" "(x, z) \<in> insert (h, n) D"
  moreover have "(h, m) \<notin> D" for m using assms(2) by (metis fst_conv image_eqI)
  ultimately show "y = z" using single_valuedD [OF assms(1), of x y z] by auto
qed

lemma outcome_iff: "(if P then \<exists>s. r = Inr s else \<exists>e. r = Inl e) \<Longrightarrow> outcome r = None \<longleftrightarrow> P"
  by (auto split: if_splits)

lemma rootBounds_None:
  assumes "Limits_Validate l = None" "tree_ok nullable v" "closure_fits l (object_of ` references nullable v)"
  shows "rootBounds v bytes l = None \<longleftrightarrow> Hash bytes \<notin> fst ` dependencies (references nullable v)
    \<and> closure_fits l (insert (Hash bytes, int (length bytes)) (dependencies (references nullable v)))"
proof -
  let ?D = "dependencies (references nullable v)"
  have nonneg: "\<forall>a \<in> references nullable v. 0 \<le> as_ByteSize a"
    using assms(2) asset_size_nonneg leaf_assets_ok by (auto simp: tree_ok_def references_def)
  have D: "single_valued ?D"
    using assms(3) by (auto simp: closure_fits_def dependencies_def intro: single_valued_subset)
  show ?thesis
  proof (cases "int (length bytes) > gl_MaxObjectBytes l")
    case True
    have "\<not> closure_fits l (insert (Hash bytes, int (length bytes)) ?D)"
    proof
      assume "closure_fits l (insert (Hash bytes, int (length bytes)) ?D)"
      then have "closure_fits l {(Hash bytes, int (length bytes))}"
        by (rule closure_fits_mono) (use nonneg in \<open>auto simp: dependencies_def object_of_def references_def\<close>)
      with True show False by (simp add: closure_fits_def)
    qed
    with True show ?thesis by (simp add: rootBounds_def)
  next
    case False
    let ?s = "\<lparr>rs_assets = [(Hash bytes, int (length bytes))], rs_total = int (length bytes)\<rparr>"
    have "table_ok l (rs_assets ?s) (rs_total ?s)"
      using assms(1) False by (simp add: table_ok_def Limits_Validate_def)
    note W = root_steps [OF this, of "root_refs v" "Hash bytes", unfolded set_root_refs [of v nullable]]
    have "single_valued (set (rs_assets ?s) \<union> ?D)" if "Hash bytes \<notin> fst ` ?D"
      using single_valued_fresh [OF D that] by simp
    note outcome_iff [OF W [OF nonneg this]]
    moreover have "rootBounds v bytes l = outcome (steps (map (root_asset l (Hash bytes)) (root_refs v)) ?s)"
      using False by (simp add: rootBounds_def Let_def root_walk_refs)
    ultimately show ?thesis
      by simp
  qed
qed

section \<open>What Encode accepts\<close>

lemma check_case_Inr: "(case e of None \<Rightarrow> Inr y | Some x \<Rightarrow> Inl x) = Inr z \<longleftrightarrow> e = None \<and> z = y"
  by (cases e) auto

text \<open>
  C18 (bounds): an encoded value and everything it refers to stays within the codec's limits, and
  nothing else is refused by the two walks. Encode returns bytes exactly when the limits and the
  format's validator hold, the value is well formed with one hash per logical path, its rows and
  string bytes fit, its objects have one size per hash and fit in number and total size, and the
  root object joins them without being referenced by itself; the digest is that of the bytes. The
  order in which the walks meet the objects does not matter.
\<close>

theorem encode_bounds_closure:
  "Encode c v = Inr (bytes, digest) \<longleftrightarrow>
    (let l = cd_limits c; t = cd_reflect c v; A = references False t in
     bytes = codec_bytes c v \<and> digest = Hash bytes
     \<and> Limits_Validate l = None \<and> cd_validate c v = None
     \<and> tree_ok False t \<and> tree_rows False t \<le> gl_MaxRows l \<and> tree_bytes False t \<le> gl_MaxJSONBytes l
     \<and> int (length bytes) \<le> gl_MaxJSONBytes l
     \<and> closure_fits l (object_of ` A)
     \<and> Hash bytes \<notin> fst ` dependencies A
     \<and> closure_fits l (insert (Hash bytes, int (length bytes)) (dependencies A)))"
proof -
  let ?l = "cd_limits c" and ?t = "cd_reflect c v" and ?b = "codec_bytes c v"
  have e: "Encode c v = Inr (bytes, digest) \<longleftrightarrow> bytes = ?b \<and> digest = Hash bytes \<and> Limits_Validate ?l = None
      \<and> validateTrees ?l False [?t] = None \<and> cd_validate c v = None
      \<and> int (length ?b) \<le> gl_MaxJSONBytes ?l \<and> rootBounds ?t ?b ?l = None"
    unfolding Encode_def check_case_Inr by (auto simp add: validateTree_def not_less)
  let ?A = "references False ?t"
  have k: "validateTrees ?l False [?t] = None \<and> rootBounds ?t ?b ?l = None \<longleftrightarrow>
      (tree_ok False ?t \<and> tree_rows False ?t \<le> gl_MaxRows ?l \<and> tree_bytes False ?t \<le> gl_MaxJSONBytes ?l
       \<and> closure_fits ?l (object_of ` ?A)) \<and> Hash ?b \<notin> fst ` dependencies ?A
       \<and> closure_fits ?l (insert (Hash ?b, int (length ?b)) (dependencies ?A))" if "Limits_Validate ?l = None"
    using validateTrees_None [OF that, of False "[?t]"] rootBounds_None [OF that, of False ?t ?b] by simp blast
  show ?thesis
  proof (cases "bytes = ?b \<and> Limits_Validate ?l = None")
    case True
    then have b: "bytes = ?b" and l: "Limits_Validate ?l = None" by simp_all
    show ?thesis unfolding e Let_def unfolding b using k [OF l] by blast
  next
    case False
    then show ?thesis unfolding e Let_def by blast
  qed
qed

end
