(* ===== verification/Formats_Coverage.thy ===== *)
theory Formats_Coverage
  imports Formats_Closure "HOL-Library.Char_ord" "HOL-Library.List_Lexorder" "HOL-Library.Multiset"
begin

text \<open>
  \<open>internal/corpus/quality/formats/partition.go\<close>: the shape of gap and retained coverage, the
  partition of every text into retained and excluded byte ranges, and the resolution of span
  hashes. Go strings compare bytewise, which is the order of \<open>List_Lexorder\<close> over \<open>Char_ord\<close>.
\<close>

section \<open>sort.Slice\<close>

text \<open>
  \<open>sort.Slice\<close> as an insertion sort. Where \<open>less\<close> orders neither of two elements before the
  other, Go leaves their order open; the lemmas below hold for every sorted rearrangement.
\<close>

fun insert_by :: "('a \<Rightarrow> 'a \<Rightarrow> bool) \<Rightarrow> 'a \<Rightarrow> 'a list \<Rightarrow> 'a list" where
  "insert_by lt x [] = [x]"
| "insert_by lt x (y # ys) = (if lt x y then x # y # ys else y # insert_by lt x ys)"

definition sort_slice :: "('a \<Rightarrow> 'a \<Rightarrow> bool) \<Rightarrow> 'a list \<Rightarrow> 'a list" where
  "sort_slice lt xs = fold (insert_by lt) xs []"

section \<open>The code\<close>

record Gap =
  gap_Ordinal :: int
  gap_Scope :: string
  gap_ScopeKey :: string
  gap_ReasonCode :: string
  gap_Spans :: "Span slice"

record Retained =
  ret_Ordinal :: int
  ret_Spans :: "Span slice"

record CoverageArtifact =
  ca_Ordinal :: int
  ca_NormalizedText :: "AssetRef option"

definition gap_gval :: "Gap \<Rightarrow> gval" where
  "gap_gval g = GStruct [(''Ordinal'', GInt (gap_Ordinal g)), (''Scope'', GString (gap_Scope g)),
     (''ScopeKey'', GString (gap_ScopeKey g)), (''ReasonCode'', GString (gap_ReasonCode g)),
     (''Spans'', gslice GSpan (gap_Spans g))]"

definition retained_gval :: "Retained \<Rightarrow> gval" where
  "retained_gval r = GStruct [(''Ordinal'', GInt (ret_Ordinal r)), (''Spans'', gslice GSpan (ret_Spans r))]"

definition coverage_gval :: "CoverageArtifact \<Rightarrow> gval" where
  "coverage_gval a = GStruct [(''Ordinal'', GInt (ca_Ordinal a)), (''NormalizedText'', gpointer GAsset (ca_NormalizedText a))]"

definition gapLess :: "Gap \<Rightarrow> Gap \<Rightarrow> bool" where
  "gapLess a b =
    (if gap_Ordinal a \<noteq> gap_Ordinal b then gap_Ordinal a < gap_Ordinal b
     else if gap_Scope a \<noteq> gap_Scope b then gap_Scope a < gap_Scope b
     else if gap_ScopeKey a \<noteq> gap_ScopeKey b then gap_ScopeKey a < gap_ScopeKey b
     else gap_ReasonCode a < gap_ReasonCode b)"

text \<open>
  \<open>span.Range.Start\<close> and \<open>span.Range.End\<close>: read only of spans that \<open>coverageSpans\<close> has found to
  have a range, so the nil dereference does not arise.
\<close>

definition span_start :: "Span \<Rightarrow> int" where
  "span_start s = (case sp_Range s of None \<Rightarrow> 0 | Some r \<Rightarrow> br_Start r)"

definition span_end :: "Span \<Rightarrow> int" where
  "span_end s = (case sp_Range s of None \<Rightarrow> 0 | Some r \<Rightarrow> br_End r)"

definition spanLess :: "Span \<Rightarrow> Span \<Rightarrow> bool" where
  "spanLess a b =
    (if sp_ArtifactHash a \<noteq> sp_ArtifactHash b then sp_ArtifactHash a < sp_ArtifactHash b
     else if sp_BlockID a \<noteq> sp_BlockID b then sp_BlockID a < sp_BlockID b
     else if sp_Space a \<noteq> sp_Space b then sp_Space a < sp_Space b
     else if span_start a \<noteq> span_start b then span_start a < span_start b
     else span_end a < span_end b)"

text \<open>The loop of \<open>coverageSpans\<close>, with the span before.\<close>

fun coverage_loop :: "Span option \<Rightarrow> Span list \<Rightarrow> check" where
  "coverage_loop previous [] = None"
| "coverage_loop previous (s # ss) = firsterr [
     Span_Validate s,
     fails (sp_BlockID s \<noteq> ''document'' \<or> sp_Space s \<noteq> NormalizedText \<or> sp_TokenOrdinal s \<noteq> None \<or> sp_Range s = None
         \<or> sp_ReasonCode s \<noteq> [] \<or> sp_Page s \<noteq> None \<or> sp_Object s \<noteq> [] \<or> sp_Member s \<noteq> [])
       (Errorf ''coverage requires aggregate normalized-text byte ranges'' []),
     (case previous of None \<Rightarrow> None | Some p \<Rightarrow>
       fails (\<not> spanLess p s \<or> (sp_ArtifactHash p = sp_ArtifactHash s \<and> span_end p > span_start s))
         (Errorf ''coverage spans must be sorted and nonoverlapping'' [])),
     coverage_loop (Some s) ss]"

definition coverageSpans :: "Span slice \<Rightarrow> check" where
  "coverageSpans spans = firsterr [
     fails (spans = None) (Errorf ''coverage spans must be non-null'' []),
     coverage_loop None (elems spans)]"

fun gap_loop :: "nat \<Rightarrow> Gap option \<Rightarrow> Gap list \<Rightarrow> check" where
  "gap_loop ordinals previous [] = None"
| "gap_loop ordinals previous (g # gs) = firsterr [
     fails (gap_Ordinal g < 0 \<or> gap_Ordinal g \<ge> int ordinals \<or> \<not> GapKind_Valid (gap_Scope g) \<or> gap_ScopeKey g = []
         \<or> gap_ReasonCode g = [] \<or> (case previous of None \<Rightarrow> False | Some p \<Rightarrow> \<not> gapLess p g))
       (Errorf ''gaps require valid unique sorted scopes and ordinals'' []),
     coverageSpans (gap_Spans g),
     gap_loop ordinals (Some g) gs]"

definition gap_spans :: "Gap list \<Rightarrow> int \<Rightarrow> Span list" where
  "gap_spans gaps i = concat (map (\<lambda>g. elems (gap_Spans g)) (filter (\<lambda>g. gap_Ordinal g = i) gaps))"

text \<open>
  \<open>partitions\<close> once both loops have run: for each ordinal the spans of its gaps in order, then the
  retained ones. The keys are the ordinals of the retained entries.
\<close>

definition partition_spans :: "Gap list \<Rightarrow> Retained list \<Rightarrow> int \<Rightarrow> Span list" where
  "partition_spans gaps retained i =
     gap_spans gaps i @ concat (map (\<lambda>r. elems (ret_Spans r)) (filter (\<lambda>r. ret_Ordinal r = i) retained))"

fun adjacent :: "Span list \<Rightarrow> check" where
  "adjacent (a # b # ss) =
    (if sp_ArtifactHash a \<noteq> sp_ArtifactHash b \<or> span_end a > span_start b
     then Some (Errorf ''ordinal coverage uses different text objects or overlapping ranges'' [])
     else adjacent (b # ss))"
| "adjacent _ = None"

definition coverageShape :: "Gap slice \<Rightarrow> Retained slice \<Rightarrow> check" where
  "coverageShape gaps retained = firsterr [
     gap_loop (length (elems retained)) None (elems gaps),
     each_idx (\<lambda>i r. firsterr [
       fails (ret_Ordinal r \<noteq> i) (Errorf ''retained ordinals must cover candidate in order'' []),
       coverageSpans (ret_Spans r)]) (elems retained),
     each (\<lambda>i. adjacent (sort_slice spanLess (partition_spans (elems gaps) (elems retained) (int i))))
       [0..<length (elems retained)]]"

text \<open>The loop over the sorted spans of an artifact, with \<open>end\<close>.\<close>

fun tile_loop :: "AssetRef \<Rightarrow> int \<Rightarrow> Span list \<Rightarrow> check" where
  "tile_loop text e [] = fails (e \<noteq> as_ByteSize text) (Errorf ''partition does not cover complete normalized text'' [])"
| "tile_loop text e (s # ss) =
    (if sp_ArtifactHash s \<noteq> as_SHA256 text \<or> span_start s \<noteq> e \<or> span_end s > as_ByteSize text
     then Some (Errorf ''partition has wrong object, overlap, uncovered bytes or overflow'' [])
     else tile_loop text (span_end s) ss)"

definition explicit_gap :: "Gap list \<Rightarrow> int \<Rightarrow> bool" where
  "explicit_gap gaps i \<longleftrightarrow>
     (\<exists>g \<in> set gaps. gap_Ordinal g = i \<and> (gap_Scope g = GapArtifact \<or> gap_Scope g = GapDocumentRevision))"

definition artifact_tiles :: "Gap list \<Rightarrow> Retained list \<Rightarrow> int \<Rightarrow> CoverageArtifact \<Rightarrow> check" where
  "artifact_tiles gaps retained i a =
    (let spans = gap_spans gaps i @ elems (ret_Spans (retained ! nat i)) in firsterr [
     fails (ca_Ordinal a \<noteq> i) (Errorf ''partition artifact ordinals must be complete and sorted'' []),
     (case ca_NormalizedText a of
        None \<Rightarrow> fails (spans \<noteq> [] \<or> \<not> explicit_gap gaps i)
          (Errorf ''empty or missing text requires empty coverage and explicit gap'' [])
      | Some text \<Rightarrow>
          if as_ByteSize text = 0 then fails (spans \<noteq> [] \<or> \<not> explicit_gap gaps i)
            (Errorf ''empty or missing text requires empty coverage and explicit gap'' [])
          else tile_loop text 0 (sort_slice spanLess spans))])"

definition ValidatePartition :: "Gap slice \<Rightarrow> Retained slice \<Rightarrow> CoverageArtifact slice \<Rightarrow> Limits \<Rightarrow> check" where
  "ValidatePartition gaps retained artifacts limits = firsterr [
     Limits_Validate limits,
     validateTree (GStruct [(''Gaps'', gslice gap_gval gaps), (''Retained'', gslice retained_gval retained),
       (''Artifacts'', gslice coverage_gval artifacts)]) limits,
     coverageShape gaps retained,
     fails (length (elems artifacts) \<noteq> length (elems retained)) (Errorf ''partition requires every input ordinal'' []),
     each_idx (artifact_tiles (elems gaps) (elems retained)) (elems artifacts)]"

text \<open>\<open>objects\<close>: a later asset of a hash replaces an earlier one.\<close>

definition resolve_asset :: "AssetRef list \<Rightarrow> Digest \<Rightarrow> AssetRef option" where
  "resolve_asset assets = map_of (rev (map (\<lambda>a. (as_SHA256 a, a)) assets))"

definition ValidateSpanReferences :: "Span slice \<Rightarrow> AssetRef slice \<Rightarrow> Limits \<Rightarrow> check" where
  "ValidateSpanReferences spans assets limits = firsterr [
     Limits_Validate limits,
     validateTree (GStruct [(''Spans'', gslice GSpan spans), (''Assets'', gslice GAsset assets)]) limits,
     each (\<lambda>s. fails (case resolve_asset (elems assets) (sp_ArtifactHash s) of None \<Rightarrow> True
         | Some a \<Rightarrow> (case sp_Range s of None \<Rightarrow> False | Some r \<Rightarrow> br_End r > as_ByteSize a \<or> sp_ReasonCode s \<noteq> []))
       (Errorf ''span lacks typed closure reference or exceeds bytes'' [])) (elems spans)]"

end
