(* ===== verification/Formats_Policy.thy ===== *)
theory Formats_Policy
  imports Formats_Coverage
begin

text \<open>
  The policy bundle and the recipes of \<open>internal/corpus/quality/formats\<close>: \<open>policy.go\<close> (the
  validator, the rule B marshaller and the trusted profiles drawn from it) and \<open>recipes.go\<close>.
  Parsing a JSONB policy is not modelled.
\<close>

section \<open>Ordered strings\<close>

definition orderedStrings :: "string list \<Rightarrow> check" where
  "orderedStrings values = each_idx (\<lambda>i v. fails (v = [] \<or> (i > 0 \<and> values ! nat (i - 1) \<ge> v))
     (Errorf ''strings must be nonempty, unique and byte-sorted'' [])) values"

lemma orderedStrings_sorted:
  assumes "orderedStrings xs = None"
  shows "sorted_wrt (<) xs \<and> [] \<notin> set xs"
proof
  have "xs ! i < xs ! Suc i" if "Suc i < length xs" for i
    using assms [unfolded orderedStrings_def each_idx_None, rule_format, OF that] by (simp add: not_le)
  then show "sorted_wrt (<) xs" by (simp add: sorted_wrt_iff_nth_Suc_transp)
  show "[] \<notin> set xs"
    using assms by (auto simp: orderedStrings_def in_set_conv_nth)
qed

section \<open>The policy bundle\<close>

record PolicyBundle =
  pb_SchemaVersion :: string
  pb_Country :: string
  pb_ThresholdVersion :: string
  pb_ArtifactProfile :: "MetricRequirement slice"
  pb_RollupProfile :: "MetricRequirement slice"
  pb_AcceptanceLimits :: Limits
  pb_GapReasonCodes :: "string slice"

text \<open>The loop over a profile, with the kind before and the two flags.\<close>

fun profile_walk :: "string option \<Rightarrow> bool \<Rightarrow> bool \<Rightarrow> MetricRequirement list \<Rightarrow> check" where
  "profile_walk previous geometry fidelity [] =
     fails (\<not> geometry \<or> \<not> fidelity) (Errorf ''geometry and fidelity must be mandatory'' [])"
| "profile_walk previous geometry fidelity (r # rs) =
    (if \<not> MetricKind_Valid (mr_Kind r) \<or> mr_Threshold r = []
         \<or> (case previous of None \<Rightarrow> False | Some k \<Rightarrow> k \<ge> mr_Kind r)
     then Some (Errorf ''profile requires known, sorted unique checks and thresholds'' [])
     else profile_walk (Some (mr_Kind r))
       (if mr_Kind r = MetricGeometry then mr_Mandatory r else geometry)
       (if mr_Kind r = MetricFidelity then mr_Mandatory r else fidelity) rs)"

definition validatePolicy :: "PolicyBundle \<Rightarrow> check" where
  "validatePolicy v = firsterr [
     fails (pb_SchemaVersion v \<noteq> ''policy-bundle-v1'' \<or> pb_Country v = [] \<or> pb_ThresholdVersion v = [])
       (Errorf ''invalid policy version or identity'' []),
     Limits_Validate (pb_AcceptanceLimits v),
     each (\<lambda>p. firsterr [
         fails (p = []) (Errorf ''empty metric profile'' []),
         profile_walk None False False p])
       [elems (pb_ArtifactProfile v), elems (pb_RollupProfile v)],
     orderedStrings (elems (pb_GapReasonCodes v))]"

definition requirement_gval :: "MetricRequirement \<Rightarrow> gval" where
  "requirement_gval r = GStruct [(''Kind'', GString (mr_Kind r)), (''Mandatory'', GBool (mr_Mandatory r)),
     (''AllowNotApplicable'', GBool (mr_AllowNotApplicable r)), (''Threshold'', GString (mr_Threshold r))]"

definition limits_gval :: "Limits \<Rightarrow> gval" where
  "limits_gval l = GStruct [(''MaxBlobs'', GInt (gl_MaxBlobs l)), (''MaxRows'', GInt (gl_MaxRows l)),
     (''MaxJSONBytes'', GInt (gl_MaxJSONBytes l)), (''MaxObjectBytes'', GInt (gl_MaxObjectBytes l)),
     (''MaxElapsedMS'', GInt (gl_MaxElapsedMS l))]"

definition policy_gval :: "PolicyBundle \<Rightarrow> gval" where
  "policy_gval v = GStruct [(''SchemaVersion'', GString (pb_SchemaVersion v)), (''Country'', GString (pb_Country v)),
     (''ThresholdVersion'', GString (pb_ThresholdVersion v)),
     (''ArtifactProfile'', gslice requirement_gval (pb_ArtifactProfile v)),
     (''RollupProfile'', gslice requirement_gval (pb_RollupProfile v)),
     (''AcceptanceLimits'', limits_gval (pb_AcceptanceLimits v)),
     (''GapReasonCodes'', gslice GString (pb_GapReasonCodes v))]"

text \<open>\<open>json.Marshal\<close> of a map writes its keys in bytewise order.\<close>

definition profileObject :: "MetricRequirement list \<Rightarrow> rval" where
  "profileObject rs = RSlice (Some (map (\<lambda>r. RStruct [
     (''allow_not_applicable'', RBool (mr_AllowNotApplicable r)), (''kind'', RString (mr_Kind r)),
     (''mandatory'', RBool (mr_Mandatory r)), (''threshold'', RString (mr_Threshold r))]) rs))"

definition marshalPolicy :: "PolicyBundle \<Rightarrow> nat list" where
  "marshalPolicy v = json_value (RStruct [
     (''acceptance_limits'', RStruct [(''max_blobs'', RInt (gl_MaxBlobs (pb_AcceptanceLimits v))),
       (''max_elapsed_ms'', RInt (gl_MaxElapsedMS (pb_AcceptanceLimits v))),
       (''max_json_bytes'', RInt (gl_MaxJSONBytes (pb_AcceptanceLimits v))),
       (''max_object_bytes'', RInt (gl_MaxObjectBytes (pb_AcceptanceLimits v))),
       (''max_rows'', RInt (gl_MaxRows (pb_AcceptanceLimits v)))]),
     (''artifact_profile'', profileObject (elems (pb_ArtifactProfile v))),
     (''country'', RString (pb_Country v)),
     (''gap_reason_codes'', RSlice (map_option (map RString) (pb_GapReasonCodes v))),
     (''rollup_profile'', profileObject (elems (pb_RollupProfile v))),
     (''schema_version'', RString (pb_SchemaVersion v)),
     (''threshold_version'', RString (pb_ThresholdVersion v))])"

definition PolicyBundleCodec :: "Limits \<Rightarrow> PolicyBundle Codec" where
  "PolicyBundleCodec limits = \<lparr>cd_limits = limits, cd_validate = validatePolicy, cd_reflect = policy_gval,
     cd_marshal = Some marshalPolicy\<rparr>"

definition trustedProfile :: "PolicyBundle \<Rightarrow> Limits \<Rightarrow> bool \<Rightarrow> gerr + QualityMetricProfile" where
  "trustedProfile policy limits rollup =
    (case Encode (PolicyBundleCodec limits) policy of Inl e \<Rightarrow> Inl e
     | Inr (bytes, digest) \<Rightarrow> Inr \<lparr>qp_PolicyHash = digest,
         qp_Metrics = elems (if rollup then pb_RollupProfile policy else pb_ArtifactProfile policy)\<rparr>)"

definition PolicyProfiles :: "PolicyBundle \<Rightarrow> Limits \<Rightarrow> gerr + QualityMetricProfile \<times> QualityMetricProfile" where
  "PolicyProfiles policy limits =
    (case trustedProfile policy limits False of Inl e \<Rightarrow> Inl e
     | Inr artifact \<Rightarrow> case trustedProfile policy limits True of Inl e \<Rightarrow> Inl e
     | Inr rollup \<Rightarrow> Inr (artifact, rollup))"

definition stricter :: "Limits \<Rightarrow> Limits \<Rightarrow> Limits" where
  "stricter a b = \<lparr>gl_MaxBlobs = min (gl_MaxBlobs a) (gl_MaxBlobs b), gl_MaxRows = min (gl_MaxRows a) (gl_MaxRows b),
     gl_MaxJSONBytes = min (gl_MaxJSONBytes a) (gl_MaxJSONBytes b),
     gl_MaxObjectBytes = min (gl_MaxObjectBytes a) (gl_MaxObjectBytes b),
     gl_MaxElapsedMS = min (gl_MaxElapsedMS a) (gl_MaxElapsedMS b)\<rparr>"

lemma stricter_valid: "Limits_Validate a = None \<Longrightarrow> Limits_Validate b = None \<Longrightarrow> Limits_Validate (stricter a b) = None"
  by (auto simp: Limits_Validate_def stricter_def min_def)

section \<open>Recipes\<close>

record NormalizationRule =
  nr_Rule :: string
  nr_Version :: string

record Normalizer =
  nz_SchemaVersion :: string
  nz_Rules :: "NormalizationRule slice"
  nz_Transforms :: "string slice"

record Parser =
  ps_SchemaVersion :: string
  ps_Parser :: string

abbreviation (input) NormalizationRuleNFCCRLF :: string where "NormalizationRuleNFCCRLF \<equiv> ''nfc-crlf''"
abbreviation (input) NormalizationVersionNFCCRLF :: string where "NormalizationVersionNFCCRLF \<equiv> ''1''"
abbreviation (input) TransformSourceDecode :: string where "TransformSourceDecode \<equiv> ''source-decode-v1''"
abbreviation (input) TransformIdentity :: string where "TransformIdentity \<equiv> ''identity-v1''"
abbreviation (input) TransformNFCCRLF :: string where "TransformNFCCRLF \<equiv> ''nfc-crlf-v1''"

definition ruleLess :: "NormalizationRule \<Rightarrow> NormalizationRule \<Rightarrow> bool" where
  "ruleLess a b \<longleftrightarrow> nr_Rule a < nr_Rule b \<or> (nr_Rule a = nr_Rule b \<and> nr_Version a < nr_Version b)"

definition BaselineNormalizer :: Normalizer where
  "BaselineNormalizer = \<lparr>nz_SchemaVersion = ''normalizer-v1'',
     nz_Rules = Some (sort_slice ruleLess [\<lparr>nr_Rule = NormalizationRuleNFCCRLF, nr_Version = NormalizationVersionNFCCRLF\<rparr>]),
     nz_Transforms = Some (sort_slice (<) [TransformSourceDecode, TransformIdentity, TransformNFCCRLF])\<rparr>"

definition normalizer_gval :: "Normalizer \<Rightarrow> gval" where
  "normalizer_gval v = GStruct [(''SchemaVersion'', GString (nz_SchemaVersion v)),
     (''Rules'', gslice (\<lambda>r. GStruct [(''Rule'', GString (nr_Rule r)), (''Version'', GString (nr_Version r))]) (nz_Rules v)),
     (''Transforms'', gslice GString (nz_Transforms v))]"

definition validateNormalizer :: "Normalizer \<Rightarrow> check" where
  "validateNormalizer v = firsterr [
     fails (nz_SchemaVersion v \<noteq> ''normalizer-v1'' \<or> elems (nz_Rules v) = [] \<or> elems (nz_Transforms v) = [])
       (Errorf ''invalid normalizer version or empty recipe'' []),
     each_idx (\<lambda>i r. fails (nr_Rule r = [] \<or> nr_Version r = []
         \<or> (i > 0 \<and> \<not> ruleLess (elems (nz_Rules v) ! nat (i - 1)) r))
       (Errorf ''normalizer rules must be nonempty, unique and sorted'' [])) (elems (nz_Rules v)),
     orderedStrings (elems (nz_Transforms v))]"

definition NormalizerCodec :: "Limits \<Rightarrow> Normalizer Codec" where
  "NormalizerCodec limits = \<lparr>cd_limits = limits, cd_validate = validateNormalizer, cd_reflect = normalizer_gval,
     cd_marshal = None\<rparr>"

definition ParserCodec :: "Limits \<Rightarrow> Parser Codec" where
  "ParserCodec limits = \<lparr>cd_limits = limits,
     cd_validate = (\<lambda>v. fails (ps_SchemaVersion v \<noteq> ''parser-v1'' \<or> ps_Parser v = [])
       (Errorf ''invalid parser version or identity'' [])),
     cd_reflect = (\<lambda>v. GStruct [(''SchemaVersion'', GString (ps_SchemaVersion v)), (''Parser'', GString (ps_Parser v))]),
     cd_marshal = None\<rparr>"

text \<open>The producer's own recipe is one its codec takes.\<close>

lemma BaselineNormalizer_valid: "validateNormalizer BaselineNormalizer = None"
proof -
  have t: "elems (nz_Transforms BaselineNormalizer) = [TransformIdentity, TransformNFCCRLF, TransformSourceDecode]"
    by (simp add: BaselineNormalizer_def sort_slice_def less_char_def)
  show ?thesis
    by (simp add: validateNormalizer_def orderedStrings_def t)
      (simp add: BaselineNormalizer_def sort_slice_def nth_Cons less_char_def split: nat.split)
qed

end
