(* ===== verification/Formats_Candidates.thy ===== *)
theory Formats_Candidates
  imports Formats_Policy
begin

text \<open>
  \<open>internal/corpus/quality/formats/candidates.go\<close>: the selection an attempt freezes before
  conversion, the output it freezes after, and their binding. A slice field is an optional list
  (\<open>None\<close> for nil).
\<close>

record Predecessor =
  pd_DocumentVersionKey :: string
  pd_RevisionKey :: string
  pd_CandidateDigest :: Digest
  pd_AcceptanceWatermark :: int

record CandidateArtifact =
  ck_ArtifactKey :: string
  ck_ObservationOrdinal :: int
  ck_Role :: string
  ck_Required :: bool
  ck_Capture :: CaptureRef
  ck_Format :: string

record CandidateInput =
  ci_SchemaVersion :: string
  ci_Country :: string
  ci_DocumentVersionKey :: string
  ci_ProcessingExecutionKey :: string
  ci_InputDigest :: Digest
  ci_RecipeDigest :: Digest
  ci_BudgetDigest :: Digest
  ci_ObservationKey :: string
  ci_Artifacts :: "CandidateArtifact slice"
  ci_Language :: string
  ci_HTMLSelector :: string
  ci_DetectorDigest :: Digest
  ci_ConversionRecipe :: AssetRef
  ci_NormalizerManifest :: AssetRef
  ci_ParserManifest :: AssetRef
  ci_GatePolicyDigest :: Digest
  ci_ThresholdVersion :: string
  ci_Mode :: string
  ci_Predecessor :: "Predecessor option"

record OutputArtifact =
  oa_Ordinal :: int
  oa_OriginalHash :: Digest
  oa_DetectorDigest :: Digest
  oa_RawBlocks :: AssetRef
  oa_NormalizedBlocks :: AssetRef
  oa_RawText :: AssetRef
  oa_NormalizedText :: AssetRef
  oa_OffsetMap :: AssetRef
  oa_EditLedger :: AssetRef

record CandidateOutput =
  co_SchemaVersion :: string
  co_CandidateDigest :: Digest
  co_NormalizerManifestDigest :: Digest
  co_GatePolicyDigest :: Digest
  co_TextHash :: Digest
  co_Artifacts :: "OutputArtifact slice"

section \<open>Reflection\<close>

definition capture_gval :: "CaptureRef \<Rightarrow> gval" where
  "capture_gval c = GStruct [(''Country'', GString (cap_Country c)), (''SourceID'', GString (cap_SourceID c)),
     (''CaptureKey'', GString (cap_CaptureKey c)), (''Asset'', GAsset (cap_Asset c)),
     (''MediaType'', GString (cap_MediaType c)), (''RequestHash'', GDigest (cap_RequestHash c)),
     (''ResponseHash'', GDigest (cap_ResponseHash c)), (''TransportReceipt'', GAsset (cap_TransportReceipt c))]"

definition candidate_artifact_gval :: "CandidateArtifact \<Rightarrow> gval" where
  "candidate_artifact_gval a = GStruct [(''ArtifactKey'', GString (ck_ArtifactKey a)),
     (''ObservationOrdinal'', GInt (ck_ObservationOrdinal a)), (''Role'', GString (ck_Role a)),
     (''Required'', GBool (ck_Required a)), (''Capture'', capture_gval (ck_Capture a)), (''Format'', GString (ck_Format a))]"

definition predecessor_gval :: "Predecessor \<Rightarrow> gval" where
  "predecessor_gval p = GStruct [(''DocumentVersionKey'', GString (pd_DocumentVersionKey p)),
     (''RevisionKey'', GString (pd_RevisionKey p)), (''CandidateDigest'', GDigest (pd_CandidateDigest p)),
     (''AcceptanceWatermark'', GInt (pd_AcceptanceWatermark p))]"

definition input_gval :: "CandidateInput \<Rightarrow> gval" where
  "input_gval v = GStruct [(''SchemaVersion'', GString (ci_SchemaVersion v)), (''Country'', GString (ci_Country v)),
     (''DocumentVersionKey'', GString (ci_DocumentVersionKey v)),
     (''ProcessingExecutionKey'', GString (ci_ProcessingExecutionKey v)), (''InputDigest'', GDigest (ci_InputDigest v)),
     (''RecipeDigest'', GDigest (ci_RecipeDigest v)), (''BudgetDigest'', GDigest (ci_BudgetDigest v)),
     (''ObservationKey'', GString (ci_ObservationKey v)), (''Artifacts'', gslice candidate_artifact_gval (ci_Artifacts v)),
     (''Language'', GString (ci_Language v)), (''HTMLSelector'', GString (ci_HTMLSelector v)),
     (''DetectorDigest'', GDigest (ci_DetectorDigest v)), (''ConversionRecipe'', GAsset (ci_ConversionRecipe v)),
     (''NormalizerManifest'', GAsset (ci_NormalizerManifest v)), (''ParserManifest'', GAsset (ci_ParserManifest v)),
     (''GatePolicyDigest'', GDigest (ci_GatePolicyDigest v)), (''ThresholdVersion'', GString (ci_ThresholdVersion v)),
     (''Mode'', GString (ci_Mode v)), (''Predecessor'', gpointer predecessor_gval (ci_Predecessor v))]"

definition output_artifact_gval :: "OutputArtifact \<Rightarrow> gval" where
  "output_artifact_gval a = GStruct [(''Ordinal'', GInt (oa_Ordinal a)), (''OriginalHash'', GDigest (oa_OriginalHash a)),
     (''DetectorDigest'', GDigest (oa_DetectorDigest a)), (''RawBlocks'', GAsset (oa_RawBlocks a)),
     (''NormalizedBlocks'', GAsset (oa_NormalizedBlocks a)), (''RawText'', GAsset (oa_RawText a)),
     (''NormalizedText'', GAsset (oa_NormalizedText a)), (''OffsetMap'', GAsset (oa_OffsetMap a)),
     (''EditLedger'', GAsset (oa_EditLedger a))]"

definition output_gval :: "CandidateOutput \<Rightarrow> gval" where
  "output_gval v = GStruct [(''SchemaVersion'', GString (co_SchemaVersion v)),
     (''CandidateDigest'', GDigest (co_CandidateDigest v)),
     (''NormalizerManifestDigest'', GDigest (co_NormalizerManifestDigest v)),
     (''GatePolicyDigest'', GDigest (co_GatePolicyDigest v)), (''TextHash'', GDigest (co_TextHash v)),
     (''Artifacts'', gslice output_artifact_gval (co_Artifacts v))]"

section \<open>The candidate input\<close>

definition artifactLess :: "CandidateArtifact \<Rightarrow> CandidateArtifact \<Rightarrow> bool" where
  "artifactLess a b =
    (if ck_Role a \<noteq> ck_Role b then ck_Role a < ck_Role b
     else if ck_ObservationOrdinal a \<noteq> ck_ObservationOrdinal b then ck_ObservationOrdinal a < ck_ObservationOrdinal b
     else ck_ArtifactKey a < ck_ArtifactKey b)"

text \<open>The loop over the selected artifacts, with \<open>seen\<close> and the artifact before.\<close>

fun selection_loop :: "CandidateInput \<Rightarrow> string list \<Rightarrow> CandidateArtifact option \<Rightarrow> CandidateArtifact list \<Rightarrow> check" where
  "selection_loop v seen previous [] = None"
| "selection_loop v seen previous (a # as) = firsterr [
     fails (ck_ArtifactKey a = [] \<or> ck_Role a = [] \<or> ck_ObservationOrdinal a < 0 \<or> ck_ArtifactKey a \<in> set seen)
       (Errorf ''invalid or duplicate selected artifact'' []),
     CaptureRef_Validate (ck_Capture a),
     fails (cap_Country (ck_Capture a) \<noteq> ci_Country v
         \<or> (case previous of None \<Rightarrow> False | Some p \<Rightarrow> \<not> artifactLess p a))
       (Errorf ''artifact country or selection order mismatch'' []),
     fails (ck_Format a = ''html'' \<and> ci_HTMLSelector v \<noteq> ''body''
         \<and> (\<not> HasPrefix (ci_HTMLSelector v) ''#'' \<or> length (ci_HTMLSelector v) < 2))
       (Errorf ''HTML requires body or exact id selector'' []),
     selection_loop v (ck_ArtifactKey a # seen) (Some a) as]"

definition candidate_mode :: "CandidateInput \<Rightarrow> check" where
  "candidate_mode v =
    (if ci_Mode v = ''first_pass'' then
       fails (ci_Predecessor v \<noteq> None) (Errorf ''first pass has no predecessor'' [])
     else if ci_Mode v = ''reprocess'' then
       (case ci_Predecessor v of
          None \<Rightarrow> Some (Errorf ''reprocessing requires a predecessor and nonnegative watermark'' [])
        | Some p \<Rightarrow> firsterr [
            fails (pd_AcceptanceWatermark p < 0)
              (Errorf ''reprocessing requires a predecessor and nonnegative watermark'' []),
            ValidateKey (pd_DocumentVersionKey p),
            fails (length (pd_RevisionKey p) \<noteq> 112) (Errorf ''predecessor requires a full revision key'' []),
            ValidateRevisionKey (pd_RevisionKey p) (ci_Country v)])
     else Some (Errorf ''unknown candidate mode'' []))"

definition validateInput :: "CandidateInput \<Rightarrow> check" where
  "validateInput v = firsterr [
     fails (ci_SchemaVersion v \<noteq> ''candidate-input-v1'' \<or> ci_Country v = [] \<or> ci_Language v = []
         \<or> ci_ObservationKey v = [] \<or> ci_ThresholdVersion v = [] \<or> elems (ci_Artifacts v) = [])
       (Errorf ''candidate input requires version, identity and selected artifacts'' []),
     ValidateKey (ci_DocumentVersionKey v),
     fails (\<not> HasPrefix (ci_ProcessingExecutionKey v) ''execution-'' \<or> length (ci_ProcessingExecutionKey v) \<noteq> 42)
       (Errorf ''invalid processing execution key'' []),
     each (\<lambda>ch. fails (\<not> (between CHR ''0'' CHR ''9'' ch \<or> between CHR ''a'' CHR ''f'' ch))
       (Errorf ''invalid processing execution key'' [])) (runes (drop 10 (ci_ProcessingExecutionKey v))),
     selection_loop v [] None (elems (ci_Artifacts v)),
     candidate_mode v]"

definition CandidateInputCodec :: "Limits \<Rightarrow> CandidateInput Codec" where
  "CandidateInputCodec limits = \<lparr>cd_limits = limits, cd_validate = validateInput, cd_reflect = input_gval, cd_marshal = None\<rparr>"

section \<open>The candidate output\<close>

definition TextHash :: "OutputArtifact list \<Rightarrow> Digest" where
  "TextHash artifacts = Hash (json_value (RSlice (Some (map (\<lambda>a. RString (as_SHA256 (oa_NormalizedText a))) artifacts))))"

definition validateOutput :: "CandidateOutput \<Rightarrow> check" where
  "validateOutput v = firsterr [
     fails (co_SchemaVersion v \<noteq> ''candidate-output-v1'' \<or> elems (co_Artifacts v) = [])
       (Errorf ''invalid candidate output version or empty conversions'' []),
     each_idx (\<lambda>i a. fails (oa_Ordinal a \<noteq> i) (Errorf ''output ordinals must cover input in ascending order'' []))
       (elems (co_Artifacts v)),
     fails (TextHash (elems (co_Artifacts v)) \<noteq> co_TextHash v) (Errorf ''candidate text hash mismatch'' [])]"

definition CandidateOutputCodec :: "Limits \<Rightarrow> CandidateOutput Codec" where
  "CandidateOutputCodec limits = \<lparr>cd_limits = limits, cd_validate = validateOutput, cd_reflect = output_gval, cd_marshal = None\<rparr>"

definition ValidateCandidateBinding :: "CandidateInput \<Rightarrow> CandidateOutput \<Rightarrow> Limits \<Rightarrow> check" where
  "ValidateCandidateBinding inp out limits =
    (case Encode (CandidateInputCodec limits) inp of Inl e \<Rightarrow> Some e
     | Inr (bytes, candidate) \<Rightarrow>
       case Encode (CandidateOutputCodec limits) out of Inl e \<Rightarrow> Some e
       | Inr encoded \<Rightarrow> firsterr [
           fails (co_CandidateDigest out \<noteq> candidate
               \<or> co_NormalizerManifestDigest out \<noteq> as_SHA256 (ci_NormalizerManifest inp)
               \<or> co_GatePolicyDigest out \<noteq> ci_GatePolicyDigest inp
               \<or> length (elems (co_Artifacts out)) \<noteq> length (elems (ci_Artifacts inp)))
             (Errorf ''candidate output binding mismatch'' []),
           each (\<lambda>(a, c). fails (oa_OriginalHash a \<noteq> as_SHA256 (cap_Asset (ck_Capture c)))
             (Errorf ''candidate original hash mismatch'' []))
             (zip (elems (co_Artifacts out)) (elems (ci_Artifacts inp)))])"

end
