(* ===== verification/Formats_Reports.thy ===== *)
theory Formats_Reports
  imports Formats_Candidates
begin

text \<open>
  \<open>internal/corpus/quality/formats/reports.go\<close> and \<open>bindings.go\<close>: the gate reports of artifacts,
  the roll-up of a candidate, decision scopes, and the bindings between them. The slices of
  metrics and findings, which the model package holds as lists, stand for non-nil slices.
\<close>

section \<open>The formats\<close>

record GateReport =
  gr_SchemaVersion :: string
  gr_Artifact :: QualityReport
  gr_RequestManifest :: "AssetRef option"
  gr_Document :: "AssetRef option"
  gr_OutputManifest :: "AssetRef option"

record ArtifactReport =
  apr_Ordinal :: int
  apr_OriginalHash :: Digest
  apr_Report :: AssetRef
  apr_Outcome :: string

record GateRollup =
  ru_SchemaVersion :: string
  ru_CandidateDigest :: Digest
  ru_OutputManifest :: "AssetRef option"
  ru_PolicyHash :: Digest
  ru_ThresholdVersion :: string
  ru_Outcome :: string
  ru_ArtifactReports :: "ArtifactReport slice"
  ru_MissingOrdinals :: "int slice"
  ru_Metrics :: "QualityMetric list"
  ru_Findings :: "Finding list"
  ru_Gaps :: "Gap slice"
  ru_Retained :: "Retained slice"
  ru_DecisionRef :: string

record GapScope =
  gs_SchemaVersion :: string
  gs_CandidateDigest :: Digest
  gs_OriginalHash :: Digest
  gs_OutputDigest :: Digest
  gs_Gaps :: "Gap slice"
  gs_Retained :: "Retained slice"

definition metric_gval :: "QualityMetric \<Rightarrow> gval" where
  "metric_gval m = GStruct [(''Kind'', GString (qm_Kind m)), (''State'', GString (qm_State m)),
     (''Numerator'', GInt (qm_Numerator m)), (''Denominator'', GInt (qm_Denominator m)),
     (''Threshold'', GString (qm_Threshold m)), (''Mandatory'', GBool (qm_Mandatory m)), (''Passed'', GBool (qm_Passed m)),
     (''ReasonCode'', GString (qm_ReasonCode m)), (''Evidence'', GSlice (Some (map GAsset (qm_Evidence m)))),
     (''Exclusions'', GSlice (Some (map GSpan (qm_Exclusions m))))]"

definition finding_gval :: "Finding \<Rightarrow> gval" where
  "finding_gval f = GStruct [(''ReasonCode'', GString (fnd_ReasonCode f)), (''Severity'', GString (fnd_Severity f)),
     (''Scope'', GString (fnd_Scope f)), (''ScopeKey'', GString (fnd_ScopeKey f)),
     (''Spans'', GSlice (Some (map GSpan (fnd_Spans f)))), (''Evidence'', GSlice (Some (map GAsset (fnd_Evidence f))))]"

definition quality_report_gval :: "QualityReport \<Rightarrow> gval" where
  "quality_report_gval r = GStruct [(''ArtifactHash'', GDigest (qr_ArtifactHash r)),
     (''CandidateDigest'', GDigest (qr_CandidateDigest r)), (''Report'', GAsset (qr_Report r)),
     (''PolicyHash'', GDigest (qr_PolicyHash r)), (''ThresholdVersion'', GString (qr_ThresholdVersion r)),
     (''Outcome'', GString (qr_Outcome r)), (''Metrics'', GSlice (Some (map metric_gval (qr_Metrics r)))),
     (''Findings'', GSlice (Some (map finding_gval (qr_Findings r)))), (''DecisionRef'', GString (qr_DecisionRef r))]"

definition gate_report_gval :: "GateReport \<Rightarrow> gval" where
  "gate_report_gval v = GStruct [(''SchemaVersion'', GString (gr_SchemaVersion v)),
     (''Artifact'', quality_report_gval (gr_Artifact v)),
     (''RequestManifest'', gpointer GAsset (gr_RequestManifest v)), (''Document'', gpointer GAsset (gr_Document v)),
     (''OutputManifest'', gpointer GAsset (gr_OutputManifest v))]"

definition artifact_report_gval :: "ArtifactReport \<Rightarrow> gval" where
  "artifact_report_gval a = GStruct [(''Ordinal'', GInt (apr_Ordinal a)), (''OriginalHash'', GDigest (apr_OriginalHash a)),
     (''Report'', GAsset (apr_Report a)), (''Outcome'', GString (apr_Outcome a))]"

definition rollup_gval :: "GateRollup \<Rightarrow> gval" where
  "rollup_gval v = GStruct [(''SchemaVersion'', GString (ru_SchemaVersion v)),
     (''CandidateDigest'', GDigest (ru_CandidateDigest v)), (''OutputManifest'', gpointer GAsset (ru_OutputManifest v)),
     (''PolicyHash'', GDigest (ru_PolicyHash v)), (''ThresholdVersion'', GString (ru_ThresholdVersion v)),
     (''Outcome'', GString (ru_Outcome v)), (''ArtifactReports'', gslice artifact_report_gval (ru_ArtifactReports v)),
     (''MissingOrdinals'', gslice GInt (ru_MissingOrdinals v)), (''Metrics'', GSlice (Some (map metric_gval (ru_Metrics v)))),
     (''Findings'', GSlice (Some (map finding_gval (ru_Findings v)))), (''Gaps'', gslice gap_gval (ru_Gaps v)),
     (''Retained'', gslice retained_gval (ru_Retained v)), (''DecisionRef'', GString (ru_DecisionRef v))]"

definition gap_scope_gval :: "GapScope \<Rightarrow> gval" where
  "gap_scope_gval v = GStruct [(''SchemaVersion'', GString (gs_SchemaVersion v)),
     (''CandidateDigest'', GDigest (gs_CandidateDigest v)), (''OriginalHash'', GDigest (gs_OriginalHash v)),
     (''OutputDigest'', GDigest (gs_OutputDigest v)), (''Gaps'', gslice gap_gval (gs_Gaps v)),
     (''Retained'', gslice retained_gval (gs_Retained v))]"

section \<open>Gate reports\<close>

definition metricOrder :: "QualityMetric list \<Rightarrow> QualityMetricProfile \<Rightarrow> check" where
  "metricOrder metrics profile = firsterr [
     fails (length metrics \<noteq> length (qp_Metrics profile)) (Errorf ''metric count differs from profile'' []),
     each (\<lambda>(m, r). fails (qm_Kind m \<noteq> mr_Kind r) (Errorf ''metrics must follow trusted profile order'' []))
       (zip metrics (qp_Metrics profile))]"

definition decisionOutcome :: "string \<Rightarrow> string \<Rightarrow> check" where
  "decisionOutcome out decision =
     fails (\<not> QualityOutcome_Valid out \<or> (out = QualityAcceptedWithGaps) \<noteq> (decision \<noteq> []))
       (Errorf ''decision reference only permitted for named-gap acceptance'' [])"

text \<open>
  The validator of the codec, a closure over the policy's threshold version and profile, with
  the report given a content-addressed reference in place of its sentinel.
\<close>

definition content_reference :: "GateReport \<Rightarrow> AssetRef" where
  "content_reference v = (let bytes = json_value (erase (gate_report_gval v)) in
     \<lparr>as_Path = ''reports/'' @ Hash bytes, as_SHA256 = Hash bytes, as_ByteSize = int (length bytes)\<rparr>)"

definition validateGateReport :: "string \<Rightarrow> QualityMetricProfile \<Rightarrow> GateReport \<Rightarrow> check" where
  "validateGateReport threshold profile v =
    (let a = gr_Artifact v;
         converted = (gr_RequestManifest v \<noteq> None \<and> gr_Document v \<noteq> None \<and> gr_OutputManifest v \<noteq> None);
         missing = (gr_RequestManifest v = None \<and> gr_Document v = None \<and> gr_OutputManifest v = None)
     in firsterr [
       fails (gr_SchemaVersion v \<noteq> ''gate-report-v1'' \<or> qr_Report a \<noteq> ReportSentinel \<or> qr_ThresholdVersion a \<noteq> threshold)
         (Errorf ''invalid gate report version, sentinel or threshold'' []),
       fails (\<not> converted \<and> \<not> missing) (Errorf ''conversion references must be all present or all null'' []),
       fails (missing \<and> (qr_Outcome a \<noteq> QualityQuarantined \<and> qr_Outcome a \<noteq> QualityNeedsOCR \<or> qr_Findings a = []))
         (Errorf ''missing conversion requires ineligible outcome and explicit finding'' []),
       decisionOutcome (qr_Outcome a) (qr_DecisionRef a),
       metricOrder (qr_Metrics a) profile,
       QualityReport_Validate (a\<lparr>qr_Report := content_reference v\<rparr>) profile])"

definition GateReportCodec :: "PolicyBundle \<Rightarrow> Limits \<Rightarrow> gerr + GateReport Codec" where
  "GateReportCodec policy limits =
    (case trustedProfile policy limits False of Inl e \<Rightarrow> Inl e
     | Inr profile \<Rightarrow> Inr \<lparr>cd_limits = stricter limits (pb_AcceptanceLimits policy),
         cd_validate = validateGateReport (pb_ThresholdVersion policy) profile, cd_reflect = gate_report_gval, cd_marshal = None\<rparr>)"

definition ValidateReportReference :: "GateReport \<Rightarrow> AssetRef \<Rightarrow> PolicyBundle \<Rightarrow> Limits \<Rightarrow> gerr + QualityReport" where
  "ValidateReportReference v ref policy limits =
    (case GateReportCodec policy limits of Inl e \<Rightarrow> Inl e
     | Inr codec \<Rightarrow> case Encode codec v of Inl e \<Rightarrow> Inl e
     | Inr (bytes, digest) \<Rightarrow> case AssetRef_Validate ref of Some e \<Rightarrow> Inl e
     | None \<Rightarrow> if as_SHA256 ref \<noteq> digest \<or> as_ByteSize ref \<noteq> int (length bytes)
         then Inl (Errorf ''catalog report hash or size mismatch'' [])
         else case trustedProfile policy limits False of Inl e \<Rightarrow> Inl e
     | Inr profile \<Rightarrow> let local = (gr_Artifact v)\<lparr>qr_Report := ref\<rparr> in
         case QualityReport_Validate local profile of Some e \<Rightarrow> Inl e | None \<Rightarrow> Inr local)"

section \<open>The roll-up\<close>

definition accepting :: "string \<Rightarrow> bool" where
  "accepting out \<longleftrightarrow> out = QualityAccepted \<or> out = QualityAcceptedWithGaps"

definition ineligible :: "string \<Rightarrow> bool" where
  "ineligible out \<longleftrightarrow> out = QualityQuarantined \<or> out = QualityNeedsOCR"

definition rollup_reports :: "string \<Rightarrow> ArtifactReport list \<Rightarrow> check" where
  "rollup_reports out reports = firsterr [
     each_idx (\<lambda>i r. firsterr [
       fails (apr_Ordinal r \<noteq> i \<or> \<not> QualityOutcome_Valid (apr_Outcome r))
         (Errorf ''roll-up report ordinals or outcome invalid'' []),
       fails (accepting out \<and> ineligible (apr_Outcome r))
         (Errorf ''ineligible artifact prevents accepting roll-up'' [])]) reports,
     fails ((\<exists>r \<in> set reports. apr_Outcome r = QualityNeedsOCR) \<and> out \<noteq> QualityNeedsOCR)
       (Errorf ''needs_ocr artifact takes precedence'' [])]"

fun missing_loop :: "ArtifactReport list \<Rightarrow> int option \<Rightarrow> int list \<Rightarrow> check" where
  "missing_loop reports previous [] = None"
| "missing_loop reports previous (i # is) =
    (if i < 0 \<or> i \<ge> int (length reports) \<or> (case previous of None \<Rightarrow> False | Some p \<Rightarrow> p \<ge> i)
     then Some (Errorf ''missing ordinals must be sorted unique members'' [])
     else if \<not> ineligible (apr_Outcome (reports ! nat i))
     then Some (Errorf ''missing conversion cannot have accepting artifact report'' [])
     else missing_loop reports (Some i) is)"

text \<open>One missing ordinal against the gaps and the retained spans, which are known to be there.\<close>

definition missing_coverage :: "Gap list \<Rightarrow> Retained list \<Rightarrow> int \<Rightarrow> check" where
  "missing_coverage gaps retained i = firsterr [
     each (\<lambda>g. fails (gap_Ordinal g = i \<and> elems (gap_Spans g) \<noteq> [])
       (Errorf ''missing text cannot have excluded byte ranges'' [])) gaps,
     fails (elems (ret_Spans (retained ! nat i)) \<noteq> [] \<or> \<not> explicit_gap gaps i)
       (Errorf ''missing conversion requires empty retained spans and explicit gap'' [])]"

definition validateRollup :: "string \<Rightarrow> string list \<Rightarrow> QualityMetricProfile \<Rightarrow> GateRollup \<Rightarrow> check" where
  "validateRollup threshold reasons profile v =
    (let reports = elems (ru_ArtifactReports v); missing = elems (ru_MissingOrdinals v);
         gaps = elems (ru_Gaps v); retained = elems (ru_Retained v) in firsterr [
     fails (ru_SchemaVersion v \<noteq> ''gate-rollup-v1'' \<or> ru_PolicyHash v \<noteq> qp_PolicyHash profile
         \<or> ru_ThresholdVersion v \<noteq> threshold \<or> reports = [])
       (Errorf ''invalid roll-up version, policy or artifact set'' []),
     decisionOutcome (ru_Outcome v) (ru_DecisionRef v),
     rollup_reports (ru_Outcome v) reports,
     missing_loop reports None missing,
     fails ((missing = []) \<noteq> (ru_OutputManifest v \<noteq> None) \<or> (accepting (ru_Outcome v) \<and> missing \<noteq> []))
       (Errorf ''output presence disagrees with complete conversion'' []),
     fails ((ru_Outcome v = QualityAccepted \<and> gaps \<noteq> []) \<or> (ru_Outcome v = QualityAcceptedWithGaps \<and> gaps = []))
       (Errorf ''accepting outcome disagrees with gaps'' []),
     coverageShape (ru_Gaps v) (ru_Retained v),
     fails (length retained \<noteq> length reports) (Errorf ''one retained entry required per artifact ordinal'' []),
     each (missing_coverage gaps retained) missing,
     each (\<lambda>g. fails (gap_Ordinal g \<ge> int (length reports) \<or> gap_ReasonCode g \<notin> set reasons)
       (Errorf ''gap ordinal or reason not selected by policy'' [])) gaps,
     metricOrder (ru_Metrics v) profile,
     QualityReport_Validate \<lparr>qr_ArtifactHash = ru_CandidateDigest v, qr_CandidateDigest = ru_CandidateDigest v,
       qr_Report = ReportSentinel, qr_PolicyHash = ru_PolicyHash v, qr_ThresholdVersion = ru_ThresholdVersion v,
       qr_Outcome = ru_Outcome v, qr_Metrics = ru_Metrics v, qr_Findings = ru_Findings v,
       qr_DecisionRef = ru_DecisionRef v\<rparr> profile])"

definition GateRollupCodec :: "PolicyBundle \<Rightarrow> Limits \<Rightarrow> gerr + GateRollup Codec" where
  "GateRollupCodec policy limits =
    (case trustedProfile policy limits True of Inl e \<Rightarrow> Inl e
     | Inr profile \<Rightarrow> Inr \<lparr>cd_limits = stricter limits (pb_AcceptanceLimits policy),
         cd_validate = validateRollup (pb_ThresholdVersion policy) (elems (pb_GapReasonCodes policy)) profile,
         cd_reflect = rollup_gval, cd_marshal = None\<rparr>)"

section \<open>Decision scopes\<close>

definition GapScopeCodec :: "Limits \<Rightarrow> GapScope Codec" where
  "GapScopeCodec limits = \<lparr>cd_limits = limits,
     cd_validate = (\<lambda>v. firsterr [
       fails (gs_SchemaVersion v \<noteq> ''gap-scope-v1'') (Errorf ''unknown gap scope version'' []),
       coverageShape (gs_Gaps v) (gs_Retained v)]),
     cd_reflect = gap_scope_gval, cd_marshal = None\<rparr>"

definition ValidateScopeBinding :: "GapScope \<Rightarrow> GateRollup \<Rightarrow> Digest \<Rightarrow> Limits \<Rightarrow> check" where
  "ValidateScopeBinding scope rollup original limits =
    (case Encode (GapScopeCodec limits) scope of Inl e \<Rightarrow> Some e
     | Inr encoded \<Rightarrow>
       let out = (case ru_OutputManifest rollup of None \<Rightarrow> Hash (json_value (erase (rollup_gval rollup)))
                  | Some a \<Rightarrow> as_SHA256 a)
       in fails (\<not> (\<exists>r \<in> set (elems (ru_ArtifactReports rollup)). apr_OriginalHash r = original)
           \<or> gs_CandidateDigest scope \<noteq> ru_CandidateDigest rollup \<or> gs_OriginalHash scope \<noteq> original
           \<or> gs_OutputDigest scope \<noteq> out \<or> gs_Gaps scope \<noteq> ru_Gaps rollup \<or> gs_Retained scope \<noteq> ru_Retained rollup)
         (Errorf ''decision scope selection mismatch'' []))"

section \<open>Bindings\<close>

text \<open>The loop over the reports: the report at an ordinal is the one the roll-up selected for it.\<close>

definition report_selected :: "GateReport Codec \<Rightarrow> Digest \<Rightarrow> GateReport \<times> ArtifactReport \<times> CandidateArtifact \<Rightarrow> check" where
  "report_selected codec candidate = (\<lambda>(report, selected, artifact).
    (case Encode codec report of Inl e \<Rightarrow> Some e
     | Inr (bytes, hash) \<Rightarrow>
       fails (qr_CandidateDigest (gr_Artifact report) \<noteq> candidate
           \<or> qr_ArtifactHash (gr_Artifact report) \<noteq> as_SHA256 (cap_Asset (ck_Capture artifact))
           \<or> apr_OriginalHash selected \<noteq> qr_ArtifactHash (gr_Artifact report)
           \<or> as_SHA256 (apr_Report selected) \<noteq> hash \<or> as_ByteSize (apr_Report selected) \<noteq> int (length bytes)
           \<or> apr_Outcome selected \<noteq> qr_Outcome (gr_Artifact report))
         (Errorf ''artifact report selection mismatch'' [])))"

definition missing_ordinals :: "GateReport list \<Rightarrow> int list" where
  "missing_ordinals reports = map (\<lambda>(i, r). int i) (filter (\<lambda>(i, r). gr_Document r = None) (enumerate 0 reports))"

text \<open>
  \<open>coverage\<close> with the texts of the output; \<open>&ref\<close> of a loop variable is a fresh pointer per
  iteration.
\<close>

definition output_coverage :: "CandidateOutput \<Rightarrow> nat \<Rightarrow> CoverageArtifact list" where
  "output_coverage out n = map (\<lambda>i. \<lparr>ca_Ordinal = int i,
     ca_NormalizedText = Some (oa_NormalizedText (elems (co_Artifacts out) ! i))\<rparr>) [0..<n]"

definition output_binding :: "CandidateInput \<Rightarrow> CandidateOutput \<Rightarrow> nat \<Rightarrow> GateRollup \<Rightarrow> PolicyBundle \<Rightarrow> Limits \<Rightarrow> check" where
  "output_binding inp out n rollup policy limits = (case ValidateCandidateBinding inp out limits of Some e \<Rightarrow> Some e
   | None \<Rightarrow> case Encode (CandidateOutputCodec limits) out of Inl e \<Rightarrow> Some e
   | Inr (bytes, hash) \<Rightarrow> case ru_OutputManifest rollup of None \<Rightarrow> Some (Panic ''nil dereference'')
   | Some manifest \<Rightarrow> firsterr [
       fails (as_SHA256 manifest \<noteq> hash \<or> as_ByteSize manifest \<noteq> int (length bytes))
         (Errorf ''candidate output reference mismatch'' []),
       ValidatePartition (ru_Gaps rollup) (ru_Retained rollup) (Some (output_coverage out n))
         (stricter limits (pb_AcceptanceLimits policy))])"

definition ValidateRollupBinding :: "CandidateInput \<Rightarrow> CandidateOutput option \<Rightarrow> GateReport list \<Rightarrow> GateRollup \<Rightarrow> PolicyBundle \<Rightarrow> Limits \<Rightarrow> check" where
  "ValidateRollupBinding inp out reports rollup policy limits =
    (case Encode (CandidateInputCodec limits) inp of Inl e \<Rightarrow> Some e
     | Inr (inputBytes, candidate) \<Rightarrow>
     case Encode (PolicyBundleCodec limits) policy of Inl e \<Rightarrow> Some e
     | Inr (policyBytes, policyHash) \<Rightarrow>
     if ci_GatePolicyDigest inp \<noteq> policyHash \<or> ci_Country inp \<noteq> pb_Country policy
         \<or> ci_ThresholdVersion inp \<noteq> pb_ThresholdVersion policy
     then Some (Errorf ''candidate selected policy mismatch'' [])
     else case GateRollupCodec policy limits of Inl e \<Rightarrow> Some e
     | Inr codec \<Rightarrow> case Encode codec rollup of Inl e \<Rightarrow> Some e
     | Inr encoded \<Rightarrow>
     if ru_CandidateDigest rollup \<noteq> candidate \<or> length reports \<noteq> length (elems (ci_Artifacts inp))
         \<or> length (elems (ru_ArtifactReports rollup)) \<noteq> length (elems (ci_Artifacts inp))
     then Some (Errorf ''roll-up does not cover selected candidate'' [])
     else case GateReportCodec policy limits of Inl e \<Rightarrow> Some e
     | Inr artifactCodec \<Rightarrow> firsterr [
         each (report_selected artifactCodec candidate)
           (zip reports (zip (elems (ru_ArtifactReports rollup)) (elems (ci_Artifacts inp)))),
         fails (Some (missing_ordinals reports) \<noteq> ru_MissingOrdinals rollup
             \<or> (out = None) \<noteq> (ru_OutputManifest rollup = None))
           (Errorf ''missing conversion or output selection mismatch'' []),
         (case out of None \<Rightarrow> None
          | Some out \<Rightarrow> output_binding inp out (length reports) rollup policy limits)])"

definition segment_gval :: "OffsetMapSegment \<Rightarrow> gval" where
  "segment_gval m = GStruct [(''Sources'', GSlice (Some (map GSpan (oms_Sources m)))),
     (''Destinations'', GSlice (Some (map GSpan (oms_Destinations m)))), (''Transform'', GString (oms_Transform m)),
     (''Ordinal'', GInt (oms_Ordinal m))]"

definition edit_gval :: "EditLedgerEntry \<Rightarrow> gval" where
  "edit_gval e = GStruct [(''Kind'', GString (ele_Kind e)), (''Ordinal'', GInt (ele_Ordinal e)),
     (''Rule'', GString (ele_Rule e)), (''Version'', GString (ele_Version e)),
     (''Inputs'', GSlice (Some (map GSpan (ele_Inputs e)))), (''Outputs'', GSlice (Some (map GSpan (ele_Outputs e)))),
     (''Removed'', gpointer GAsset (ele_Removed e)), (''Replacement'', gpointer GAsset (ele_Replacement e)),
     (''Evidence'', GAsset (ele_Evidence e))]"

text \<open>
  Here nil collections are accepted and count as empty ones, so a list loses nothing.
\<close>

definition ValidateNormalizationBinding :: "Normalizer \<Rightarrow> OffsetMapSegment list \<Rightarrow> EditLedgerEntry list \<Rightarrow> Limits \<Rightarrow> check" where
  "ValidateNormalizationBinding normalizer maps ledger limits =
    (case Encode (NormalizerCodec limits) normalizer of Inl e \<Rightarrow> Some e
     | Inr encoded \<Rightarrow> firsterr [
         validateTrees limits True [GStruct [(''Maps'', GSlice (Some (map segment_gval maps))),
           (''Ledger'', GSlice (Some (map edit_gval ledger)))]],
         each (\<lambda>s. firsterr [OffsetMapSegment_Validate s,
           fails (oms_Transform s \<notin> set (elems (nz_Transforms normalizer))) (Errorf ''unlisted map transform'' [])]) maps,
         each (\<lambda>e. firsterr [EditLedgerEntry_Validate e,
           fails (\<not> (\<exists>r \<in> set (elems (nz_Rules normalizer)). nr_Rule r = ele_Rule e \<and> nr_Version r = ele_Version e))
             (Errorf ''unlisted ledger rule or version'' [])]) ledger])"

end
