(* ===== verification/Formats_Partition.thy ===== *)
theory Formats_Partition
  imports Formats_Coverage "HOL-Library.Product_Lexorder"
begin

text \<open>
  What an accepted partition has shown: every byte of every text is retained or excluded by
  exactly one span.
\<close>

section \<open>Sorting\<close>

lemma mset_insert_by [simp]: "mset (insert_by lt x ys) = add_mset x (mset ys)"
  by (induction ys) auto

lemma set_insert_by [simp]: "set (insert_by lt x ys) = insert x (set ys)"
  by (induction ys) auto

lemma mset_sort_slice [simp]: "mset (sort_slice lt xs) = mset xs"
proof -
  have "mset (fold (insert_by lt) xs ys) = mset xs + mset ys" for ys
    by (induction xs arbitrary: ys) auto
  then show ?thesis by (simp add: sort_slice_def)
qed

lemma set_sort_slice [simp]: "set (sort_slice lt xs) = set xs"
  by (metis mset_sort_slice set_mset_mset)

lemma sorted_insert_by:
  fixes key :: "'a \<Rightarrow> 'k :: linorder"
  assumes "\<And>a b. lt a b \<longleftrightarrow> key a < key b" "sorted (map key ys)"
  shows "sorted (map key (insert_by lt x ys))"
  using assms(2)
proof (induction ys)
  case (Cons y ys)
  then have "sorted (map key (insert_by lt x ys))" "\<forall>z \<in> set ys. key y \<le> key z" by simp_all
  moreover have "lt x y \<Longrightarrow> key x \<le> key y" "\<not> lt x y \<Longrightarrow> key y \<le> key x"
    using assms(1) [of x y] by (simp_all add: less_imp_le not_less)
  ultimately show ?case using Cons.prems by (cases "lt x y") (auto intro: order_trans)
qed simp

lemma sorted_sort_slice:
  fixes key :: "'a \<Rightarrow> 'k :: linorder"
  assumes "\<And>a b. lt a b \<longleftrightarrow> key a < key b"
  shows "sorted (map key (sort_slice lt xs))"
proof -
  have "sorted (map key ys) \<Longrightarrow> sorted (map key (fold (insert_by lt) xs ys))" for ys
    by (induction xs arbitrary: ys) (simp_all add: sorted_insert_by [OF assms])
  then show ?thesis by (simp add: sort_slice_def)
qed

definition span_key :: "Span \<Rightarrow> string \<times> string \<times> string \<times> int \<times> int" where
  "span_key s = (sp_ArtifactHash s, sp_BlockID s, sp_Space s, span_start s, span_end s)"

lemma spanLess_key: "spanLess a b \<longleftrightarrow> span_key a < span_key b"
  by (auto simp: spanLess_def span_key_def)

section \<open>Coverage spans\<close>

definition coverage_span :: "Span \<Rightarrow> bool" where
  "coverage_span s \<longleftrightarrow> sp_BlockID s = ''document'' \<and> sp_Space s = NormalizedText
     \<and> 0 \<le> span_start s \<and> span_start s < span_end s"

lemma coverage_loop_spans: "coverage_loop previous ss = None \<Longrightarrow> s \<in> set ss \<Longrightarrow> coverage_span s"
proof (induction previous ss rule: coverage_loop.induct)
  case (2 previous x ss)
  then have "coverage_loop (Some x) ss = None" "Span_Validate x = None" "sp_Range x \<noteq> None"
    "sp_BlockID x = ''document''" "sp_Space x = NormalizedText" by simp_all
  with "2.IH" "2.prems"(2) show ?case
    by (auto simp: coverage_span_def Span_Validate_def ByteRange_Validate_def span_start_def span_end_def)
qed simp

lemma gap_loop_spans: "gap_loop n previous gs = None \<Longrightarrow> g \<in> set gs \<Longrightarrow> coverageSpans (gap_Spans g) = None"
  by (induction n previous gs rule: gap_loop.induct) auto

lemma filter_key: "distinct (map f xs) \<Longrightarrow> x \<in> set xs \<Longrightarrow> filter (\<lambda>y. f y = f x) xs = [x]"
  by (induction xs) (auto simp: filter_empty_conv rev_image_eqI)

lemma coverageShape_spans:
  assumes "coverageShape gaps retained = None" "i < length (elems retained)"
  shows "partition_spans (elems gaps) (elems retained) (int i) = gap_spans (elems gaps) (int i) @ elems (ret_Spans (elems retained ! i))"
    and "\<forall>s \<in> set (partition_spans (elems gaps) (elems retained) (int i)). coverage_span s"
proof -
  have r: "ret_Ordinal (elems retained ! j) = int j \<and> coverageSpans (ret_Spans (elems retained ! j)) = None"
    if "j < length (elems retained)" for j using that assms(1) by (simp add: coverageShape_def)
  have "filter (\<lambda>r. ret_Ordinal r = int i) (elems retained) = [elems retained ! i]"
  proof -
    have "map ret_Ordinal (elems retained) = map int [0..<length (elems retained)]"
      using r by (intro nth_equalityI) auto
    then have "distinct (map ret_Ordinal (elems retained))" by (simp add: distinct_map)
    moreover have "elems retained ! i \<in> set (elems retained)" "ret_Ordinal (elems retained ! i) = int i"
      using assms(2) r by auto
    ultimately show ?thesis using filter_key [of ret_Ordinal "elems retained" "elems retained ! i"] by simp
  qed
  then show eq: "partition_spans (elems gaps) (elems retained) (int i)
      = gap_spans (elems gaps) (int i) @ elems (ret_Spans (elems retained ! i))"
    by (simp add: partition_spans_def)
  have g: "gap_loop (length (elems retained)) None (elems gaps) = None" using assms(1) by (simp add: coverageShape_def)
  show "\<forall>s \<in> set (partition_spans (elems gaps) (elems retained) (int i)). coverage_span s"
    unfolding eq using r [OF assms(2)] gap_loop_spans [OF g]
    by (auto simp: gap_spans_def coverageSpans_def dest: coverage_loop_spans)
qed

section \<open>Tiling\<close>

definition covers :: "Span \<Rightarrow> int \<Rightarrow> bool" where
  "covers s b \<longleftrightarrow> span_start s \<le> b \<and> b < span_end s"

definition cover_count :: "Span list \<Rightarrow> int \<Rightarrow> nat" where
  "cover_count ss b = length (filter (\<lambda>s. covers s b) ss)"

lemma cover_count_simps [simp]:
  "cover_count [] b = 0" "cover_count (s # ss) b = (if covers s b then 1 else 0) + cover_count ss b"
  by (simp_all add: cover_count_def)

lemma cover_count_mset: "mset ss = mset ts \<Longrightarrow> cover_count ss b = cover_count ts b"
  unfolding cover_count_def by (metis mset_filter size_mset)

lemma cover_count_pos: "0 < cover_count ss b \<longleftrightarrow> (\<exists>s \<in> set ss. covers s b)"
  by (auto simp: cover_count_def filter_empty_conv)

lemma tile_loop_objects: "tile_loop t e ss = None \<Longrightarrow> \<forall>s \<in> set ss. sp_ArtifactHash s = as_SHA256 t"
  by (induction t e ss rule: tile_loop.induct) (auto split: if_splits)

lemma tile_loop_count:
  assumes "sorted (map span_start ss)" "\<forall>s \<in> set ss. sp_ArtifactHash s = as_SHA256 t \<and> span_start s < span_end s"
    "e \<le> as_ByteSize t"
  shows "tile_loop t e ss = None \<longleftrightarrow> (\<forall>b. cover_count ss b = (if e \<le> b \<and> b < as_ByteSize t then 1 else 0))"
  using assms
proof (induction ss arbitrary: e)
  case Nil
  have "(\<forall>b. \<not> (e \<le> b \<and> b < as_ByteSize t)) \<longleftrightarrow> e = as_ByteSize t"
    using Nil.prems(3) by (metis linorder_not_less order.order_iff_strict order_refl)
  then show ?case by auto
next
  case (Cons s ss)
  let ?n = "as_ByteSize t"
  have s: "sp_ArtifactHash s = as_SHA256 t" "span_start s < span_end s" using Cons.prems(2) by simp_all
  have later: "\<forall>x \<in> set ss. span_start s \<le> span_start x" using Cons.prems(1) by simp
  show ?case
  proof (cases "span_start s = e \<and> span_end s \<le> ?n")
    case True
    have "cover_count (s # ss) b = (if e \<le> b \<and> b < ?n then 1 else 0)
        \<longleftrightarrow> cover_count ss b = (if span_end s \<le> b \<and> b < ?n then 1 else 0)" for b
      using True s by (auto simp: covers_def)
    with Cons.IH [of "span_end s"] Cons.prems True s show ?thesis by simp
  next
    case False
    have "\<exists>b. cover_count (s # ss) b \<noteq> (if e \<le> b \<and> b < ?n then 1 else 0)"
    proof (rule ccontr)
      assume "\<nexists>b. cover_count (s # ss) b \<noteq> (if e \<le> b \<and> b < ?n then 1 else 0)"
      then have c: "cover_count (s # ss) b = (if e \<le> b \<and> b < ?n then 1 else 0)" for b by blast
      have "covers s (span_start s)" "covers s (span_end s - 1)" using s by (simp_all add: covers_def)
      then have start: "e \<le> span_start s" "span_start s < ?n" and le: "span_end s \<le> ?n"
        using c [of "span_start s"] c [of "span_end s - 1"] by (auto split: if_splits)
      have "e \<noteq> span_start s" using False le by auto
      with start have "e < span_start s" "e < ?n" by auto
      then have "0 < cover_count (s # ss) e" using c [of e] by simp
      then obtain x where "x \<in> set (s # ss)" "covers x e" unfolding cover_count_pos by blast
      with later \<open>e < span_start s\<close> show False by (auto simp: covers_def)
    qed
    with False s show ?thesis by auto
  qed
qed

lemma tile_sorted:
  assumes "\<forall>s \<in> set ss. coverage_span s" "0 \<le> as_ByteSize t"
  shows "tile_loop t 0 (sort_slice spanLess ss) = None \<longleftrightarrow>
    (\<forall>s \<in> set ss. sp_ArtifactHash s = as_SHA256 t)
    \<and> (\<forall>b. cover_count ss b = (if 0 \<le> b \<and> b < as_ByteSize t then 1 else 0))"
proof (cases "\<forall>s \<in> set ss. sp_ArtifactHash s = as_SHA256 t")
  case True
  let ?ts = "sort_slice spanLess ss"
  have ordered: "sorted_wrt (\<lambda>x y. span_key x \<le> span_key y) ?ts"
    using sorted_sort_slice [of spanLess span_key ss, OF spanLess_key] by (simp add: sorted_map)
  have key: "\<forall>s \<in> set ?ts. span_key s = (as_SHA256 t, ''document'', NormalizedText, span_start s, span_end s)"
    using True assms(1) by (auto simp: span_key_def coverage_span_def)
  have mono: "span_start x \<le> span_start y" if "x \<in> set ?ts" "y \<in> set ?ts" "span_key x \<le> span_key y" for x y
    using that(3) unfolding key [rule_format, OF that(1)] key [rule_format, OF that(2)] by auto
  have "sorted_wrt (\<lambda>x y. span_start x \<le> span_start y) ?ts"
    by (rule sorted_wrt_mono_rel [OF mono ordered])
  then have sorted: "sorted (map span_start ?ts)" by (simp add: sorted_map)
  have "cover_count ?ts = cover_count ss" by (rule ext) (rule cover_count_mset, simp)
  with tile_loop_count [OF sorted, of t 0] True assms show ?thesis by (simp add: coverage_span_def)
next
  case False
  then show ?thesis using tile_loop_objects by fastforce
qed

section \<open>The partition\<close>

lemma validateTree_assets:
  assumes "Limits_Validate l = None" "validateTree v l = None" "a \<in> set (root_refs v)"
  shows "AssetRef_Validate a = None"
  using assms leaf_assets_ok [of "leaves False v" a]
  by (simp add: validateTree_def validateTrees_None tree_ok_def set_root_refs [of v False] references_def)

lemma partition_texts:
  assumes "i < length (elems artifacts)" "ca_NormalizedText (elems artifacts ! i) = Some text"
  shows "text \<in> set (root_refs (GStruct [(''Gaps'', gslice gap_gval gaps), (''Retained'', gslice retained_gval retained),
        (''Artifacts'', gslice coverage_gval artifacts)]))"
proof -
  obtain ts where ts: "artifacts = Some ts" using assms(1) by (cases artifacts) auto
  have "text \<in> set (root_refs (coverage_gval (ts ! i)))"
    using assms(2) by (simp add: ts coverage_gval_def gpointer_def)
  with assms(1) show ?thesis by (auto simp: ts gslice_def intro!: bexI [of _ "ts ! i"])
qed

lemma empty_cover:
  assumes "\<forall>s \<in> set ss. coverage_span s"
  shows "(\<forall>b. cover_count ss b = 0) \<longleftrightarrow> ss = []"
proof
  assume none: "\<forall>b. cover_count ss b = 0"
  show "ss = []"
  proof (cases ss)
    case (Cons s ss')
    then have "covers s (span_start s)" using assms by (simp add: covers_def coverage_span_def)
    with none Cons show ?thesis by (metis cover_count_pos less_numeral_extra(3) list.set_intros(1))
  qed simp
qed simp

text \<open>
  An artifact whose text is covered exactly: with text, every byte of it lies in exactly one span,
  no span leaves it, and all of them name its hash; without text there is no span, and a gap of
  artifact or revision scope says so.
\<close>

definition covered_once :: "Gap list \<Rightarrow> Retained list \<Rightarrow> int \<Rightarrow> CoverageArtifact \<Rightarrow> bool" where
  "covered_once gaps retained i a \<longleftrightarrow>
    (let spans = partition_spans gaps retained i in
     ca_Ordinal a = i
     \<and> (case ca_NormalizedText a of
          None \<Rightarrow> spans = [] \<and> explicit_gap gaps i
        | Some text \<Rightarrow>
            (\<forall>b. cover_count spans b = (if 0 \<le> b \<and> b < as_ByteSize text then 1 else 0))
            \<and> list_all (\<lambda>s. sp_ArtifactHash s = as_SHA256 text) spans
            \<and> (0 < as_ByteSize text \<or> explicit_gap gaps i)))"

lemma ValidatePartition_covered:
  "ValidatePartition gaps retained artifacts l = None \<longleftrightarrow>
    Limits_Validate l = None
    \<and> validateTree (GStruct [(''Gaps'', gslice gap_gval gaps), (''Retained'', gslice retained_gval retained),
        (''Artifacts'', gslice coverage_gval artifacts)]) l = None
    \<and> coverageShape gaps retained = None \<and> length (elems artifacts) = length (elems retained)
    \<and> list_all (\<lambda>(i, a). covered_once (elems gaps) (elems retained) (int i) a) (enumerate 0 (elems artifacts))"
proof -
  let ?v = "GStruct [(''Gaps'', gslice gap_gval gaps), (''Retained'', gslice retained_gval retained),
        (''Artifacts'', gslice coverage_gval artifacts)]"
  let ?spans = "\<lambda>i. partition_spans (elems gaps) (elems retained) (int i)"
  have tiled: "artifact_tiles (elems gaps) (elems retained) (int i) (elems artifacts ! i) = None \<longleftrightarrow>
      covered_once (elems gaps) (elems retained) (int i) (elems artifacts ! i)"
    if "Limits_Validate l = None" "validateTree ?v l = None" "coverageShape gaps retained = None"
      "i < length (elems artifacts)" "length (elems artifacts) = length (elems retained)" for i
  proof -
    let ?a = "elems artifacts ! i"
    note shape = coverageShape_spans [OF that(3), of i]
    have i: "i < length (elems retained)" using that(4,5) by simp
    have "AssetRef_Validate x = None" if t: "ca_NormalizedText ?a = Some x" for x
      using validateTree_assets [OF \<open>Limits_Validate l = None\<close> \<open>validateTree ?v l = None\<close>, of x]
        partition_texts [OF \<open>i < length (elems artifacts)\<close> t] by simp
    then have "0 \<le> as_ByteSize x" if "ca_NormalizedText ?a = Some x" for x
      using that asset_size_nonneg by blast
    have tiles: "artifact_tiles (elems gaps) (elems retained) (int i) ?a = None \<longleftrightarrow> ca_Ordinal ?a = int i
        \<and> (case ca_NormalizedText ?a of None \<Rightarrow> ?spans i = [] \<and> explicit_gap (elems gaps) (int i)
           | Some x \<Rightarrow> if as_ByteSize x = 0 then ?spans i = [] \<and> explicit_gap (elems gaps) (int i)
               else tile_loop x 0 (sort_slice spanLess (?spans i)) = None)"
      unfolding artifact_tiles_def Let_def shape(1) [OF i] by (auto split: option.split)
    show ?thesis
    proof (cases "ca_NormalizedText ?a")
      case None
      then show ?thesis using tiles by (simp add: covered_once_def)
    next
      case (Some x)
      with \<open>\<And>x. ca_NormalizedText ?a = Some x \<Longrightarrow> AssetRef_Validate x = None\<close>
      have "0 \<le> as_ByteSize x" by (intro asset_size_nonneg)
      show ?thesis
      proof (cases "as_ByteSize x = 0")
        case True
        then have "(\<forall>b. cover_count (?spans i) b = (if 0 \<le> b \<and> b < as_ByteSize x then 1 else 0)) \<longleftrightarrow> ?spans i = []"
          using empty_cover [OF shape(2) [OF i]] by simp
        with True Some show ?thesis unfolding tiles covered_once_def Let_def by auto
      next
        case False
        with Some \<open>0 \<le> as_ByteSize x\<close> show ?thesis
          unfolding tiles covered_once_def Let_def by (simp add: tile_sorted [OF shape(2) [OF i]] list_all_iff) blast
      qed
    qed
  qed
  show ?thesis
  proof (cases "Limits_Validate l = None \<and> validateTree ?v l = None \<and> coverageShape gaps retained = None
      \<and> length (elems artifacts) = length (elems retained)")
    case True
    then have "each_idx (artifact_tiles (elems gaps) (elems retained)) (elems artifacts) = None \<longleftrightarrow>
        list_all (\<lambda>(i, a). covered_once (elems gaps) (elems retained) (int i) a) (enumerate 0 (elems artifacts))"
      using tiled by (fastforce simp: list_all_iff in_set_enumerate_eq)
    with True show ?thesis by (simp add: ValidatePartition_def del: each_idx_None)
  next
    case False
    then show ?thesis
      unfolding ValidatePartition_def firsterr_None list.set ball_simps(5) ball_simps(7) fails_None by blast
  qed
qed

text \<open>
  C15 (equivalence): \<open>ValidatePartition\<close> accepts coverage of the right shape exactly when every
  text is covered exactly: each byte of a text is either retained or excluded, once.
\<close>

theorem partition_covers_once:
  "ValidatePartition gaps retained artifacts l = None \<longleftrightarrow>
    Limits_Validate l = None
    \<and> validateTree (GStruct [(''Gaps'', gslice gap_gval gaps), (''Retained'', gslice retained_gval retained),
        (''Artifacts'', gslice coverage_gval artifacts)]) l = None
    \<and> coverageShape gaps retained = None \<and> length (elems artifacts) = length (elems retained)
    \<and> list_all (\<lambda>(i, a). covered_once (elems gaps) (elems retained) (int i) a) (enumerate 0 (elems artifacts))"
  by (rule ValidatePartition_covered)

end
