(* ===== verification/Formats_Rollup.thy ===== *)
theory Formats_Rollup
  imports Formats_Reports Formats_Partition
begin


lemma Encode_valid: "Encode c v = Inr e \<Longrightarrow> cd_validate c v = None"
  unfolding Encode_def check_case_Inr firsterr_None by simp

text \<open>The composition: an accepted binding has run both validators on the roll-up.\<close>

lemma binding_runs_both:
  assumes "ValidateRollupBinding inp (Some out) reports v policy l = None"
  shows "\<exists>profile. trustedProfile policy l True = Inr profile
    \<and> validateRollup (pb_ThresholdVersion policy) (elems (pb_GapReasonCodes policy)) profile v = None
    \<and> ValidatePartition (ru_Gaps v) (ru_Retained v) (Some (output_coverage out (length reports)))
        (stricter l (pb_AcceptanceLimits policy)) = None"
proof -
  obtain codec encoded where c: "GateRollupCodec policy l = Inr codec" "Encode codec v = Inr encoded"
    and o: "output_binding inp out (length reports) v policy l = None"
    using assms unfolding ValidateRollupBinding_def
    by (auto simp del: firsterr_None simp: firsterr_eval split: sum.splits prod.splits if_splits option.splits)
  obtain profile where p: "trustedProfile policy l True = Inr profile"
    "cd_validate codec = validateRollup (pb_ThresholdVersion policy) (elems (pb_GapReasonCodes policy)) profile"
    using c(1) by (auto simp: GateRollupCodec_def split: sum.splits)
  have "cd_validate codec v = None" using c(2) by (rule Encode_valid)
  moreover have "ValidatePartition (ru_Gaps v) (ru_Retained v) (Some (output_coverage out (length reports)))
        (stricter l (pb_AcceptanceLimits policy)) = None"
    using o by (auto simp: output_binding_def split: sum.splits prod.splits option.splits)
  ultimately show ?thesis using p by auto
qed

section \<open>No text is lost\<close>





text \<open>A text of ten bytes of which the last four are excluded under a named gap.\<close>

definition sample_cover :: "int \<Rightarrow> int \<Rightarrow> Span" where
  "sample_cover a b = \<lparr>sp_ArtifactHash = sample_digest, sp_BlockID = ''document'', sp_Space = NormalizedText,
     sp_Range = Some \<lparr>br_Start = a, br_End = b\<rparr>, sp_Page = None, sp_Object = [], sp_Member = [],
     sp_TokenOrdinal = None, sp_ReasonCode = []\<rparr>"






lemma sample_cover_ok [simp]: "0 \<le> a \<Longrightarrow> a < b \<Longrightarrow> coverage_loop None [sample_cover a b] = None"
  by (simp add: sample_cover_def Span_Validate_def CoordinateSpace_Valid_def ByteRange_Validate_def)






end
