(* ===== verification/Quality_Text.thy ===== *)
theory Quality_Text
  imports Quality_Thresholds Go_Text
begin

text \<open>
  \<open>internal/corpus/quality/textsignals.go\<close>: the diagnostic signals of a text. The Unicode tables
  behind \<open>unicode.IsLetter\<close>, the mark category \<open>unicode.Mn\<close> and \<open>strings.ToLower\<close>, and the
  normalization forms of \<open>golang.org/x/text\<close>, are arguments (\<open>unicode\<close>).
\<close>

record unicode =
  uc_IsLetter :: "nat \<Rightarrow> bool"
  uc_Mn :: "nat \<Rightarrow> bool"
  uc_ToLower :: "string \<Rightarrow> string"
  uc_NFC :: "string \<Rightarrow> string"
  uc_NFD :: "string \<Rightarrow> string"
  uc_IsNFC :: "string \<Rightarrow> bool"

section \<open>The code\<close>

definition folded :: "unicode \<Rightarrow> string \<Rightarrow> string" where
  "folded u text = concat (map (\<lambda>r. if r = 273 then ''d'' else if uc_Mn u r then [] else encode_rune r)
     (runes (uc_NFD u (uc_ToLower u (join CHR '' '' (Fields (uc_NFC u text)))))))"

definition placeholder :: "unicode \<Rightarrow> string \<Rightarrow> bool" where
  "placeholder u text =
    (let s = folded u text; letters = length (filter (uc_IsLetter u) (runes s)) in
     letters \<le> 200 \<and> Contains s ''dang cap nhat''
     \<and> (Contains s ''file'' \<or> Contains s ''dinh kem'' \<or> letters < 80))"

text \<open>The counters of the loop over the runes.\<close>

definition bad_rune :: "nat \<Rightarrow> bool" where
  "bad_rune r \<longleftrightarrow> r = rune_error \<or> (IsControl r \<and> r \<noteq> 10 \<and> r \<noteq> 9 \<and> r \<noteq> 13 \<and> r \<noteq> 12)"

definition marker_rune :: "nat \<Rightarrow> bool" where
  "marker_rune r \<longleftrightarrow> r \<in> {8730, 8710, 183, 170, 402, 8747, 8800, 8218, 196, 216}"

definition count_runes :: "(nat \<Rightarrow> bool) \<Rightarrow> nat list \<Rightarrow> int" where
  "count_runes p rs = int (length (filter p rs))"

definition ratio :: "bool \<Rightarrow> u64 \<Rightarrow> u64 \<Rightarrow> threshold" where
  "ratio minimum numerator denominator = \<lparr>th_qualification = False, th_minimum = minimum,
     th_numerator = numerator, th_denominator = denominator\<rparr>"

definition greater :: "int \<Rightarrow> int \<Rightarrow> u64 \<Rightarrow> u64 \<Rightarrow> bool" where
  "greater n d numerator denominator \<longleftrightarrow> \<not> passes (ratio False numerator denominator) n d"

definition textSignals :: "unicode \<Rightarrow> string \<Rightarrow> string list" where
  "textSignals u text =
    (let rs = runes text; total = int (length rs);
         letters = count_runes (uc_IsLetter u) rs;
         nonASCII = count_runes (\<lambda>r. uc_IsLetter u r \<and> r > 127) rs;
         bad = count_runes bad_rune rs;
         whitespace = count_runes IsSpace rs;
         pua = count_runes (\<lambda>r. 57344 \<le> r \<and> r \<le> 63743) rs;
         markers = count_runes marker_rune rs;
         cyrillic = count_runes (\<lambda>r. 1024 \<le> r \<and> r \<le> 1279) rs in
     if total = 0 then [''TEXT_EMPTY'']
     else map fst (filter snd [
       (''TEXT_REPLACEMENT_CHARS'', greater bad total 1 100),
       (''TEXT_TOO_FEW_LETTERS'', letters < 50),
       (''TEXT_HIGH_WHITESPACE'', greater whitespace total 2 5),
       (''TEXT_PUA_RUNES'', greater pua total 1 200),
       (''TEXT_MOJIBAKE_MARKERS'', markers \<ge> 8 \<and> greater markers total 1 200),
       (''TEXT_CYRILLIC_MOJIBAKE'', cyrillic \<ge> 8 \<and> passes (ratio True 1 200) cyrillic total),
       (''TEXT_LOW_DIACRITIC_DENSITY'', letters \<ge> 200 \<and> \<not> passes (ratio True 1 50) nonASCII letters),
       (''SOURCE_PLACEHOLDER'', placeholder u text)]))"

text \<open>At most eight signals, so a text cannot flood a report.\<close>

lemma length_textSignals: "length (textSignals u text) \<le> 8"
proof -
  have "length (map fst (filter snd xs)) \<le> length xs" for xs :: "(string \<times> bool) list" by simp
  then show ?thesis unfolding textSignals_def Let_def
    by (auto intro!: order_trans [OF length_filter_le] simp del: filter.simps)
qed

end
