(* ===== verification/Quality_Gate.thy ===== *)
theory Quality_Gate
  imports Quality_Text Quality_Ranges Model_Parts Formats_Reports
begin

text \<open>
  The baseline artifact gate of \<open>internal/corpus/quality\<close>: \<open>gate.go\<close>, \<open>metrics.go\<close>,
  \<open>findings.go\<close>, the reports of \<open>report.go\<close>, and the contracts of \<open>api/ports.go\<close>. A nil gate
  is \<open>None\<close>. \<open>NewGate\<close> is not modelled: it decodes the policy it has just encoded, and the
  decoder is not modelled.
\<close>

section \<open>The contracts\<close>

record GateRequest =
  gq_Document :: DecodedDocument
  gq_Parts :: DecodedPartResult
  gq_Profile :: QualityMetricProfile

record GateResult =
  gt_Report :: QualityReport
  gt_Outcome :: string

definition GateResult_Validate :: "GateResult \<Rightarrow> QualityMetricProfile \<Rightarrow> check" where
  "GateResult_Validate r profile = firsterr [
     fails (gt_Outcome r \<noteq> qr_Outcome (gt_Report r)) (Errorf ''gate outcome differs from report'' []),
     wrap ''quality report: %w'' (QualityReport_Validate (gt_Report r) profile)]"

record QualityEvaluation =
  ev_Metrics :: "QualityMetric list"
  ev_Findings :: "Finding list"
  ev_Outcome :: string

definition ResidencyRequestEnvelope_Validate :: "Envelope \<Rightarrow> check" where
  "ResidencyRequestEnvelope_Validate e =
     wrap ''screen envelope: %w'' (ValidateEnvelope (env_Key e) ''screen'' (env_Manifest e))"

definition ResidencyRequestEnvelope_MarshalJSON :: "Envelope \<Rightarrow> gerr + nat list" where
  "ResidencyRequestEnvelope_MarshalJSON e =
     serialize ''serialize screen envelope: %w'' (MarshalEnvelope (env_Key e) ''screen'' (env_Manifest e))"

definition GateRequest_Validate :: "GateRequest \<Rightarrow> check" where
  "GateRequest_Validate r = firsterr [
     wrap ''decoded document: %w'' (DecodedDocument_Validate (gq_Document r)),
     wrap ''decoded parts: %w'' (DecodedPartResult_Validate (gq_Parts r)),
     wrap ''trusted metric profile: %w'' (QualityMetricProfile_Validate (gq_Profile r))]"

section \<open>metrics.go and findings.go\<close>

definition unknownMetric :: "MetricRequirement \<Rightarrow> string \<Rightarrow> QualityMetric" where
  "unknownMetric r reason = \<lparr>qm_Kind = mr_Kind r, qm_State = MetricUnknown, qm_Numerator = 0, qm_Denominator = 0,
     qm_Threshold = mr_Threshold r, qm_Mandatory = mr_Mandatory r, qm_Passed = False, qm_ReasonCode = reason,
     qm_Evidence = [], qm_Exclusions = []\<rparr>"

definition baselineReason :: "string \<Rightarrow> string" where
  "baselineReason kind =
    (if kind = MetricGeometry \<or> kind = MetricFidelity then ''BASELINE_UNQUALIFIED''
     else if kind = MetricPageAccounting then ''PAGE_INVENTORY_UNAVAILABLE''
     else if kind = MetricTextCoverage then ''REGION_INVENTORY_UNAVAILABLE''
     else if kind = MetricTableIntegrity then ''TABLE_INVENTORY_UNAVAILABLE''
     else if kind = MetricMetadataAgreement then ''METADATA_UNAVAILABLE''
     else if kind = MetricStructureCompleteness then ''SOURCE_STRUCTURE_UNAVAILABLE''
     else if kind = MetricProvenanceCompleteness then ''PROVENANCE_VERIFICATION_UNAVAILABLE''
     else if kind = MetricDiacriticValidity \<or> kind = MetricCitationParse then ''LANGUAGE_RULES_UNQUALIFIED''
     else if kind = MetricCorruption then ''CORRUPTION_RULES_UNQUALIFIED''
     else ''BASELINE_UNQUALIFIED'')"

definition artifactFinding :: "Digest \<Rightarrow> string \<Rightarrow> string \<Rightarrow> Finding" where
  "artifactFinding original code severity = \<lparr>fnd_ReasonCode = code, fnd_Severity = severity, fnd_Scope = GapArtifact,
     fnd_ScopeKey = original, fnd_Spans = [], fnd_Evidence = []\<rparr>"

text \<open>\<open>strings.ToUpper\<close> of a metric kind, which is ASCII.\<close>

definition upper_char :: "char \<Rightarrow> char" where
  "upper_char c = (if 97 \<le> byte_of c \<and> byte_of c \<le> 122 then char_of_byte (byte_of c - 32) else c)"

definition unknownFinding :: "Digest \<Rightarrow> MetricRequirement \<Rightarrow> Finding" where
  "unknownFinding original r = artifactFinding original
     (if mr_Kind r = MetricFidelity then ''FIDELITY_UNQUALIFIED'' else map upper_char (mr_Kind r) @ ''_UNKNOWN'')
     (if mr_Mandatory r then SeverityBlocking else SeverityWarning)"

definition textBearing :: "string \<Rightarrow> bool" where
  "textBearing kind \<longleftrightarrow> kind = BlockHeading \<or> kind = BlockParagraph \<or> kind = BlockListItem \<or> kind = BlockTable"

section \<open>Relations between the document and its parts\<close>

text \<open>
  \<open>validParents\<close>: the inner loop with its path (\<open>ascend\<close>, \<open>None\<close> for false), and the loop over
  the map's identities in iteration order.
\<close>

function ascend :: "parent_map \<Rightarrow> (string \<Rightarrow> nat) \<Rightarrow> string list \<Rightarrow> string \<Rightarrow> ((string \<Rightarrow> nat) \<times> string list) option" where
  "ascend parents states path current =
    (if current = [] \<or> states current = 2 then Some (states, path)
     else case map_of parents current of
       None \<Rightarrow> None
     | Some p \<Rightarrow> if states current = 1 then None
         else ascend parents (states(current := 1)) (path @ [current]) p)"
  by pat_completeness auto
termination
proof (relation "measure (\<lambda>(parents, states, path, current).
    length (filter (\<lambda>x. states x \<noteq> 1 \<and> states x \<noteq> 2) (map fst parents)))")
  fix parents :: parent_map and states :: "string \<Rightarrow> nat" and path current p
  assume a: "\<not> (current = [] \<or> states current = 2)" "map_of parents current = Some p" "states current \<noteq> 1"
  then have "current \<in> set (map fst parents)" by (force dest: map_of_SomeD)
  with a show "((parents, states(current := 1), path @ [current], p), (parents, states, path, current)) \<in>
      measure (\<lambda>(parents, states, path, current).
        length (filter (\<lambda>x. states x \<noteq> 1 \<and> states x \<noteq> 2) (map fst parents)))"
    by (simp only: in_measure prod.case) (rule length_filter_strict, auto split: if_splits)
qed auto

declare ascend.simps [simp del]

fun validParents :: "parent_map \<Rightarrow> (string \<Rightarrow> nat) \<Rightarrow> string list \<Rightarrow> bool" where
  "validParents parents states [] = True"
| "validParents parents states (i # ids) =
    (case ascend parents states [] i of None \<Rightarrow> False
     | Some (states', path) \<Rightarrow> validParents parents (mark_visited states' path) ids)"

text \<open>\<open>spanAnchor\<close>: a span without its range, whose presence it keeps.\<close>

definition anchor :: "Span \<Rightarrow> Span \<times> bool" where
  "anchor s = (s\<lparr>sp_Range := None\<rparr>, sp_Range s \<noteq> None)"

definition part_span_ok :: "Digest \<Rightarrow> parent_map \<Rightarrow> Span \<Rightarrow> bool" where
  "part_span_ok original parents s \<longleftrightarrow>
     \<not> (sp_Space s = OriginalBytes \<and> sp_ArtifactHash s \<noteq> original)
     \<and> (sp_BlockID s = [] \<or> map_of parents (sp_BlockID s) \<noteq> None)"

text \<open>
  The \<open>parents\<close> and \<open>namespaces\<close> maps (a later entry of an identity replaces an earlier one), the
  anchors the blocks provide, and the ranges they and the exclusions give for an anchor.
\<close>

definition gate_parents :: "DecodedBlock list \<Rightarrow> parent_map" where
  "gate_parents bs = rev (map (\<lambda>b. (dbl_ID b, dbl_ParentID b)) bs)"

definition block_spans :: "DecodedBlock list \<Rightarrow> Span list" where
  "block_spans bs = concat (map dbl_SourceSpans bs)"

definition anchor_ranges :: "Span \<times> bool \<Rightarrow> Span list \<Rightarrow> ByteRange list" where
  "anchor_ranges a spans = concat (map (\<lambda>s. case sp_Range s of None \<Rightarrow> [] | Some r \<Rightarrow> [r]) (filter (\<lambda>s. anchor s = a) spans))"

definition blocks_ok :: "Digest \<Rightarrow> DecodedBlock list \<Rightarrow> bool" where
  "blocks_ok original bs \<longleftrightarrow> list_all (\<lambda>b. list_all (\<lambda>s.
       \<not> (sp_BlockID s \<noteq> [] \<and> sp_BlockID s \<noteq> dbl_ID b)
       \<and> \<not> (sp_Space s = OriginalBytes \<and> sp_ArtifactHash s \<noteq> original)) (dbl_SourceSpans b)) bs"

fun namespace_loop :: "Digest \<Rightarrow> parent_map \<Rightarrow> parent_map \<Rightarrow> DecodedNamespace list \<Rightarrow> parent_map option" where
  "namespace_loop original parents namespaces [] = Some namespaces"
| "namespace_loop original parents namespaces (n # ns) =
    (if map_of namespaces (dns_Key n) \<noteq> None \<or> \<not> part_span_ok original parents (dns_Boundary n) then None
     else namespace_loop original parents ((dns_Key n, dns_ParentKey n) # namespaces) ns)"

fun owned_loop :: "parent_map \<Rightarrow> string list \<Rightarrow> string list \<Rightarrow> string list option" where
  "owned_loop parents owned [] = Some owned"
| "owned_loop parents owned (i # ids) =
    (if map_of parents i = None \<or> i \<in> set owned then None else owned_loop parents (i # owned) ids)"

fun classified_loop :: "Digest \<Rightarrow> parent_map \<Rightarrow> parent_map \<Rightarrow> string list \<Rightarrow> ClassifiedRange list \<Rightarrow> bool" where
  "classified_loop original parents namespaces owned [] = True"
| "classified_loop original parents namespaces owned (c # cs) =
    (if clr_ArtifactHash c \<noteq> original \<or> map_of namespaces (clr_Namespace c) = None then False
     else case owned_loop parents owned (clr_BlockIDs c) of None \<Rightarrow> False
     | Some owned' \<Rightarrow>
         list_all (\<lambda>s. part_span_ok original parents s
           \<and> (sp_BlockID s = [] \<or> sp_BlockID s \<in> set (clr_BlockIDs c))) (clr_Spans c)
         \<and> classified_loop original parents namespaces owned' cs)"

text \<open>\<open>order\<close> is the iteration order of a parent map.\<close>

definition validRelations :: "(parent_map \<Rightarrow> string list) \<Rightarrow> GateRequest \<Rightarrow> bool" where
  "validRelations order r =
    (let original = dec_OriginalHash (gq_Document r); blocks = dec_Blocks (gq_Document r); parts = gq_Parts r;
         parents = gate_parents blocks; provenance = block_spans blocks;
         excluded = map exr_Span (dp_Exclusions parts) in
     blocks_ok original blocks \<and> validParents parents (\<lambda>_. 0) (order parents)
     \<and> (case namespace_loop original parents [] (dp_Namespaces parts) of None \<Rightarrow> False
        | Some namespaces \<Rightarrow>
            validParents namespaces (\<lambda>_. 0) (order namespaces)
            \<and> classified_loop original parents namespaces [] (dp_ClassifiedRanges parts)
            \<and> list_all (\<lambda>s. anchor s \<in> anchor ` set provenance) excluded
            \<and> list_all (\<lambda>ref. part_span_ok original parents (dpr_Span ref)
                \<and> list_all (\<lambda>t. map_of namespaces t \<noteq> None) (dpr_TargetKeys ref)) (dp_ReferenceSpans parts)
            \<and> list_all (\<lambda>a. part_span_ok original parents (aex_Evidence a)) (dp_RequiredArtifacts parts)
            \<and> list_all (\<lambda>f. list_all (part_span_ok original parents) (fnd_Spans f)) (dp_Findings parts)
            \<and> list_all (\<lambda>s. rangesCovered (anchor_ranges (anchor s) provenance) (anchor_ranges (anchor s) excluded))
                excluded))"

section \<open>Evaluation\<close>

record Gate =
  ga_policy :: PolicyBundle
  ga_limits :: Limits
  ga_profile :: QualityMetricProfile
  ga_codec :: "GateReport Codec"

abbreviation (input) errInput :: gerr where "errInput \<equiv> Sentinel ''GATE_INPUT_INVALID''"
abbreviation (input) errPolicy :: gerr where "errPolicy \<equiv> Sentinel ''GATE_POLICY_INVALID''"
abbreviation (input) errLimit :: gerr where "errLimit \<equiv> Sentinel ''GATE_REPORT_LIMIT''"

definition sameString :: "string \<Rightarrow> string \<Rightarrow> bool" where
  "sameString a b \<longleftrightarrow> length a = length b \<and> a = b"

definition pinned :: "Gate \<Rightarrow> QualityMetricProfile \<Rightarrow> bool" where
  "pinned g profile \<longleftrightarrow>
     sameString (qp_PolicyHash profile) (qp_PolicyHash (ga_profile g))
     \<and> length (qp_Metrics profile) = length (qp_Metrics (ga_profile g))
     \<and> list_all (\<lambda>(want, got). sameString (mr_Kind got) (mr_Kind want) \<and> sameString (mr_Threshold got) (mr_Threshold want)
         \<and> mr_Mandatory got = mr_Mandatory want \<and> mr_AllowNotApplicable got = mr_AllowNotApplicable want)
       (zip (qp_Metrics (ga_profile g)) (qp_Metrics profile))"

definition limits_exceed :: "Gate \<Rightarrow> RuleLimits \<Rightarrow> bool" where
  "limits_exceed g l \<longleftrightarrow> RuleLimits_Validate l \<noteq> None \<or> lim_MaxItems l > gl_MaxRows (ga_limits g)
     \<or> lim_MaxBytes l > gl_MaxJSONBytes (ga_limits g)"

text \<open>
  The evaluation under construction with its budget; a step that does not fit gives the whole
  evaluation up. \<open>copyFinding\<close> copies what the pointers and slices of a finding hold, which is the
  same value.
\<close>

type_synonym drafting = "resultBudget \<times> QualityEvaluation"

definition add_metric :: "QualityMetric \<Rightarrow> drafting \<Rightarrow> drafting option" where
  "add_metric m d = map_option (\<lambda>b. (b, (snd d)\<lparr>ev_Metrics := ev_Metrics (snd d) @ [m]\<rparr>)) (reserve_metric m (fst d))"

definition add_finding :: "Finding \<Rightarrow> drafting \<Rightarrow> drafting option" where
  "add_finding f d = map_option (\<lambda>b. (b, (snd d)\<lparr>ev_Findings := ev_Findings (snd d) @ [f]\<rparr>)) (reserve_finding f (fst d))"

fun add_findings :: "Finding list \<Rightarrow> drafting \<Rightarrow> drafting option" where
  "add_findings [] d = Some d"
| "add_findings (f # fs) d = (case add_finding f d of None \<Rightarrow> None | Some d' \<Rightarrow> add_findings fs d')"

fun add_unknown :: "Digest \<Rightarrow> MetricRequirement list \<Rightarrow> drafting \<Rightarrow> drafting option" where
  "add_unknown original [] d = Some d"
| "add_unknown original (r # rs) d =
    (case add_metric (unknownMetric r (baselineReason (mr_Kind r))) d of None \<Rightarrow> None
     | Some d1 \<Rightarrow> case add_finding (unknownFinding original r) d1 of None \<Rightarrow> None
     | Some d2 \<Rightarrow> add_unknown original rs d2)"

text \<open>The findings of a block, in the order of its two signals.\<close>

definition block_findings :: "unicode \<Rightarrow> Digest \<Rightarrow> DecodedBlock \<Rightarrow> Finding list" where
  "block_findings u original b =
    (if \<not> textBearing (dbl_Kind b) then []
     else map (\<lambda>(code, severity, on). (artifactFinding original code severity)\<lparr>fnd_Spans := dbl_SourceSpans b\<rparr>)
       (filter (\<lambda>(code, severity, on). on) [
         (''TEXT_NOT_NFC'', SeverityBlocking, \<not> uc_IsNFC u (dbl_NormalizedText b)),
         (''EMPTY_TEXT_BLOCK'', SeverityWarning, dbl_NormalizedText b = [])]))"

definition gate_text :: "DecodedBlock list \<Rightarrow> string" where
  "gate_text bs = concat (map dbl_NormalizedText (filter (\<lambda>b. textBearing (dbl_Kind b)) bs))"

definition excluded_finding :: "Digest \<Rightarrow> ExcludedRange list \<Rightarrow> Finding" where
  "excluded_finding original es =
     (artifactFinding original ''EXCLUSIONS_UNSUPPORTED'' SeverityBlocking)\<lparr>fnd_Spans := map exr_Span es\<rparr>"

definition add_exclusions :: "Digest \<Rightarrow> ExcludedRange list \<Rightarrow> drafting \<Rightarrow> drafting option" where
  "add_exclusions original es d =
    (if es = [] then Some d
     else map_option (\<lambda>b. (b, (snd d)\<lparr>ev_Findings := ev_Findings (snd d) @ [excluded_finding original es]\<rparr>))
       (reserveExclusions (artifactFinding original ''EXCLUSIONS_UNSUPPORTED'' SeverityBlocking) es (fst d)))"

definition bind_draft :: "drafting option \<Rightarrow> (drafting \<Rightarrow> drafting option) \<Rightarrow> drafting option" where
  "bind_draft d f = (case d of None \<Rightarrow> None | Some x \<Rightarrow> f x)"

definition empty_evaluation :: QualityEvaluation where
  "empty_evaluation = \<lparr>ev_Metrics = [], ev_Findings = [], ev_Outcome = QualityQuarantined\<rparr>"

definition start_draft :: "Limits \<Rightarrow> drafting option" where
  "start_draft l = map_option (\<lambda>b. (b, empty_evaluation)) (newEvaluationBudget l)"

definition draft_evaluation :: "unicode \<Rightarrow> Gate \<Rightarrow> GateRequest \<Rightarrow> drafting option" where
  "draft_evaluation u g r =
    (let original = dec_OriginalHash (gq_Document r); blocks = dec_Blocks (gq_Document r);
         d0 = start_draft (ga_limits g);
         d1 = bind_draft d0 (add_unknown original (qp_Metrics (ga_profile g)));
         d2 = bind_draft d1 (add_findings (concat (map (block_findings u original) blocks)));
         d3 = bind_draft d2 (add_findings
           (map (\<lambda>code. artifactFinding original code SeverityWarning) (textSignals u (gate_text blocks))));
         d4 = bind_draft d3 (add_exclusions original (dp_Exclusions (gq_Parts r)))
     in bind_draft d4 (add_findings (dp_Findings (gq_Parts r))))"

definition Evaluate :: "unicode \<Rightarrow> (parent_map \<Rightarrow> string list) \<Rightarrow> Gate option \<Rightarrow> GateRequest \<Rightarrow> gerr + QualityEvaluation" where
  "Evaluate u order gate r =
    (case gate of None \<Rightarrow> Inl errPolicy
     | Some g \<Rightarrow>
       if qp_Metrics (ga_profile g) = [] \<or> \<not> pinned g (gq_Profile r) then Inl errPolicy
       else if limits_exceed g (dec_Limits (gq_Document r)) \<or> limits_exceed g (dp_Limits (gq_Parts r)) then Inl errInput
       else if GateRequest_Validate r \<noteq> None \<or> \<not> validRelations order r then Inl errInput
       else case draft_evaluation u g r of None \<Rightarrow> Inl errLimit | Some (b, ev) \<Rightarrow> Inr ev)"

end
