(* ===== verification/Quality_Evaluation.thy ===== *)
theory Quality_Evaluation
  imports Quality_Gate
begin

text \<open>
  What the gate's evaluation is: the parent walk decides forests, and the incremental
  reservation of records, rows and bytes refuses exactly the evaluations that do not fit.
\<close>

section \<open>The parent walk\<close>

lemma ascend_climb:
  assumes "\<forall>x. st x = 2 \<longrightarrow> map_of ps x \<noteq> None"
  shows "ascend ps st path cur = (case climb ps st path cur of Inl e \<Rightarrow> None | Inr r \<Rightarrow> Some r)"
  using assms
proof (induction ps st path cur rule: ascend.induct)
  case (1 ps st path cur)
  show ?case
  proof (cases "map_of ps cur")
    case None
    with "1.prems" have "st cur \<noteq> 2" by blast
    with None show ?thesis by (simp add: ascend.simps [of ps st path cur] climb.simps [of ps st path cur])
  next
    case (Some p)
    show ?thesis
    proof (cases "cur = [] \<or> st cur = 2 \<or> st cur = 1")
      case True
      with Some show ?thesis by (auto simp: ascend.simps [of ps st path cur] climb.simps [of ps st path cur])
    next
      case False
      have "\<forall>x. (st(cur := 1)) x = 2 \<longrightarrow> map_of ps x \<noteq> None" using "1.prems" by simp
      with "1.IH" False Some have "ascend ps (st(cur := 1)) (path @ [cur]) p =
          (case climb ps (st(cur := 1)) (path @ [cur]) p of Inl e \<Rightarrow> None | Inr r \<Rightarrow> Some r)" by blast
      with False Some show ?thesis
        by (simp add: ascend.simps [of ps st path cur] climb.simps [of ps st path cur])
    qed
  qed
qed

lemma climb_marks:
  assumes "climb ps st path cur = Inr (st', path')" "\<forall>x. st x = 2 \<or> x \<in> set path \<longrightarrow> map_of ps x \<noteq> None"
  shows "\<forall>x. st' x = 2 \<or> x \<in> set path' \<longrightarrow> map_of ps x \<noteq> None"
  using assms
proof (induction ps st path cur rule: climb.induct)
  case (1 ps st path cur)
  show ?case
  proof (cases "cur = [] \<or> st cur = 2 \<or> st cur = 1 \<or> map_of ps cur = None")
    case True
    with "1.prems" show ?thesis
      by (auto simp: climb.simps [of ps st path cur] split: if_splits option.splits)
  next
    case False
    then obtain p where p: "map_of ps cur = Some p" by blast
    then have rec: "climb ps (st(cur := 1)) (path @ [cur]) p = Inr (st', path')"
      using "1.prems"(1) False by (simp add: climb.simps [of ps st path cur])
    have "\<forall>x. (st(cur := 1)) x = 2 \<or> x \<in> set (path @ [cur]) \<longrightarrow> map_of ps x \<noteq> None"
      using "1.prems"(2) p by auto
    with "1.IH" p False rec show ?thesis by blast
  qed
qed

lemma validParents_climb:
  assumes "\<forall>x. st x = 2 \<longrightarrow> map_of ps x \<noteq> None"
  shows "validParents ps st ids \<longleftrightarrow> climb_all ps st ids = None"
  using assms
proof (induction ids arbitrary: st)
  case (Cons i ids)
  note a = ascend_climb [OF Cons.prems, of "[]" i]
  show ?case
  proof (cases "climb ps st [] i")
    case (Inl e)
    moreover have "st i \<noteq> 2"
      using Inl Cons.prems by (auto simp: climb.simps [of ps st "[]" i] split: if_splits option.splits)
    ultimately show ?thesis using a by simp
  next
    case (Inr r)
    obtain st' path where r: "r = (st', path)" by force
    have "\<forall>x. mark_visited st' path x = 2 \<longrightarrow> map_of ps x \<noteq> None"
      using climb_marks [OF Inr [unfolded r]] Cons.prems by (auto simp: mark_visited_def)
    note IH = Cons.IH [OF this]
    show ?thesis
    proof (cases "st i = 2")
      case True
      then have "r = (st, [])" using Inr Cons.prems
        by (auto simp: climb.simps [of ps st "[]" i] split: if_splits option.splits)
      with True a Inr r IH show ?thesis by (simp add: mark_visited_def)
    qed (use a Inr r IH in simp)
  qed
qed simp

text \<open>The gate's walk gives what the contract model's walk gives.\<close>

interpretation gate_parents: forest_check "\<lambda>ps order. validParents ps (\<lambda>_. 0) order"
  by unfold_locales (simp add: validParents_climb climbing.accept_iff)

section \<open>The reference evaluation\<close>

definition full_evaluation :: "unicode \<Rightarrow> Gate \<Rightarrow> GateRequest \<Rightarrow> QualityEvaluation" where
  "full_evaluation u g r =
    (let original = dec_OriginalHash (gq_Document r); blocks = dec_Blocks (gq_Document r);
         profile = qp_Metrics (ga_profile g); excluded = dp_Exclusions (gq_Parts r) in
     \<lparr>ev_Metrics = map (\<lambda>q. unknownMetric q (baselineReason (mr_Kind q))) profile,
      ev_Findings = map (unknownFinding original) profile
        @ concat (map (block_findings u original) blocks)
        @ map (\<lambda>code. artifactFinding original code SeverityWarning) (textSignals u (gate_text blocks))
        @ (if excluded = [] then [] else [excluded_finding original excluded])
        @ dp_Findings (gq_Parts r),
      ev_Outcome = QualityQuarantined\<rparr>)"

definition evaluation_rval :: "QualityEvaluation \<Rightarrow> rval" where
  "evaluation_rval ev = RStruct [(''Metrics'', RSlice (Some (map metric_rval (ev_Metrics ev)))),
     (''Findings'', RSlice (Some (map finding_rval (ev_Findings ev)))), (''Outcome'', RString (ev_Outcome ev))]"

text \<open>An evaluation that fits the limits: records, array rows and encoded bytes.\<close>

definition evaluation_fits :: "Limits \<Rightarrow> QualityEvaluation \<Rightarrow> bool" where
  "evaluation_fits l ev \<longleftrightarrow>
     int (length (ev_Metrics ev) + length (ev_Findings ev)) \<le> min (gl_MaxRows l) 1000
     \<and> encodable (evaluation_rval ev) \<and> row_count (evaluation_rval ev) \<le> gl_MaxRows l
     \<and> int (length (json_value (evaluation_rval ev))) \<le> gl_MaxJSONBytes l"

section \<open>The reservation is exact\<close>

definition draft_ok :: "Limits \<Rightarrow> drafting \<Rightarrow> bool" where
  "draft_ok l d \<longleftrightarrow> (case d of (b, ev) \<Rightarrow>
     evaluation_fits l ev \<and> ev_Outcome ev = QualityQuarantined
     \<and> rb_rows b = gl_MaxRows l - row_count (evaluation_rval ev)
     \<and> rb_bytes b = gl_MaxJSONBytes l - json_length (evaluation_rval ev)
     \<and> rb_records b = min (gl_MaxRows l) 1000 - int (length (ev_Metrics ev) + length (ev_Findings ev))
     \<and> rb_metricSeen b = (ev_Metrics ev \<noteq> []) \<and> rb_findingSeen b = (ev_Findings ev \<noteq> []))"

text \<open>\<open>d\<close> is the result of a reservation that leads to \<open>ev\<close>.\<close>

definition leads :: "Limits \<Rightarrow> drafting option \<Rightarrow> QualityEvaluation \<Rightarrow> bool" where
  "leads l d ev \<longleftrightarrow> (case d of None \<Rightarrow> \<not> evaluation_fits l ev | Some d' \<Rightarrow> snd d' = ev \<and> draft_ok l d')"

definition extends :: "QualityEvaluation \<Rightarrow> QualityEvaluation \<Rightarrow> bool" where
  "extends ev ev' \<longleftrightarrow> (\<exists>ms fs. ev' = ev\<lparr>ev_Metrics := ev_Metrics ev @ ms, ev_Findings := ev_Findings ev @ fs\<rparr>)"

lemma json_length_nonneg: "0 \<le> json_length v"
  by (simp add: json_length_def)

lemma record_positive: "0 < json_length (metric_rval m)" "0 < json_length (finding_rval f)"
  by (simp_all add: json_length_def metric_rval_def finding_rval_def)

definition bare :: "string \<Rightarrow> rval" where
  "bare out = evaluation_rval \<lparr>ev_Metrics = [], ev_Findings = [], ev_Outcome = out\<rparr>"

lemma evaluation_sizes:
  "row_count (evaluation_rval ev) = int (length (ev_Metrics ev) + length (ev_Findings ev))
     + (\<Sum>m\<leftarrow>ev_Metrics ev. row_count (metric_rval m)) + (\<Sum>f\<leftarrow>ev_Findings ev. row_count (finding_rval f))"
  "json_length (evaluation_rval ev) = elems_length True (map metric_rval (ev_Metrics ev))
     + elems_length True (map finding_rval (ev_Findings ev)) + json_length (bare (ev_Outcome ev))"
  "encodable (evaluation_rval ev) \<longleftrightarrow> list_all (encodable \<circ> metric_rval) (ev_Metrics ev)
     \<and> list_all (encodable \<circ> finding_rval) (ev_Findings ev) \<and> encodable (bare (ev_Outcome ev))"
  by (auto simp: bare_def evaluation_rval_def json_length_struct json_length_slice fields_length_def elems_length_def comp_def
      list_all_iff)

lemma elems_length_append:
  "elems_length True (vs @ [v]) = elems_length True vs + json_length v + (if vs = [] then 0 else 1)"
  "elems_length True [v] = json_length v" "elems_length True [] = 0"
  by (simp_all add: elems_length_def)

lemma walk_exact:
  assumes "0 \<le> rb_rows b" "0 \<le> rb_bytes b"
  shows "walk_value v b = (if encodable v \<and> row_count v \<le> rb_rows b \<and> json_length v \<le> rb_bytes b
    then Some (b\<lparr>rb_rows := rb_rows b - row_count v, rb_bytes := rb_bytes b - json_length v\<rparr>) else None)"
  using takes_walk [of v] assms by (simp add: takes_def)

text \<open>A reservation takes one record, one row and a comma after the first, with the value's own share.\<close>

lemma reserve_metric_exact:
  assumes "0 \<le> rb_rows b" "0 \<le> rb_bytes b" "0 \<le> rb_records b"
  shows "reserve_metric m b = (let v = metric_rval m; c = (if rb_metricSeen b then 1 else 0) in
    if 1 \<le> rb_records b \<and> encodable v \<and> 1 + row_count v \<le> rb_rows b \<and> c + json_length v \<le> rb_bytes b
    then Some (b\<lparr>rb_rows := rb_rows b - 1 - row_count v, rb_bytes := rb_bytes b - c - json_length v,
        rb_records := rb_records b - 1, rb_metricSeen := True\<rparr>) else None)"
proof -
  have pos: "0 \<le> row_count (metric_rval m)" "0 < json_length (metric_rval m)"
    by (rule row_count_nonneg, rule record_positive)
  show ?thesis
  proof (cases "rb_records b = 0 \<or> rb_rows b = 0")
    case True
    with pos show ?thesis by (auto simp: reserve_metric_def reserve_record_def Let_def)
  next
    case False
    with assms pos show ?thesis
      by (auto simp: reserve_metric_def reserve_record_def Let_def budget_take_def walk_exact)
  qed
qed

lemma reserve_finding_exact:
  assumes "0 \<le> rb_rows b" "0 \<le> rb_bytes b" "0 \<le> rb_records b"
  shows "reserve_finding f b = (let v = finding_rval f; c = (if rb_findingSeen b then 1 else 0) in
    if 1 \<le> rb_records b \<and> encodable v \<and> 1 + row_count v \<le> rb_rows b \<and> c + json_length v \<le> rb_bytes b
    then Some (b\<lparr>rb_rows := rb_rows b - 1 - row_count v, rb_bytes := rb_bytes b - c - json_length v,
        rb_records := rb_records b - 1, rb_findingSeen := True\<rparr>) else None)"
proof -
  have pos: "0 \<le> row_count (finding_rval f)" "0 < json_length (finding_rval f)"
    by (rule row_count_nonneg, rule record_positive)
  show ?thesis
  proof (cases "rb_records b = 0 \<or> rb_rows b = 0")
    case True
    with pos show ?thesis by (auto simp: reserve_finding_def reserve_record_def Let_def)
  next
    case False
    with assms pos show ?thesis
      by (auto simp: reserve_finding_def reserve_record_def Let_def budget_take_def walk_exact)
  qed
qed

lemma draft_ok_nonneg:
  "draft_ok l (b, ev) \<Longrightarrow> 0 \<le> rb_rows b \<and> 0 \<le> rb_bytes b \<and> 0 \<le> rb_records b"
  by (auto simp: draft_ok_def evaluation_fits_def json_length_def)

lemma add_metric_leads:
  assumes "draft_ok l (b, ev)"
  shows "leads l (add_metric m (b, ev)) (ev\<lparr>ev_Metrics := ev_Metrics ev @ [m]\<rparr>)"
proof -
  let ?ev = "ev\<lparr>ev_Metrics := ev_Metrics ev @ [m]\<rparr>"
  have sizes: "row_count (evaluation_rval ?ev) = row_count (evaluation_rval ev) + 1 + row_count (metric_rval m)"
    "json_length (evaluation_rval ?ev) = json_length (evaluation_rval ev) + json_length (metric_rval m)
       + (if ev_Metrics ev = [] then 0 else 1)"
    "encodable (evaluation_rval ?ev) \<longleftrightarrow> encodable (evaluation_rval ev) \<and> encodable (metric_rval m)"
    unfolding evaluation_sizes by (auto simp: elems_length_append)
  show ?thesis
    using assms draft_ok_nonneg [OF assms]
    by (auto simp: leads_def add_metric_def reserve_metric_exact Let_def draft_ok_def evaluation_fits_def sizes
        json_length_def [symmetric] split: if_splits option.splits)
qed

lemma add_finding_leads:
  assumes "draft_ok l (b, ev)"
  shows "leads l (add_finding f (b, ev)) (ev\<lparr>ev_Findings := ev_Findings ev @ [f]\<rparr>)"
proof -
  let ?ev = "ev\<lparr>ev_Findings := ev_Findings ev @ [f]\<rparr>"
  have sizes: "row_count (evaluation_rval ?ev) = row_count (evaluation_rval ev) + 1 + row_count (finding_rval f)"
    "json_length (evaluation_rval ?ev) = json_length (evaluation_rval ev) + json_length (finding_rval f)
       + (if ev_Findings ev = [] then 0 else 1)"
    "encodable (evaluation_rval ?ev) \<longleftrightarrow> encodable (evaluation_rval ev) \<and> encodable (finding_rval f)"
    unfolding evaluation_sizes by (auto simp: elems_length_append)
  show ?thesis
    using assms draft_ok_nonneg [OF assms]
    by (auto simp: leads_def add_finding_def reserve_finding_exact Let_def draft_ok_def evaluation_fits_def sizes
        json_length_def [symmetric] split: if_splits option.splits)
qed

text \<open>An evaluation that fits has only fitting beginnings, so a refusal on the way is final.\<close>

lemma fits_shorter:
  assumes "evaluation_fits l ev'" "extends ev ev'"
  shows "evaluation_fits l ev"
proof -
  obtain ms fs where ev': "ev' = ev\<lparr>ev_Metrics := ev_Metrics ev @ ms, ev_Findings := ev_Findings ev @ fs\<rparr>"
    using assms(2) by (auto simp: extends_def)
  have more: "elems_length True vs \<le> elems_length True (vs @ ws)" for vs ws
  proof -
    have "0 \<le> (\<Sum>w\<leftarrow>ws. json_length w)" by (intro sum_list_nonneg) (auto simp: json_length_def)
    moreover have "ws \<noteq> [] \<Longrightarrow> 1 \<le> int (length ws)" by (cases ws) auto
    ultimately show ?thesis by (auto simp: elems_length_def)
  qed
  have "0 \<le> (\<Sum>m\<leftarrow>ms. row_count (metric_rval m))" "0 \<le> (\<Sum>f\<leftarrow>fs. row_count (finding_rval f))"
    by (intro sum_list_nonneg, auto simp: row_count_nonneg)+
  then have "row_count (evaluation_rval ev) \<le> row_count (evaluation_rval ev')"
    "json_length (evaluation_rval ev) \<le> json_length (evaluation_rval ev')"
    "encodable (evaluation_rval ev') \<longrightarrow> encodable (evaluation_rval ev)"
    unfolding evaluation_sizes ev' using more by (auto simp: add_mono)
  with assms(1) show ?thesis
    by (auto simp: evaluation_fits_def ev' json_length_def [symmetric])
qed

lemma leads_bind:
  assumes "leads l d ev" "\<And>d'. draft_ok l d' \<Longrightarrow> snd d' = ev \<Longrightarrow> leads l (f d') ev'" "extends ev ev'"
  shows "leads l (bind_draft d f) ev'"
proof (cases d)
  case None
  with assms(1,3) show ?thesis using fits_shorter by (auto simp: leads_def bind_draft_def)
next
  case (Some d')
  with assms(1,2) show ?thesis by (auto simp: leads_def bind_draft_def)
qed

lemma extends_findings: "extends ev (ev\<lparr>ev_Findings := ev_Findings ev @ fs\<rparr>)"
  unfolding extends_def by (intro exI [of _ "[]"] exI [of _ fs]) simp

lemma add_findings_leads:
  "draft_ok l d \<Longrightarrow> leads l (add_findings fs d) ((snd d)\<lparr>ev_Findings := ev_Findings (snd d) @ fs\<rparr>)"
proof (induction fs arbitrary: d)
  case Nil
  then show ?case by (simp add: leads_def)
next
  case (Cons f fs)
  obtain b ev where d: "d = (b, ev)" by force
  let ?ev = "ev\<lparr>ev_Findings := ev_Findings ev @ [f]\<rparr>"
  have "leads l (bind_draft (add_finding f d) (add_findings fs)) (?ev\<lparr>ev_Findings := ev_Findings ?ev @ fs\<rparr>)"
  proof (rule leads_bind [OF _ _ extends_findings])
    show "leads l (add_finding f d) ?ev" using add_finding_leads [of l b ev f] Cons.prems by (simp add: d)
    show "leads l (add_findings fs d') (?ev\<lparr>ev_Findings := ev_Findings ?ev @ fs\<rparr>)"
      if "draft_ok l d'" "snd d' = ?ev" for d' using Cons.IH [OF that(1)] that(2) by simp
  qed
  then show ?case by (simp add: d bind_draft_def)
qed

lemma add_unknown_leads:
  "draft_ok l d \<Longrightarrow> leads l (add_unknown original rs d) ((snd d)\<lparr>
     ev_Metrics := ev_Metrics (snd d) @ map (\<lambda>q. unknownMetric q (baselineReason (mr_Kind q))) rs,
     ev_Findings := ev_Findings (snd d) @ map (unknownFinding original) rs\<rparr>)"
proof (induction rs arbitrary: d)
  case Nil
  then show ?case by (simp add: leads_def)
next
  case (Cons r rs)
  obtain b ev where d: "d = (b, ev)" by force
  let ?m = "unknownMetric r (baselineReason (mr_Kind r))" and ?f = "unknownFinding original r"
  let ?ev1 = "ev\<lparr>ev_Metrics := ev_Metrics ev @ [?m]\<rparr>"
  let ?ev2 = "?ev1\<lparr>ev_Findings := ev_Findings ?ev1 @ [?f]\<rparr>"
  let ?ev3 = "?ev2\<lparr>ev_Metrics := ev_Metrics ?ev2 @ map (\<lambda>q. unknownMetric q (baselineReason (mr_Kind q))) rs,
     ev_Findings := ev_Findings ?ev2 @ map (unknownFinding original) rs\<rparr>"
  have ext: "extends ?ev2 ?ev3" "extends ?ev1 ?ev3" unfolding extends_def by force+
  have "leads l (bind_draft (add_finding ?f d1) (add_unknown original rs)) ?ev3"
    if d1: "draft_ok l d1" "snd d1 = ?ev1" for d1
  proof (rule leads_bind [OF _ _ ext(1)])
    show "leads l (add_finding ?f d1) ?ev2" using add_finding_leads [of l "fst d1" ?ev1 ?f] d1 by (metis prod.collapse)
    show "leads l (add_unknown original rs d2) ?ev3" if "draft_ok l d2" "snd d2 = ?ev2" for d2
      using Cons.IH [OF that(1)] that(2) by simp
  qed
  note rest = this
  have "leads l (add_metric ?m d) ?ev1" using add_metric_leads [of l b ev ?m] Cons.prems unfolding d by blast
  then have "leads l (bind_draft (add_metric ?m d) (\<lambda>d1. bind_draft (add_finding ?f d1) (add_unknown original rs))) ?ev3"
    by (rule leads_bind [OF _ rest ext(2)])
  then show ?case by (simp add: d bind_draft_def)
qed

lemma finding_spans_sizes:
  assumes "fnd_Spans f = []"
  shows "row_count (finding_rval (f\<lparr>fnd_Spans := ss\<rparr>)) = row_count (finding_rval f) + int (length ss) + (\<Sum>s\<leftarrow>ss. row_count (span_rval s))"
    and "json_length (finding_rval (f\<lparr>fnd_Spans := ss\<rparr>)) = json_length (finding_rval f) + elems_length True (map span_rval ss)"
    and "encodable (finding_rval (f\<lparr>fnd_Spans := ss\<rparr>)) \<longleftrightarrow> encodable (finding_rval f) \<and> list_all (encodable \<circ> span_rval) ss"
  using assms
  by (simp_all add: finding_rval_def json_length_struct fields_length_def json_length_slice elems_length_append(3)
      comp_def list_all_iff) blast

lemma walk_elems_exact:
  assumes "0 \<le> rb_rows b" "0 \<le> rb_bytes b"
  shows "walk_elems True vs b = (if list_all encodable vs \<and> (\<Sum>v\<leftarrow>vs. row_count v) \<le> rb_rows b \<and> elems_length True vs \<le> rb_bytes b
    then Some (b\<lparr>rb_rows := rb_rows b - (\<Sum>v\<leftarrow>vs. row_count v), rb_bytes := rb_bytes b - elems_length True vs\<rparr>) else None)"
  using takes_elems [OF takes_walk, of True vs] assms by (simp add: takes_def)

lemma elems_length_nonneg: "0 \<le> elems_length True vs"
proof -
  have "0 \<le> (\<Sum>v\<leftarrow>vs. json_length v)" by (intro sum_list_nonneg) (auto simp: json_length_def)
  moreover have "vs \<noteq> [] \<Longrightarrow> 1 \<le> int (length vs)" by (cases vs) auto
  ultimately show ?thesis by (auto simp: elems_length_def)
qed

lemma reserveExclusions_exact:
  assumes "fnd_Spans f = []" "0 \<le> rb_rows b" "0 \<le> rb_bytes b" "0 \<le> rb_records b"
  shows "reserveExclusions f es b = reserve_finding (f\<lparr>fnd_Spans := map exr_Span es\<rparr>) b"
proof -
  have pos: "0 \<le> (\<Sum>e\<leftarrow>es. row_count (span_rval (exr_Span e)))" "0 \<le> elems_length True (map (\<lambda>e. span_rval (exr_Span e)) es)"
    "0 \<le> row_count (finding_rval f)" "0 \<le> json_length (finding_rval f)"
    by (intro sum_list_nonneg, auto simp: row_count_nonneg elems_length_nonneg json_length_def)
  have spans: "row_count (finding_rval (f\<lparr>fnd_Spans := map exr_Span es\<rparr>)) = row_count (finding_rval f) + int (length es)
      + (\<Sum>e\<leftarrow>es. row_count (span_rval (exr_Span e)))"
    "json_length (finding_rval (f\<lparr>fnd_Spans := map exr_Span es\<rparr>)) = json_length (finding_rval f)
      + elems_length True (map (\<lambda>e. span_rval (exr_Span e)) es)"
    "encodable (finding_rval (f\<lparr>fnd_Spans := map exr_Span es\<rparr>)) \<longleftrightarrow> encodable (finding_rval f)
      \<and> list_all encodable (map (\<lambda>e. span_rval (exr_Span e)) es)"
    unfolding finding_spans_sizes [OF assms(1)] by (simp_all add: comp_def list_all_iff)
  show ?thesis
    using assms pos
    by (auto simp: reserveExclusions_def reserve_finding_exact Let_def spans walk_elems_exact comp_def)
qed

lemma add_exclusions_leads:
  assumes "draft_ok l d"
  shows "leads l (add_exclusions original es d)
    ((snd d)\<lparr>ev_Findings := ev_Findings (snd d) @ (if es = [] then [] else [excluded_finding original es])\<rparr>)"
proof (cases "es = []")
  case True
  with assms show ?thesis by (simp add: add_exclusions_def leads_def)
next
  case False
  obtain b ev where d: "d = (b, ev)" by force
  have "add_exclusions original es d = add_finding (excluded_finding original es) d"
    using False draft_ok_nonneg [of l b ev] assms
    by (simp add: d add_exclusions_def add_finding_def excluded_finding_def reserveExclusions_exact artifactFinding_def)
  with add_finding_leads [of l b ev "excluded_finding original es"] assms False show ?thesis by (simp add: d)
qed

lemma quoted_loop_rows: "quoted_loop rs b = Some b' \<Longrightarrow> rb_rows b' = rb_rows b"
  by (induction rs b rule: quoted_loop.induct) (auto simp: budget_take_def split: if_splits)

lemma start_draft_leads: "leads l (start_draft l) empty_evaluation"
proof -
  have e: "newEvaluationBudget l = walk_value (evaluation_rval empty_evaluation) (newResultBudget l)"
    by (simp add: newEvaluationBudget_def evaluation_rval_def empty_evaluation_def)
  have sel: "ev_Metrics empty_evaluation = []" "ev_Findings empty_evaluation = []"
    "ev_Outcome empty_evaluation = QualityQuarantined" by (simp_all add: empty_evaluation_def)
  have rows: "row_count (evaluation_rval empty_evaluation) = 0"
    by (simp add: evaluation_rval_def empty_evaluation_def)
  show ?thesis
  proof (cases "0 \<le> gl_MaxRows l \<and> 0 \<le> gl_MaxJSONBytes l")
    case True
    then have "newEvaluationBudget l = (if encodable (evaluation_rval empty_evaluation)
          \<and> json_length (evaluation_rval empty_evaluation) \<le> gl_MaxJSONBytes l
        then Some ((newResultBudget l)\<lparr>rb_bytes := gl_MaxJSONBytes l - json_length (evaluation_rval empty_evaluation)\<rparr>) else None)"
      unfolding e by (subst walk_exact) (simp_all add: newResultBudget_def rows)
    with True show ?thesis
      by (auto simp: leads_def start_draft_def draft_ok_def evaluation_fits_def rows json_length_def [symmetric]
          sel newResultBudget_def)
  next
    case False
    then have "newEvaluationBudget l = None"
      by (auto simp: newEvaluationBudget_def newResultBudget_def budget_take_def quoted_def split: option.split
          dest!: quoted_loop_rows)
    moreover have "\<not> evaluation_fits l empty_evaluation"
      using False json_length_nonneg [of "evaluation_rval empty_evaluation"]
      by (auto simp: evaluation_fits_def rows json_length_def)
    ultimately show ?thesis by (simp add: leads_def start_draft_def)
  qed
qed

lemma draft_leads: "leads (ga_limits g) (draft_evaluation u g r) (full_evaluation u g r)"
proof -
  let ?l = "ga_limits g" and ?o = "dec_OriginalHash (gq_Document r)" and ?bs = "dec_Blocks (gq_Document r)"
  let ?p = "qp_Metrics (ga_profile g)" and ?es = "dp_Exclusions (gq_Parts r)"
  let ?ms = "map (\<lambda>q. unknownMetric q (baselineReason (mr_Kind q))) ?p" and ?f1 = "map (unknownFinding ?o) ?p"
  let ?f2 = "concat (map (block_findings u ?o) ?bs)"
  let ?f3 = "map (\<lambda>code. artifactFinding ?o code SeverityWarning) (textSignals u (gate_text ?bs))"
  let ?f4 = "if ?es = [] then [] else [excluded_finding ?o ?es]"
  let ?ev = "\<lambda>ms fs. \<lparr>ev_Metrics = ms, ev_Findings = fs, ev_Outcome = QualityQuarantined\<rparr>"
  let ?d1 = "bind_draft (start_draft ?l) (add_unknown ?o ?p)"
  let ?d2 = "bind_draft ?d1 (add_findings ?f2)"
  let ?d3 = "bind_draft ?d2 (add_findings ?f3)"
  let ?d4 = "bind_draft ?d3 (add_exclusions ?o ?es)"
  have ext: "extends (?ev ms fs) (?ev (ms @ ms') (fs @ fs'))" for ms fs ms' fs'
    unfolding extends_def by (intro exI [of _ ms'] exI [of _ fs']) simp
  have 1: "leads ?l ?d1 (?ev ?ms ?f1)"
  proof (rule leads_bind [OF start_draft_leads])
    show "extends empty_evaluation (?ev ?ms ?f1)" using ext [of "[]" "[]"] by (simp add: empty_evaluation_def)
  qed (use add_unknown_leads [of ?l _ ?o ?p] in \<open>force simp: empty_evaluation_def\<close>)
  have 2: "leads ?l ?d2 (?ev ?ms (?f1 @ ?f2))"
  proof (rule leads_bind [OF 1])
    show "extends (?ev ?ms ?f1) (?ev ?ms (?f1 @ ?f2))" using ext [of ?ms ?f1 "[]" ?f2] by simp
  qed (use add_findings_leads [of ?l _ ?f2] in force)
  have 3: "leads ?l ?d3 (?ev ?ms ((?f1 @ ?f2) @ ?f3))"
  proof (rule leads_bind [OF 2])
    show "extends (?ev ?ms (?f1 @ ?f2)) (?ev ?ms ((?f1 @ ?f2) @ ?f3))" using ext [of ?ms "?f1 @ ?f2" "[]" ?f3] by simp
  qed (use add_findings_leads [of ?l _ ?f3] in force)
  have 4: "leads ?l ?d4 (?ev ?ms (((?f1 @ ?f2) @ ?f3) @ ?f4))"
  proof (rule leads_bind [OF 3])
    show "extends (?ev ?ms ((?f1 @ ?f2) @ ?f3)) (?ev ?ms (((?f1 @ ?f2) @ ?f3) @ ?f4))"
      using ext [of ?ms "(?f1 @ ?f2) @ ?f3" "[]" ?f4] by simp
  qed (use add_exclusions_leads [of ?l _ ?o ?es] in force)
  have "leads ?l (bind_draft ?d4 (add_findings (dp_Findings (gq_Parts r))))
      (?ev ?ms ((((?f1 @ ?f2) @ ?f3) @ ?f4) @ dp_Findings (gq_Parts r)))"
  proof (rule leads_bind [OF 4])
    show "extends (?ev ?ms (((?f1 @ ?f2) @ ?f3) @ ?f4)) (?ev ?ms ((((?f1 @ ?f2) @ ?f3) @ ?f4) @ dp_Findings (gq_Parts r)))"
      using ext [of ?ms "((?f1 @ ?f2) @ ?f3) @ ?f4" "[]" "dp_Findings (gq_Parts r)"] by simp
  qed (use add_findings_leads [of ?l _ "dp_Findings (gq_Parts r)"] in force)
  then show ?thesis by (simp add: draft_evaluation_def Let_def full_evaluation_def)
qed

text \<open>
  C10 (equivalence): the gate's evaluation is total and conservative. It errs on a nil or
  unconfigured gate and on a profile that differs from the pinned one, then on input that is out of
  limits, invalid or inconsistent; otherwise it returns the one evaluation that calls every metric
  of the pinned profile unknown, reports every block signal, text signal and exclusion and repeats
  every producer finding, and quarantines, whenever that evaluation fits the limits in records,
  array rows and encoded JSON bytes, and the limit error exactly when it does not: what is reserved
  step by step is what the finished evaluation takes.
\<close>

theorem evaluate_is_reference:
  "Evaluate u order gate r =
    (case gate of None \<Rightarrow> Inl errPolicy
     | Some g \<Rightarrow>
       if qp_Metrics (ga_profile g) = [] then Inl errPolicy
       else if \<not> pinned g (gq_Profile r) then Inl errPolicy
       else if limits_exceed g (dec_Limits (gq_Document r)) then Inl errInput
       else if limits_exceed g (dp_Limits (gq_Parts r)) then Inl errInput
       else if GateRequest_Validate r \<noteq> None then Inl errInput
       else if \<not> validRelations order r then Inl errInput
       else if evaluation_fits (ga_limits g) (full_evaluation u g r) then Inr (full_evaluation u g r)
       else Inl errLimit)"
proof (cases gate)
  case (Some g)
  note L = draft_leads [of g u r]
  show ?thesis
  proof (cases "draft_evaluation u g r")
    case None
    with L Some show ?thesis by (simp add: Evaluate_def leads_def)
  next
    case (Some d)
    with L have "evaluation_fits (ga_limits g) (full_evaluation u g r)" "snd d = full_evaluation u g r"
      by (auto simp: leads_def draft_ok_def)
    with Some \<open>gate = Some g\<close> show ?thesis by (cases d) (simp add: Evaluate_def)
  qed
qed (simp add: Evaluate_def)

end
