(* ===== verification/Spec2Isabelle.thy ===== *)
theory Spec2Isabelle
  imports Auth_Liveness Model_Parts Run_Direct Run_Batch Quality_Thresholds Quality_Ranges Quality_Budget Run_Admission Formats_Rollup Quality_Evaluation
begin

text \<open>Skeleton.\<close>

end
